(* ===== verification/Prelude.thy ===== *)
theory Prelude
  imports Main "HOL-Library.State_Monad" "HOL-Library.List_Lexorder" "HOL-Library.Char_ord"
begin

text \<open>
  Shared material of the development: the theorem collections, a weakest-precondition
  calculus for programs of the state monad, tables as lists of rows in insertion order
  (the relations of the SQLite database), and lemmas on the byte-wise order of strings.
\<close>

section \<open>Theorem collections\<close>

named_theorems wp_simps \<open>weakest-precondition rules, used as rewrite rules\<close>
named_theorems table_simps \<open>rewrite rules for tables (lists of rows)\<close>

section \<open>Definitions\<close>

subsection \<open>Programs and weakest preconditions\<close>

text \<open>
  Code that changes state is a program of the state monad. The predicate
  \<open>wp m Q s\<close> says that running \<open>m\<close> from \<open>s\<close> ends with a result and a state that
  satisfy \<open>Q\<close>. A program is a total function, so there is no separate termination claim.
\<close>

definition wp :: "('s, 'a) state \<Rightarrow> ('a \<Rightarrow> 's \<Rightarrow> bool) \<Rightarrow> 's \<Rightarrow> bool" where
  "wp m Q s = (case run_state m s of (a, s') \<Rightarrow> Q a s')"

subsection \<open>Tables\<close>

text \<open>
  \<open>update_where P f rows\<close> is SQL's \<^verbatim>\<open>UPDATE t SET f WHERE P\<close>, \<open>count_where\<close> its number of
  affected rows, \<open>delete_where\<close> SQL's \<^verbatim>\<open>DELETE\<close>, and \<open>unique_on f rows\<close> a unique index on the
  columns \<open>f\<close>. \<open>unique_on_where\<close> is a partial unique index (\<^verbatim>\<open>CREATE UNIQUE INDEX ... WHERE\<close>).
\<close>

definition update_where :: "('r \<Rightarrow> bool) \<Rightarrow> ('r \<Rightarrow> 'r) \<Rightarrow> 'r list \<Rightarrow> 'r list" where
  "update_where P f = map (\<lambda>r. if P r then f r else r)"

definition count_where :: "('r \<Rightarrow> bool) \<Rightarrow> 'r list \<Rightarrow> nat" where
  "count_where P rows = length (filter P rows)"

definition delete_where :: "('r \<Rightarrow> bool) \<Rightarrow> 'r list \<Rightarrow> 'r list" where
  "delete_where P = filter (\<lambda>r. \<not> P r)"

definition unique_on :: "('r \<Rightarrow> 'k) \<Rightarrow> 'r list \<Rightarrow> bool" where
  "unique_on f rows = distinct (map f rows)"

definition unique_on_where :: "('r \<Rightarrow> bool) \<Rightarrow> ('r \<Rightarrow> 'k) \<Rightarrow> 'r list \<Rightarrow> bool" where
  "unique_on_where P f rows = distinct (map f (filter P rows))"

section \<open>Rules of the weakest-precondition calculus\<close>

lemma wp_return [wp_simps]: "wp (State_Monad.return a) Q s = Q a s"
  by (simp add: wp_def)

lemma wp_bind [wp_simps]: "wp (State_Monad.bind m f) Q s = wp m (\<lambda>a. wp (f a) Q) s"
  by (simp add: wp_def split: prod.splits)

lemma wp_get [wp_simps]: "wp State_Monad.get Q s = Q s s"
  by (simp add: wp_def)

lemma wp_set [wp_simps]: "wp (State_Monad.set t) Q s = Q () t"
  by (simp add: wp_def)

lemma wp_State [wp_simps]: "wp (State f) Q s = (case f s of (a, s') \<Rightarrow> Q a s')"
  by (simp add: wp_def)

lemma wp_if [wp_simps]: "wp (if b then m else n) Q s = (if b then wp m Q s else wp n Q s)"
  by simp

lemma wp_mono: "wp m Q s \<Longrightarrow> (\<And>a t. Q a t \<Longrightarrow> R a t) \<Longrightarrow> wp m R s"
  by (auto simp: wp_def split: prod.splits)

lemma wp_conj: "wp m (\<lambda>a t. Q a t \<and> R a t) s \<longleftrightarrow> wp m Q s \<and> wp m R s"
  by (auto simp: wp_def split: prod.splits)

lemma wp_run: "wp m Q s \<Longrightarrow> run_state m s = (a, t) \<Longrightarrow> Q a t"
  by (simp add: wp_def)

lemma wpI: "(\<And>a t. run_state m s = (a, t) \<Longrightarrow> Q a t) \<Longrightarrow> wp m Q s"
  by (simp add: wp_def split: prod.splits)

section \<open>Tables\<close>

lemma update_where_Nil [simp]: "update_where P f [] = []"
  by (simp add: update_where_def)

lemma update_where_Cons [simp]:
  "update_where P f (r # rs) = (if P r then f r else r) # update_where P f rs"
  by (simp add: update_where_def)

lemma length_update_where [simp]: "length (update_where P f rows) = length rows"
  by (simp add: update_where_def)

lemma set_update_where:
  "set (update_where P f rows) = f ` {r \<in> set rows. P r} \<union> {r \<in> set rows. \<not> P r}"
  by (auto simp: update_where_def)

lemma map_update_where_id [table_simps]:
  "(\<And>r. r \<in> set rows \<Longrightarrow> P r \<Longrightarrow> g (f r) = g r) \<Longrightarrow> map g (update_where P f rows) = map g rows"
  by (auto simp: update_where_def)

lemma update_where_none: "count_where P rows = 0 \<Longrightarrow> update_where P f rows = rows"
  by (auto simp: count_where_def update_where_def filter_empty_conv intro: map_idI)

lemma count_where_zero [simp]: "count_where P rows = 0 \<longleftrightarrow> (\<forall>r \<in> set rows. \<not> P r)"
  by (simp add: count_where_def filter_empty_conv)

lemma set_delete_where [simp]: "set (delete_where P rows) = {r \<in> set rows. \<not> P r}"
  by (auto simp: delete_where_def)

lemma unique_on_Nil [simp]: "unique_on f []"
  by (simp add: unique_on_def)

lemma unique_on_snoc [simp]: "unique_on f (rows @ [r]) \<longleftrightarrow> f r \<notin> f ` set rows \<and> unique_on f rows"
  by (auto simp: unique_on_def)

lemma unique_on_delete_where: "unique_on f rows \<Longrightarrow> unique_on f (delete_where P rows)"
  by (simp add: unique_on_def delete_where_def distinct_map_filter)

lemma unique_on_update_where:
  "unique_on f rows \<Longrightarrow> (\<And>r. r \<in> set rows \<Longrightarrow> P r \<Longrightarrow> f (g r) = f r)
     \<Longrightarrow> unique_on f (update_where P g rows)"
  by (simp add: unique_on_def map_update_where_id)

lemma unique_onD:
  "unique_on f rows \<Longrightarrow> r \<in> set rows \<Longrightarrow> s \<in> set rows \<Longrightarrow> f r = f s \<Longrightarrow> r = s"
  by (auto simp: unique_on_def distinct_map dest: inj_onD)

lemma unique_on_where_Nil [simp]: "unique_on_where P f []"
  by (simp add: unique_on_where_def)

lemma unique_on_where_snoc [simp]:
  "unique_on_where P f (rows @ [r]) \<longleftrightarrow>
     (P r \<longrightarrow> f r \<notin> f ` {x \<in> set rows. P x}) \<and> unique_on_where P f rows"
  by (auto simp: unique_on_where_def)

lemma unique_on_where_Cons [simp]:
  "unique_on_where P f (r # rows) \<longleftrightarrow>
     (P r \<longrightarrow> f r \<notin> f ` {x \<in> set rows. P x}) \<and> unique_on_where P f rows"
  by (auto simp: unique_on_where_def)

lemma unique_on_whereD:
  "unique_on_where P f rows \<Longrightarrow> r \<in> set rows \<Longrightarrow> s \<in> set rows \<Longrightarrow> P r \<Longrightarrow> P s \<Longrightarrow> f r = f s \<Longrightarrow> r = s"
  by (auto simp: unique_on_where_def distinct_map dest: inj_onD)

text \<open>An update that makes no new row active and keeps the indexed columns keeps a partial index.\<close>

lemma unique_on_where_update_where:
  assumes "unique_on_where A f rows"
    and keep: "\<And>r. r \<in> set rows \<Longrightarrow> P r \<Longrightarrow> f (g r) = f r"
    and inactive: "\<And>r. r \<in> set rows \<Longrightarrow> P r \<Longrightarrow> A (g r) \<Longrightarrow> A r"
  shows "unique_on_where A f (update_where P g rows)"
  using assms
proof (induction rows)
  case Nil
  then show ?case by simp
next
  case (Cons r rows)
  have step: "f x \<in> f ` {y \<in> set rows. A y}"
    if "x \<in> set (update_where P g rows)" "A x" for x
    using that Cons.prems(2,3) by (auto simp: set_update_where image_iff)
  have "unique_on_where A f (update_where P g rows)"
    using Cons by simp
  then show ?case
    using Cons.prems step by (auto split: if_splits)
qed

section \<open>Byte-wise order of strings\<close>

text \<open>
  SQLite compares \<^verbatim>\<open>TEXT\<close> columns byte by byte, which is the lexicographic order of the
  character lists.
\<close>

lemma append_less_append:
  fixes xs ys us vs :: "'a::linorder list"
  assumes "length xs = length ys"
  shows "xs @ us < ys @ vs \<longleftrightarrow> xs < ys \<or> xs = ys \<and> us < vs"
  using assms by (induction xs ys rule: list_induct2) auto

lemma less_imp_append_less:
  fixes xs ys :: "'a::linorder list"
  shows "length xs = length ys \<Longrightarrow> xs < ys \<Longrightarrow> xs @ us < ys @ vs"
  by (simp add: append_less_append)

end
