(* ===== verification/GoStrings.thy ===== *)
theory GoStrings
  imports Prelude
begin

text \<open>
  Go strings are byte sequences, here character lists (a character is a byte). The theory
  models what the sources use of the packages \<^verbatim>\<open>strings\<close> and \<^verbatim>\<open>strconv\<close>:
  \<open>trim_space\<close> (all of Unicode's white space, in its UTF-8 encodings), prefixes, \<open>cut\<close>,
  \<open>split\<close> and \<open>join\<close>, \<open>itoa\<close> and \<open>atoi\<close> at 64 bits. Case mapping is modelled for ASCII,
  the only input the sources give it on purpose (hexadecimal hashes, host names, country
  and device codes).
\<close>

section \<open>Definitions\<close>

subsection \<open>Package strings\<close>

definition has_prefix :: "string \<Rightarrow> string \<Rightarrow> bool" where
  "has_prefix s p = (take (length p) s = p)"

definition has_suffix :: "string \<Rightarrow> string \<Rightarrow> bool" where
  "has_suffix s p = has_prefix (rev s) (rev p)"

definition trim_prefix :: "string \<Rightarrow> string \<Rightarrow> string" where
  "trim_prefix s p = (if has_prefix s p then drop (length p) s else s)"

text \<open>The UTF-8 encodings of the code points for which \<^verbatim>\<open>unicode.IsSpace\<close> holds.\<close>

definition space_runes :: "string list" where
  "space_runes =
     map (map char_of)
       ([[9], [10], [11], [12], [13], [32], [0xC2, 0x85], [0xC2, 0xA0], [0xE1, 0x9A, 0x80],
         [0xE2, 0x80, 0x80], [0xE2, 0x80, 0x81], [0xE2, 0x80, 0x82], [0xE2, 0x80, 0x83],
         [0xE2, 0x80, 0x84], [0xE2, 0x80, 0x85], [0xE2, 0x80, 0x86], [0xE2, 0x80, 0x87],
         [0xE2, 0x80, 0x88], [0xE2, 0x80, 0x89], [0xE2, 0x80, 0x8A], [0xE2, 0x80, 0xA8],
         [0xE2, 0x80, 0xA9], [0xE2, 0x80, 0xAF], [0xE2, 0x81, 0x9F], [0xE3, 0x80, 0x80]] :: nat list list)"

text \<open>\<open>trim_with rs s\<close> removes prefixes that are in \<open>rs\<close> as long as there is one.\<close>

function trim_with :: "string list \<Rightarrow> string \<Rightarrow> string" where
  "trim_with rs s =
     (case find (\<lambda>r. r \<noteq> [] \<and> has_prefix s r) rs of
        None \<Rightarrow> s
      | Some r \<Rightarrow> trim_with rs (drop (length r) s))"
  by pat_completeness auto
termination
proof (relation "measure (\<lambda>(rs, s). length s)")
  fix rs s r
  assume "find (\<lambda>r. r \<noteq> [] \<and> has_prefix s r) rs = Some r"
  then have "r \<noteq> []" "has_prefix s r"
    by (auto simp: find_Some_iff)
  then have "s \<noteq> []" by (auto simp: has_prefix_def)
  with \<open>r \<noteq> []\<close> show "((rs, drop (length r) s), (rs, s)) \<in> measure (\<lambda>(rs, s). length s)"
    by simp
qed simp

definition trim_space :: "string \<Rightarrow> string" where
  "trim_space s = rev (trim_with (map rev space_runes) (rev (trim_with space_runes s)))"

text \<open>\<^verbatim>\<open>strings.TrimRight(s, "/")\<close> for a one-byte cutset.\<close>

definition trim_right :: "string \<Rightarrow> char \<Rightarrow> string" where
  "trim_right s c = rev (dropWhile (\<lambda>x. x = c) (rev s))"

text \<open>\<^verbatim>\<open>strings.Cut\<close> and \<^verbatim>\<open>strings.Split\<close> for a one-byte separator.\<close>

definition cut :: "string \<Rightarrow> char \<Rightarrow> string \<times> string \<times> bool" where
  "cut s c =
     (if c \<in> set s
      then (takeWhile (\<lambda>x. x \<noteq> c) s, tl (dropWhile (\<lambda>x. x \<noteq> c) s), True)
      else (s, [], False))"

fun split_on :: "char \<Rightarrow> string \<Rightarrow> string list" where
  "split_on c [] = [[]]"
| "split_on c (x # xs) =
     (if x = c then [] # split_on c xs
      else (case split_on c xs of [] \<Rightarrow> [[x]] | w # ws \<Rightarrow> (x # w) # ws))"

fun join :: "string \<Rightarrow> string list \<Rightarrow> string" where
  "join sep [] = []"
| "join sep [w] = w"
| "join sep (w # v # ws) = w @ sep @ join sep (v # ws)"

definition contains_char :: "string \<Rightarrow> char \<Rightarrow> bool" where
  "contains_char s c = (c \<in> set s)"

definition lower_char :: "char \<Rightarrow> char" where
  "lower_char c = (if 65 \<le> (of_char c :: nat) \<and> (of_char c :: nat) \<le> 90 then char_of ((of_char c :: nat) + 32) else c)"

definition to_lower :: "string \<Rightarrow> string" where
  "to_lower = map lower_char"

text \<open>
  \<^verbatim>\<open>strings.EqualFold\<close>. Outside ASCII, only the long s and the Kelvin sign fold to ASCII letters; with these two replaced, the
  comparison is exact whenever one of the strings is ASCII.
\<close>

fun ascii_fold :: "string \<Rightarrow> string" where
  "ascii_fold (a # b # c # s) =
     (if a = CHR 0xC5 \<and> b = CHR 0xBF then CHR ''s'' # ascii_fold (c # s)
      else if a = CHR 0xE2 \<and> b = CHR 0x84 \<and> c = CHR 0xAA then CHR ''k'' # ascii_fold s
      else a # ascii_fold (b # c # s))"
| "ascii_fold [a, b] = (if a = CHR 0xC5 \<and> b = CHR 0xBF then ''s'' else [a, b])"
| "ascii_fold s = s"

definition equal_fold :: "string \<Rightarrow> string \<Rightarrow> bool" where
  "equal_fold s t = (to_lower (ascii_fold s) = to_lower (ascii_fold t))"

text \<open>Printable ASCII characters other than the space.\<close>

definition ascii_print :: "char \<Rightarrow> bool" where
  "ascii_print c = (33 \<le> (of_char c :: nat) \<and> (of_char c :: nat) < 127)"

subsection \<open>Package strconv\<close>

definition digit_char :: "nat \<Rightarrow> char" where
  "digit_char n = char_of (48 + n)"

definition is_digit :: "char \<Rightarrow> bool" where
  "is_digit c = (48 \<le> (of_char c :: nat) \<and> (of_char c :: nat) \<le> 57)"

definition digit_val :: "char \<Rightarrow> nat" where
  "digit_val c = of_char c - 48"

fun dec :: "nat \<Rightarrow> string" where
  "dec n = (if n < 10 then [digit_char n] else dec (n div 10) @ [digit_char (n mod 10)])"

declare dec.simps [simp del]

definition itoa :: "int \<Rightarrow> string" where
  "itoa i = (if i < 0 then CHR ''-'' # dec (nat (- i)) else dec (nat i))"

definition digits_val :: "string \<Rightarrow> nat" where
  "digits_val s = foldl (\<lambda>a c. 10 * a + digit_val c) 0 s"

abbreviation max_int64 :: int where "max_int64 \<equiv> 9223372036854775807"
abbreviation min_int64 :: int where "min_int64 \<equiv> - 9223372036854775808"

text \<open>
  \<^verbatim>\<open>strconv.Atoi\<close>: an optional sign and decimal digits. The second component is the error flag;
  a syntax error yields 0, a value out of the range of \<^verbatim>\<open>int64\<close> yields the nearest bound.
\<close>

definition atoi :: "string \<Rightarrow> int \<times> bool" where
  "atoi s =
     (let neg = (case s of [] \<Rightarrow> False | c # _ \<Rightarrow> c = CHR ''-'');
          body = (case s of [] \<Rightarrow> [] | c # r \<Rightarrow> if c = CHR ''-'' \<or> c = CHR ''+'' then r else s);
          v = (if neg then - int (digits_val body) else int (digits_val body))
      in if body = [] \<or> \<not> list_all is_digit body then (0, True)
         else if v < min_int64 then (min_int64, True)
         else if v > max_int64 then (max_int64, True)
         else (v, False))"

section \<open>Lemmas\<close>

subsection \<open>Prefixes and trimming\<close>

declare trim_with.simps [simp del]

lemma has_prefix_append [simp]: "has_prefix (p @ s) p"
  by (simp add: has_prefix_def)

lemma has_prefix_iff: "has_prefix s p \<longleftrightarrow> (\<exists>t. s = p @ t)"
  by (metis append_take_drop_id has_prefix_append has_prefix_def)

lemma has_prefix_Nil [simp]: "has_prefix s []"
  by (simp add: has_prefix_def)

lemma trim_prefix_append [simp]: "trim_prefix (p @ s) p = s"
  by (simp add: trim_prefix_def)

lemma trim_with_stops: "find (\<lambda>r. r \<noteq> [] \<and> has_prefix (trim_with rs s) r) rs = None"
proof (induction rs s rule: trim_with.induct)
  case (1 rs s)
  then show ?case
    by (cases "find (\<lambda>r. r \<noteq> [] \<and> has_prefix s r) rs") (simp_all add: trim_with.simps [of rs s])
qed

lemma trim_with_idem: "trim_with rs (trim_with rs s) = trim_with rs s"
  using trim_with_stops [of rs s] by (subst trim_with.simps) simp

lemma trim_with_suffix: "\<exists>p. s = p @ trim_with rs s"
proof (induction rs s rule: trim_with.induct)
  case (1 rs s)
  show ?case
  proof (cases "find (\<lambda>r. r \<noteq> [] \<and> has_prefix s r) rs")
    case None
    then show ?thesis by (simp add: trim_with.simps [of rs s])
  next
    case (Some r)
    then obtain p where "drop (length r) s = p @ trim_with rs (drop (length r) s)"
      using 1 by blast
    then have s: "s = (take (length r) s @ p) @ trim_with rs (drop (length r) s)"
      by (metis append.assoc append_take_drop_id)
    have "trim_with rs s = trim_with rs (drop (length r) s)"
      using Some by (simp add: trim_with.simps [of rs s])
    then have "s = (take (length r) s @ p) @ trim_with rs s"
      using s by (simp only:)
    then show ?thesis by (rule exI)
  qed
qed

lemma length_trim_with: "length (trim_with rs s) \<le> length s"
  using trim_with_suffix [of s rs] by (metis le_add2 length_append)

lemma length_trim_space: "length (trim_space s) \<le> length s"
  by (metis length_rev length_trim_with order_trans trim_space_def)

lemma space_runes_ascii: "list_all (list_all (\<lambda>c. \<not> ascii_print c)) space_runes"
  by (simp add: space_runes_def ascii_print_def)

lemma trim_with_ascii:
  assumes "list_all (list_all (\<lambda>c. \<not> ascii_print c)) rs" and "ascii_print c"
  shows "trim_with rs (c # s) = c # s"
proof -
  have "find (\<lambda>r. r \<noteq> [] \<and> has_prefix (c # s) r) rs = None"
    using assms by (fastforce simp: find_None_iff has_prefix_iff Cons_eq_append_conv list_all_iff)
  then show ?thesis by (simp add: trim_with.simps)
qed

lemma trim_with_Nil [simp]: "trim_with rs [] = []"
  using length_trim_with [of rs "[]"] by simp

lemma trim_space_Nil [simp]: "trim_space [] = []"
  by (simp add: trim_space_def)

lemma trim_space_ascii:
  assumes "ascii_print (hd s)" "ascii_print (last s)"
  shows "trim_space s = s"
proof (cases s)
  case (Cons c t)
  have a: "trim_with space_runes s = s"
    using trim_with_ascii [OF space_runes_ascii] assms(1) Cons by simp
  obtain d u where d: "rev s = d # u" "d = last s"
    using Cons by (metis hd_rev list.distinct(1) list.exhaust list.sel(1) rev_is_Nil_conv)
  have "trim_with (map rev space_runes) (rev s) = rev s"
    unfolding d(1) using assms(2) d(2) space_runes_ascii
    by (intro trim_with_ascii) (auto simp: list_all_iff)
  then show ?thesis by (simp add: trim_space_def a)
qed simp
subsection \<open>Splitting and joining\<close>

lemma split_on_nonempty [simp]: "split_on c s \<noteq> []"
  by (induction s) (auto split: list.splits)

lemma join_split: "join [c] (split_on c s) = s"
proof (induction s)
  case Nil
  then show ?case by simp
next
  case (Cons x s)
  then show ?case
    by (cases "split_on c s"; cases "tl (split_on c s)") auto
qed

lemma split_on_no_sep: "w \<in> set (split_on c s) \<Longrightarrow> c \<notin> set w"
  by (induction s arbitrary: w) (auto split: if_splits list.splits)

lemma split_on_nosep_append: "c \<notin> set w \<Longrightarrow> split_on c (w @ c # s) = w # split_on c s"
  by (induction w) auto

lemma split_on_nosep [simp]: "c \<notin> set w \<Longrightarrow> split_on c w = [w]"
  by (induction w) auto

lemma split_join:
  "ws \<noteq> [] \<Longrightarrow> (\<forall>w \<in> set ws. c \<notin> set w) \<Longrightarrow> split_on c (join [c] ws) = ws"
proof (induction "[c]" ws rule: join.induct)
  case (3 w v ws)
  then show ?case by (simp add: split_on_nosep_append)
qed auto

text \<open>Joining is injective on lists of words without the separator: the key-building code relies on it.\<close>

lemma join_inject:
  assumes "join [c] ws = join [c] vs" "ws \<noteq> []" "vs \<noteq> []"
    and "\<forall>w \<in> set ws. c \<notin> set w" "\<forall>w \<in> set vs. c \<notin> set w"
  shows "ws = vs"
  using assms by (metis split_join)

lemma cut_found: "c \<notin> set a \<Longrightarrow> cut (a @ c # b) c = (a, b, True)"
  by (simp add: cut_def takeWhile_append dropWhile_append)

lemma join_hd_last:
  assumes "ws \<noteq> []" "\<forall>w \<in> set ws. w \<noteq> []"
  shows "join sep ws \<noteq> [] \<and> last (join sep ws) = last (last ws)"
  using assms by (induction sep ws rule: join.induct) auto

lemma set_join: "set (join sep ws) \<subseteq> set sep \<union> \<Union> (set (map set ws))"
  by (induction sep ws rule: join.induct) auto

subsection \<open>Decimal numerals\<close>

lemma of_char_digit [simp]: "n < 10 \<Longrightarrow> of_char (digit_char n) = 48 + n"
  by (simp add: digit_char_def)

lemma is_digit_digit_char [simp]: "n < 10 \<Longrightarrow> is_digit (digit_char n)"
  by (simp add: is_digit_def)

lemma digit_val_digit_char [simp]: "n < 10 \<Longrightarrow> digit_val (digit_char n) = n"
  by (simp add: digit_val_def)

lemma digit_char_less: "m < 10 \<Longrightarrow> n < 10 \<Longrightarrow> digit_char m < digit_char n \<longleftrightarrow> m < n"
  by (simp add: less_char_def)

lemma digit_char_eq: "m < 10 \<Longrightarrow> n < 10 \<Longrightarrow> digit_char m = digit_char n \<longleftrightarrow> m = n"
  by (metis digit_val_digit_char)

lemma digits_val_snoc [simp]: "digits_val (s @ [c]) = 10 * digits_val s + digit_val c"
  by (simp add: digits_val_def)

lemma digits_val_Nil [simp]: "digits_val [] = 0"
  by (simp add: digits_val_def)

lemma dec_digits: "list_all is_digit (dec n)"
proof (induction n rule: dec.induct)
  case (1 n)
  then show ?case by (subst dec.simps) auto
qed

lemma dec_nonempty [simp]: "dec n \<noteq> []"
  by (subst dec.simps) simp

lemma digits_val_dec [simp]: "digits_val (dec n) = n"
proof (induction n rule: dec.induct)
  case (1 n)
  then show ?case
    by (cases "n < 10") (simp_all add: dec.simps [of n] digits_val_def)
qed

lemma dec_inject: "dec m = dec n \<Longrightarrow> m = n"
  by (metis digits_val_dec)

lemma is_digit_not_sign: "is_digit c \<Longrightarrow> c \<noteq> CHR ''-'' \<and> c \<noteq> CHR ''+''"
  by (auto simp: is_digit_def)

lemma atoi_itoa: "min_int64 \<le> i \<Longrightarrow> i \<le> max_int64 \<Longrightarrow> atoi (itoa i) = (i, False)"
proof -
  assume r: "min_int64 \<le> i" "i \<le> max_int64"
  have neg: "atoi (itoa i) = (i, False)" if "i < 0"
    using that r dec_digits [of "nat (- i)"] by (simp add: atoi_def itoa_def Let_def)
  have pos: "atoi (itoa i) = (i, False)" if "\<not> i < 0"
  proof -
    obtain c cs where d: "dec (nat i) = c # cs" "is_digit c"
      using dec_digits [of "nat i"] dec_nonempty [of "nat i"] by (cases "dec (nat i)") auto
    then show ?thesis
      using that r dec_digits [of "nat i"] digits_val_dec [of "nat i"] is_digit_not_sign [of c]
      by (auto simp: atoi_def itoa_def Let_def)
  qed
  show ?thesis using neg pos by blast
qed

end
