(* ===== verification/GoTime.thy ===== *)
theory GoTime
  imports GoStrings
begin

text \<open>
  Instants, calendar dates and their textual forms: what the sources use of the package
  \<^verbatim>\<open>time\<close>. An instant is the number of nanoseconds since the Unix epoch (an unbounded
  integer; every location the program uses is UTC). Dates follow the proleptic Gregorian
  calendar. \<open>format_date\<close> is the layout \<^verbatim>\<open>2006-01-02\<close>, \<open>format_time\<close> the layout
  \<^verbatim>\<open>time.RFC3339\<close> of a UTC instant; the parsers read them back.

  The database stores instants and dates as text and compares them as text, so the theory
  proves that on the years 0 to 9999 the textual order is the order of time and that
  parsing inverts formatting.
\<close>

section \<open>Definitions\<close>

type_synonym gotime = int

abbreviation second_ns :: int where "second_ns \<equiv> 1000000000"
abbreviation minute_ns :: int where "minute_ns \<equiv> 60000000000"
abbreviation hour_ns :: int where "hour_ns \<equiv> 3600000000000"
abbreviation day_ns :: int where "day_ns \<equiv> 86400000000000"

text \<open>\<^verbatim>\<open>time.Time{}\<close> is midnight of 1 January of the year 1.\<close>

definition zero_time :: gotime where
  "zero_time = - 62135596800 * second_ns"

definition is_zero :: "gotime \<Rightarrow> bool" where
  "is_zero t = (t = zero_time)"

definition day_of :: "gotime \<Rightarrow> int" where
  "day_of t = t div day_ns"

definition of_day :: "int \<Rightarrow> gotime" where
  "of_day n = n * day_ns"

text \<open>\<^verbatim>\<open>t.Truncate(24 * time.Hour)\<close> and the date part of \<^verbatim>\<open>time.Date(y, m, d, 0, 0, 0, 0, time.UTC)\<close>.\<close>

definition truncate_day :: "gotime \<Rightarrow> gotime" where
  "truncate_day t = of_day (day_of t)"

text \<open>\<^verbatim>\<open>t.AddDate(0, 0, n)\<close> in UTC.\<close>

definition add_days :: "gotime \<Rightarrow> int \<Rightarrow> gotime" where
  "add_days t n = t + n * day_ns"

subsection \<open>The calendar\<close>

text \<open>\<open>year_start y\<close> counts the days from 0000-01-01 to the first day of the year \<open>y\<close>.\<close>

definition year_start :: "int \<Rightarrow> int" where
  "year_start y = 365 * y + (y + 3) div 4 - (y + 99) div 100 + (y + 399) div 400"

definition leap :: "int \<Rightarrow> bool" where
  "leap y = (y mod 4 = 0 \<and> (y mod 100 \<noteq> 0 \<or> y mod 400 = 0))"

definition year_of :: "int \<Rightarrow> int" where
  "year_of z =
     (let q = (400 * z) div 146097
      in if z < year_start q then q - 1 else if year_start (q + 1) \<le> z then q + 1 else q)"

definition month_start :: "bool \<Rightarrow> int \<Rightarrow> int" where
  "month_start l m =
     (let k = (if l then 1 else 0)
      in if m \<le> 1 then 0 else if m = 2 then 31 else if m = 3 then 59 + k else if m = 4 then 90 + k
         else if m = 5 then 120 + k else if m = 6 then 151 + k else if m = 7 then 181 + k
         else if m = 8 then 212 + k else if m = 9 then 243 + k else if m = 10 then 273 + k
         else if m = 11 then 304 + k else if m = 12 then 334 + k else 365 + k)"

definition month_of :: "bool \<Rightarrow> int \<Rightarrow> int" where
  "month_of l n =
     (let k = (if l then 1 else 0)
      in if n < 31 then 1 else if n < 59 + k then 2 else if n < 90 + k then 3 else if n < 120 + k then 4
         else if n < 151 + k then 5 else if n < 181 + k then 6 else if n < 212 + k then 7
         else if n < 243 + k then 8 else if n < 273 + k then 9 else if n < 304 + k then 10
         else if n < 334 + k then 11 else 12)"

text \<open>Days since the Unix epoch to year, month, day, and back; 1970-01-01 is day 719528 of the calendar.\<close>

definition date_of :: "int \<Rightarrow> int \<times> int \<times> int" where
  "date_of n =
     (let z = n + 719528; y = year_of z; r = z - year_start y; m = month_of (leap y) r
      in (y, m, r - month_start (leap y) m + 1))"

definition days_of :: "int \<Rightarrow> int \<Rightarrow> int \<Rightarrow> int" where
  "days_of y m d = year_start y + month_start (leap y) m + d - 1 - 719528"

definition days_in :: "int \<Rightarrow> int \<Rightarrow> int" where
  "days_in y m = month_start (leap y) (m + 1) - month_start (leap y) m"

subsection \<open>Formatting\<close>

text \<open>\<^verbatim>\<open>appendInt(b, x, width)\<close> of the package \<^verbatim>\<open>time\<close>.\<close>

definition append_int :: "int \<Rightarrow> nat \<Rightarrow> string" where
  "append_int x w =
     (let s = dec (nat \<bar>x\<bar>)
      in (if x < 0 then ''-'' else []) @ replicate (w - length s) CHR ''0'' @ s)"

text \<open>The decimal digits of a number in a field of fixed width: the specification of \<open>append_int\<close>.\<close>

primrec pad :: "nat \<Rightarrow> nat \<Rightarrow> string" where
  "pad 0 n = []"
| "pad (Suc w) n = pad w (n div 10) @ [digit_char (n mod 10)]"

definition format_ymd :: "int \<Rightarrow> int \<Rightarrow> int \<Rightarrow> string" where
  "format_ymd y m d = append_int y 4 @ ''-'' @ append_int m 2 @ ''-'' @ append_int d 2"

definition format_day :: "int \<Rightarrow> string" where
  "format_day n = (case date_of n of (y, m, d) \<Rightarrow> format_ymd y m d)"

definition format_date :: "gotime \<Rightarrow> string" where
  "format_date t = format_day (day_of t)"

definition format_clock :: "int \<Rightarrow> string" where
  "format_clock r =
     append_int (r div 3600) 2 @ '':'' @ append_int (r mod 3600 div 60) 2 @ '':'' @ append_int (r mod 60) 2"

definition format_time :: "gotime \<Rightarrow> string" where
  "format_time t =
     (let s = t div second_ns in format_day (s div 86400) @ ''T'' @ format_clock (s mod 86400) @ ''Z'')"

subsection \<open>Parsing\<close>

text \<open>\<open>num w s\<close> reads exactly \<open>w\<close> decimal digits.\<close>

definition num :: "nat \<Rightarrow> string \<Rightarrow> (int \<times> string) option" where
  "num w s =
     (if w \<le> length s \<and> list_all is_digit (take w s)
      then Some (int (digits_val (take w s)), drop w s) else None)"

definition lit :: "char \<Rightarrow> string \<Rightarrow> string option" where
  "lit c s = (case s of [] \<Rightarrow> None | x # r \<Rightarrow> if x = c then Some r else None)"

definition valid_ymd :: "int \<Rightarrow> int \<Rightarrow> int \<Rightarrow> bool" where
  "valid_ymd y m d = (1 \<le> m \<and> m \<le> 12 \<and> 1 \<le> d \<and> d \<le> days_in y m)"

definition parse_ymd :: "string \<Rightarrow> ((int \<times> int \<times> int) \<times> string) option" where
  "parse_ymd s =
     do { (y, s) \<leftarrow> num 4 s; s \<leftarrow> lit (CHR ''-'') s;
          (m, s) \<leftarrow> num 2 s; s \<leftarrow> lit (CHR ''-'') s;
          (d, s) \<leftarrow> num 2 s;
          if valid_ymd y m d then Some ((y, m, d), s) else None }"

text \<open>\<^verbatim>\<open>time.ParseInLocation("2006-01-02", s, time.UTC)\<close>.\<close>

definition parse_date :: "string \<Rightarrow> gotime option" where
  "parse_date s =
     (case parse_ymd s of
        Some ((y, m, d), []) \<Rightarrow> Some (of_day (days_of y m d))
      | _ \<Rightarrow> None)"

text \<open>\<^verbatim>\<open>time.Parse("20060102", s)\<close>.\<close>

definition parse_compact_date :: "string \<Rightarrow> gotime option" where
  "parse_compact_date s =
     do { (y, s) \<leftarrow> num 4 s; (m, s) \<leftarrow> num 2 s; (d, s) \<leftarrow> num 2 s;
          if s = [] \<and> valid_ymd y m d then Some (of_day (days_of y m d)) else None }"

text \<open>
  \<^verbatim>\<open>time.Parse(time.RFC3339, s)\<close> on the strings the program stores: whole seconds in UTC. Other
  forms that the layout admits (fractions, numeric offsets) never occur in the database.
\<close>

definition parse_time :: "string \<Rightarrow> gotime option" where
  "parse_time s =
     do { ((y, m, d), s) \<leftarrow> parse_ymd s; s \<leftarrow> lit (CHR ''T'') s;
          (hh, s) \<leftarrow> num 2 s; s \<leftarrow> lit (CHR '':'') s;
          (mm, s) \<leftarrow> num 2 s; s \<leftarrow> lit (CHR '':'') s;
          (ss, s) \<leftarrow> num 2 s; s \<leftarrow> lit (CHR ''Z'') s;
          if s = [] \<and> hh < 24 \<and> mm < 60 \<and> ss < 60
          then Some ((days_of y m d * 86400 + hh * 3600 + mm * 60 + ss) * second_ns) else None }"

text \<open>The instants whose year has four digits.\<close>

definition day_ok :: "int \<Rightarrow> bool" where
  "day_ok n = (- 719528 \<le> n \<and> n < 2932897)"

definition time_ok :: "gotime \<Rightarrow> bool" where
  "time_ok t = day_ok (day_of t)"

section \<open>The calendar\<close>

lemma div_bounds:
  fixes x k :: int
  assumes "0 < k"
  shows "k * (x div k) \<le> x" "x < k * (x div k) + k"
proof -
  have "k * (x div k) = x - x mod k" by (simp add: minus_mod_eq_mult_div)
  then show "k * (x div k) \<le> x" "x < k * (x div k) + k"
    using assms pos_mod_bound [of k x] pos_mod_sign [of k x] by linarith+
qed

lemma div_step:
  fixes y k :: int
  assumes "0 < k" and j: "j = k - 1"
  shows "(y + k) div k = (y + j) div k + (if y mod k = 0 then 1 else 0)"
proof -
  define q r where "q = y div k" and "r = y mod k"
  have y: "y = q * k + r" and r: "0 \<le> r" "r < k"
    using assms by (auto simp: q_def r_def)
  have a: "(y + k) div k = q + 1"
    using r by (intro int_div_pos_eq [where r = r]) (auto simp: y algebra_simps)
  have b: "(y + j) div k = q" if "r = 0"
    using that r assms by (intro int_div_pos_eq [where r = "k - 1"]) (auto simp: y algebra_simps)
  have c: "(y + j) div k = q + 1" if "r \<noteq> 0"
    using that r assms by (intro int_div_pos_eq [where r = "r - 1"]) (auto simp: y algebra_simps)
  show ?thesis using a b c by (cases "r = 0") (simp_all add: r_def)
qed

lemma year_start_Suc: "year_start (y + 1) = year_start y + (if leap y then 366 else 365)"
proof -
  have a: "(y + 4) div 4 = (y + 3) div 4 + (if y mod 4 = 0 then 1 else 0)"
    and b: "(y + 100) div 100 = (y + 99) div 100 + (if y mod 100 = 0 then 1 else 0)"
    and c: "(y + 400) div 400 = (y + 399) div 400 + (if y mod 400 = 0 then 1 else 0)"
    by (rule div_step, simp, simp)+
  have d: "y mod 4 = 0" if "y mod 100 = 0"
    using that mod_mod_cancel [of 4 100 y] by simp
  have e: "y mod 100 = 0" if "y mod 400 = 0"
    using that mod_mod_cancel [of 100 400 y] by simp
  have s: "y + 1 + 3 = y + 4" "y + 1 + 99 = y + 100" "y + 1 + 399 = y + 400" by simp_all
  have "year_start (y + 1) =
      year_start y + 365 + (if y mod 4 = 0 then 1 else 0) - (if y mod 100 = 0 then 1 else 0)
        + (if y mod 400 = 0 then 1 else 0)"
    unfolding year_start_def s a b c by (simp only: algebra_simps)
  then show ?thesis
    using d e by (cases "y mod 4 = 0"; cases "y mod 100 = 0"; cases "y mod 400 = 0") (simp_all add: leap_def)
qed

lemma year_start_mono: "y \<le> y' \<Longrightarrow> year_start y \<le> year_start y'"
proof (induction "nat (y' - y)" arbitrary: y')
  case 0
  then show ?case by simp
next
  case (Suc k)
  then have "year_start y \<le> year_start (y' - 1)" by simp
  moreover have "year_start (y' - 1) \<le> year_start y'"
    using year_start_Suc [of "y' - 1"] by (simp split: if_splits)
  ultimately show ?case by simp
qed

lemma year_start_bounds:
  "146097 * y - 396 \<le> 400 * year_start y" "400 * year_start y \<le> 146097 * y + 699"
proof -
  have "4 * ((y + 3) div 4) \<le> y + 3" "y + 3 < 4 * ((y + 3) div 4) + 4"
    "100 * ((y + 99) div 100) \<le> y + 99" "y + 99 < 100 * ((y + 99) div 100) + 100"
    "400 * ((y + 399) div 400) \<le> y + 399" "y + 399 < 400 * ((y + 399) div 400) + 400"
    by (rule div_bounds, simp)+
  then show "146097 * y - 396 \<le> 400 * year_start y" "400 * year_start y \<le> 146097 * y + 699"
    unfolding year_start_def by simp_all
qed

lemma year_of_correct:
  "year_start (year_of z) \<le> z" "z < year_start (year_of z + 1)"
proof -
  define q where "q = (400 * z) div 146097"
  have q: "146097 * q \<le> 400 * z" "400 * z < 146097 * q + 146097"
    unfolding q_def using div_bounds [of 146097 "400 * z"] by simp_all
  have lo: "year_start (q - 1) \<le> z"
    using year_start_bounds(2) [of "q - 1"] q by (simp add: algebra_simps)
  have hi: "z < year_start (q + 2)"
    using year_start_bounds(1) [of "q + 2"] q by (simp add: algebra_simps)
  have "year_of z = (if z < year_start q then q - 1 else if year_start (q + 1) \<le> z then q + 1 else q)"
    by (simp add: year_of_def q_def Let_def)
  then show "year_start (year_of z) \<le> z" "z < year_start (year_of z + 1)"
    using lo hi by (auto split: if_splits simp: add.commute)
qed

lemma year_of_unique: "year_start y \<le> z \<Longrightarrow> z < year_start (y + 1) \<Longrightarrow> year_of z = y"
  using year_of_correct [of z] year_start_mono [of "y + 1" "year_of z"]
    year_start_mono [of "year_of z + 1" y]
  by fastforce

lemma month_of_correct:
  assumes "0 \<le> r" "r < (if l then 366 else 365)"
  shows "1 \<le> month_of l r" "month_of l r \<le> 12"
    "month_start l (month_of l r) \<le> r" "r < month_start l (month_of l r + 1)"
  using assms by (auto simp: month_of_def month_start_def Let_def)

lemma month_of_unique:
  assumes "1 \<le> m" "m \<le> 12" "month_start l m \<le> r" "r < month_start l (m + 1)"
  shows "month_of l r = m"
proof -
  have "m = 1 \<or> m = 2 \<or> m = 3 \<or> m = 4 \<or> m = 5 \<or> m = 6 \<or> m = 7 \<or> m = 8 \<or> m = 9 \<or> m = 10 \<or> m = 11 \<or> m = 12"
    using assms(1,2) by arith
  then show ?thesis
    using assms(3,4) by (elim disjE; cases l; simp add: month_of_def month_start_def)
qed

lemma month_start_range:
  assumes "1 \<le> m" "m \<le> 12"
  shows "0 \<le> month_start l m" "month_start l (m + 1) \<le> (if l then 366 else 365)"
  using assms by (auto simp: month_start_def Let_def)

lemma month_start_mono: "m \<le> m' \<Longrightarrow> month_start l m \<le> month_start l m'"
  unfolding month_start_def Let_def by (auto split: if_splits) presburger+

text \<open>The date of a day, characterised: year, month and day are within their bounds and count to the day.\<close>

lemma date_ofE:
  obtains y m d where "date_of n = (y, m, d)" "valid_ymd y m d" "days_of y m d = n"
proof -
  define z where "z = n + 719528"
  define y where "y = year_of z"
  define r where "r = z - year_start y"
  define m where "m = month_of (leap y) r"
  have r: "0 \<le> r" "r < (if leap y then 366 else 365)"
    using year_of_correct [of z] year_start_Suc [of y] by (auto simp: r_def y_def)
  note m = month_of_correct [OF r, folded m_def]
  have "date_of n = (y, m, r - month_start (leap y) m + 1)"
    by (simp add: date_of_def Let_def z_def y_def r_def m_def)
  moreover have "valid_ymd y m (r - month_start (leap y) m + 1)"
    using m by (simp add: valid_ymd_def days_in_def)
  moreover have "days_of y m (r - month_start (leap y) m + 1) = n"
    by (simp add: days_of_def r_def z_def)
  ultimately show ?thesis by (rule that)
qed

lemma date_of_days_of: "valid_ymd y m d \<Longrightarrow> date_of (days_of y m d) = (y, m, d)"
proof -
  assume v: "valid_ymd y m d"
  define r where "r = month_start (leap y) m + d - 1"
  have m: "1 \<le> m" "m \<le> 12" and d: "month_start (leap y) m \<le> r" "r < month_start (leap y) (m + 1)"
    using v by (auto simp: valid_ymd_def days_in_def r_def)
  have r: "0 \<le> r" "r < (if leap y then 366 else 365)"
    using d month_start_range [OF m, of "leap y"] by auto
  have y: "year_of (year_start y + r) = y"
    using r year_start_Suc [of y] by (intro year_of_unique) auto
  have "days_of y m d + 719528 = year_start y + r"
    by (simp add: days_of_def r_def)
  then have "date_of (days_of y m d) = (y, m, r - month_start (leap y) m + 1)"
    using y month_of_unique [OF m d] by (simp only: date_of_def Let_def) simp
  then show ?thesis by (simp add: r_def)
qed

lemma days_of_lt_iff:
  assumes "valid_ymd y m d" "valid_ymd y' m' d'"
  shows "days_of y m d < days_of y' m' d' \<longleftrightarrow> y < y' \<or> y = y' \<and> (m < m' \<or> m = m' \<and> d < d')"
proof -
  have year: "days_of a b c < days_of a' b' c'" if "a < a'" "valid_ymd a b c" "valid_ymd a' b' c'"
    for a b c a' b' c'
    using that year_start_mono [of "a + 1" a'] year_start_Suc [of a]
      month_start_range [of b "leap a"] month_start_range [of b' "leap a'"]
    by (auto simp: days_of_def valid_ymd_def days_in_def split: if_splits)
  have month: "days_of a b c < days_of a b' c'" if "b < b'" "valid_ymd a b c" "valid_ymd a b' c'"
    for a b c b' c'
  proof -
    have "month_start (leap a) (b + 1) \<le> month_start (leap a) b'"
      using that by (intro month_start_mono) auto
    then show ?thesis using that by (auto simp: days_of_def valid_ymd_def days_in_def)
  qed
  consider "y < y'" | "y' < y" | "y = y'" "m < m'" | "y = y'" "m' < m" | "y = y'" "m = m'"
    by linarith
  then show ?thesis
  proof cases
    case 5
    then show ?thesis by (simp add: days_of_def)
  qed (use year month assms in fastforce)+
qed

lemma days_of_inject:
  "valid_ymd y m d \<Longrightarrow> valid_ymd y' m' d' \<Longrightarrow> days_of y m d = days_of y' m' d' \<Longrightarrow> (y, m, d) = (y', m', d')"
  by (metis date_of_days_of)

section \<open>Days and instants\<close>

lemma day_of_of_day [simp]: "day_of (of_day n) = n"
  by (simp add: day_of_def of_day_def)

lemma truncate_day_of_day [simp]: "truncate_day (of_day n) = of_day n"
  by (simp add: truncate_day_def)

lemma day_of_add_days [simp]: "day_of (add_days t n) = day_of t + n"
  by (simp add: day_of_def add_days_def)

lemma add_days_of_day [simp]: "add_days (of_day a) n = of_day (a + n)"
  by (simp add: add_days_def of_day_def algebra_simps)

lemma of_day_less [simp]: "of_day a < of_day b \<longleftrightarrow> a < b"
  by (simp add: of_day_def)

lemma of_day_inject [simp]: "of_day a = of_day b \<longleftrightarrow> a = b"
  by (simp add: of_day_def)

section \<open>Decimal fields of fixed width\<close>

lemma div_mod_less_iff:
  fixes m n k :: int
  assumes "0 < k"
  shows "m < n \<longleftrightarrow> m div k < n div k \<or> m div k = n div k \<and> m mod k < n mod k"
proof -
  have lt: "a < b" if "a div k < b div k" for a b
  proof -
    have "k * (a div k) + k \<le> k * (b div k)"
      using that assms mult_left_mono [of "a div k + 1" "b div k" k] by (simp add: algebra_simps)
    then show ?thesis using div_bounds [OF assms] by (meson less_le_trans)
  qed
  have eq: "m - m mod k = n - n mod k" if "m div k = n div k"
    using that by (simp add: minus_mod_eq_mult_div)
  show ?thesis
    using lt [of m n] lt [of n m] eq by (cases "m div k" "n div k" rule: linorder_cases) auto
qed

lemma div_mod_less_iff_nat:
  fixes m n k :: nat
  assumes "0 < k"
  shows "m < n \<longleftrightarrow> m div k < n div k \<or> m div k = n div k \<and> m mod k < n mod k"
  using div_mod_less_iff [of "int k" "int m" "int n"] assms by (simp flip: zdiv_int zmod_int)

lemma length_pad [simp]: "length (pad w n) = w"
  by (induction w arbitrary: n) auto

lemma pad_digits: "list_all is_digit (pad w n)"
  by (induction w arbitrary: n) auto

lemma digits_val_pad: "n < 10 ^ w \<Longrightarrow> digits_val (pad w n) = n"
proof (induction w arbitrary: n)
  case 0
  then show ?case by simp
next
  case (Suc w)
  then have "n div 10 < 10 ^ w" by auto
  then show ?case using Suc.IH by simp
qed

lemma pad_inject: "m < 10 ^ w \<Longrightarrow> n < 10 ^ w \<Longrightarrow> pad w m = pad w n \<longleftrightarrow> m = n"
  by (metis digits_val_pad)

lemma pad_less: "m < 10 ^ w \<Longrightarrow> n < 10 ^ w \<Longrightarrow> pad w m < pad w n \<longleftrightarrow> m < n"
proof (induction w arbitrary: m n)
  case 0
  then show ?case by simp
next
  case (Suc w)
  then have b: "m div 10 < 10 ^ w" "n div 10 < 10 ^ w" by auto
  have "pad (Suc w) m < pad (Suc w) n \<longleftrightarrow>
      m div 10 < n div 10 \<or> m div 10 = n div 10 \<and> m mod 10 < n mod 10"
    using Suc.IH [OF b] pad_inject [OF b] by (simp add: append_less_append digit_char_less)
  also have "\<dots> \<longleftrightarrow> m < n" by (rule div_mod_less_iff_nat [symmetric]) simp
  finally show ?case .
qed

lemma pad_zero: "pad w 0 = replicate w CHR ''0''"
proof (induction w)
  case (Suc w)
  have "digit_char 0 = CHR ''0''" by code_simp
  with Suc show ?case by (simp add: replicate_append_same)
qed simp

lemma replicate_dec: "0 < w \<Longrightarrow> n < 10 ^ w \<Longrightarrow> replicate (w - length (dec n)) CHR ''0'' @ dec n = pad w n"
proof (induction w arbitrary: n)
  case 0
  then show ?case by simp
next
  case (Suc w)
  show ?case
  proof (cases "n < 10")
    case True
    then show ?thesis by (simp add: dec.simps [of n] pad_zero)
  next
    case False
    with Suc.prems have "0 < w" "n div 10 < 10 ^ w" by (auto intro: gr0I)
    from Suc.IH [OF this] show ?thesis
      using False by (simp add: dec.simps [of n])
  qed
qed

lemma append_int_pad: "0 \<le> x \<Longrightarrow> 0 < w \<Longrightarrow> x < 10 ^ w \<Longrightarrow> append_int x w = pad w (nat x)"
  using replicate_dec [of w "nat x"] by (simp add: append_int_def Let_def nat_less_iff)

section \<open>The textual order of dates and instants\<close>

lemma days_in_le_31: "days_in y m \<le> 31"
  unfolding days_in_def month_start_def Let_def by simp

lemma valid_ymd_bounds:
  assumes "valid_ymd y m d"
  shows "1 \<le> m" "m \<le> 12" "1 \<le> d" "d \<le> 31"
  using assms days_in_le_31 [of y m] by (auto simp: valid_ymd_def)

lemma format_ymd_pad:
  "0 \<le> y \<Longrightarrow> y < 10000 \<Longrightarrow> valid_ymd y m d \<Longrightarrow>
     format_ymd y m d = pad 4 (nat y) @ ''-'' @ pad 2 (nat m) @ ''-'' @ pad 2 (nat d)"
  using valid_ymd_bounds [of y m d] by (simp add: format_ymd_def append_int_pad)

lemma length_format_ymd: "0 \<le> y \<Longrightarrow> y < 10000 \<Longrightarrow> valid_ymd y m d \<Longrightarrow> length (format_ymd y m d) = 10"
  by (simp add: format_ymd_pad)

lemma format_ymd_less:
  assumes "0 \<le> y" "y < 10000" "valid_ymd y m d" "0 \<le> y'" "y' < 10000" "valid_ymd y' m' d'"
  shows "format_ymd y m d < format_ymd y' m' d' \<longleftrightarrow> days_of y m d < days_of y' m' d'"
proof -
  note b = valid_ymd_bounds [OF assms(3)] valid_ymd_bounds [OF assms(6)]
  have "format_ymd y m d < format_ymd y' m' d' \<longleftrightarrow>
      nat y < nat y' \<or> nat y = nat y' \<and> (nat m < nat m' \<or> nat m = nat m' \<and> nat d < nat d')"
    using assms b by (simp add: format_ymd_pad append_less_append pad_less pad_inject)
  also have "\<dots> \<longleftrightarrow> days_of y m d < days_of y' m' d'"
    using assms b by (auto simp: days_of_lt_iff)
  finally show ?thesis .
qed

lemma year_start_0 [simp]: "year_start 0 = 0" and year_start_10000 [simp]: "year_start 10000 = 3652425"
  by (simp_all add: year_start_def)

lemma day_okE:
  assumes "day_ok n"
  obtains y m d where "date_of n = (y, m, d)" "valid_ymd y m d" "days_of y m d = n" "0 \<le> y" "y < 10000"
proof -
  obtain y m d where *: "date_of n = (y, m, d)" "valid_ymd y m d" "days_of y m d = n"
    by (rule date_ofE)
  have z: "year_start y \<le> n + 719528" "n + 719528 < year_start (y + 1)"
    using * year_of_correct [of "n + 719528"] by (auto simp: date_of_def Let_def)
  have "0 \<le> y"
  proof (rule ccontr)
    assume "\<not> 0 \<le> y"
    then have "year_start (y + 1) \<le> year_start 0" by (intro year_start_mono) simp
    with z assms show False by (simp add: day_ok_def)
  qed
  moreover have "y < 10000"
  proof (rule ccontr)
    assume "\<not> y < 10000"
    then have "year_start 10000 \<le> year_start y" by (intro year_start_mono) simp
    with z assms show False by (simp add: day_ok_def)
  qed
  ultimately show ?thesis using * that by blast
qed

lemma day_ok_days_of: "valid_ymd y m d \<Longrightarrow> 0 \<le> y \<Longrightarrow> y < 10000 \<Longrightarrow> day_ok (days_of y m d)"
proof -
  assume v: "valid_ymd y m d" and y: "0 \<le> y" "y < 10000"
  have "0 \<le> year_start y" "year_start (y + 1) \<le> 3652425"
    using y year_start_mono [of 0 y] year_start_mono [of "y + 1" 10000] by simp_all
  moreover have "0 \<le> month_start (leap y) m + d - 1" "month_start (leap y) m + d - 1 < (if leap y then 366 else 365)"
    using v month_start_range [of m "leap y"] by (auto simp: valid_ymd_def days_in_def)
  ultimately show ?thesis
    unfolding day_ok_def days_of_def using year_start_Suc [of y] by simp
qed

lemma length_format_day: "day_ok n \<Longrightarrow> length (format_day n) = 10"
  by (erule day_okE) (simp add: format_day_def length_format_ymd)

lemma format_day_less: "day_ok a \<Longrightarrow> day_ok b \<Longrightarrow> format_day a < format_day b \<longleftrightarrow> a < b"
  by (elim day_okE) (auto simp: format_day_def format_ymd_less)

lemma format_day_inject: "day_ok a \<Longrightarrow> day_ok b \<Longrightarrow> format_day a = format_day b \<longleftrightarrow> a = b"
  using format_day_less [of a b] format_day_less [of b a] by (metis linorder_neqE order_less_irrefl)

lemma format_clock_pad:
  "0 \<le> r \<Longrightarrow> r < 86400 \<Longrightarrow> format_clock r =
     pad 2 (nat (r div 3600)) @ '':'' @ pad 2 (nat (r mod 3600 div 60)) @ '':'' @ pad 2 (nat (r mod 60))"
  unfolding format_clock_def by (subst append_int_pad; simp)+

lemma clock_less_iff:
  fixes r s :: int
  shows "r < s \<longleftrightarrow> r div 3600 < s div 3600 \<or> r div 3600 = s div 3600 \<and>
    (r mod 3600 div 60 < s mod 3600 div 60 \<or> r mod 3600 div 60 = s mod 3600 div 60 \<and> r mod 60 < s mod 60)"
proof -
  have m: "x mod 3600 mod 60 = x mod 60" for x :: int
    by (rule mod_mod_cancel) simp
  show ?thesis
    using div_mod_less_iff [of 3600 r s] div_mod_less_iff [of 60 "r mod 3600" "s mod 3600"]
    by (simp only: m zero_less_numeral)
qed

lemma pad_hms_less:
  fixes h m s h' m' s' :: int
  assumes "0 \<le> h" "h < 100" "0 \<le> m" "m < 100" "0 \<le> s" "s < 100"
    and "0 \<le> h'" "h' < 100" "0 \<le> m'" "m' < 100" "0 \<le> s'" "s' < 100"
  shows "pad 2 (nat h) @ '':'' @ pad 2 (nat m) @ '':'' @ pad 2 (nat s)
      < pad 2 (nat h') @ '':'' @ pad 2 (nat m') @ '':'' @ pad 2 (nat s') \<longleftrightarrow>
    h < h' \<or> h = h' \<and> (m < m' \<or> m = m' \<and> s < s')"
proof -
  have p: "pad 2 (nat x) < pad 2 (nat y) \<longleftrightarrow> x < y" "pad 2 (nat x) = pad 2 (nat y) \<longleftrightarrow> x = y"
    if "0 \<le> x" "x < 100" "0 \<le> y" "y < 100" for x y :: int
    using that pad_less [of "nat x" 2 "nat y"] pad_inject [of "nat x" 2 "nat y"]
    by (auto simp: nat_less_iff)
  show ?thesis
    using assms by (simp add: append_less_append p)
qed

lemma format_clock_less:
  assumes "0 \<le> r" "r < 86400" "0 \<le> s" "s < 86400"
  shows "format_clock r < format_clock s \<longleftrightarrow> r < s"
proof -
  have b: "0 \<le> x div 3600" "x div 3600 < 24" "0 \<le> x mod 3600 div 60" "x mod 3600 div 60 < 60"
      "0 \<le> x mod 60" "x mod 60 < 60" if "0 \<le> x" "x < 86400" for x :: int
    using that by simp_all
  note br = b [OF assms(1,2)] and bs = b [OF assms(3,4)]
  show ?thesis
    unfolding format_clock_pad [OF assms(1,2)] format_clock_pad [OF assms(3,4)] clock_less_iff [of r s]
    by (rule pad_hms_less) (rule br bs order.strict_trans [OF br(2)] order.strict_trans [OF br(4)]
        order.strict_trans [OF br(6)] order.strict_trans [OF bs(2)] order.strict_trans [OF bs(4)]
        order.strict_trans [OF bs(6)], simp?)+
qed

lemma length_format_clock: "0 \<le> r \<Longrightarrow> r < 86400 \<Longrightarrow> length (format_clock r) = 8"
  by (simp add: format_clock_pad)

text \<open>Seconds of an instant; \<open>format_time\<close> drops the rest.\<close>

lemma time_ok_sec: "time_ok t \<longleftrightarrow> day_ok (t div second_ns div 86400)"
  by (simp add: time_ok_def day_of_def zdiv_zmult2_eq [symmetric])

lemma format_sec_less:
  assumes "day_ok (a div 86400)" "day_ok (b div 86400)"
  shows "format_day (a div 86400) @ ''T'' @ format_clock (a mod 86400) @ ''Z''
      < format_day (b div 86400) @ ''T'' @ format_clock (b mod 86400) @ ''Z'' \<longleftrightarrow> a < b"
proof -
  have l: "length (format_day (a div 86400)) = length (format_day (b div 86400))"
    using assms by (simp add: length_format_day)
  have r: "0 \<le> x mod 86400" "x mod 86400 < 86400" for x :: int by simp_all
  have c: "length (format_clock (a mod 86400)) = length (format_clock (b mod 86400))"
    by (simp add: length_format_clock)
  have "format_day (a div 86400) @ ''T'' @ format_clock (a mod 86400) @ ''Z''
      < format_day (b div 86400) @ ''T'' @ format_clock (b mod 86400) @ ''Z'' \<longleftrightarrow>
    a div 86400 < b div 86400 \<or> a div 86400 = b div 86400 \<and> a mod 86400 < b mod 86400"
    by (simp only: append_less_append [OF l] append_less_append [OF c] append_Cons append_Nil
        Cons_less_Cons format_day_less [OF assms] format_day_inject [OF assms]
        format_clock_less [OF r r] order_less_irrefl simp_thms)
  also have "\<dots> \<longleftrightarrow> a < b"
    by (rule div_mod_less_iff [symmetric]) simp
  finally show ?thesis .
qed

lemma format_time_less:
  "time_ok t \<Longrightarrow> time_ok u \<Longrightarrow> format_time t < format_time u \<longleftrightarrow> t div second_ns < u div second_ns"
  unfolding format_time_def Let_def time_ok_sec by (rule format_sec_less)

lemma format_date_less:
  "time_ok t \<Longrightarrow> time_ok u \<Longrightarrow> format_date t < format_date u \<longleftrightarrow> day_of t < day_of u"
  unfolding format_date_def time_ok_def by (rule format_day_less)

section \<open>Round trips\<close>

lemma num_pad: "n < 10 ^ w \<Longrightarrow> num w (pad w n @ s) = Some (int n, s)"
  by (simp add: num_def pad_digits digits_val_pad)

lemma lit_Cons [simp]: "lit c (c # s) = Some s"
  by (simp add: lit_def)

lemma parse_ymd_format_ymd:
  assumes "0 \<le> y" "y < 10000" "valid_ymd y m d"
  shows "parse_ymd (format_ymd y m d @ s) = Some ((y, m, d), s)"
proof -
  note b = valid_ymd_bounds [OF assms(3)]
  have n: "num 4 (pad 4 (nat y) @ t) = Some (y, t)" "num 2 (pad 2 (nat m) @ t) = Some (m, t)"
      "num 2 (pad 2 (nat d) @ t) = Some (d, t)" for t
    using assms b num_pad [of "nat y" 4 t] num_pad [of "nat m" 2 t] num_pad [of "nat d" 2 t]
    by (simp_all add: nat_less_iff)
  show ?thesis
    using assms by (simp add: format_ymd_pad parse_ymd_def n)
qed

lemma parse_date_format_date: "time_ok t \<Longrightarrow> parse_date (format_date t) = Some (truncate_day t)"
proof -
  assume "time_ok t"
  then obtain y m d where "date_of (day_of t) = (y, m, d)" "valid_ymd y m d" "days_of y m d = day_of t"
      "0 \<le> y" "y < 10000"
    unfolding time_ok_def by (rule day_okE)
  then show ?thesis
    using parse_ymd_format_ymd [of y m d "[]"]
    by (simp add: parse_date_def format_date_def format_day_def truncate_day_def)
qed

lemma num_clock: "0 \<le> x \<Longrightarrow> x < 100 \<Longrightarrow> num 2 (pad 2 (nat x) @ t) = Some (x, t)"
  using num_pad [of "nat x" 2 t] by (simp add: nat_less_iff)

lemma parse_time_format_time: "time_ok t \<Longrightarrow> parse_time (format_time t) = Some (t div second_ns * second_ns)"
proof -
  define s where "s = t div second_ns"
  define r where "r = s mod 86400"
  assume "time_ok t"
  then obtain y m d where *: "date_of (s div 86400) = (y, m, d)" "valid_ymd y m d"
      "days_of y m d = s div 86400" "0 \<le> y" "y < 10000"
    unfolding time_ok_sec s_def by (rule day_okE)
  have r: "0 \<le> r" "r < 86400" by (simp_all add: r_def)
  have b: "0 \<le> r div 3600" "r div 3600 < 24" "0 \<le> r mod 3600 div 60" "r mod 3600 div 60 < 60"
      "0 \<le> r mod 60" "r mod 60 < 60"
    using r by simp_all
  have sum: "r div 3600 * 3600 + r mod 3600 div 60 * 60 + r mod 60 = r"
  proof -
    have "r mod 3600 div 60 * 60 + r mod 3600 mod 60 = r mod 3600" by (rule div_mult_mod_eq)
    moreover have "r mod 3600 mod 60 = r mod 60" by (rule mod_mod_cancel) simp
    moreover have "r div 3600 * 3600 + r mod 3600 = r" by (rule div_mult_mod_eq)
    ultimately show ?thesis by (simp only: add.assoc)
  qed
  have f: "format_time t = format_ymd y m d @ ''T'' @ format_clock r @ ''Z''"
    by (simp add: format_time_def format_day_def Let_def * s_def [symmetric] r_def)
  have n: "num 2 (pad 2 (nat (r div 3600)) @ u) = Some (r div 3600, u)"
      "num 2 (pad 2 (nat (r mod 3600 div 60)) @ u) = Some (r mod 3600 div 60, u)"
      "num 2 (pad 2 (nat (r mod 60)) @ u) = Some (r mod 60, u)" for u
    by (rule num_clock [OF b(1) order.strict_trans [OF b(2)]] num_clock [OF b(3) order.strict_trans [OF b(4)]]
        num_clock [OF b(5) order.strict_trans [OF b(6)]], simp)+
  have "parse_time (format_time t) = Some ((days_of y m d * 86400 + r div 3600 * 3600
      + r mod 3600 div 60 * 60 + r mod 60) * second_ns)"
    unfolding f parse_time_def parse_ymd_format_ymd [OF *(4,5,2)] format_clock_pad [OF r]
    using b by (simp add: n)
  also have "days_of y m d * 86400 + r div 3600 * 3600 + r mod 3600 div 60 * 60 + r mod 60 = s"
    using sum *(3) div_mult_mod_eq [of s 86400] by (simp only: r_def add.assoc)
  finally show ?thesis by (simp add: s_def)
qed

lemma digit_char_digit_val: "is_digit c \<Longrightarrow> digit_char (digit_val c) = c"
  by (simp add: is_digit_def digit_val_def digit_char_def)

lemma digit_val_less: "is_digit c \<Longrightarrow> digit_val c < 10"
  unfolding is_digit_def digit_val_def by linarith

lemma pad_digits_val: "list_all is_digit u \<Longrightarrow> pad (length u) (digits_val u) = u"
proof (induction u rule: rev_induct)
  case (snoc c u)
  then show ?case by (simp add: digit_val_less digit_char_digit_val)
qed simp

lemma digits_val_less: "list_all is_digit u \<Longrightarrow> digits_val u < 10 ^ length u"
proof (induction u rule: rev_induct)
  case (snoc c u)
  then have "digits_val u < 10 ^ length u" "digit_val c < 10" by (auto intro: digit_val_less)
  then show ?case by simp
qed simp

lemma numD: "num w s = Some (x, r) \<Longrightarrow> s = pad w (nat x) @ r \<and> 0 \<le> x \<and> x < 10 ^ w"
proof -
  assume a: "num w s = Some (x, r)"
  then have l: "length (take w s) = w" and d: "list_all is_digit (take w s)"
    and x: "x = int (digits_val (take w s))" and r: "r = drop w s"
    by (auto simp: num_def split: if_splits)
  have "pad w (digits_val (take w s)) = take w s"
    using pad_digits_val [OF d] unfolding l .
  moreover have "digits_val (take w s) < 10 ^ w"
    using digits_val_less [OF d] unfolding l .
  ultimately show ?thesis using x r by simp
qed

lemma litD: "lit c s = Some r \<Longrightarrow> s = c # r"
  by (auto simp: lit_def split: list.splits if_splits)

lemma parse_ymdD:
  assumes "parse_ymd s = Some ((y, m, d), r)"
  shows "s = format_ymd y m d @ r" "valid_ymd y m d" "0 \<le> y" "y < 10000"
proof -
  from assms obtain s1 s2 s3 s4 where
    n: "num 4 s = Some (y, s1)" "num 2 s2 = Some (m, s3)" "num 2 s4 = Some (d, r)"
    and l: "lit (CHR ''-'') s1 = Some s2" "lit (CHR ''-'') s3 = Some s4" and v: "valid_ymd y m d"
    by (auto simp: parse_ymd_def Option.bind_eq_Some_conv split: if_splits)
  note D = numD [OF n(1)] numD [OF n(2)] numD [OF n(3)] litD [OF l(1)] litD [OF l(2)]
  show "valid_ymd y m d" by (rule v)
  show y: "0 \<le> y" "y < 10000" using D(1) by simp_all
  show "s = format_ymd y m d @ r"
    using D v y by (simp add: format_ymd_pad)
qed

text \<open>The date parser accepts exactly the texts that the formatter produces for years 0 to 9999.\<close>

lemma parse_date_iff: "parse_date s = Some t \<longleftrightarrow> time_ok t \<and> t = truncate_day t \<and> s = format_date t"
proof
  assume "parse_date s = Some t"
  then obtain y m d where p: "parse_ymd s = Some ((y, m, d), [])" and t: "t = of_day (days_of y m d)"
    by (auto simp: parse_date_def split: option.splits list.splits prod.splits)
  note D = parse_ymdD [OF p]
  have day: "day_of t = days_of y m d" by (simp add: t)
  have "time_ok t" using D day_ok_days_of by (simp add: time_ok_def day)
  moreover have "t = truncate_day t" by (simp add: t)
  moreover have "s = format_date t"
    using D by (simp add: format_date_def format_day_def day date_of_days_of)
  ultimately show "time_ok t \<and> t = truncate_day t \<and> s = format_date t" by blast
next
  assume "time_ok t \<and> t = truncate_day t \<and> s = format_date t"
  then show "parse_date s = Some t" using parse_date_format_date [of t] by simp
qed

end
