(* ===== verification/Core.thy ===== *)
theory Core
  imports GoTime "HOL-Library.Word"
begin

text \<open>
  The package \<^verbatim>\<open>core\<close>: the data model (\<^verbatim>\<open>core/model.go\<close>), the error classification
  (\<^verbatim>\<open>core/errors.go\<close>), capabilities, descriptors and the provider interface
  (\<^verbatim>\<open>core/provider.go\<close>), subjects and scopes (\<^verbatim>\<open>core/resolver.go\<close>), credential references and
  material (\<^verbatim>\<open>core/secrets.go\<close>, \<^verbatim>\<open>core/oauthcred.go\<close>).

  A provider is an interface: a record of functions. Its \<open>Sync\<close> method can act on the
  program's state only through the two operations of the sink it is given, so it is an
  interaction tree (\<open>sync_prog\<close>): it ends with a result, or asks for a write or a
  checkpoint and continues with the error the sink returned, if any.

  A Go \<^verbatim>\<open>error\<close> is a value of \<open>go_error\<close>: one constructor for every kind of error that the
  sources distinguish with \<^verbatim>\<open>errors.As\<close> or \<^verbatim>\<open>errors.Is\<close>, \<open>Msg\<close> for any other error and
  \<open>Wrapped\<close> for \<^verbatim>\<open>fmt.Errorf("...: %w", err)\<close>.
\<close>

section \<open>Definitions\<close>

subsection \<open>Errors\<close>

datatype error_code =
    ErrNone | ErrNotConfigured | ErrUnauthorized | ErrRateLimited | ErrTransient
  | ErrPartial | ErrNoData | ErrUnsupported | ErrInternal

fun error_code_text :: "error_code \<Rightarrow> string" where
  "error_code_text ErrNone = []"
| "error_code_text ErrNotConfigured = ''NOT_CONFIGURED''"
| "error_code_text ErrUnauthorized = ''UNAUTHORIZED''"
| "error_code_text ErrRateLimited = ''RATE_LIMITED''"
| "error_code_text ErrTransient = ''TRANSIENT''"
| "error_code_text ErrPartial = ''PARTIAL''"
| "error_code_text ErrNoData = ''NO_DATA''"
| "error_code_text ErrUnsupported = ''UNSUPPORTED''"
| "error_code_text ErrInternal = ''INTERNAL''"

fun Retryable :: "error_code \<Rightarrow> bool" where
  "Retryable ErrRateLimited = True"
| "Retryable ErrTransient = True"
| "Retryable ErrPartial = True"
| "Retryable _ = False"

record sync_error =
  se_code :: error_code
  se_message :: string
  se_retry_after :: int

definition SyncErrorOf :: "error_code \<Rightarrow> string \<Rightarrow> sync_error" where
  "SyncErrorOf c m = \<lparr>se_code = c, se_message = m, se_retry_after = 0\<rparr>"

definition sync_error_text :: "sync_error \<Rightarrow> string" where
  "sync_error_text e = error_code_text (se_code e) @ '': '' @ se_message e"

datatype go_error =
    SyncErr sync_error
  | DeadlineExceeded
  | Canceled
  | NoRows
  | UniqueViolation
  | ForeignKeyViolation
  | OAuthStateInvalid
  | HttpErr int
  | GoogleErr int
  | RetrieveErr "int option"
  | Msg string
  | Wrapped string go_error

text \<open>\<^verbatim>\<open>errors.As(err, &syncErr)\<close> for \<^verbatim>\<open>*core.SyncError\<close>: the first one in the chain of wrapped errors.\<close>

fun as_sync_error :: "go_error \<Rightarrow> sync_error option" where
  "as_sync_error (SyncErr e) = Some e"
| "as_sync_error (Wrapped _ e) = as_sync_error e"
| "as_sync_error _ = None"

fun is_deadline :: "go_error \<Rightarrow> bool" where
  "is_deadline DeadlineExceeded = True"
| "is_deadline (Wrapped _ e) = is_deadline e"
| "is_deadline _ = False"

fun is_canceled :: "go_error \<Rightarrow> bool" where
  "is_canceled Canceled = True"
| "is_canceled (Wrapped _ e) = is_canceled e"
| "is_canceled _ = False"

subsection \<open>Model\<close>

record site =
  site_ID :: string
  site_PublicURL :: string
  site_SitemapURL :: string
  site_Timezone :: string

record credential_ref =
  cr_ID :: string
  cr_Type :: string

definition no_ref :: credential_ref where
  "no_ref = \<lparr>cr_ID = [], cr_Type = []\<rparr>"

record secret_material =
  sm_Type :: string
  sm_Bytes :: string

definition no_material :: secret_material where
  "no_material = \<lparr>sm_Type = [], sm_Bytes = []\<rparr>"

record scope =
  sc_Workspace :: string
  sc_SiteID :: string
  sc_Provider :: string

datatype purpose = PurposeSync | PurposeTest | PurposeRevoke

record provider_connection =
  pc_ID :: string
  pc_SiteID :: string
  pc_Provider :: string
  pc_CredentialRef :: credential_ref
  pc_Enabled :: bool
  pc_PropertyReference :: string
  pc_LastSuccessAt :: "gotime option"
  pc_DataThroughDate :: "gotime option"
  pc_LastErrorCode :: error_code
  pc_LastErrorMessage :: string
  pc_CreatedAt :: gotime
  pc_UpdatedAt :: gotime

record property =
  pr_ConnectionID :: string
  pr_Reference :: string
  pr_DisplayName :: string
  pr_Timezone :: string

definition property_ref :: "string \<Rightarrow> property" where
  "property_ref r = \<lparr>pr_ConnectionID = [], pr_Reference = r, pr_DisplayName = [], pr_Timezone = []\<rparr>"

datatype sync_status = SyncQueued | SyncRunning | SyncSucceeded | SyncPartial | SyncFailed

fun sync_status_text :: "sync_status \<Rightarrow> string" where
  "sync_status_text SyncQueued = ''QUEUED''"
| "sync_status_text SyncRunning = ''RUNNING''"
| "sync_status_text SyncSucceeded = ''SUCCEEDED''"
| "sync_status_text SyncPartial = ''PARTIAL''"
| "sync_status_text SyncFailed = ''FAILED''"

type_synonym capability = string

record sync_run =
  sr_ID :: string
  sr_Provider :: string
  sr_Capability :: capability
  sr_StartDate :: gotime
  sr_EndDate :: gotime
  sr_Status :: sync_status
  sr_RowsSynced :: int
  sr_Cursor :: string
  sr_TriggeredBy :: string
  sr_IdempotencyKey :: string
  sr_ErrorCode :: error_code
  sr_ErrorMessage :: string
  sr_StartedAt :: gotime
  sr_FinishedAt :: "gotime option"
  sr_CreatedAt :: gotime
  sr_UpdatedAt :: gotime

record audit_event =
  ae_ID :: string
  ae_Actor :: string
  ae_Action :: string
  ae_Target :: string
  ae_Result :: string
  ae_RequestID :: string
  ae_At :: gotime

subsection \<open>Capabilities and descriptors\<close>

definition CapSearchPerformance :: capability where "CapSearchPerformance = ''search.performance''"
definition CapURLInspection :: capability where "CapURLInspection = ''index.url_inspection''"
definition CapSitemaps :: capability where "CapSitemaps = ''index.sitemaps''"
definition CapCrawlStats :: capability where "CapCrawlStats = ''index.crawl_stats''"
definition CapAcquisition :: capability where "CapAcquisition = ''analytics.acquisition''"
definition CapConversion :: capability where "CapConversion = ''analytics.conversion''"

record capability_spec =
  cs_Capability :: capability
  cs_Dimensions :: "string list"
  cs_Metrics :: "string list"
  cs_MaxRangeDays :: int
  cs_FreshnessLagDays :: int
  cs_SupportsCursor :: bool
  cs_QuotaHint :: string

record setup_link =
  sl_Kind :: string
  sl_Label :: string
  sl_URL :: string
  sl_Description :: string

record descriptor =
  d_Name :: string
  d_DisplayName :: string
  d_CredentialTypes :: "string list"
  d_Capabilities :: "capability_spec list"
  d_SetupURL :: string
  d_DocsURL :: string
  d_SetupLinks :: "setup_link list"

fun find_spec :: "capability_spec list \<Rightarrow> capability \<Rightarrow> capability_spec option" where
  "find_spec [] c = None"
| "find_spec (s # ss) c = (if cs_Capability s = c then Some s else find_spec ss c)"

definition Spec :: "descriptor \<Rightarrow> capability \<Rightarrow> capability_spec option" where
  "Spec d c = find_spec (d_Capabilities d) c"

subsection \<open>Report rows\<close>

text \<open>
  A row is a Go \<^verbatim>\<open>map[string]any\<close>, here an association list. A \<^verbatim>\<open>float64\<close> is its bit pattern;
  \<open>float_finite\<close> excludes the infinities and NaN, which \<^verbatim>\<open>json.Marshal\<close> rejects.
\<close>

type_synonym float64 = "64 word"

datatype jval =
    JNull | JBool bool | JInt int | JFloat float64 | JStr string
  | JArr "jval list" | JObj "(string \<times> jval) list"

type_synonym report_row = "(string \<times> jval) list"

definition float_finite :: "float64 \<Rightarrow> bool" where
  "float_finite w = (unat w div 2 ^ 52 mod 2 ^ 11 \<noteq> 2047)"

fun json_ok :: "jval \<Rightarrow> bool" where
  "json_ok (JFloat w) = float_finite w"
| "json_ok (JArr vs) = list_all json_ok vs"
| "json_ok (JObj kvs) = list_all (\<lambda>(k, v). json_ok v) kvs"
| "json_ok _ = True"

definition row_json_ok :: "report_row \<Rightarrow> bool" where
  "row_json_ok row = list_all (\<lambda>(k, v). json_ok v) row"

subsection \<open>Providers\<close>

record sync_request =
  rq_Site :: site
  rq_Property :: property
  rq_Capability :: capability
  rq_StartDate :: gotime
  rq_EndDate :: gotime
  rq_Cursor :: string

record sync_result =
  rs_Rows :: int
  rs_Cursor :: string
  rs_DataThroughDate :: gotime

definition no_result :: sync_result where
  "no_result = \<lparr>rs_Rows = 0, rs_Cursor = [], rs_DataThroughDate = zero_time\<rparr>"

datatype sync_prog =
    SyncDone sync_result "go_error option"
  | SinkWrite string "report_row list" "go_error option \<Rightarrow> sync_prog"
  | SinkCheckpoint string "go_error option \<Rightarrow> sync_prog"

record provider =
  Descriptor :: descriptor
  DiscoverProperties :: "secret_material \<Rightarrow> go_error + property list"
  TestProperty :: "site \<Rightarrow> property \<Rightarrow> secret_material \<Rightarrow> go_error option"
  SyncRange :: "sync_request \<Rightarrow> secret_material \<Rightarrow> sync_prog"
  RevokeCredential :: "secret_material \<Rightarrow> go_error option"

subsection \<open>Subjects and scopes\<close>

record subject =
  sub_ID :: string
  sub_Issuer :: string
  sub_Roles :: "string list"
  sub_Scopes :: "string list"
  sub_Workspace :: string

fun scope_in :: "string list \<Rightarrow> string \<Rightarrow> bool" where
  "scope_in [] sc = False"
| "scope_in (have # hs) sc = (if have = sc then True else scope_in hs sc)"

definition HasScope :: "subject \<Rightarrow> string \<Rightarrow> bool" where
  "HasScope s sc = scope_in (sub_Scopes s) sc"

definition ScopeRead :: string where "ScopeRead = ''read''"
definition ScopeSync :: string where "ScopeSync = ''sync''"
definition ScopeConnectionsManage :: string where "ScopeConnectionsManage = ''connections.manage''"
definition ScopeSitesManage :: string where "ScopeSitesManage = ''sites.manage''"
definition ScopeMembersManage :: string where "ScopeMembersManage = ''members.manage''"
definition ScopeAuditRead :: string where "ScopeAuditRead = ''audit.read''"

definition all_scopes :: "string list" where
  "all_scopes = [ScopeRead, ScopeSync, ScopeConnectionsManage, ScopeSitesManage, ScopeMembersManage, ScopeAuditRead]"

definition StaticResolveSite :: "site \<Rightarrow> 'ctx \<Rightarrow> go_error + site" where
  "StaticResolveSite s _ = Inr s"

subsection \<open>OAuth credential material\<close>

record oauth_material =
  om_ClientID :: string
  om_ClientSecret :: string
  om_TokenURL :: string
  om_RefreshToken :: string

text \<open>The argument \<open>unmarshal\<close> is \<^verbatim>\<open>json.Unmarshal\<close> at the type \<open>oauth_material\<close>.\<close>

definition ParseOAuthMaterial ::
  "(string \<Rightarrow> oauth_material option) \<Rightarrow> string \<Rightarrow> go_error + oauth_material" where
  "ParseOAuthMaterial unmarshal raw =
     (case unmarshal raw of
        None \<Rightarrow> Inl (Msg ''invalid oauth credential material'')
      | Some m \<Rightarrow>
          if om_RefreshToken m = [] \<or> om_ClientID m = [] \<or> om_TokenURL m = []
          then Inl (Msg ''incomplete oauth credential material'')
          else Inr m)"

section \<open>Lemmas\<close>

lemma SyncErrorOf_sel [simp]:
  "se_code (SyncErrorOf c m) = c" "se_message (SyncErrorOf c m) = m" "se_retry_after (SyncErrorOf c m) = 0"
  by (simp_all add: SyncErrorOf_def)

lemma no_ref_ID [simp]: "cr_ID no_ref = []" "cr_Type no_ref = []"
  by (simp_all add: no_ref_def)

lemma no_result_sel [simp]: "rs_Rows no_result = 0" "rs_Cursor no_result = []" "rs_DataThroughDate no_result = zero_time"
  by (simp_all add: no_result_def)

lemma property_ref_Reference [simp]: "pr_Reference (property_ref r) = r"
  by (simp add: property_ref_def)

lemma find_spec_Some: "find_spec ss c = Some s \<Longrightarrow> s \<in> set ss \<and> cs_Capability s = c"
  by (induction ss) (auto split: if_splits)

lemma find_spec_None: "find_spec ss c = None \<longleftrightarrow> c \<notin> cs_Capability ` set ss"
  by (induction ss) auto

lemma Spec_Some: "Spec d c = Some s \<Longrightarrow> s \<in> set (d_Capabilities d) \<and> cs_Capability s = c"
  by (simp add: Spec_def find_spec_Some)

lemma Spec_None: "Spec d c = None \<longleftrightarrow> c \<notin> cs_Capability ` set (d_Capabilities d)"
  by (simp add: Spec_def find_spec_None)

lemma HasScope_iff: "HasScope s sc \<longleftrightarrow> sc \<in> set (sub_Scopes s)"
proof -
  have "scope_in hs sc \<longleftrightarrow> sc \<in> set hs" for hs by (induction hs) auto
  then show ?thesis by (simp add: HasScope_def)
qed

end
