(* ===== verification/Registry.thy ===== *)
theory Registry
  imports Core
begin

text \<open>
  The package \<^verbatim>\<open>internal/registry\<close>: the installed providers, keyed by the name of their
  descriptor. The Go map is an association list whose keys are distinct; the mutex makes
  every operation atomic, so each is one function. \<open>Descriptors\<close> sorts by name, which makes
  its result independent of the order in which Go iterates over the map.

  The locale \<open>provider_registry\<close> is the contract the engine, the HTTP handlers and the
  runtime rely on; it is interpreted on the operations of this theory.
\<close>

section \<open>Definitions\<close>

type_synonym registry = "(string \<times> provider) list"

definition registry_New :: registry where
  "registry_New = []"

definition Register :: "registry \<Rightarrow> provider \<Rightarrow> go_error + registry" where
  "Register r p =
     (let name = d_Name (Descriptor p)
      in if name = [] then Inl (Msg ''provider descriptor has empty name'')
         else if map_of r name \<noteq> None then Inl (Msg (''provider '' @ name @ '' registered twice''))
         else Inr (r @ [(name, p)]))"

definition Get :: "registry \<Rightarrow> string \<Rightarrow> provider option" where
  "Get r name = map_of r name"

definition Descriptors :: "registry \<Rightarrow> descriptor list" where
  "Descriptors r = sort_key d_Name (map (\<lambda>(name, p). Descriptor p) r)"

text \<open>The representation invariant: distinct keys, each the name of its provider's descriptor.\<close>

definition registry_wf :: "registry \<Rightarrow> bool" where
  "registry_wf r \<longleftrightarrow> distinct (map fst r) \<and> list_all (\<lambda>(n, p). n \<noteq> [] \<and> n = d_Name (Descriptor p)) r"

fun Register_all :: "registry \<Rightarrow> provider list \<Rightarrow> go_error + registry" where
  "Register_all r [] = Inr r"
| "Register_all r (p # ps) = (case Register r p of Inl e \<Rightarrow> Inl e | Inr r' \<Rightarrow> Register_all r' ps)"

section \<open>The registry contract\<close>

locale provider_registry =
  fixes new_reg :: 'r
    and register :: "'r \<Rightarrow> provider \<Rightarrow> go_error + 'r"
    and get :: "'r \<Rightarrow> string \<Rightarrow> provider option"
    and descriptors :: "'r \<Rightarrow> descriptor list"
    and wf :: "'r \<Rightarrow> bool"
  assumes new_wf: "wf new_reg"
    and new_get: "get new_reg n = None"
    and register_ok: "wf r \<Longrightarrow> register r p = Inr r' \<Longrightarrow>
      wf r' \<and> d_Name (Descriptor p) \<noteq> [] \<and> get r (d_Name (Descriptor p)) = None
        \<and> get r' = (get r)(d_Name (Descriptor p) \<mapsto> p)"
    and register_err: "wf r \<Longrightarrow> register r p = Inl e \<Longrightarrow>
      d_Name (Descriptor p) = [] \<or> get r (d_Name (Descriptor p)) \<noteq> None"
    and descriptors_get: "wf r \<Longrightarrow> d \<in> set (descriptors r) \<longleftrightarrow> (\<exists>p. get r (d_Name d) = Some p \<and> Descriptor p = d)"
    and descriptors_sorted: "wf r \<Longrightarrow> sorted_wrt (\<lambda>d e. d_Name d < d_Name e) (descriptors r)"
begin

lemma register_new_wins:
  assumes "wf r" "register r p = Inr r'"
  shows "get r' (d_Name (Descriptor p)) = Some p"
  using register_ok [OF assms] by simp

lemma register_keeps:
  assumes "wf r" "register r p = Inr r'" "get r n = Some q"
  shows "get r' n = Some q"
  using register_ok [OF assms(1,2)] assms(3) by (auto simp: fun_upd_def)

lemma register_twice_fails:
  assumes "wf r" "register r p = Inr r'" "d_Name (Descriptor q) = d_Name (Descriptor p)"
  shows "\<exists>e. register r' q = Inl e"
proof (cases "register r' q")
  case (Inr r'')
  have "get r' (d_Name (Descriptor q)) = None"
    using register_ok [OF _ Inr] register_ok [OF assms(1,2)] by blast
  then show ?thesis using register_new_wins [OF assms(1,2)] assms(3) by simp
qed blast

lemma descriptors_names_distinct:
  assumes "wf r"
  shows "distinct (map d_Name (descriptors r))"
proof -
  have "sorted_wrt (<) (map d_Name (descriptors r))"
    using descriptors_sorted [OF assms] by (simp add: sorted_wrt_map)
  then show ?thesis by (simp add: strict_sorted_iff)
qed

end

section \<open>The model satisfies the contract\<close>

lemma registry_wf_snoc:
  "registry_wf r \<Longrightarrow> Register r p = Inr r' \<Longrightarrow> registry_wf r'"
  by (auto simp: registry_wf_def Register_def Let_def map_of_eq_None_iff split: if_splits)

lemma Get_Descriptor: "registry_wf r \<Longrightarrow> Get r n = Some p \<Longrightarrow> n = d_Name (Descriptor p)"
  by (auto simp: registry_wf_def Get_def list_all_iff dest!: map_of_SomeD)

lemma sort_key_strict:
  assumes "distinct (map f xs)"
  shows "sorted_wrt (\<lambda>x y. f x < f y) (sort_key f xs)"
proof -
  have "distinct (map f (sort_key f xs))"
    using assms by (metis distinct_map distinct_sort inj_on_def set_sort)
  moreover have "sorted (map f (sort_key f xs))" by simp
  ultimately have "sorted_wrt (<) (map f (sort_key f xs))" by (simp add: strict_sorted_iff)
  then show ?thesis by (simp add: sorted_wrt_map)
qed

lemma Descriptors_mem:
  "registry_wf r \<Longrightarrow> d \<in> set (Descriptors r) \<longleftrightarrow> (\<exists>p. Get r (d_Name d) = Some p \<and> Descriptor p = d)"
  by (force simp: registry_wf_def Descriptors_def Get_def list_all_iff dest: map_of_SomeD)

lemma Descriptors_sorted:
  assumes "registry_wf r"
  shows "sorted_wrt (\<lambda>d e. d_Name d < d_Name e) (Descriptors r)"
proof -
  have "map d_Name (map (\<lambda>(name, p). Descriptor p) r) = map fst r"
    using assms by (auto simp: registry_wf_def list_all_iff)
  then show ?thesis
    unfolding Descriptors_def using assms by (intro sort_key_strict) (simp add: registry_wf_def del: map_map)
qed

interpretation reg: provider_registry registry_New Register Get Descriptors registry_wf
proof unfold_locales
  fix r p r'
  assume "registry_wf r" "Register r p = Inr r'"
  then show "registry_wf r' \<and> d_Name (Descriptor p) \<noteq> [] \<and> Get r (d_Name (Descriptor p)) = None
      \<and> Get r' = (Get r)(d_Name (Descriptor p) \<mapsto> p)"
    using registry_wf_snoc [of r p r']
    by (auto simp: Register_def Get_def Let_def map_add_def fun_eq_iff split: if_splits option.splits)
qed (auto simp: registry_New_def registry_wf_def Get_def Register_def Let_def Descriptors_mem Descriptors_sorted
    split: if_splits)

section \<open>Wiring a list of providers\<close>

lemma Register_all_snoc:
  assumes "registry_wf r"
  shows "case Register_all r ps of
      Inr r' \<Rightarrow> r' = r @ map (\<lambda>p. (d_Name (Descriptor p), p)) ps \<and> registry_wf r'
    | Inl e \<Rightarrow> [] \<in> d_Name ` Descriptor ` set ps \<or> \<not> distinct (map fst r @ map (d_Name \<circ> Descriptor) ps)"
  using assms
proof (induction ps arbitrary: r)
  case Nil
  then show ?case by simp
next
  case (Cons p ps)
  show ?case
  proof (cases "Register r p")
    case (Inl e)
    then show ?thesis
      by (auto simp: Register_def Let_def map_of_eq_None_iff split: if_splits)
  next
    case (Inr r')
    then have r': "r' = r @ [(d_Name (Descriptor p), p)]"
      by (auto simp: Register_def Let_def split: if_splits)
    have "registry_wf r'" using Cons.prems Inr by (rule registry_wf_snoc)
    from Cons.IH [OF this] show ?thesis
      by (auto simp: Inr r' split: sum.splits)
  qed
qed

text \<open>
  Registering a list of providers succeeds exactly when their descriptor names are
  non-empty and pairwise different; then every provider is found under its name and the
  descriptors are listed in the order of the names.
\<close>

theorem Register_all_correct:
  "case Register_all registry_New ps of
     Inr r \<Rightarrow> [] \<notin> d_Name ` Descriptor ` set ps \<and> distinct (map (d_Name \<circ> Descriptor) ps)
       \<and> (\<forall>n. Get r n = map_of (map (\<lambda>p. (d_Name (Descriptor p), p)) ps) n)
       \<and> Descriptors r = sort_key d_Name (map Descriptor ps)
       \<and> sorted_wrt (\<lambda>d e. d_Name d < d_Name e) (Descriptors r)
   | Inl e \<Rightarrow> \<not> ([] \<notin> d_Name ` Descriptor ` set ps \<and> distinct (map (d_Name \<circ> Descriptor) ps))"
proof (cases "Register_all registry_New ps")
  case (Inl e)
  then show ?thesis
    using Register_all_snoc [OF reg.new_wf, of ps] by (simp add: registry_New_def)
next
  case (Inr r)
  then have r: "r = map (\<lambda>p. (d_Name (Descriptor p), p)) ps" and wf: "registry_wf r"
    using Register_all_snoc [OF reg.new_wf, of ps] by (auto simp: registry_New_def)
  have "distinct (map (d_Name \<circ> Descriptor) ps)" "[] \<notin> d_Name ` Descriptor ` set ps"
    using wf by (auto simp: registry_wf_def r comp_def list_all_iff)
  moreover have "Descriptors r = sort_key d_Name (map Descriptor ps)"
    by (simp add: Descriptors_def r comp_def)
  ultimately show ?thesis
    using reg.descriptors_sorted [OF wf] by (simp add: Inr Get_def r)
qed

end
