(* ===== verification/Auth.thy ===== *)
theory Auth
  imports Core
begin

text \<open>
  The package \<^verbatim>\<open>internal/auth\<close>: the API-key verifier and the development mode. The verifier
  keeps a map from lower-case hexadecimal SHA-256 hashes to scopes; the hash function
  (\<open>hex.EncodeToString(sha256.Sum256(token))\<close>) is an argument, as is the parsing of the peer
  address in the development mode.
\<close>

section \<open>Definitions\<close>

type_synonym api_keys = "(string \<times> string list) list"

text \<open>A Go map assignment \<^verbatim>\<open>m[k] = v\<close> on an association list.\<close>

fun assoc_put :: "'k \<Rightarrow> 'v \<Rightarrow> ('k \<times> 'v) list \<Rightarrow> ('k \<times> 'v) list" where
  "assoc_put k v [] = [(k, v)]"
| "assoc_put k v ((k', v') # m) = (if k = k' then (k, v) # m else (k', v') # assoc_put k v m)"

fun NewAPIKey_loop :: "string list \<Rightarrow> api_keys \<Rightarrow> go_error + api_keys" where
  "NewAPIKey_loop [] a = Inr a"
| "NewAPIKey_loop (e # es) a =
     (let entry = trim_space e
      in if entry = [] then NewAPIKey_loop es a
         else (case cut entry (CHR ''='') of (hash, scopes, found) \<Rightarrow>
           if \<not> found \<or> length hash \<noteq> 64
           then Inl (Msg ''api key entry must be <sha256-hex>=<scopes>'')
           else NewAPIKey_loop es (assoc_put (to_lower hash) (split_on (CHR '','') scopes) a)))"

definition NewAPIKey :: "string \<Rightarrow> go_error + api_keys" where
  "NewAPIKey spec = NewAPIKey_loop (split_on (CHR '';'') spec) []"

text \<open>The loop over the map with its constant-time comparison.\<close>

fun match_key :: "api_keys \<Rightarrow> string \<Rightarrow> (string \<times> string list) option" where
  "match_key [] got = None"
| "match_key ((hash, scopes) # m) got = (if hash = got then Some (hash, scopes) else match_key m got)"

definition APIKey_Authenticate :: "(string \<Rightarrow> string) \<Rightarrow> api_keys \<Rightarrow> string \<Rightarrow> go_error + subject" where
  "APIKey_Authenticate sha_hex a authorization =
     (let token = trim_prefix authorization ''Bearer ''
      in if token = [] \<or> token = authorization then Inl (Msg ''missing bearer token'')
         else (case match_key a (sha_hex token) of
             Some (hash, scopes) \<Rightarrow>
               Inr \<lparr>sub_ID = ''api-key:'' @ take 8 hash, sub_Issuer = ''api-key'', sub_Roles = [],
                    sub_Scopes = scopes, sub_Workspace = []\<rparr>
           | None \<Rightarrow> Inl (Msg ''unknown api key'')))"

text \<open>
  \<open>split_host\<close> is the host part of \<^verbatim>\<open>net.SplitHostPort\<close>, \<open>ip_loopback\<close> is
  \<^verbatim>\<open>net.ParseIP(host).IsLoopback()\<close>.
\<close>

definition DevLoopback_Authenticate ::
  "(string \<Rightarrow> string option) \<Rightarrow> (string \<Rightarrow> bool) \<Rightarrow> string \<Rightarrow> go_error + subject" where
  "DevLoopback_Authenticate split_host ip_loopback remote_addr =
     (case split_host remote_addr of
        None \<Rightarrow> Inl (Msg ''development auth only accepts loopback requests'')
      | Some host \<Rightarrow>
          if \<not> ip_loopback host then Inl (Msg ''development auth only accepts loopback requests'')
          else Inr \<lparr>sub_ID = ''dev-local'', sub_Issuer = ''dev'', sub_Roles = [],
                    sub_Scopes = all_scopes, sub_Workspace = []\<rparr>)"

text \<open>
  A configuration is a list of hashes with their scopes; \<open>api_key_spec\<close> writes it in the
  documented format \<^verbatim>\<open>hexhash=scope1,scope2;hexhash=...\<close>.
\<close>

definition api_key_entry :: "string \<times> string list \<Rightarrow> string" where
  "api_key_entry e = fst e @ ''='' @ join '','' (snd e)"

definition api_key_spec :: "(string \<times> string list) list \<Rightarrow> string" where
  "api_key_spec es = join '';'' (map api_key_entry es)"

definition plain_text :: "string \<Rightarrow> bool" where
  "plain_text w \<longleftrightarrow> w \<noteq> [] \<and> list_all (\<lambda>c. ascii_print c \<and> c \<notin> {CHR '';'', CHR ''='', CHR '',''}) w"

definition api_key_entry_ok :: "string \<times> string list \<Rightarrow> bool" where
  "api_key_entry_ok e \<longleftrightarrow> length (fst e) = 64 \<and> plain_text (fst e)
     \<and> snd e \<noteq> [] \<and> list_all plain_text (snd e)"

section \<open>Lemmas\<close>

lemma map_of_assoc_put [simp]: "map_of (assoc_put k v m) = (map_of m)(k \<mapsto> v)"
  by (induction k v m rule: assoc_put.induct) (auto simp: fun_eq_iff)

lemma match_key_map_of: "match_key a h = map_option (Pair h) (map_of a h)"
  by (induction a h rule: match_key.induct) auto

lemma APIKey_Authenticate_iff:
  "APIKey_Authenticate sha a auth = Inr s \<longleftrightarrow>
     (\<exists>token scopes. auth = ''Bearer '' @ token \<and> token \<noteq> [] \<and> map_of a (sha token) = Some scopes
       \<and> s = \<lparr>sub_ID = ''api-key:'' @ take 8 (sha token), sub_Issuer = ''api-key'', sub_Roles = [],
              sub_Scopes = scopes, sub_Workspace = []\<rparr>)"
  (is "?L \<longleftrightarrow> ?R")
proof
  assume ?L
  then have "trim_prefix auth ''Bearer '' \<noteq> []" "trim_prefix auth ''Bearer '' \<noteq> auth"
    by (auto simp: APIKey_Authenticate_def Let_def split: if_splits)
  then obtain token where t: "auth = ''Bearer '' @ token" "token \<noteq> []"
    by (metis has_prefix_iff trim_prefix_append trim_prefix_def)
  then have "trim_prefix auth ''Bearer '' = token"
    using trim_prefix_append by blast
  with \<open>?L\<close> t show ?R
    by (auto simp: APIKey_Authenticate_def Let_def match_key_map_of split: if_splits option.splits)
next
  assume ?R
  then obtain token scopes where t: "auth = ''Bearer '' @ token" "token \<noteq> []"
    "map_of a (sha token) = Some scopes"
    "s = \<lparr>sub_ID = ''api-key:'' @ take 8 (sha token), sub_Issuer = ''api-key'', sub_Roles = [],
          sub_Scopes = scopes, sub_Workspace = []\<rparr>" by blast
  have "trim_prefix auth ''Bearer '' = token"
    unfolding t(1) by (rule trim_prefix_append)
  moreover have "token \<noteq> auth" by (simp add: t(1))
  ultimately show ?L
    using t by (simp add: APIKey_Authenticate_def Let_def match_key_map_of)
qed

lemma api_key_entry_trim: "api_key_entry_ok e \<Longrightarrow> trim_space (api_key_entry e) = api_key_entry e"
proof (intro trim_space_ascii)
  assume ok: "api_key_entry_ok e"
  then have p: "plain_text (fst e)" "snd e \<noteq> []" "\<forall>w \<in> set (snd e). plain_text w"
    by (auto simp: api_key_entry_ok_def list_all_iff)
  have "hd (api_key_entry e) = hd (fst e)"
    using p(1) by (simp add: api_key_entry_def plain_text_def)
  then show "ascii_print (hd (api_key_entry e))"
    using p(1) by (cases "fst e") (auto simp: plain_text_def)
  have w: "plain_text (last (snd e))" using p(2,3) by simp
  have "\<forall>w \<in> set (snd e). w \<noteq> []" using p(3) by (simp add: plain_text_def)
  then have "join '','' (snd e) \<noteq> []" "last (join '','' (snd e)) = last (last (snd e))"
    using join_hd_last [OF p(2)] by blast+
  then have "last (api_key_entry e) = last (last (snd e))"
    by (simp add: api_key_entry_def)
  then show "ascii_print (last (api_key_entry e))"
    using w by (simp add: plain_text_def list_all_iff)
qed

lemma api_key_entry_no_semi: "api_key_entry_ok e \<Longrightarrow> CHR '';'' \<notin> set (api_key_entry e)"
  using set_join [of "'',''" "snd e"]
  by (fastforce simp: api_key_entry_ok_def api_key_entry_def plain_text_def list_all_iff)

lemma api_key_entry_cut:
  "api_key_entry_ok e \<Longrightarrow> cut (api_key_entry e) (CHR ''='') = (fst e, join '','' (snd e), True)"
  using cut_found [of "CHR ''=''" "fst e" "join '','' (snd e)"]
  by (auto simp: api_key_entry_def api_key_entry_ok_def plain_text_def list_all_iff)

lemma api_key_entry_scopes: "api_key_entry_ok e \<Longrightarrow> split_on (CHR '','') (join '','' (snd e)) = snd e"
  by (rule split_join) (auto simp: api_key_entry_ok_def plain_text_def list_all_iff)

lemma NewAPIKey_loop_entries:
  "list_all api_key_entry_ok es \<Longrightarrow>
     NewAPIKey_loop (map api_key_entry es) a = Inr (foldl (\<lambda>a e. assoc_put (to_lower (fst e)) (snd e) a) a es)"
proof (induction es arbitrary: a)
  case (Cons e es)
  then have ok: "api_key_entry_ok e" by simp
  then have "api_key_entry e \<noteq> []" "length (fst e) = 64"
    by (auto simp: api_key_entry_def api_key_entry_ok_def)
  with ok Cons show ?case
    by (simp add: Let_def api_key_entry_trim api_key_entry_cut api_key_entry_scopes)
qed simp

lemma map_of_foldl_put:
  "map_of (foldl (\<lambda>a e. assoc_put (to_lower (fst e)) (snd e) a) a es) h =
     (case map_of (rev (map (\<lambda>e. (to_lower (fst e), snd e)) es)) h of Some s \<Rightarrow> Some s | None \<Rightarrow> map_of a h)"
  by (induction es rule: rev_induct) (auto simp: fun_upd_def split: option.splits)

lemma NewAPIKey_spec:
  assumes "es \<noteq> []" "list_all api_key_entry_ok es"
  shows "\<exists>a. NewAPIKey (api_key_spec es) = Inr a \<and>
    map_of a = map_of (rev (map (\<lambda>e. (to_lower (fst e), snd e)) es))"
proof -
  have "split_on (CHR '';'') (api_key_spec es) = map api_key_entry es"
    unfolding api_key_spec_def using assms
    by (intro split_join) (auto simp: list_all_iff dest: api_key_entry_no_semi)
  then have "NewAPIKey (api_key_spec es) = Inr (foldl (\<lambda>a e. assoc_put (to_lower (fst e)) (snd e) a) [] es)"
    by (simp add: NewAPIKey_def NewAPIKey_loop_entries [OF assms(2)])
  moreover have "map_of (foldl (\<lambda>a e. assoc_put (to_lower (fst e)) (snd e) a) [] es)
      = map_of (rev (map (\<lambda>e. (to_lower (fst e), snd e)) es))"
    by (rule ext) (simp add: map_of_foldl_put split: option.splits)
  ultimately show ?thesis by blast
qed
section \<open>Properties\<close>

text \<open>
  C10: the API-key verifier is sound and complete. For a configuration written in the
  documented format, construction succeeds, and a request is authenticated exactly when its
  \<^verbatim>\<open>Authorization\<close> header is \<^verbatim>\<open>Bearer\<close> and a non-empty token whose hash is configured; the subject
  carries the scopes of the last entry for that hash.
\<close>

theorem api_key_sound_complete:
  assumes "es \<noteq> []" "list_all api_key_entry_ok es"
  shows "\<exists>a. NewAPIKey (api_key_spec es) = Inr a \<and>
    (\<forall>auth s. APIKey_Authenticate sha a auth = Inr s \<longleftrightarrow>
      (\<exists>token scopes. auth = ''Bearer '' @ token \<and> token \<noteq> []
        \<and> map_of (rev (map (\<lambda>e. (to_lower (fst e), snd e)) es)) (sha token) = Some scopes
        \<and> s = \<lparr>sub_ID = ''api-key:'' @ take 8 (sha token), sub_Issuer = ''api-key'', sub_Roles = [],
               sub_Scopes = scopes, sub_Workspace = []\<rparr>))"
  using NewAPIKey_spec [OF assms] by (auto simp: APIKey_Authenticate_iff)

theorem api_key_sound_complete_witness:
  "\<exists>a. NewAPIKey (api_key_spec [(replicate 64 CHR ''a'', [''read'', ''sync''])]) = Inr a \<and>
    APIKey_Authenticate (\<lambda>t. replicate 64 (hd t)) a ''Bearer a1'' =
      Inr \<lparr>sub_ID = ''api-key:aaaaaaaa'', sub_Issuer = ''api-key'', sub_Roles = [],
           sub_Scopes = [''read'', ''sync''], sub_Workspace = []\<rparr> \<and>
    \<not> (\<exists>s. APIKey_Authenticate (\<lambda>t. replicate 64 (hd t)) a ''Bearer b1'' = Inr s)"
proof -
  let ?es = "[(replicate 64 CHR ''a'', [''read'', ''sync''])]"
  have "list_all api_key_entry_ok ?es"
    by (simp add: api_key_entry_ok_def plain_text_def ascii_print_def list_all_iff)
  from api_key_sound_complete [OF _ this, of "\<lambda>t. replicate 64 (hd t)"]
  show ?thesis
    by (auto simp: to_lower_def lower_char_def numeral_eq_Suc)
qed

end
