(* ===== verification/Secrets.thy ===== *)
theory Secrets
  imports Core
begin

text \<open>
  The \<^verbatim>\<open>core.SecretStore\<close> interface and its in-memory implementation
  (\<^verbatim>\<open>internal/secrets/memory.go\<close>).

  A store is a record of operations on a state \<open>'s\<close>. What an operation takes from its
  surroundings (a fresh identifier, a nonce, failures of the random source and of the file
  system) is the argument \<open>sec_env\<close>. The locale \<open>secret_store\<close> states the contract in terms of
  \<open>live s\<close>, the credentials that can be opened: it is what the handlers and the runtime
  rely on.

  The in-memory store is modelled twice. \<open>mem_put\<close> and its siblings treat the secret bytes
  as values. \<open>hmem_put\<close> and its siblings are closer to the code: bytes live in a heap, a
  \<^verbatim>\<open>[]byte\<close> is an address, \<open>cloneMaterial\<close> allocates, and closing a handle overwrites the bytes
  in place. The refinement lemmas show that the copies make the difference invisible.
\<close>

section \<open>Definitions\<close>

subsection \<open>The interface\<close>

datatype write_step = CreateTemp | ChmodTemp | WriteTemp | SyncTemp | CloseTemp | RenameTemp

record sec_env =
  env_uuid :: string
  env_nonce :: string
  env_rand_fails :: bool
  env_read_fails :: bool
  env_write_fails :: "write_step option"

text \<open>An environment in which nothing fails.\<close>

definition env_reliable :: "sec_env \<Rightarrow> bool" where
  "env_reliable env \<longleftrightarrow> \<not> env_rand_fails env \<and> \<not> env_read_fails env \<and> env_write_fails env = None"

record 's secret_ops =
  ss_Put :: "sec_env \<Rightarrow> scope \<Rightarrow> secret_material \<Rightarrow> 's \<Rightarrow> (go_error + credential_ref) \<times> 's"
  ss_Open :: "sec_env \<Rightarrow> scope \<Rightarrow> credential_ref \<Rightarrow> purpose \<Rightarrow> 's \<Rightarrow> go_error + secret_material"
  ss_Rotate :: "sec_env \<Rightarrow> scope \<Rightarrow> credential_ref \<Rightarrow> secret_material \<Rightarrow> 's \<Rightarrow> go_error option \<times> 's"
  ss_Revoke :: "sec_env \<Rightarrow> scope \<Rightarrow> credential_ref \<Rightarrow> 's \<Rightarrow> go_error option \<times> 's"

text \<open>Sequences of calls that change a store.\<close>

datatype sec_call =
    CallPut sec_env scope secret_material
  | CallRotate sec_env scope credential_ref secret_material
  | CallRevoke sec_env scope credential_ref

fun run_call :: "'s secret_ops \<Rightarrow> sec_call \<Rightarrow> 's \<Rightarrow> 's" where
  "run_call ops (CallPut env sc mat) s = snd (ss_Put ops env sc mat s)"
| "run_call ops (CallRotate env sc ref mat) s = snd (ss_Rotate ops env sc ref mat s)"
| "run_call ops (CallRevoke env sc ref) s = snd (ss_Revoke ops env sc ref s)"

fun put_ids :: "sec_call list \<Rightarrow> string set" where
  "put_ids [] = {}"
| "put_ids (CallPut env sc mat # cs) = insert (env_uuid env) (put_ids cs)"
| "put_ids (_ # cs) = put_ids cs"

subsection \<open>Handles\<close>

record handle =
  h_material :: secret_material
  h_closed :: bool

definition new_handle :: "secret_material \<Rightarrow> handle" where
  "new_handle m = \<lparr>h_material = m, h_closed = False\<rparr>"

definition Material :: "handle \<Rightarrow> secret_material" where
  "Material h = (if h_closed h then no_material else h_material h)"

definition Close :: "handle \<Rightarrow> handle" where
  "Close h = h\<lparr>h_material := no_material, h_closed := True\<rparr>"

subsection \<open>The in-memory store, on values\<close>

record mem_entry =
  me_scope :: scope
  me_material :: secret_material
  me_revoked :: bool

type_synonym memory = "string \<rightharpoonup> mem_entry"

definition NewMemory :: memory where
  "NewMemory = Map.empty"

definition mem_put :: "sec_env \<Rightarrow> scope \<Rightarrow> secret_material \<Rightarrow> memory \<Rightarrow> (go_error + credential_ref) \<times> memory" where
  "mem_put env sc mat m =
     (Inr \<lparr>cr_ID = env_uuid env, cr_Type = sm_Type mat\<rparr>,
      m(env_uuid env \<mapsto> \<lparr>me_scope = sc, me_material = mat, me_revoked = False\<rparr>))"

definition not_available :: "string \<Rightarrow> go_error" where
  "not_available i = Msg (''credential '' @ i @ '' is not available'')"

definition scope_mismatch :: go_error where
  "scope_mismatch = Msg ''credential scope does not match''"

definition mem_open :: "sec_env \<Rightarrow> scope \<Rightarrow> credential_ref \<Rightarrow> purpose \<Rightarrow> memory \<Rightarrow> go_error + secret_material" where
  "mem_open env sc ref pur m =
     (case m (cr_ID ref) of
        None \<Rightarrow> Inl (not_available (cr_ID ref))
      | Some e \<Rightarrow>
          if me_revoked e then Inl (not_available (cr_ID ref))
          else if me_scope e \<noteq> sc then Inl scope_mismatch
          else Inr (me_material e))"

definition mem_rotate :: "sec_env \<Rightarrow> scope \<Rightarrow> credential_ref \<Rightarrow> secret_material \<Rightarrow> memory \<Rightarrow> go_error option \<times> memory" where
  "mem_rotate env sc ref repl m =
     (case m (cr_ID ref) of
        None \<Rightarrow> (Some (not_available (cr_ID ref)), m)
      | Some e \<Rightarrow>
          if me_revoked e then (Some (not_available (cr_ID ref)), m)
          else if me_scope e \<noteq> sc then (Some scope_mismatch, m)
          else (None, m(cr_ID ref \<mapsto> e\<lparr>me_material := repl\<rparr>)))"

definition mem_revoke :: "sec_env \<Rightarrow> scope \<Rightarrow> credential_ref \<Rightarrow> memory \<Rightarrow> go_error option \<times> memory" where
  "mem_revoke env sc ref m =
     (case m (cr_ID ref) of
        None \<Rightarrow> (None, m)
      | Some e \<Rightarrow>
          if me_scope e \<noteq> sc then (Some scope_mismatch, m)
          else (None, m(cr_ID ref \<mapsto> e\<lparr>me_material := no_material, me_revoked := True\<rparr>)))"

definition memory_ops :: "memory secret_ops" where
  "memory_ops = \<lparr>ss_Put = mem_put, ss_Open = mem_open, ss_Rotate = mem_rotate, ss_Revoke = mem_revoke\<rparr>"

text \<open>The credentials that can be opened.\<close>

definition mem_live :: "memory \<Rightarrow> string \<rightharpoonup> scope \<times> secret_material" where
  "mem_live m i =
     (case m i of None \<Rightarrow> None | Some e \<Rightarrow> if me_revoked e then None else Some (me_scope e, me_material e))"

subsection \<open>The in-memory store, on a heap of byte slices\<close>

type_synonym addr = nat

record hmaterial =
  hm_Type :: string
  hm_Addr :: addr

record hmem_entry =
  he_scope :: scope
  he_material :: hmaterial
  he_revoked :: bool

record hstate =
  heap :: "addr \<Rightarrow> string"
  next_addr :: addr
  hentries :: "string \<rightharpoonup> hmem_entry"

text \<open>Address 0 is the nil slice: it has no bytes and is never allocated.\<close>

definition nil_material :: hmaterial where
  "nil_material = \<lparr>hm_Type = [], hm_Addr = 0\<rparr>"

definition cloneMaterial :: "hmaterial \<Rightarrow> hstate \<Rightarrow> hmaterial \<times> hstate" where
  "cloneMaterial m s =
     (\<lparr>hm_Type = hm_Type m, hm_Addr = next_addr s\<rparr>,
      s\<lparr>heap := (heap s)(next_addr s := heap s (hm_Addr m)), next_addr := Suc (next_addr s)\<rparr>)"

definition hmem_put :: "sec_env \<Rightarrow> scope \<Rightarrow> hmaterial \<Rightarrow> hstate \<Rightarrow> (go_error + credential_ref) \<times> hstate" where
  "hmem_put env sc mat s =
     (case cloneMaterial mat s of (c, s1) \<Rightarrow>
        (Inr \<lparr>cr_ID = env_uuid env, cr_Type = hm_Type mat\<rparr>,
         s1\<lparr>hentries := (hentries s1)(env_uuid env \<mapsto> \<lparr>he_scope = sc, he_material = c, he_revoked = False\<rparr>)\<rparr>))"

definition hmem_open :: "sec_env \<Rightarrow> scope \<Rightarrow> credential_ref \<Rightarrow> purpose \<Rightarrow> hstate \<Rightarrow> (go_error + hmaterial) \<times> hstate" where
  "hmem_open env sc ref pur s =
     (case hentries s (cr_ID ref) of
        None \<Rightarrow> (Inl (not_available (cr_ID ref)), s)
      | Some e \<Rightarrow>
          if he_revoked e then (Inl (not_available (cr_ID ref)), s)
          else if he_scope e \<noteq> sc then (Inl scope_mismatch, s)
          else (case cloneMaterial (he_material e) s of (c, s1) \<Rightarrow> (Inr c, s1)))"

definition hmem_rotate :: "sec_env \<Rightarrow> scope \<Rightarrow> credential_ref \<Rightarrow> hmaterial \<Rightarrow> hstate \<Rightarrow> go_error option \<times> hstate" where
  "hmem_rotate env sc ref repl s =
     (case hentries s (cr_ID ref) of
        None \<Rightarrow> (Some (not_available (cr_ID ref)), s)
      | Some e \<Rightarrow>
          if he_revoked e then (Some (not_available (cr_ID ref)), s)
          else if he_scope e \<noteq> sc then (Some scope_mismatch, s)
          else (case cloneMaterial repl s of (c, s1) \<Rightarrow>
            (None, s1\<lparr>hentries := (hentries s1)(cr_ID ref \<mapsto> e\<lparr>he_material := c\<rparr>)\<rparr>)))"

definition hmem_revoke :: "sec_env \<Rightarrow> scope \<Rightarrow> credential_ref \<Rightarrow> hstate \<Rightarrow> go_error option \<times> hstate" where
  "hmem_revoke env sc ref s =
     (case hentries s (cr_ID ref) of
        None \<Rightarrow> (None, s)
      | Some e \<Rightarrow>
          if he_scope e \<noteq> sc then (Some scope_mismatch, s)
          else (None, s\<lparr>hentries := (hentries s)(cr_ID ref \<mapsto> e\<lparr>he_material := nil_material, he_revoked := True\<rparr>)\<rparr>))"

text \<open>Closing a handle overwrites its bytes with zeros, in place.\<close>

definition hclose :: "hmaterial \<Rightarrow> hstate \<Rightarrow> hstate" where
  "hclose m s = s\<lparr>heap := (heap s)(hm_Addr m := map (\<lambda>_. CHR 0x00) (heap s (hm_Addr m)))\<rparr>"

definition abs_material :: "hstate \<Rightarrow> hmaterial \<Rightarrow> secret_material" where
  "abs_material s m = \<lparr>sm_Type = hm_Type m, sm_Bytes = heap s (hm_Addr m)\<rparr>"

definition abs_memory :: "hstate \<Rightarrow> memory" where
  "abs_memory s i =
     map_option (\<lambda>e. \<lparr>me_scope = he_scope e, me_material = abs_material s (he_material e), me_revoked = he_revoked e\<rparr>)
       (hentries s i)"

text \<open>
  The invariant: the nil slice is empty, and every address an entry owns is allocated (or
  nil) and not among \<open>ext\<close>, the addresses that callers and handles hold.
\<close>

definition heap_inv :: "addr set \<Rightarrow> hstate \<Rightarrow> bool" where
  "heap_inv ext s \<longleftrightarrow> heap s 0 = [] \<and> 0 < next_addr s \<and> (\<forall>a \<in> ext. a < next_addr s)
     \<and> (\<forall>i e. hentries s i = Some e \<longrightarrow>
          hm_Addr (he_material e) < next_addr s \<and> (hm_Addr (he_material e) = 0 \<or> hm_Addr (he_material e) \<notin> ext))"

section \<open>The contract\<close>

locale secret_store =
  fixes ops :: "'s secret_ops"
    and live :: "'s \<Rightarrow> string \<rightharpoonup> scope \<times> secret_material"
    and id_ok :: "string \<Rightarrow> bool"
    and inv :: "'s \<Rightarrow> bool"
  assumes put_ok: "inv s \<Longrightarrow> id_ok (env_uuid env) \<Longrightarrow> ss_Put ops env sc mat s = (Inr ref, s') \<Longrightarrow>
      inv s' \<and> ref = \<lparr>cr_ID = env_uuid env, cr_Type = sm_Type mat\<rparr> \<and> live s' = (live s)(env_uuid env \<mapsto> (sc, mat))"
    and put_err: "inv s \<Longrightarrow> ss_Put ops env sc mat s = (Inl e, s') \<Longrightarrow> inv s' \<and> live s' = live s"
    and open_live: "inv s \<Longrightarrow> ss_Open ops env sc ref pur s = Inr mat \<Longrightarrow> live s (cr_ID ref) = Some (sc, mat)"
    and live_open: "inv s \<Longrightarrow> \<not> env_read_fails env \<Longrightarrow> live s (cr_ID ref) = Some (sc, mat) \<Longrightarrow>
      ss_Open ops env sc ref pur s = Inr mat"
    and rotate_ok: "inv s \<Longrightarrow> ss_Rotate ops env sc ref mat s = (None, s') \<Longrightarrow>
      inv s' \<and> (\<exists>old. live s (cr_ID ref) = Some (sc, old)) \<and> live s' = (live s)(cr_ID ref \<mapsto> (sc, mat))"
    and rotate_err: "inv s \<Longrightarrow> ss_Rotate ops env sc ref mat s = (Some e, s') \<Longrightarrow> inv s' \<and> live s' = live s"
    and revoke_ok: "inv s \<Longrightarrow> \<not> env_read_fails env \<Longrightarrow> ss_Revoke ops env sc ref s = (None, s') \<Longrightarrow>
      inv s' \<and> live s' = (live s)(cr_ID ref := None)"
    and revoke_any: "inv s \<Longrightarrow> ss_Revoke ops env sc ref s = (r, s') \<Longrightarrow>
      inv s' \<and> (live s' = live s \<or> live s' = (live s)(cr_ID ref := None))"
    and revoke_scope: "inv s \<Longrightarrow> live s (cr_ID ref) = Some (sc', mat) \<Longrightarrow> sc' \<noteq> sc \<Longrightarrow>
      ss_Revoke ops env sc ref s = (r, s') \<Longrightarrow> live s' = live s"
    and revoke_total: "inv s \<Longrightarrow> env_reliable env \<Longrightarrow> live s (cr_ID ref) = Some (sc, mat) \<Longrightarrow>
      \<exists>s'. ss_Revoke ops env sc ref s = (None, s')"
begin

text \<open>What was put can be opened in its own scope and in no other.\<close>

lemma open_put:
  assumes "inv s" "id_ok (env_uuid env)" "ss_Put ops env sc mat s = (Inr ref, s')" "\<not> env_read_fails env'"
  shows "ss_Open ops env' sc ref pur s' = Inr mat"
  using put_ok [OF assms(1-3)] assms(4) by (intro live_open) auto

lemma open_other_scope:
  assumes "inv s" "live s (cr_ID ref) = Some (sc, mat)" "sc' \<noteq> sc"
  shows "\<exists>e. ss_Open ops env sc' ref pur s = Inl e"
  using open_live [OF assms(1)] assms(2,3) by (cases "ss_Open ops env sc' ref pur s") force+

lemma open_revoked:
  assumes "inv s" "\<not> env_read_fails env" "ss_Revoke ops env sc ref s = (None, s')"
  shows "\<exists>e. ss_Open ops env' sc' ref pur s' = Inl e"
proof -
  have "inv s'" "live s' (cr_ID ref) = None" using revoke_ok [OF assms] by auto
  then show ?thesis
    using open_live [of s' env' sc' ref pur] by (cases "ss_Open ops env' sc' ref pur s'") auto
qed

text \<open>
  A credential that is not live stays so through every sequence of calls that does not
  put a new credential under its identifier: rotation cannot bring it back.
\<close>

lemma run_call_dead:
  assumes s: "inv s" "live s i = None" and c: "i \<notin> put_ids [c]" "\<forall>j \<in> put_ids [c]. id_ok j"
  shows "inv (run_call ops c s) \<and> live (run_call ops c s) i = None"
proof (cases c)
  case (CallPut env sc mat)
  obtain r s' where r: "ss_Put ops env sc mat s = (r, s')" by force
  show ?thesis
  proof (cases r)
    case (Inl e)
    then show ?thesis using put_err [OF s(1), of env sc mat e s'] r s(2) CallPut by simp
  next
    case (Inr ref)
    then show ?thesis using put_ok [OF s(1), of env sc mat ref s'] r s(2) c CallPut by simp
  qed
next
  case (CallRotate env sc ref mat)
  obtain r s' where r: "ss_Rotate ops env sc ref mat s = (r, s')" by force
  show ?thesis
  proof (cases r)
    case None
    then show ?thesis using rotate_ok [OF s(1), of env sc ref mat s'] r s(2) CallRotate by auto
  next
    case (Some e)
    then show ?thesis using rotate_err [OF s(1), of env sc ref mat e s'] r s(2) CallRotate by simp
  qed
next
  case (CallRevoke env sc ref)
  obtain r s' where r: "ss_Revoke ops env sc ref s = (r, s')" by force
  then show ?thesis using revoke_any [OF s(1) r] s(2) CallRevoke by auto
qed

lemma dead_stays_dead:
  assumes "inv s" "live s i = None" "i \<notin> put_ids cs" "\<forall>j \<in> put_ids cs. id_ok j"
  shows "inv (fold (run_call ops) cs s) \<and> live (fold (run_call ops) cs s) i = None"
  using assms
proof (induction cs arbitrary: s)
  case Nil
  then show ?case by simp
next
  case (Cons c cs)
  have "inv (run_call ops c s) \<and> live (run_call ops c s) i = None"
    by (rule run_call_dead) (use Cons.prems in \<open>cases c; simp\<close>)+
  moreover have "i \<notin> put_ids cs" "\<forall>j \<in> put_ids cs. id_ok j"
    using Cons.prems by (cases c; simp)+
  ultimately show ?case using Cons.IH by simp
qed

lemma open_revoked_forever:
  assumes "inv s" "\<not> env_read_fails env" "ss_Revoke ops env sc ref s = (None, s')"
    "cr_ID ref \<notin> put_ids cs" "\<forall>j \<in> put_ids cs. id_ok j"
  shows "\<exists>e. ss_Open ops env' sc' ref pur (fold (run_call ops) cs s') = Inl e"
proof -
  let ?t = "fold (run_call ops) cs s'"
  have "inv ?t \<and> live ?t (cr_ID ref) = None"
    using revoke_ok [OF assms(1-3)] assms(4,5) by (intro dead_stays_dead) auto
  then show ?thesis
    using open_live [of ?t env' sc' ref pur] by (cases "ss_Open ops env' sc' ref pur ?t") auto
qed

text \<open>Revoking one credential never touches another.\<close>

lemma revoke_other:
  assumes "inv s" "ss_Revoke ops env sc ref s = (r, s')" "i \<noteq> cr_ID ref"
  shows "live s' i = live s i"
  using revoke_any [OF assms(1,2)] assms(3) by auto

end

section \<open>The in-memory store satisfies the contract\<close>

lemma memory_ops_sel [simp]:
  "ss_Put memory_ops = mem_put" "ss_Open memory_ops = mem_open"
  "ss_Rotate memory_ops = mem_rotate" "ss_Revoke memory_ops = mem_revoke"
  by (simp_all add: memory_ops_def)

lemma mem_live_upd:
  "mem_live (m(i \<mapsto> e)) = (mem_live m)(i := if me_revoked e then None else Some (me_scope e, me_material e))"
  by (rule ext) (simp add: mem_live_def)

lemma mem_live_Some:
  "mem_live m i = Some (sc, mat) \<longleftrightarrow> (\<exists>e. m i = Some e \<and> \<not> me_revoked e \<and> me_scope e = sc \<and> me_material e = mat)"
  by (auto simp: mem_live_def split: option.splits)

lemma mem_live_None: "mem_live m i = None \<longleftrightarrow> (\<forall>e. m i = Some e \<longrightarrow> me_revoked e)"
  by (auto simp: mem_live_def split: option.splits)

lemma fun_upd_None_idem: "f i = None \<Longrightarrow> f(i := None) = f"
  by (simp add: fun_upd_idem)

lemmas mem_rules = mem_put_def mem_open_def mem_rotate_def mem_revoke_def mem_live_upd mem_live_Some

interpretation mem: secret_store memory_ops mem_live "\<lambda>_. True" "\<lambda>_. True"
proof (unfold_locales, goal_cases)
  case (7 s env sc ref s')
  then show ?case
    by (auto simp: mem_rules mem_live_None fun_upd_None_idem split: option.splits if_splits)
next
  case (8 s env sc ref r s')
  then show ?case by (auto simp: mem_rules split: option.splits if_splits)
qed (auto simp: mem_rules split: option.splits if_splits)

section \<open>The heap model refines the value model\<close>

lemma heap_inv_entry:
  "heap_inv ext s \<Longrightarrow> hentries s i = Some e \<Longrightarrow>
     hm_Addr (he_material e) < next_addr s \<and> (hm_Addr (he_material e) = 0 \<or> hm_Addr (he_material e) \<notin> ext)"
  by (simp add: heap_inv_def)

lemma abs_memory_cong:
  assumes "hentries t = hentries s"
    and "\<And>i e. hentries s i = Some e \<Longrightarrow> heap t (hm_Addr (he_material e)) = heap s (hm_Addr (he_material e))"
  shows "abs_memory t = abs_memory s"
  using assms by (auto simp: abs_memory_def abs_material_def fun_eq_iff intro!: option.map_cong)

lemma abs_memory_upd:
  "abs_memory (s\<lparr>hentries := (hentries s)(i \<mapsto> e)\<rparr>) =
     (abs_memory s)(i \<mapsto> \<lparr>me_scope = he_scope e, me_material = abs_material s (he_material e), me_revoked = he_revoked e\<rparr>)"
  by (rule ext) (simp add: abs_memory_def abs_material_def)

lemma hclose_refines:
  assumes "heap_inv ext s" "hm_Addr m \<in> ext"
  shows "abs_memory (hclose m s) = abs_memory s" "heap_inv ext (hclose m s)"
proof -
  have "heap (hclose m s) (hm_Addr (he_material e)) = heap s (hm_Addr (he_material e))"
    if "hentries s i = Some e" for i e
    using heap_inv_entry [OF assms(1) that] assms by (auto simp: hclose_def heap_inv_def)
  then show "abs_memory (hclose m s) = abs_memory s"
    by (intro abs_memory_cong) (auto simp: hclose_def)
  show "heap_inv ext (hclose m s)"
    using assms by (auto simp: heap_inv_def hclose_def)
qed

lemma cloneMaterial_refines:
  assumes "heap_inv ext s" "cloneMaterial m s = (c, s')" 
  shows "abs_memory s' = abs_memory s" "abs_material s' c = abs_material s m" "hentries s' = hentries s"
    "hm_Addr c = next_addr s" "next_addr s' = Suc (next_addr s)" "heap_inv ext s'"
    "heap_inv (insert (hm_Addr c) ext) s'"
proof -
  have e: "heap s' (hm_Addr (he_material e)) = heap s (hm_Addr (he_material e))"
    if "hentries s i = Some e" for i e
    using heap_inv_entry [OF assms(1) that] assms(2) by (auto simp: cloneMaterial_def)
  show "abs_memory s' = abs_memory s"
    using assms(2) e by (intro abs_memory_cong) (auto simp: cloneMaterial_def)
  show "abs_material s' c = abs_material s m" "hentries s' = hentries s"
    "hm_Addr c = next_addr s" "next_addr s' = Suc (next_addr s)"
    using assms(2) by (auto simp: cloneMaterial_def abs_material_def)
  show "heap_inv ext s'" "heap_inv (insert (hm_Addr c) ext) s'"
    using assms heap_inv_entry [OF assms(1)]
    by (fastforce simp: heap_inv_def cloneMaterial_def intro: less_SucI)+
qed

lemma heap_inv_upd:
  assumes "heap_inv ext s" "hm_Addr (he_material e) < next_addr s"
    "hm_Addr (he_material e) = 0 \<or> hm_Addr (he_material e) \<notin> ext"
  shows "heap_inv ext (s\<lparr>hentries := (hentries s)(i \<mapsto> e)\<rparr>)"
  using assms by (auto simp: heap_inv_def)

lemma next_addr_not_ext: "heap_inv ext s \<Longrightarrow> next_addr s \<notin> ext"
  by (auto simp: heap_inv_def)

lemma abs_memory_lookup: "abs_memory s i = None \<longleftrightarrow> hentries s i = None"
  by (simp add: abs_memory_def)

lemma hmem_put_refines:
  assumes inv: "heap_inv ext s" and put: "hmem_put env sc m s = (r, s')"
  shows "mem_put env sc (abs_material s m) (abs_memory s) = (r, abs_memory s')" "heap_inv ext s'"
proof -
  obtain c s1 where c: "cloneMaterial m s = (c, s1)" by force
  note C = cloneMaterial_refines [OF inv c]
  have s': "s' = s1\<lparr>hentries := (hentries s1)(env_uuid env \<mapsto> \<lparr>he_scope = sc, he_material = c, he_revoked = False\<rparr>)\<rparr>"
    and r: "r = Inr \<lparr>cr_ID = env_uuid env, cr_Type = hm_Type m\<rparr>"
    using put by (auto simp: hmem_put_def c)
  show "mem_put env sc (abs_material s m) (abs_memory s) = (r, abs_memory s')"
    unfolding s' r abs_memory_upd using C(1,2) by (simp add: mem_put_def abs_material_def)
  show "heap_inv ext s'"
    unfolding s' using C next_addr_not_ext [OF inv] by (intro heap_inv_upd) auto
qed

lemma hmem_open_refines:
  assumes inv: "heap_inv ext s" and opn: "hmem_open env sc ref pur s = (r, s')"
  shows "mem_open env sc ref pur (abs_memory s) = map_sum id (abs_material s') r" "abs_memory s' = abs_memory s"
    "heap_inv ext s'" "r = Inr m \<Longrightarrow> heap_inv (insert (hm_Addr m) ext) s'"
proof -
  have "mem_open env sc ref pur (abs_memory s) = map_sum id (abs_material s') r \<and> abs_memory s' = abs_memory s
    \<and> heap_inv ext s' \<and> (\<forall>m. r = Inr m \<longrightarrow> heap_inv (insert (hm_Addr m) ext) s')"
    using opn inv
    by (auto simp: hmem_open_def mem_open_def abs_memory_def [of s "cr_ID ref"]
        split: option.splits if_splits prod.splits dest: cloneMaterial_refines)
  then show "mem_open env sc ref pur (abs_memory s) = map_sum id (abs_material s') r" "abs_memory s' = abs_memory s"
    "heap_inv ext s'" "r = Inr m \<Longrightarrow> heap_inv (insert (hm_Addr m) ext) s'" by auto
qed

lemma hmem_open_value:
  assumes "heap_inv ext s" "mem_open env sc ref pur (abs_memory s) = Inr mat"
  shows "\<exists>h s'. hmem_open env sc ref pur s = (Inr h, s') \<and> heap s' (hm_Addr h) = sm_Bytes mat"
proof -
  obtain r s' where r: "hmem_open env sc ref pur s = (r, s')" by force
  then have "map_sum id (abs_material s') r = Inr mat"
    using hmem_open_refines(1) [OF assms(1) r] assms(2) by simp
  then show ?thesis using r by (cases r) (auto simp: abs_material_def)
qed

lemma hmem_revoke_refines:
  assumes inv: "heap_inv ext s" and rev: "hmem_revoke env sc ref s = (r, s')"
  shows "mem_revoke env sc ref (abs_memory s) = (r, abs_memory s')" "heap_inv ext s'"
proof -
  have nil: "abs_material s nil_material = no_material" "hm_Addr nil_material = 0" "0 < next_addr s"
    using inv by (simp_all add: abs_material_def nil_material_def no_material_def heap_inv_def)
  show "mem_revoke env sc ref (abs_memory s) = (r, abs_memory s')"
    using rev nil by (auto simp: hmem_revoke_def mem_revoke_def abs_memory_def [of s "cr_ID ref"] abs_memory_upd
        split: option.splits if_splits)
  show "heap_inv ext s'"
    using rev inv nil by (auto simp: hmem_revoke_def intro!: heap_inv_upd split: option.splits if_splits)
qed

lemma hmem_rotate_refines:
  assumes inv: "heap_inv ext s" and rot: "hmem_rotate env sc ref m s = (r, s')"
  shows "mem_rotate env sc ref (abs_material s m) (abs_memory s) = (r, abs_memory s')" "heap_inv ext s'"
proof -
  obtain c s1 where c: "cloneMaterial m s = (c, s1)" by force
  note C = cloneMaterial_refines [OF inv c]
  show "mem_rotate env sc ref (abs_material s m) (abs_memory s) = (r, abs_memory s')"
    using rot C(1,2) abs_memory_upd [of s1, unfolded C(3)]
    by (auto simp: hmem_rotate_def mem_rotate_def c C(3) abs_memory_def [of s "cr_ID ref"]
        split: option.splits if_splits)
  show "heap_inv ext s'"
    using rot inv C(3-6) next_addr_not_ext [OF inv]
    by (auto simp: hmem_rotate_def c intro!: heap_inv_upd [of ext s1, unfolded C(3)]
        split: option.splits if_splits)
qed

section \<open>Properties\<close>

text \<open>
  The in-memory store keeps credentials apart by scope and never revives one. Material
  that was put opens in its own scope with exactly those bytes and in no other scope; once
  revoked, it never opens again, whatever calls follow that do not reuse its identifier.
\<close>

theorem memory_store_safe:
  assumes put: "mem_put env sc mat m = (Inr ref, m1)" and rev: "mem_revoke er sc ref m1 = (None, m2)"
    and ids: "cr_ID ref \<notin> put_ids cs" and io: "\<not> env_read_fails eo" "\<not> env_read_fails er"
  shows "mem_open eo sc ref pur m1 = Inr mat
    \<and> (sc' \<noteq> sc \<longrightarrow> (\<exists>e. mem_open en sc' ref pur m1 = Inl e))
    \<and> (\<exists>e. mem_open en sc'' ref pur (fold (run_call memory_ops) cs m2) = Inl e)"
proof (intro conjI impI)
  have put': "ss_Put memory_ops env sc mat m = (Inr ref, m1)" using put by simp
  have rev': "ss_Revoke memory_ops er sc ref m1 = (None, m2)" using rev by simp
  have live: "mem_live m1 (cr_ID ref) = Some (sc, mat)"
    using mem.put_ok [OF _ _ put'] by auto
  show "mem_open eo sc ref pur m1 = Inr mat"
    using mem.open_put [OF TrueI TrueI put' io(1)] by simp
  show "\<exists>e. mem_open en sc' ref pur m1 = Inl e" if "sc' \<noteq> sc"
    using mem.open_other_scope [OF TrueI live that] by simp
  show "\<exists>e. mem_open en sc'' ref pur (fold (run_call memory_ops) cs m2) = Inl e"
    using mem.open_revoked_forever [OF TrueI io(2) rev' ids] by simp
qed


definition demo_env :: "string \<Rightarrow> sec_env" where
  "demo_env i = \<lparr>env_uuid = i, env_nonce = [], env_rand_fails = False, env_read_fails = False, env_write_fails = None\<rparr>"

definition demo_scope :: "string \<Rightarrow> scope" where
  "demo_scope p = \<lparr>sc_Workspace = [], sc_SiteID = ''main'', sc_Provider = p\<rparr>"

definition demo_material :: secret_material where
  "demo_material = \<lparr>sm_Type = ''api_key'', sm_Bytes = ''key''\<rparr>"

theorem memory_store_safe_witness:
  "\<exists>m1 m2. mem_put (demo_env ''u1'') (demo_scope ''bing'') demo_material NewMemory = (Inr \<lparr>cr_ID = ''u1'', cr_Type = ''api_key''\<rparr>, m1)
    \<and> mem_revoke (demo_env ''x'') (demo_scope ''bing'') \<lparr>cr_ID = ''u1'', cr_Type = ''api_key''\<rparr> m1 = (None, m2)
    \<and> (\<exists>e. mem_open (demo_env ''x'') (demo_scope ''bing'') \<lparr>cr_ID = ''u1'', cr_Type = ''api_key''\<rparr> PurposeTest
         (fold (run_call memory_ops) [CallPut (demo_env ''u2'') (demo_scope ''bing'') demo_material,
            CallRotate (demo_env ''x'') (demo_scope ''bing'') \<lparr>cr_ID = ''u1'', cr_Type = ''api_key''\<rparr> demo_material] m2) = Inl e)"
proof -
  let ?ref = "\<lparr>cr_ID = ''u1'', cr_Type = ''api_key''\<rparr>"
  obtain m1 where m1: "mem_put (demo_env ''u1'') (demo_scope ''bing'') demo_material NewMemory = (Inr ?ref, m1)"
    by (simp add: mem_put_def demo_env_def demo_material_def)
  obtain m2 where m2: "mem_revoke (demo_env ''x'') (demo_scope ''bing'') ?ref m1 = (None, m2)"
    using m1 by (auto simp: mem_put_def mem_revoke_def demo_env_def)
  show ?thesis
    using m1 m2 memory_store_safe [OF m1 m2, where cs = "[CallPut (demo_env ''u2'') (demo_scope ''bing'') demo_material,
            CallRotate (demo_env ''x'') (demo_scope ''bing'') ?ref demo_material]"
        and eo = "demo_env ''x''" and en = "demo_env ''x''" and sc'' = "demo_scope ''bing''" and sc' = "demo_scope ''ga4''" and pur = PurposeTest]
    by (simp add: demo_env_def)
qed

definition demo_heap :: hstate where
  "demo_heap = \<lparr>heap = (\<lambda>_. [])(1 := ''key''), next_addr = 2, hentries = Map.empty\<rparr>"


end
