(* ===== verification/FileStore.thy ===== *)
theory FileStore
  imports Secrets
begin

text \<open>
  The encrypted file store (\<^verbatim>\<open>internal/secrets/file.go\<close>).

  The directory is a map from paths to contents, together with the temporary file of the
  write in progress. A content is either the JSON text of a payload (represented by the
  payload) or something \<^verbatim>\<open>json.Unmarshal\<close> rejects. The AES-GCM primitives and \<^verbatim>\<open>uuid.Parse\<close> are
  parameters (the record \<open>crypto\<close>); what the store relies on is \<open>aead_correct\<close>: opening what was
  sealed with the same key, nonce and associated data gives the plaintext back.
\<close>

section \<open>Definitions\<close>

record crypto =
  aead_Seal :: "string \<Rightarrow> string \<Rightarrow> string \<Rightarrow> string \<Rightarrow> string"
  aead_Open :: "string \<Rightarrow> string \<Rightarrow> string \<Rightarrow> string \<Rightarrow> string option"
  uuid_Parse :: "string \<Rightarrow> bool"

definition aead_correct :: "crypto \<Rightarrow> bool" where
  "aead_correct cx \<longleftrightarrow> (\<forall>key nonce plain aad.
     aead_Open cx key nonce (aead_Seal cx key nonce plain aad) aad = Some plain)"

definition aead_authentic :: "crypto \<Rightarrow> bool" where
  "aead_authentic cx \<longleftrightarrow> (\<forall>key nonce plain aad aad'. aad' \<noteq> aad \<longrightarrow>
     aead_Open cx key nonce (aead_Seal cx key nonce plain aad) aad' = None)"

record file_store =
  f_dir :: string
  f_key :: string

record file_payload =
  fp_Scope :: scope
  fp_Type :: string
  fp_Nonce :: string
  fp_Ciphered :: string
  fp_Revoked :: bool

datatype content = PayloadFile file_payload | CorruptFile

record fstate =
  files :: "string \<rightharpoonup> content"
  temp_file :: "content option"

subsection \<open>The master key\<close>

definition hex_val :: "char \<Rightarrow> nat option" where
  "hex_val c =
     (let n = (of_char c :: nat) in
      if 48 \<le> n \<and> n \<le> 57 then Some (n - 48)
      else if 97 \<le> n \<and> n \<le> 102 then Some (n - 87)
      else if 65 \<le> n \<and> n \<le> 70 then Some (n - 55)
      else None)"

fun hex_decode :: "string \<Rightarrow> string option" where
  "hex_decode [] = Some []"
| "hex_decode [c] = None"
| "hex_decode (a # b # cs) =
     (case (hex_val a, hex_val b, hex_decode cs) of
        (Some x, Some y, Some rest) \<Rightarrow> Some (char_of (16 * x + y) # rest)
      | _ \<Rightarrow> None)"

datatype dir_fault = MkdirFails | ChmodDirFails

definition NewFile :: "dir_fault option \<Rightarrow> string \<Rightarrow> string \<Rightarrow> go_error + file_store" where
  "NewFile fault dir masterKeyHex =
     (case hex_decode (trim_space masterKeyHex) of
        None \<Rightarrow> Inl (Msg ''secret store master key must be 64 hex characters'')
      | Some key \<Rightarrow>
          if length key \<noteq> 32 then Inl (Msg ''secret store master key must be 64 hex characters'')
          else (case fault of
              Some MkdirFails \<Rightarrow> Inl (Wrapped ''create secret store dir'' (Msg ''mkdir''))
            | Some ChmodDirFails \<Rightarrow> Inl (Wrapped ''secure secret store dir'' (Msg ''chmod''))
            | None \<Rightarrow> Inr \<lparr>f_dir = dir, f_key = key\<rparr>))"

subsection \<open>Payloads\<close>

definition path :: "file_store \<Rightarrow> string \<Rightarrow> string" where
  "path f i = f_dir f @ ''/'' @ i @ ''.secret''"

definition scope_aad :: "scope \<Rightarrow> string" where
  "scope_aad sc = sc_Workspace sc @ ''|'' @ sc_SiteID sc @ ''|'' @ sc_Provider sc"

definition seal :: "crypto \<Rightarrow> file_store \<Rightarrow> sec_env \<Rightarrow> scope \<Rightarrow> secret_material \<Rightarrow> bool \<Rightarrow> go_error + file_payload" where
  "seal cx f env sc mat revoked =
     (if env_rand_fails env then Inl (Msg ''rand'')
      else Inr \<lparr>fp_Scope = sc, fp_Type = sm_Type mat, fp_Nonce = env_nonce env,
                fp_Ciphered = aead_Seal cx (f_key f) (env_nonce env) (sm_Bytes mat) (scope_aad sc),
                fp_Revoked = revoked\<rparr>)"

definition load :: "crypto \<Rightarrow> file_store \<Rightarrow> sec_env \<Rightarrow> string \<Rightarrow> fstate \<Rightarrow> go_error + file_payload" where
  "load cx f env i s =
     (if \<not> uuid_Parse cx i then Inl (Msg ''invalid credential ref'')
      else if env_read_fails env then Inl (not_available i)
      else (case files s (path f i) of
          None \<Rightarrow> Inl (not_available i)
        | Some CorruptFile \<Rightarrow> Inl (Msg (''credential '' @ i @ '' is corrupt''))
        | Some (PayloadFile p) \<Rightarrow> Inr p))"

definition open_payload :: "crypto \<Rightarrow> file_store \<Rightarrow> file_payload \<Rightarrow> go_error + secret_material" where
  "open_payload cx f p =
     (case aead_Open cx (f_key f) (fp_Nonce p) (fp_Ciphered p) (scope_aad (fp_Scope p)) of
        None \<Rightarrow> Inl (Msg ''credential cannot be decrypted'')
      | Some plain \<Rightarrow> Inr \<lparr>sm_Type = fp_Type p, sm_Bytes = plain\<rparr>)"

subsection \<open>Atomic writes\<close>

text \<open>
  One step of \<^verbatim>\<open>File.write\<close> on the directory. The temporary file is empty when created and holds
  the data once written; a rename replaces the target. \<open>write_trace\<close> lists the directory after
  every step up to the failing one: the states a crash can leave behind. The deferred
  \<^verbatim>\<open>os.Remove\<close> clears the temporary file on every return.
\<close>

fun write_apply :: "string \<Rightarrow> content \<Rightarrow> write_step \<Rightarrow> fstate \<Rightarrow> fstate" where
  "write_apply p data CreateTemp s = s\<lparr>temp_file := Some CorruptFile\<rparr>"
| "write_apply p data WriteTemp s = s\<lparr>temp_file := Some data\<rparr>"
| "write_apply p data RenameTemp s =
     s\<lparr>files := (case temp_file s of None \<Rightarrow> files s | Some c \<Rightarrow> (files s)(p \<mapsto> c)), temp_file := None\<rparr>"
| "write_apply p data _ s = s"

definition write_steps :: "write_step list" where
  "write_steps = [CreateTemp, ChmodTemp, WriteTemp, SyncTemp, CloseTemp, RenameTemp]"

fun write_trace :: "string \<Rightarrow> content \<Rightarrow> write_step option \<Rightarrow> write_step list \<Rightarrow> fstate \<Rightarrow> fstate list" where
  "write_trace p data fault [] s = []"
| "write_trace p data fault (w # ws) s =
     (if fault = Some w then [] else
      let s' = write_apply p data w s in s' # write_trace p data fault ws s')"

definition write_fails_at :: "write_step option \<Rightarrow> go_error option" where
  "write_fails_at fault = (case fault of None \<Rightarrow> None | Some _ \<Rightarrow> Some (Msg ''write''))"

definition write_file :: "file_store \<Rightarrow> sec_env \<Rightarrow> string \<Rightarrow> file_payload \<Rightarrow> fstate \<Rightarrow> go_error option \<times> fstate" where
  "write_file f env i payload s =
     (let states = write_trace (path f i) (PayloadFile payload) (env_write_fails env) write_steps s
      in (write_fails_at (env_write_fails env), (last (s # states))\<lparr>temp_file := None\<rparr>))"

subsection \<open>Operations\<close>

definition file_put :: "crypto \<Rightarrow> file_store \<Rightarrow> sec_env \<Rightarrow> scope \<Rightarrow> secret_material \<Rightarrow> fstate \<Rightarrow> (go_error + credential_ref) \<times> fstate" where
  "file_put cx f env sc mat s =
     (case seal cx f env sc mat False of
        Inl e \<Rightarrow> (Inl e, s)
      | Inr data \<Rightarrow>
          (case write_file f env (env_uuid env) data s of
             (Some e, s1) \<Rightarrow> (Inl e, s1)
           | (None, s1) \<Rightarrow> (Inr \<lparr>cr_ID = env_uuid env, cr_Type = sm_Type mat\<rparr>, s1)))"

definition is_revoked :: "string \<Rightarrow> go_error" where
  "is_revoked i = Msg (''credential '' @ i @ '' is revoked'')"

definition file_open :: "crypto \<Rightarrow> file_store \<Rightarrow> sec_env \<Rightarrow> scope \<Rightarrow> credential_ref \<Rightarrow> purpose \<Rightarrow> fstate \<Rightarrow> go_error + secret_material" where
  "file_open cx f env sc ref pur s =
     (case load cx f env (cr_ID ref) s of
        Inl e \<Rightarrow> Inl e
      | Inr p \<Rightarrow>
          if fp_Revoked p then Inl (is_revoked (cr_ID ref))
          else if fp_Scope p \<noteq> sc then Inl scope_mismatch
          else open_payload cx f p)"

definition file_rotate :: "crypto \<Rightarrow> file_store \<Rightarrow> sec_env \<Rightarrow> scope \<Rightarrow> credential_ref \<Rightarrow> secret_material \<Rightarrow> fstate \<Rightarrow> go_error option \<times> fstate" where
  "file_rotate cx f env sc ref repl s =
     (case load cx f env (cr_ID ref) s of
        Inl e \<Rightarrow> (Some e, s)
      | Inr p \<Rightarrow>
          if fp_Revoked p then (Some (is_revoked (cr_ID ref)), s)
          else if fp_Scope p \<noteq> sc then (Some scope_mismatch, s)
          else (case seal cx f env (fp_Scope p) repl False of
              Inl e \<Rightarrow> (Some e, s)
            | Inr data \<Rightarrow> write_file f env (cr_ID ref) data s))"

definition file_revoke :: "crypto \<Rightarrow> file_store \<Rightarrow> sec_env \<Rightarrow> scope \<Rightarrow> credential_ref \<Rightarrow> fstate \<Rightarrow> go_error option \<times> fstate" where
  "file_revoke cx f env sc ref s =
     (case load cx f env (cr_ID ref) s of
        Inl e \<Rightarrow> (None, s)
      | Inr p \<Rightarrow>
          if fp_Scope p \<noteq> sc then (Some scope_mismatch, s)
          else (case seal cx f env (fp_Scope p) \<lparr>sm_Type = fp_Type p, sm_Bytes = []\<rparr> True of
              Inl e \<Rightarrow> (Some e, s)
            | Inr data \<Rightarrow> write_file f env (cr_ID ref) data s))"

definition file_ops :: "crypto \<Rightarrow> file_store \<Rightarrow> fstate secret_ops" where
  "file_ops cx f = \<lparr>ss_Put = file_put cx f, ss_Open = file_open cx f, ss_Rotate = file_rotate cx f, ss_Revoke = file_revoke cx f\<rparr>"

text \<open>The credentials that can be opened.\<close>

definition file_live :: "crypto \<Rightarrow> file_store \<Rightarrow> fstate \<Rightarrow> string \<rightharpoonup> scope \<times> secret_material" where
  "file_live cx f s i =
     (if \<not> uuid_Parse cx i then None else
      case files s (path f i) of
        Some (PayloadFile p) \<Rightarrow>
          if fp_Revoked p then None
          else (case open_payload cx f p of Inl _ \<Rightarrow> None | Inr mat \<Rightarrow> Some (fp_Scope p, mat))
      | _ \<Rightarrow> None)"

text \<open>No file of the store was tampered with: every payload that is not a tombstone decrypts.\<close>

definition file_inv :: "crypto \<Rightarrow> file_store \<Rightarrow> fstate \<Rightarrow> bool" where
  "file_inv cx f s \<longleftrightarrow> (\<forall>i p. files s (path f i) = Some (PayloadFile p) \<longrightarrow> \<not> fp_Revoked p \<longrightarrow>
     (\<exists>mat. open_payload cx f p = Inr mat))"

section \<open>Lemmas\<close>

lemma file_ops_sel [simp]:
  "ss_Put (file_ops cx f) = file_put cx f" "ss_Open (file_ops cx f) = file_open cx f"
  "ss_Rotate (file_ops cx f) = file_rotate cx f" "ss_Revoke (file_ops cx f) = file_revoke cx f"
  by (simp_all add: file_ops_def)

lemma path_inject [simp]: "path f i = path f j \<longleftrightarrow> i = j"
  by (simp add: path_def)

lemma hex_decode_length: "hex_decode s = Some key \<Longrightarrow> length s = 2 * length key"
  by (induction s arbitrary: key rule: hex_decode.induct) (auto split: option.splits)

lemma NewFile_ok:
  "NewFile fault dir hex = Inr f \<longleftrightarrow>
     fault = None \<and> f_dir f = dir \<and> hex_decode (trim_space hex) = Some (f_key f) \<and> length (trim_space hex) = 64"
  by (auto simp: NewFile_def hex_decode_length split: option.splits dir_fault.splits)

text \<open>A write that fails leaves the files as they were; a write that succeeds replaces one of them.\<close>

lemma write_file_result:
  assumes "write_file f env i p s = (r, s')"
  shows "r = None \<Longrightarrow> env_write_fails env = None \<and> files s' = (files s)(path f i \<mapsto> PayloadFile p)"
    and "r = Some e \<Longrightarrow> files s' = files s"
    and "temp_file s' = None"
proof -
  show "temp_file s' = None" using assms by (auto simp: write_file_def Let_def)
  show "r = None \<Longrightarrow> env_write_fails env = None \<and> files s' = (files s)(path f i \<mapsto> PayloadFile p)"
    using assms by (cases "env_write_fails env") (auto simp: write_file_def write_fails_at_def Let_def write_steps_def)
  show "files s' = files s" if "r = Some e"
  proof (cases "env_write_fails env")
    case None
    then show ?thesis using assms that by (simp add: write_file_def write_fails_at_def Let_def)
  next
    case (Some w)
    then show ?thesis using assms by (cases w) (auto simp: write_file_def Let_def write_steps_def)
  qed
qed

lemma write_file_live:
  assumes "write_file f env i p s = (r, s')"
  shows "r = Some e \<Longrightarrow> file_live cx f s' = file_live cx f s"
    and "r = None \<Longrightarrow> uuid_Parse cx i \<Longrightarrow> file_live cx f s' = (file_live cx f s)(i :=
      (if fp_Revoked p then None else case open_payload cx f p of Inl _ \<Rightarrow> None | Inr mat \<Rightarrow> Some (fp_Scope p, mat)))"
  using write_file_result [OF assms] by (auto simp: file_live_def fun_eq_iff)

lemma open_seal:
  assumes "aead_correct cx" "seal cx f env sc mat rv = Inr p"
  shows "open_payload cx f p = Inr mat" "fp_Scope p = sc" "fp_Revoked p = rv"
  using assms by (auto simp: aead_correct_def seal_def open_payload_def split: if_splits)

lemma load_live:
  assumes "load cx f env i s = Inr p"
  shows "uuid_Parse cx i" "file_live cx f s i =
    (if fp_Revoked p then None else case open_payload cx f p of Inl _ \<Rightarrow> None | Inr mat \<Rightarrow> Some (fp_Scope p, mat))"
  using assms by (auto simp: load_def file_live_def split: if_splits option.splits content.splits)

lemma load_error:
  assumes "load cx f env i s = Inl e" "\<not> env_read_fails env"
  shows "file_live cx f s i = None"
  using assms by (auto simp: load_def file_live_def split: if_splits option.splits content.splits)

lemma live_load:
  assumes "file_live cx f s i = Some (sc, mat)" "\<not> env_read_fails env"
  shows "\<exists>p. load cx f env i s = Inr p \<and> \<not> fp_Revoked p \<and> fp_Scope p = sc \<and> open_payload cx f p = Inr mat"
  using assms by (auto simp: load_def file_live_def split: if_splits option.splits content.splits sum.splits)

lemma write_file_inv:
  assumes "write_file f env i p s = (r, s')" "file_inv cx f s" "fp_Revoked p \<or> open_payload cx f p = Inr mat"
  shows "file_inv cx f s'"
  using write_file_result [OF assms(1)] assms(2,3) by (cases r) (auto simp: file_inv_def)

lemma load_inv:
  assumes "load cx f env i s = Inr p" "file_inv cx f s" "\<not> fp_Revoked p"
  shows "\<exists>mat. open_payload cx f p = Inr mat"
  using assms by (auto simp: load_def file_inv_def split: if_splits option.splits content.splits)

section \<open>The file store satisfies the contract\<close>

lemma file_put_ok:
  assumes cx: "aead_correct cx" and inv: "file_inv cx f s" and i: "uuid_Parse cx (env_uuid env)"
    and put: "file_put cx f env sc mat s = (Inr ref, s')"
  shows "file_inv cx f s' \<and> ref = \<lparr>cr_ID = env_uuid env, cr_Type = sm_Type mat\<rparr>
    \<and> file_live cx f s' = (file_live cx f s)(env_uuid env \<mapsto> (sc, mat))"
proof -
  obtain p where p: "seal cx f env sc mat False = Inr p" and w: "write_file f env (env_uuid env) p s = (None, s')"
    and r: "ref = \<lparr>cr_ID = env_uuid env, cr_Type = sm_Type mat\<rparr>"
    using put by (auto simp: file_put_def split: sum.splits prod.splits option.splits)
  note S = open_seal [OF cx p]
  show ?thesis
    using write_file_inv [OF w inv] write_file_live(2) [OF w refl i] S r by simp
qed

lemma file_put_err:
  assumes "aead_correct cx" "file_inv cx f s" "file_put cx f env sc mat s = (Inl e, s')"
  shows "file_inv cx f s' \<and> file_live cx f s' = file_live cx f s"
  using assms
  by (auto simp: file_put_def write_file_live(1) write_file_inv open_seal split: sum.splits prod.splits option.splits)

lemma file_rotate_ok:
  assumes cx: "aead_correct cx" and inv: "file_inv cx f s" and rot: "file_rotate cx f env sc ref mat s = (None, s')"
  shows "file_inv cx f s' \<and> (\<exists>old. file_live cx f s (cr_ID ref) = Some (sc, old))
    \<and> file_live cx f s' = (file_live cx f s)(cr_ID ref \<mapsto> (sc, mat))"
proof -
  obtain q p where q: "load cx f env (cr_ID ref) s = Inr q" "\<not> fp_Revoked q" "fp_Scope q = sc"
    and p: "seal cx f env sc mat False = Inr p" and w: "write_file f env (cr_ID ref) p s = (None, s')"
    using rot by (auto simp: file_rotate_def split: sum.splits if_splits)
  note S = open_seal [OF cx p] and L = load_live [OF q(1)]
  show ?thesis
    using write_file_inv [OF w inv] write_file_live(2) [OF w refl L(1)] load_inv [OF q(1) inv q(2)] S L(2) q(2,3)
    by auto
qed

lemma file_rotate_err:
  assumes "aead_correct cx" "file_inv cx f s" "file_rotate cx f env sc ref mat s = (Some e, s')"
  shows "file_inv cx f s' \<and> file_live cx f s' = file_live cx f s"
  using assms
  by (auto simp: file_rotate_def write_file_live(1) write_file_inv open_seal split: sum.splits if_splits)

lemma file_revoke_cases:
  assumes cx: "aead_correct cx" and inv: "file_inv cx f s" and rev: "file_revoke cx f env sc ref s = (r, s')"
  shows "file_inv cx f s' \<and> (file_live cx f s' = file_live cx f s
      \<or> file_live cx f s' = (file_live cx f s)(cr_ID ref := None) \<and> (\<exists>p. load cx f env (cr_ID ref) s = Inr p \<and> fp_Scope p = sc))"
    and "r = None \<Longrightarrow> \<not> env_read_fails env \<Longrightarrow> file_live cx f s' = (file_live cx f s)(cr_ID ref := None)"
proof -
  have "file_inv cx f s' \<and> (file_live cx f s' = file_live cx f s
      \<or> file_live cx f s' = (file_live cx f s)(cr_ID ref := None) \<and> (\<exists>p. load cx f env (cr_ID ref) s = Inr p \<and> fp_Scope p = sc))
    \<and> (r = None \<longrightarrow> \<not> env_read_fails env \<longrightarrow> file_live cx f s' = (file_live cx f s)(cr_ID ref := None))"
  proof (cases "load cx f env (cr_ID ref) s")
    case (Inl e)
    then show ?thesis using rev inv load_error [OF Inl] by (auto simp: file_revoke_def fun_upd_None_idem)
  next
    case (Inr q)
    show ?thesis
    proof (cases "fp_Scope q = sc")
      case False
      then show ?thesis using rev inv Inr by (auto simp: file_revoke_def)
    next
      case True
      show ?thesis
      proof (cases "seal cx f env sc \<lparr>sm_Type = fp_Type q, sm_Bytes = []\<rparr> True")
        case (Inl e)
        then show ?thesis using rev inv Inr True by (auto simp: file_revoke_def)
      next
        case p: (Inr p)
        then have w: "write_file f env (cr_ID ref) p s = (r, s')" using rev Inr True by (simp add: file_revoke_def)
        show ?thesis
          using write_file_inv [OF w inv] write_file_live [OF w] load_live(1) [OF Inr] open_seal [OF cx p] Inr True
          by (cases r) auto
      qed
    qed
  qed
  then show "file_inv cx f s' \<and> (file_live cx f s' = file_live cx f s
      \<or> file_live cx f s' = (file_live cx f s)(cr_ID ref := None) \<and> (\<exists>p. load cx f env (cr_ID ref) s = Inr p \<and> fp_Scope p = sc))"
    and "r = None \<Longrightarrow> \<not> env_read_fails env \<Longrightarrow> file_live cx f s' = (file_live cx f s)(cr_ID ref := None)"
    by auto
qed

interpretation fs: secret_store "file_ops cx f" "file_live cx f" "uuid_Parse cx" "\<lambda>s. aead_correct cx \<and> file_inv cx f s" for cx f
proof (unfold_locales, goal_cases)
  case (1 s env sc mat ref s')
  then show ?case using file_put_ok [of cx f s env sc mat ref s'] by simp
next
  case (2 s env sc mat e s')
  then show ?case using file_put_err [of cx f s env sc mat e s'] by simp
next
  case (3 s env sc ref pur mat)
  then show ?case
    using load_live(2) by (fastforce simp: file_open_def split: sum.splits if_splits)
next
  case (4 s env ref sc mat pur)
  then show ?case using live_load [OF 4(3,2)] by (auto simp: file_open_def)
next
  case (5 s env sc ref mat s')
  then show ?case using file_rotate_ok [of cx f s env sc ref mat s'] by simp
next
  case (6 s env sc ref mat e s')
  then show ?case using file_rotate_err [of cx f s env sc ref mat e s'] by simp
next
  case (7 s env sc ref s')
  then show ?case using file_revoke_cases [of cx f s env sc ref None s'] by simp
next
  case (8 s env sc ref r s')
  then show ?case using file_revoke_cases(1) [of cx f s env sc ref r s'] by auto
next
  case (9 s ref sc' mat sc env r s')
  then show ?case
    using file_revoke_cases(1) [of cx f s env sc ref r s'] load_live(2) [of cx f env "cr_ID ref" s]
    by (fastforce split: if_splits sum.splits)
next
  case (10 s env ref sc mat)
  then show ?case
    using live_load [OF 10(3), of env]
    by (auto simp: env_reliable_def file_revoke_def seal_def write_file_def write_fails_at_def Let_def)
qed

section \<open>Associated data\<close>

text \<open>
  The associated data joins the fields of the scope with a bar. It identifies the scope as long as
  no field contains the separator; otherwise two scopes can share it.
\<close>

definition scope_plain :: "scope \<Rightarrow> bool" where
  "scope_plain sc \<longleftrightarrow> CHR ''|'' \<notin> set (sc_Workspace sc) \<union> set (sc_SiteID sc) \<union> set (sc_Provider sc)"

lemma scope_aad_inject:
  assumes "scope_plain a" "scope_plain b" "scope_aad a = scope_aad b"
  shows "a = b"
proof -
  have "join [CHR ''|''] [sc_Workspace a, sc_SiteID a, sc_Provider a] = join [CHR ''|''] [sc_Workspace b, sc_SiteID b, sc_Provider b]"
    using assms(3) by (simp add: scope_aad_def)
  then have "[sc_Workspace a, sc_SiteID a, sc_Provider a] = [sc_Workspace b, sc_SiteID b, sc_Provider b]"
    by (rule join_inject) (use assms(1,2) in \<open>auto simp: scope_plain_def\<close>)
  then show ?thesis by simp
qed

lemma scope_aad_collision:
  "scope_aad \<lparr>sc_Workspace = ''a|b'', sc_SiteID = ''c'', sc_Provider = ''bing''\<rparr>
     = scope_aad \<lparr>sc_Workspace = ''a'', sc_SiteID = ''b|c'', sc_Provider = ''bing''\<rparr>"
  by (simp add: scope_aad_def)

text \<open>
  A revocation that cannot read the file reports success and leaves the credential as it was.
\<close>

lemma file_revoke_unreadable:
  assumes "env_read_fails env"
  shows "file_revoke cx f env sc ref s = (None, s)"
  using assms by (simp add: file_revoke_def load_def)

section \<open>Properties\<close>

text \<open>
  C7: the encrypted file store keeps the promises of a secret store. Material that was put opens
  in its own scope with exactly those bytes and in no other scope; once revoked it never opens
  again, whatever puts, rotations and revocations follow, and whichever of them fail on
  the way, as long as its identifier is not reused.
\<close>

theorem file_store_safe:
  assumes cx: "aead_correct cx" and inv: "file_inv cx f s" and i: "uuid_Parse cx (env_uuid env)"
    and put: "file_put cx f env sc mat s = (Inr ref, s1)"
    and rev: "file_revoke cx f er sc ref s1 = (None, s2)"
    and ids: "cr_ID ref \<notin> put_ids cs" "\<forall>j \<in> put_ids cs. uuid_Parse cx j"
    and io: "\<not> env_read_fails eo" "\<not> env_read_fails er"
  shows "file_open cx f eo sc ref pur s1 = Inr mat
    \<and> (sc' \<noteq> sc \<longrightarrow> (\<exists>e. file_open cx f en sc' ref pur s1 = Inl e))
    \<and> (\<exists>e. file_open cx f en sc'' ref pur (fold (run_call (file_ops cx f)) cs s2) = Inl e)"
proof (intro conjI impI)
  have put': "ss_Put (file_ops cx f) env sc mat s = (Inr ref, s1)" using put by simp
  have rev': "ss_Revoke (file_ops cx f) er sc ref s1 = (None, s2)" using rev by simp
  have inv': "aead_correct cx \<and> file_inv cx f s" using cx inv by simp
  have p: "aead_correct cx \<and> file_inv cx f s1" "file_live cx f s1 (cr_ID ref) = Some (sc, mat)"
    using fs.put_ok [OF inv' i put'] by auto
  show "file_open cx f eo sc ref pur s1 = Inr mat"
    using fs.open_put [OF inv' i put' io(1)] by simp
  show "\<exists>e. file_open cx f en sc' ref pur s1 = Inl e" if "sc' \<noteq> sc"
    using fs.open_other_scope [OF p that] by simp
  show "\<exists>e. file_open cx f en sc'' ref pur (fold (run_call (file_ops cx f)) cs s2) = Inl e"
    using fs.open_revoked_forever [OF p(1) io(2) rev' ids] by simp
qed

text \<open>
  C8: writes are atomic. Whatever step of a write fails, and at whatever point the process dies,
  the credential files are either exactly as before or have exactly the written one
  replaced by its complete new payload; an error means they are as before.
\<close>

theorem file_write_atomic:
  "(\<forall>t \<in> set (s # write_trace (path f i) (PayloadFile p) fault write_steps s).
      files t = files s \<or> files t = (files s)(path f i \<mapsto> PayloadFile p))
   \<and> (case write_file f env i p s of
        (Some e, s') \<Rightarrow> files s' = files s \<and> temp_file s' = None
      | (None, s') \<Rightarrow> files s' = (files s)(path f i \<mapsto> PayloadFile p) \<and> temp_file s' = None)"
proof
  show "\<forall>t \<in> set (s # write_trace (path f i) (PayloadFile p) fault write_steps s).
      files t = files s \<or> files t = (files s)(path f i \<mapsto> PayloadFile p)"
    by (simp add: write_steps_def Let_def)
  show "case write_file f env i p s of
        (Some e, s') \<Rightarrow> files s' = files s \<and> temp_file s' = None
      | (None, s') \<Rightarrow> files s' = (files s)(path f i \<mapsto> PayloadFile p) \<and> temp_file s' = None"
  proof (cases "write_file f env i p s")
    case (Pair r s')
    show ?thesis using write_file_result [OF Pair] Pair by (simp split: option.split)
  qed
qed

text \<open>
  The scope is bound into the encryption. A payload sealed for one scope and relabelled on
  disk with another one does not decrypt, provided no field of the two scopes contains the separator.
\<close>

theorem file_scope_bound:
  assumes "aead_authentic cx" "seal cx f env sc mat False = Inr p"
    and "scope_plain sc" "scope_plain sc'" "sc' \<noteq> sc"
    and "files s (path f (cr_ID ref)) = Some (PayloadFile (p\<lparr>fp_Scope := sc'\<rparr>))"
  shows "\<exists>e. file_open cx f en sc' ref pur s = Inl e"
proof -
  have "scope_aad sc' \<noteq> scope_aad sc" using scope_aad_inject [OF assms(4,3)] assms(5) by blast
  then have "aead_Open cx (f_key f) (fp_Nonce p) (fp_Ciphered p) (scope_aad sc') = None"
    using assms(1,2) by (auto simp: aead_authentic_def seal_def split: if_splits)
  then show ?thesis
    using assms(2,6) by (auto simp: file_open_def load_def open_payload_def seal_def split: if_splits)
qed

subsection \<open>A concrete instance\<close>

definition demo_header :: "string \<Rightarrow> string" where
  "demo_header aad = replicate (length aad) (CHR ''1'') @ CHR ''0'' # aad"

definition demo_crypto :: crypto where
  "demo_crypto = \<lparr>
     aead_Seal = \<lambda>key nonce plain aad. demo_header aad @ plain,
     aead_Open = \<lambda>key nonce c aad. let h = demo_header aad in
       if take (length h) c = h then Some (drop (length h) c) else None,
     uuid_Parse = \<lambda>i. i \<noteq> []\<rparr>"

definition demo_file :: file_store where
  "demo_file = \<lparr>f_dir = ''data/secrets'', f_key = replicate 32 (CHR ''k'')\<rparr>"

definition demo_fs :: fstate where
  "demo_fs = \<lparr>files = Map.empty, temp_file = None\<rparr>"

lemma demo_header_prefix:
  assumes "demo_header a @ x = demo_header b @ y"
  shows "a = b"
proof -
  have run: "takeWhile (\<lambda>c. c = CHR ''1'') (demo_header c @ z) = replicate (length c) (CHR ''1'')" for c z
    by (simp add: demo_header_def takeWhile_append)
  have "length a = length b" using arg_cong [OF assms, of "takeWhile (\<lambda>c. c = CHR ''1'')"] run
    by (metis length_replicate)
  then show ?thesis using assms by (simp add: demo_header_def)
qed

lemma demo_crypto_laws: "aead_correct demo_crypto" "aead_authentic demo_crypto"
proof -
  show "aead_correct demo_crypto" by (simp add: aead_correct_def demo_crypto_def Let_def)
  have "take (length (demo_header b)) (demo_header a @ p) \<noteq> demo_header b" if "b \<noteq> a" for a b p
    using that demo_header_prefix [of a p b] by (metis append_take_drop_id)
  then show "aead_authentic demo_crypto" by (simp add: aead_authentic_def demo_crypto_def Let_def)
qed

theorem file_store_safe_witness:
  "\<exists>s1 s2. file_put demo_crypto demo_file (demo_env ''u1'') (demo_scope ''bing'') demo_material demo_fs
        = (Inr \<lparr>cr_ID = ''u1'', cr_Type = ''api_key''\<rparr>, s1)
    \<and> file_open demo_crypto demo_file (demo_env ''x'') (demo_scope ''bing'') \<lparr>cr_ID = ''u1'', cr_Type = ''api_key''\<rparr> PurposeSync s1
        = Inr demo_material
    \<and> file_revoke demo_crypto demo_file (demo_env ''x'') (demo_scope ''bing'') \<lparr>cr_ID = ''u1'', cr_Type = ''api_key''\<rparr> s1 = (None, s2)
    \<and> (\<exists>e. file_open demo_crypto demo_file (demo_env ''x'') (demo_scope ''bing'') \<lparr>cr_ID = ''u1'', cr_Type = ''api_key''\<rparr> PurposeSync
         (fold (run_call (file_ops demo_crypto demo_file)) [CallPut (demo_env ''u2'') (demo_scope ''bing'') demo_material] s2) = Inl e)"
proof -
  let ?ref = "\<lparr>cr_ID = ''u1'', cr_Type = ''api_key''\<rparr>"
  have inv: "file_inv demo_crypto demo_file demo_fs" by (simp add: file_inv_def demo_fs_def)
  have i: "uuid_Parse demo_crypto (env_uuid (demo_env ''u1''))" by (simp add: demo_crypto_def demo_env_def)
  obtain s1 where put: "file_put demo_crypto demo_file (demo_env ''u1'') (demo_scope ''bing'') demo_material demo_fs = (Inr ?ref, s1)"
    by (simp add: file_put_def seal_def write_file_def write_steps_def write_fails_at_def Let_def demo_env_def demo_material_def)
  have p: "file_live demo_crypto demo_file s1 (cr_ID ?ref) = Some (demo_scope ''bing'', demo_material)"
    using file_put_ok [OF demo_crypto_laws(1) inv i put] by (simp add: demo_env_def)
  obtain q where "load demo_crypto demo_file (demo_env ''x'') ''u1'' s1 = Inr q" "fp_Scope q = demo_scope ''bing''"
    using live_load [OF p, of "demo_env ''x''"] by (auto simp: demo_env_def)
  then obtain s2 where rev: "file_revoke demo_crypto demo_file (demo_env ''x'') (demo_scope ''bing'') ?ref s1 = (None, s2)"
    by (simp add: file_revoke_def seal_def write_file_def write_steps_def write_fails_at_def Let_def demo_env_def)
  show ?thesis
    using put rev file_store_safe [OF demo_crypto_laws(1) inv i put rev,
        of "[CallPut (demo_env ''u2'') (demo_scope ''bing'') demo_material]" "demo_env ''x''" PurposeSync
          "demo_scope ''bing''" "demo_env ''x''" "demo_scope ''bing''"]
    by (simp add: demo_env_def demo_crypto_def)
qed

theorem file_scope_bound_witness:
  "\<exists>p e. seal demo_crypto demo_file (demo_env ''u1'') (demo_scope ''bing'') demo_material False = Inr p
    \<and> file_open demo_crypto demo_file (demo_env ''x'') (demo_scope ''ga4'') \<lparr>cr_ID = ''u1'', cr_Type = ''api_key''\<rparr> PurposeSync
        \<lparr>files = [path demo_file ''u1'' \<mapsto> PayloadFile (p\<lparr>fp_Scope := demo_scope ''ga4''\<rparr>)], temp_file = None\<rparr> = Inl e"
proof -
  obtain p where p: "seal demo_crypto demo_file (demo_env ''u1'') (demo_scope ''bing'') demo_material False = Inr p"
    by (simp add: seal_def demo_env_def)
  have "\<exists>e. file_open demo_crypto demo_file (demo_env ''x'') (demo_scope ''ga4'') \<lparr>cr_ID = ''u1'', cr_Type = ''api_key''\<rparr> PurposeSync
        \<lparr>files = [path demo_file ''u1'' \<mapsto> PayloadFile (p\<lparr>fp_Scope := demo_scope ''ga4''\<rparr>)], temp_file = None\<rparr> = Inl e"
    by (rule file_scope_bound [OF demo_crypto_laws(2) p]) (simp_all add: scope_plain_def demo_scope_def)
  with p show ?thesis by blast
qed

definition demo_payload :: file_payload where
  "demo_payload = \<lparr>fp_Scope = demo_scope ''bing'', fp_Type = ''api_key'', fp_Nonce = ''n'', fp_Ciphered = ''c'', fp_Revoked = False\<rparr>"

theorem file_write_atomic_witness:
  "length (write_trace (path demo_file ''u1'') (PayloadFile demo_payload) None write_steps demo_fs) = 6
   \<and> (files (write_trace (path demo_file ''u1'') (PayloadFile demo_payload) None write_steps demo_fs ! 3) = Map.empty
     \<or> files (write_trace (path demo_file ''u1'') (PayloadFile demo_payload) None write_steps demo_fs ! 3)
        = [path demo_file ''u1'' \<mapsto> PayloadFile demo_payload])"
proof
  let ?tr = "write_trace (path demo_file ''u1'') (PayloadFile demo_payload) None write_steps demo_fs"
  show len: "length ?tr = 6" by (simp add: write_steps_def Let_def)
  have "?tr ! 3 \<in> set (demo_fs # ?tr)" using len by simp
  then show "files (?tr ! 3) = Map.empty \<or> files (?tr ! 3) = [path demo_file ''u1'' \<mapsto> PayloadFile demo_payload]"
    using file_write_atomic [of demo_fs demo_file "''u1''" demo_payload None "demo_env ''x''"] by (auto simp: demo_fs_def)
qed

end
