(* ===== verification/Store.thy ===== *)
theory Store
  imports Core
begin

text \<open>
  The SQLite persistence layer (\<^verbatim>\<open>internal/store/store.go\<close>, \<^verbatim>\<open>internal/store/oauth.go\<close>) on the schema of
  \<^verbatim>\<open>migrations/sqlite\<close>.

  The database is a record of tables, a table a list of rows in insertion (rowid) order with
  the columns of the schema. Timestamps and dates are the texts the code writes and are
  compared as texts, as SQLite does; the \<^verbatim>\<open>data\<close> column of a report row is represented by the document
  its JSON text denotes. The constraints of the schema (primary keys, unique indexes,
  the partial single-flight index, foreign keys) are checked where a statement can violate them.

  Every operation takes a \<open>db_env\<close>: the value of its \<open>k\<close>-th call of \<^verbatim>\<open>time.Now\<close>, the identifier
  \<^verbatim>\<open>uuid.NewString\<close> yields, and the fault (cancelled or expired context, I/O error) its \<open>k\<close>-th statement
  suffers, if any. A statement that suffers a fault has no effect.
\<close>

section \<open>Definitions\<close>

subsection \<open>Environment\<close>

datatype db_fault = FaultDeadline | FaultCanceled | FaultIO

fun fault_error :: "db_fault \<Rightarrow> go_error" where
  "fault_error FaultDeadline = DeadlineExceeded"
| "fault_error FaultCanceled = Canceled"
| "fault_error FaultIO = Msg ''database error''"

record db_env =
  e_now :: "nat \<Rightarrow> gotime"
  e_uuid :: string
  e_fault :: "nat \<Rightarrow> db_fault option"

subsection \<open>Schema\<close>

record conn_row =
  cn_id :: string
  cn_site_id :: string
  cn_provider :: string
  cn_credential_ref :: string
  cn_credential_type :: string
  cn_enabled :: int
  cn_property_reference :: string
  cn_last_success_at :: "string option"
  cn_data_through_date :: "string option"
  cn_last_error_code :: error_code
  cn_last_error_message :: string
  cn_created_at :: string
  cn_updated_at :: string

record run_row =
  rn_id :: string
  rn_provider :: string
  rn_site_id :: string
  rn_capability :: string
  rn_start_date :: string
  rn_end_date :: string
  rn_status :: sync_status
  rn_rows_synced :: int
  rn_cursor :: string
  rn_triggered_by :: string
  rn_idempotency_key :: string
  rn_error_code :: error_code
  rn_error_message :: string
  rn_started_at :: string
  rn_finished_at :: "string option"
  rn_created_at :: string
  rn_updated_at :: string

record rep_row =
  rp_site_id :: string
  rp_dataset :: string
  rp_row_key :: string
  rp_data :: report_row
  rp_updated_at :: string

record oauth_row =
  oa_state :: string
  oa_provider :: string
  oa_site_id :: string
  oa_subject_id :: string
  oa_pkce_verifier :: string
  oa_redirect_uri :: string
  oa_return_to :: string
  oa_created_at :: string
  oa_expires_at :: string

record audit_row =
  au_id :: string
  au_actor :: string
  au_action :: string
  au_target :: string
  au_result :: string
  au_request_id :: string
  au_at :: string

record db =
  t_sites :: "site list"
  t_connections :: "conn_row list"
  t_runs :: "run_row list"
  t_reports :: "rep_row list"
  t_oauth :: "oauth_row list"
  t_audit :: "audit_row list"

definition empty_db :: db where
  "empty_db = \<lparr>t_sites = [], t_connections = [], t_runs = [], t_reports = [], t_oauth = [], t_audit = []\<rparr>"

fun active_status :: "sync_status \<Rightarrow> bool" where
  "active_status SyncQueued = True"
| "active_status SyncRunning = True"
| "active_status _ = False"

abbreviation run_active :: "run_row \<Rightarrow> bool" where
  "run_active r \<equiv> active_status (rn_status r)"

abbreviation flight_key :: "run_row \<Rightarrow> string \<times> string \<times> string" where
  "flight_key r \<equiv> (rn_site_id r, rn_provider r, rn_capability r)"

text \<open>Primary key, \<^verbatim>\<open>idx_sync_runs_idempotency\<close> and \<^verbatim>\<open>idx_sync_runs_single_flight\<close>.\<close>

definition runs_unique :: "run_row list \<Rightarrow> bool" where
  "runs_unique rows \<longleftrightarrow> unique_on rn_id rows
     \<and> unique_on (\<lambda>r. (rn_site_id r, rn_idempotency_key r)) rows
     \<and> unique_on_where run_active flight_key rows"

definition site_exists :: "string \<Rightarrow> db \<Rightarrow> bool" where
  "site_exists i d = (i \<in> set (map site_ID (t_sites d)))"

definition conn_is :: "string \<Rightarrow> string \<Rightarrow> conn_row \<Rightarrow> bool" where
  "conn_is siteID provider c = (cn_site_id c = siteID \<and> cn_provider c = provider)"

text \<open>\<^verbatim>\<open>ORDER BY k DESC\<close>, rows with equal keys in the order of the index, that is by rowid.\<close>

definition order_desc :: "('r \<Rightarrow> 'k::linorder) \<Rightarrow> 'r list \<Rightarrow> 'r list" where
  "order_desc k rows = rev (sort_key k (rev rows))"

subsection \<open>Sites and connections\<close>

definition EnsureSite :: "db_env \<Rightarrow> site \<Rightarrow> db \<Rightarrow> go_error option \<times> db" where
  "EnsureSite env s d =
     (case e_fault env 0 of
        Some x \<Rightarrow> (Some (fault_error x), d)
      | None \<Rightarrow>
          (None, d\<lparr>t_sites :=
             if site_exists (site_ID s) d
             then update_where (\<lambda>r. site_ID r = site_ID s) (\<lambda>_. s) (t_sites d)
             else t_sites d @ [s]\<rparr>))"

definition new_connection :: "string \<Rightarrow> string \<Rightarrow> string \<Rightarrow> string \<Rightarrow> conn_row" where
  "new_connection i siteID provider now =
     \<lparr>cn_id = i, cn_site_id = siteID, cn_provider = provider, cn_credential_ref = [], cn_credential_type = [],
      cn_enabled = 0, cn_property_reference = [], cn_last_success_at = None, cn_data_through_date = None,
      cn_last_error_code = ErrNone, cn_last_error_message = [], cn_created_at = now, cn_updated_at = now\<rparr>"

definition EnsureConnection :: "db_env \<Rightarrow> string \<Rightarrow> string \<Rightarrow> db \<Rightarrow> go_error option \<times> db" where
  "EnsureConnection env siteID provider d =
     (let now = format_time (e_now env 0) in
      case e_fault env 0 of
        Some x \<Rightarrow> (Some (fault_error x), d)
      | None \<Rightarrow>
          if list_ex (conn_is siteID provider) (t_connections d) then (None, d)
          else if e_uuid env \<in> set (map cn_id (t_connections d)) then (Some UniqueViolation, d)
          else if \<not> site_exists siteID d then (Some ForeignKeyViolation, d)
          else (None, d\<lparr>t_connections := t_connections d @ [new_connection (e_uuid env) siteID provider now]\<rparr>))"

definition parse_or_zero :: "(string \<Rightarrow> gotime option) \<Rightarrow> string \<Rightarrow> gotime" where
  "parse_or_zero p s = (case p s of None \<Rightarrow> zero_time | Some t \<Rightarrow> t)"

definition scanConnection :: "conn_row \<Rightarrow> provider_connection" where
  "scanConnection r =
     \<lparr>pc_ID = cn_id r, pc_SiteID = cn_site_id r, pc_Provider = cn_provider r,
      pc_CredentialRef = \<lparr>cr_ID = cn_credential_ref r, cr_Type = cn_credential_type r\<rparr>,
      pc_Enabled = (cn_enabled r \<noteq> 0),
      pc_PropertyReference = cn_property_reference r,
      pc_LastSuccessAt = Option.bind (cn_last_success_at r) parse_time,
      pc_DataThroughDate = Option.bind (cn_data_through_date r) parse_date,
      pc_LastErrorCode = cn_last_error_code r,
      pc_LastErrorMessage = cn_last_error_message r,
      pc_CreatedAt = parse_or_zero parse_time (cn_created_at r),
      pc_UpdatedAt = parse_or_zero parse_time (cn_updated_at r)\<rparr>"

definition GetConnection :: "db_env \<Rightarrow> string \<Rightarrow> string \<Rightarrow> db \<Rightarrow> go_error + provider_connection" where
  "GetConnection env siteID provider d =
     (case e_fault env 0 of
        Some x \<Rightarrow> Inl (fault_error x)
      | None \<Rightarrow>
          (case List.find (conn_is siteID provider) (t_connections d) of
             None \<Rightarrow> Inl NoRows
           | Some r \<Rightarrow> Inr (scanConnection r)))"

definition ListConnections :: "db_env \<Rightarrow> string \<Rightarrow> db \<Rightarrow> go_error + provider_connection list" where
  "ListConnections env siteID d =
     (case e_fault env 0 of
        Some x \<Rightarrow> Inl (fault_error x)
      | None \<Rightarrow> Inr (map scanConnection
          (sort_key cn_provider (filter (\<lambda>r. cn_site_id r = siteID) (t_connections d)))))"

definition boolInt :: "bool \<Rightarrow> int" where
  "boolInt b = (if b then 1 else 0)"

definition set_configuration :: "credential_ref \<Rightarrow> string \<Rightarrow> bool \<Rightarrow> string \<Rightarrow> conn_row \<Rightarrow> conn_row" where
  "set_configuration ref prop enabled now r =
     r\<lparr>cn_credential_ref := cr_ID ref, cn_credential_type := cr_Type ref, cn_property_reference := prop,
       cn_enabled := boolInt enabled, cn_updated_at := now\<rparr>"

definition ConfigureConnection ::
  "db_env \<Rightarrow> string \<Rightarrow> string \<Rightarrow> credential_ref \<Rightarrow> string \<Rightarrow> bool \<Rightarrow> db \<Rightarrow> go_error option \<times> db" where
  "ConfigureConnection env siteID provider ref prop enabled d =
     (let now = format_time (e_now env 0); P = conn_is siteID provider in
      case e_fault env 0 of
        Some x \<Rightarrow> (Some (fault_error x), d)
      | None \<Rightarrow>
          (if count_where P (t_connections d) = 0
           then Some (Msg (''connection '' @ siteID @ ''/'' @ provider @ '' does not exist'')) else None,
           d\<lparr>t_connections := update_where P (set_configuration ref prop enabled now) (t_connections d)\<rparr>))"

definition ConfigureConnectionCAS ::
  "db_env \<Rightarrow> string \<Rightarrow> string \<Rightarrow> credential_ref \<Rightarrow> credential_ref \<Rightarrow> string \<Rightarrow> bool \<Rightarrow> db \<Rightarrow> (go_error + bool) \<times> db" where
  "ConfigureConnectionCAS env siteID provider expected replacement prop enabled d =
     (let now = format_time (e_now env 0);
          P = (\<lambda>c. conn_is siteID provider c \<and> cn_credential_ref c = cr_ID expected) in
      case e_fault env 0 of
        Some x \<Rightarrow> (Inl (fault_error x), d)
      | None \<Rightarrow>
          (Inr (count_where P (t_connections d) = 1),
           d\<lparr>t_connections := update_where P (set_configuration replacement prop enabled now) (t_connections d)\<rparr>))"

definition set_success :: "string \<Rightarrow> string option \<Rightarrow> string \<Rightarrow> conn_row \<Rightarrow> conn_row" where
  "set_success successAt through now r =
     r\<lparr>cn_last_success_at := Some successAt,
       cn_data_through_date := (case through of None \<Rightarrow> cn_data_through_date r | Some t \<Rightarrow> Some t),
       cn_last_error_code := ErrNone, cn_last_error_message := [], cn_updated_at := now\<rparr>"

definition set_failure :: "error_code \<Rightarrow> string \<Rightarrow> string \<Rightarrow> conn_row \<Rightarrow> conn_row" where
  "set_failure code message now r =
     r\<lparr>cn_last_error_code := code, cn_last_error_message := message, cn_updated_at := now\<rparr>"

definition UpdateConnectionOutcome ::
  "db_env \<Rightarrow> string \<Rightarrow> string \<Rightarrow> gotime option \<Rightarrow> gotime option \<Rightarrow> error_code \<Rightarrow> string \<Rightarrow> db \<Rightarrow> go_error option \<times> db" where
  "UpdateConnectionOutcome env siteID provider successAt dataThrough code message d =
     (let now = format_time (e_now env 0);
          f = (case successAt of
                 Some t \<Rightarrow> set_success (format_time t) (map_option format_date dataThrough) now
               | None \<Rightarrow> set_failure code message now) in
      case e_fault env 0 of
        Some x \<Rightarrow> (Some (fault_error x), d)
      | None \<Rightarrow> (None, d\<lparr>t_connections := update_where (conn_is siteID provider) f (t_connections d)\<rparr>))"

subsection \<open>Sync runs\<close>

definition scanRun :: "run_row \<Rightarrow> sync_run" where
  "scanRun r =
     \<lparr>sr_ID = rn_id r, sr_Provider = rn_provider r, sr_Capability = rn_capability r,
      sr_StartDate = parse_or_zero parse_date (rn_start_date r),
      sr_EndDate = parse_or_zero parse_date (rn_end_date r),
      sr_Status = rn_status r, sr_RowsSynced = rn_rows_synced r, sr_Cursor = rn_cursor r,
      sr_TriggeredBy = rn_triggered_by r, sr_IdempotencyKey = rn_idempotency_key r,
      sr_ErrorCode = rn_error_code r, sr_ErrorMessage = rn_error_message r,
      sr_StartedAt = parse_or_zero parse_time (rn_started_at r),
      sr_FinishedAt = Option.bind (rn_finished_at r) parse_time,
      sr_CreatedAt = parse_or_zero parse_time (rn_created_at r),
      sr_UpdatedAt = parse_or_zero parse_time (rn_updated_at r)\<rparr>"

text \<open>\<open>run_row_of\<close> is the row the \<^verbatim>\<open>INSERT\<close> of \<^verbatim>\<open>CreateSyncRun\<close> writes, with the schema's defaults.\<close>

definition run_row_of :: "sync_run \<Rightarrow> string \<Rightarrow> string \<Rightarrow> run_row" where
  "run_row_of run siteID now =
     \<lparr>rn_id = sr_ID run, rn_provider = sr_Provider run, rn_site_id = siteID, rn_capability = sr_Capability run,
      rn_start_date = format_date (sr_StartDate run), rn_end_date = format_date (sr_EndDate run),
      rn_status = sr_Status run, rn_rows_synced = 0, rn_cursor = sr_Cursor run,
      rn_triggered_by = sr_TriggeredBy run, rn_idempotency_key = sr_IdempotencyKey run,
      rn_error_code = ErrNone, rn_error_message = [],
      rn_started_at = now, rn_finished_at = None, rn_created_at = now, rn_updated_at = now\<rparr>"

text \<open>\<open>getRunWhere env k sel\<close> runs a query as statement \<open>k\<close>; \<open>sel\<close> is its \<^verbatim>\<open>WHERE\<close> and \<^verbatim>\<open>ORDER BY\<close>.\<close>

definition getRunWhere :: "db_env \<Rightarrow> nat \<Rightarrow> (run_row list \<Rightarrow> run_row list) \<Rightarrow> db \<Rightarrow> go_error + sync_run" where
  "getRunWhere env k sel d =
     (case e_fault env k of
        Some x \<Rightarrow> Inl (fault_error x)
      | None \<Rightarrow> (case sel (t_runs d) of [] \<Rightarrow> Inl NoRows | r # _ \<Rightarrow> Inr (scanRun r)))"

definition findConflictingRun :: "db_env \<Rightarrow> nat \<Rightarrow> sync_run \<Rightarrow> string \<Rightarrow> db \<Rightarrow> go_error + sync_run" where
  "findConflictingRun env k run siteID d =
     (case getRunWhere env k (filter (\<lambda>r. rn_site_id r = siteID \<and> rn_idempotency_key r = sr_IdempotencyKey run)) d of
        Inr existing \<Rightarrow> Inr existing
      | Inl _ \<Rightarrow> getRunWhere env (Suc k)
          (\<lambda>rows. order_desc rn_started_at (filter (\<lambda>r. flight_key r = (siteID, sr_Provider run, sr_Capability run) \<and> run_active r) rows)) d)"

definition CreateSyncRun :: "db_env \<Rightarrow> sync_run \<Rightarrow> string \<Rightarrow> db \<Rightarrow> (go_error + sync_run \<times> bool) \<times> db" where
  "CreateSyncRun env run0 siteID d =
     (let now = e_now env 0;
          run = run0\<lparr>sr_ID := e_uuid env, sr_Status := SyncQueued, sr_StartedAt := now, sr_CreatedAt := now, sr_UpdatedAt := now\<rparr>;
          rows = t_runs d @ [run_row_of run siteID (format_time now)] in
      case e_fault env 0 of
        Some x \<Rightarrow> (Inl (fault_error x), d)
      | None \<Rightarrow>
          if runs_unique rows then (Inr (run, True), d\<lparr>t_runs := rows\<rparr>)
          else (case findConflictingRun env 1 run siteID d of
              Inr existing \<Rightarrow> (Inr (existing, False), d)
            | Inl e \<Rightarrow> (Inl e, d)))"

definition GetSyncRun :: "db_env \<Rightarrow> string \<Rightarrow> string \<Rightarrow> db \<Rightarrow> go_error + sync_run" where
  "GetSyncRun env siteID i d = getRunWhere env 0 (filter (\<lambda>r. rn_site_id r = siteID \<and> rn_id r = i)) d"

definition ListSyncRuns :: "db_env \<Rightarrow> string \<Rightarrow> string \<Rightarrow> int \<Rightarrow> db \<Rightarrow> go_error + sync_run list" where
  "ListSyncRuns env siteID provider limit0 d =
     (let limit = (if limit0 \<le> 0 \<or> limit0 > 200 then 50 else limit0);
          P = (\<lambda>r. rn_site_id r = siteID \<and> (provider \<noteq> [] \<longrightarrow> rn_provider r = provider)) in
      case e_fault env 0 of
        Some x \<Rightarrow> Inl (fault_error x)
      | None \<Rightarrow> Inr (map scanRun (take (nat limit) (order_desc rn_started_at (filter P (t_runs d))))))"

text \<open>An \<^verbatim>\<open>UPDATE\<close> of \<^verbatim>\<open>sync_runs\<close>: it fails and changes nothing when it would break a unique index.\<close>

definition update_runs :: "db_env \<Rightarrow> (run_row \<Rightarrow> bool) \<Rightarrow> (run_row \<Rightarrow> run_row) \<Rightarrow> db \<Rightarrow> (go_error + nat) \<times> db" where
  "update_runs env P f d =
     (case e_fault env 0 of
        Some x \<Rightarrow> (Inl (fault_error x), d)
      | None \<Rightarrow>
          if runs_unique (update_where P f (t_runs d))
          then (Inr (count_where P (t_runs d)), d\<lparr>t_runs := update_where P f (t_runs d)\<rparr>)
          else (Inl UniqueViolation, d))"

definition err_only :: "(go_error + 'a) \<times> 'd \<Rightarrow> go_error option \<times> 'd" where
  "err_only p = ((case fst p of Inl e \<Rightarrow> Some e | Inr _ \<Rightarrow> None), snd p)"

definition set_running :: "string \<Rightarrow> run_row \<Rightarrow> run_row" where
  "set_running now r = r\<lparr>rn_status := SyncRunning, rn_started_at := now, rn_updated_at := now\<rparr>"

definition MarkRunRunning :: "db_env \<Rightarrow> string \<Rightarrow> db \<Rightarrow> go_error option \<times> db" where
  "MarkRunRunning env i d =
     err_only (update_runs env (\<lambda>r. rn_id r = i) (set_running (format_time (e_now env 0))) d)"

definition set_finished :: "sync_status \<Rightarrow> int \<Rightarrow> string \<Rightarrow> error_code \<Rightarrow> string \<Rightarrow> string \<Rightarrow> run_row \<Rightarrow> run_row" where
  "set_finished status rows cursor code message now r =
     r\<lparr>rn_status := status, rn_rows_synced := rows, rn_cursor := cursor, rn_error_code := code,
       rn_error_message := message, rn_finished_at := Some now, rn_updated_at := now\<rparr>"

definition FinishRun ::
  "db_env \<Rightarrow> string \<Rightarrow> sync_status \<Rightarrow> int \<Rightarrow> string \<Rightarrow> error_code \<Rightarrow> string \<Rightarrow> db \<Rightarrow> go_error option \<times> db" where
  "FinishRun env i status rows cursor code message d =
     err_only (update_runs env (\<lambda>r. rn_id r = i)
       (set_finished status rows cursor code message (format_time (e_now env 0))) d)"

definition set_stale :: "string \<Rightarrow> run_row \<Rightarrow> run_row" where
  "set_stale now r =
     r\<lparr>rn_status := SyncFailed, rn_error_code := ErrTransient, rn_error_message := ''worker lease expired'',
       rn_updated_at := now\<rparr>"

definition RequeueStaleRuns :: "db_env \<Rightarrow> int \<Rightarrow> db \<Rightarrow> (go_error + nat) \<times> db" where
  "RequeueStaleRuns env lease d =
     (let cutoff = format_time (e_now env 0 - lease) in
      update_runs env (\<lambda>r. rn_status r = SyncRunning \<and> rn_started_at r < cutoff)
        (set_stale (format_time (e_now env 1))) d)"

definition SetRunCursor :: "db_env \<Rightarrow> string \<Rightarrow> string \<Rightarrow> db \<Rightarrow> go_error option \<times> db" where
  "SetRunCursor env i cursor d =
     err_only (update_runs env (\<lambda>r. rn_id r = i)
       (\<lambda>r. r\<lparr>rn_cursor := cursor, rn_updated_at := format_time (e_now env 0)\<rparr>) d)"

definition ResumeCursor :: "db_env \<Rightarrow> string \<Rightarrow> string \<Rightarrow> string \<Rightarrow> db \<Rightarrow> go_error + string" where
  "ResumeCursor env siteID provider capability d =
     (case e_fault env 0 of
        Some x \<Rightarrow> Inl (fault_error x)
      | None \<Rightarrow>
          (case order_desc rn_started_at (filter (\<lambda>r. flight_key r = (siteID, provider, capability)) (t_runs d)) of
             [] \<Rightarrow> Inr []
           | r # _ \<Rightarrow> if rn_status r \<noteq> SyncPartial then Inr [] else Inr (rn_cursor r)))"

subsection \<open>Report rows\<close>

definition row_key_of :: "report_row \<Rightarrow> string" where
  "row_key_of row = (case map_of row ''_key'' of Some (JStr k) \<Rightarrow> k | _ \<Rightarrow> [])"

definition rep_is :: "string \<Rightarrow> string \<Rightarrow> string \<Rightarrow> rep_row \<Rightarrow> bool" where
  "rep_is siteID dataset k r = (rp_site_id r = siteID \<and> rp_dataset r = dataset \<and> rp_row_key r = k)"

definition upsert_row :: "string \<Rightarrow> string \<Rightarrow> string \<Rightarrow> report_row \<Rightarrow> string \<Rightarrow> rep_row list \<Rightarrow> rep_row list" where
  "upsert_row siteID dataset k data now rows =
     (if list_ex (rep_is siteID dataset k) rows
      then update_where (rep_is siteID dataset k) (\<lambda>r. r\<lparr>rp_data := data, rp_updated_at := now\<rparr>) rows
      else rows @ [\<lparr>rp_site_id = siteID, rp_dataset = dataset, rp_row_key = k, rp_data = data, rp_updated_at = now\<rparr>])"

text \<open>
  The loop over the batch inside the transaction. Statement 0 is \<^verbatim>\<open>BEGIN\<close>, then one statement per
  row, then \<^verbatim>\<open>COMMIT\<close>. Any error leaves through the deferred rollback.
\<close>

fun upsert_loop :: "db_env \<Rightarrow> nat \<Rightarrow> string \<Rightarrow> string \<Rightarrow> string \<Rightarrow> report_row list \<Rightarrow> db \<Rightarrow> go_error + db" where
  "upsert_loop env k siteID dataset now [] d =
     (case e_fault env k of Some x \<Rightarrow> Inl (fault_error x) | None \<Rightarrow> Inr d)"
| "upsert_loop env k siteID dataset now (row # rows) d =
     (if row_key_of row = [] then Inl (Msg (''report row in dataset '' @ dataset @ '' is missing _key''))
      else if \<not> row_json_ok row then Inl (Msg ''json: unsupported value'')
      else (case e_fault env k of
          Some x \<Rightarrow> Inl (fault_error x)
        | None \<Rightarrow>
            if \<not> site_exists siteID d then Inl ForeignKeyViolation
            else upsert_loop env (Suc k) siteID dataset now rows
              (d\<lparr>t_reports := upsert_row siteID dataset (row_key_of row) row now (t_reports d)\<rparr>)))"

definition UpsertReportRows :: "db_env \<Rightarrow> string \<Rightarrow> string \<Rightarrow> report_row list \<Rightarrow> db \<Rightarrow> go_error option \<times> db" where
  "UpsertReportRows env siteID dataset rows d =
     (if siteID = [] \<or> dataset = [] then (Some (Msg ''site and dataset are required''), d)
      else (case e_fault env 0 of
          Some x \<Rightarrow> (Some (fault_error x), d)
        | None \<Rightarrow>
            (case upsert_loop env 1 siteID dataset (format_time (e_now env 0)) rows d of
               Inl e \<Rightarrow> (Some e, d)
             | Inr d' \<Rightarrow> (None, d'))))"

definition ListReportDatasets :: "db_env \<Rightarrow> string \<Rightarrow> db \<Rightarrow> go_error + string list" where
  "ListReportDatasets env siteID d =
     (case e_fault env 0 of
        Some x \<Rightarrow> Inl (fault_error x)
      | None \<Rightarrow> Inr (sort (remdups (map rp_dataset (filter (\<lambda>r. rp_site_id r = siteID) (t_reports d))))))"

definition page_limit :: "int \<Rightarrow> int" where
  "page_limit limit = (if limit \<le> 0 \<or> limit > 1000 then 100 else limit)"

definition ListReportRowsPage ::
  "db_env \<Rightarrow> string \<Rightarrow> string \<Rightarrow> int \<Rightarrow> string \<Rightarrow> db \<Rightarrow> go_error + rep_row list \<times> string" where
  "ListReportRowsPage env siteID dataset limit0 after d =
     (if trim_space dataset = [] then Inl (Msg ''dataset is required'')
      else
       let limit = page_limit limit0;
           P = (\<lambda>r. rp_site_id r = siteID \<and> rp_dataset r = dataset \<and> (after \<noteq> [] \<longrightarrow> rp_row_key r < after))
       in case e_fault env 0 of
            Some x \<Rightarrow> Inl (fault_error x)
          | None \<Rightarrow>
              (let out = take (nat (limit + 1)) (order_desc rp_row_key (filter P (t_reports d))) in
               if int (length out) > limit then Inr (take (nat limit) out, rp_row_key (out ! nat (limit - 1)))
               else Inr (out, [])))"

definition ListReportRows :: "db_env \<Rightarrow> string \<Rightarrow> string \<Rightarrow> int \<Rightarrow> db \<Rightarrow> go_error + rep_row list" where
  "ListReportRows env siteID dataset limit d =
     (case ListReportRowsPage env siteID dataset limit [] d of Inl e \<Rightarrow> Inl e | Inr (rows, _) \<Rightarrow> Inr rows)"

subsection \<open>Audit events\<close>

definition AppendAudit :: "db_env \<Rightarrow> audit_event \<Rightarrow> db \<Rightarrow> go_error option \<times> db" where
  "AppendAudit env ev d =
     (let i = (if ae_ID ev = [] then e_uuid env else ae_ID ev);
          at = (if is_zero (ae_At ev) then e_now env 0 else ae_At ev) in
      case e_fault env 0 of
        Some x \<Rightarrow> (Some (fault_error x), d)
      | None \<Rightarrow>
          if i \<in> set (map au_id (t_audit d)) then (Some UniqueViolation, d)
          else (None, d\<lparr>t_audit := t_audit d @
            [\<lparr>au_id = i, au_actor = ae_Actor ev, au_action = ae_Action ev, au_target = ae_Target ev,
              au_result = ae_Result ev, au_request_id = ae_RequestID ev, au_at = format_time at\<rparr>]\<rparr>))"

subsection \<open>OAuth states\<close>

record oauth_state =
  ost_State :: string
  ost_Provider :: string
  ost_SiteID :: string
  ost_SubjectID :: string
  ost_PKCEVerifier :: string
  ost_RedirectURI :: string
  ost_ReturnTo :: string
  ost_ExpiresAt :: gotime

definition CreateOAuthState :: "db_env \<Rightarrow> oauth_state \<Rightarrow> int \<Rightarrow> db \<Rightarrow> go_error option \<times> db" where
  "CreateOAuthState env st ttl d =
     (let now = e_now env 0 in
      case e_fault env 0 of
        Some x \<Rightarrow> (Some (fault_error x), d)
      | None \<Rightarrow>
          if ost_State st \<in> set (map oa_state (t_oauth d)) then (Some UniqueViolation, d)
          else (None, d\<lparr>t_oauth := t_oauth d @
            [\<lparr>oa_state = ost_State st, oa_provider = ost_Provider st, oa_site_id = ost_SiteID st,
              oa_subject_id = ost_SubjectID st, oa_pkce_verifier = ost_PKCEVerifier st,
              oa_redirect_uri = ost_RedirectURI st, oa_return_to = ost_ReturnTo st,
              oa_created_at = format_time now, oa_expires_at = format_time (now + ttl)\<rparr>]\<rparr>))"

definition scan_oauth :: "oauth_row \<Rightarrow> oauth_state" where
  "scan_oauth r =
     \<lparr>ost_State = oa_state r, ost_Provider = oa_provider r, ost_SiteID = oa_site_id r,
      ost_SubjectID = oa_subject_id r, ost_PKCEVerifier = oa_pkce_verifier r,
      ost_RedirectURI = oa_redirect_uri r, ost_ReturnTo = oa_return_to r,
      ost_ExpiresAt = parse_or_zero parse_time (oa_expires_at r)\<rparr>"

definition ConsumeOAuthState ::
  "db_env \<Rightarrow> string \<Rightarrow> string \<Rightarrow> string \<Rightarrow> string \<Rightarrow> db \<Rightarrow> (go_error + oauth_state) \<times> db" where
  "ConsumeOAuthState env state provider siteID subjectID d =
     (let now = format_time (e_now env 0);
          P = (\<lambda>r. oa_state r = state \<and> oa_provider r = provider \<and> oa_site_id r = siteID
                 \<and> oa_subject_id r = subjectID \<and> oa_expires_at r > now) in
      case e_fault env 0 of
        Some x \<Rightarrow> (Inl (fault_error x), d)
      | None \<Rightarrow>
          (case List.find P (t_oauth d) of
             None \<Rightarrow> (Inl OAuthStateInvalid, d)
           | Some r \<Rightarrow>
               (let d1 = d\<lparr>t_oauth := delete_where P (t_oauth d)\<rparr>;
                    now2 = format_time (e_now env 1) in
                (Inr (scan_oauth r),
                 case e_fault env 1 of
                   Some _ \<Rightarrow> d1
                 | None \<Rightarrow> d1\<lparr>t_oauth := delete_where (\<lambda>r. oa_expires_at r \<le> now2) (t_oauth d1)\<rparr>))))"

end
