(* ===== verification/StoreInv.thy ===== *)
theory StoreInv
  imports Store
begin

text \<open>
  The invariant of the database and the operations as a transition system. \<open>db_wf\<close> collects the
  constraints of the schema and what the code adds to them (row keys are not empty, timestamps
  of runs are texts the code wrote). Every operation preserves it under every environment, so it
  holds in every state that any interleaving of operations reaches.
\<close>

section \<open>Definitions\<close>

definition connections_wf :: "db \<Rightarrow> bool" where
  "connections_wf d \<longleftrightarrow> unique_on cn_id (t_connections d)
     \<and> unique_on (\<lambda>c. (cn_site_id c, cn_provider c)) (t_connections d)
     \<and> (\<forall>c \<in> set (t_connections d). site_exists (cn_site_id c) d)"

definition reports_wf :: "db \<Rightarrow> bool" where
  "reports_wf d \<longleftrightarrow> unique_on (\<lambda>r. (rp_site_id r, rp_dataset r, rp_row_key r)) (t_reports d)
     \<and> (\<forall>r \<in> set (t_reports d). site_exists (rp_site_id r) d \<and> rp_row_key r \<noteq> [] \<and> rp_dataset r \<noteq> []
          \<and> row_key_of (rp_data r) = rp_row_key r)"

definition db_wf :: "db \<Rightarrow> bool" where
  "db_wf d \<longleftrightarrow> unique_on site_ID (t_sites d) \<and> connections_wf d \<and> runs_unique (t_runs d) \<and> reports_wf d
     \<and> unique_on oa_state (t_oauth d) \<and> unique_on au_id (t_audit d)"

text \<open>The operations that change the database, as data.\<close>

datatype db_call =
    DoEnsureSite site
  | DoEnsureConnection string string
  | DoConfigure string string credential_ref string bool
  | DoConfigureCAS string string credential_ref credential_ref string bool
  | DoOutcome string string "gotime option" "gotime option" error_code string
  | DoCreateRun sync_run string
  | DoMarkRunning string
  | DoFinish string sync_status int string error_code string
  | DoRequeue int
  | DoSetCursor string string
  | DoUpsert string string "report_row list"
  | DoAudit audit_event
  | DoCreateState oauth_state int
  | DoConsumeState string string string string

fun run_db_call :: "db_env \<Rightarrow> db_call \<Rightarrow> db \<Rightarrow> db" where
  "run_db_call env (DoEnsureSite s) d = snd (EnsureSite env s d)"
| "run_db_call env (DoEnsureConnection i p) d = snd (EnsureConnection env i p d)"
| "run_db_call env (DoConfigure i p ref prop en) d = snd (ConfigureConnection env i p ref prop en d)"
| "run_db_call env (DoConfigureCAS i p old ref prop en) d = snd (ConfigureConnectionCAS env i p old ref prop en d)"
| "run_db_call env (DoOutcome i p ok through code msg) d = snd (UpdateConnectionOutcome env i p ok through code msg d)"
| "run_db_call env (DoCreateRun run i) d = snd (CreateSyncRun env run i d)"
| "run_db_call env (DoMarkRunning i) d = snd (MarkRunRunning env i d)"
| "run_db_call env (DoFinish i st n cur code msg) d = snd (FinishRun env i st n cur code msg d)"
| "run_db_call env (DoRequeue lease) d = snd (RequeueStaleRuns env lease d)"
| "run_db_call env (DoSetCursor i cur) d = snd (SetRunCursor env i cur d)"
| "run_db_call env (DoUpsert i ds rows) d = snd (UpsertReportRows env i ds rows d)"
| "run_db_call env (DoAudit ev) d = snd (AppendAudit env ev d)"
| "run_db_call env (DoCreateState st ttl) d = snd (CreateOAuthState env st ttl d)"
| "run_db_call env (DoConsumeState st p i sub) d = snd (ConsumeOAuthState env st p i sub d)"

inductive db_reachable :: "db \<Rightarrow> bool" where
  db_init: "db_reachable empty_db"
| db_call: "db_reachable d \<Longrightarrow> db_reachable (run_db_call env c d)"

section \<open>Preservation, one operation at a time\<close>

lemma db_wf_cong:
  assumes "db_wf d" "t_sites d' = t_sites d"
    "t_connections d' = t_connections d \<or> connections_wf d'" "t_runs d' = t_runs d \<or> runs_unique (t_runs d')"
    "t_reports d' = t_reports d \<or> reports_wf d'" "t_oauth d' = t_oauth d \<or> unique_on oa_state (t_oauth d')"
    "t_audit d' = t_audit d \<or> unique_on au_id (t_audit d')"
  shows "db_wf d'"
  using assms by (auto simp: db_wf_def connections_wf_def reports_wf_def site_exists_def)

lemma db_wf_empty: "db_wf empty_db"
  by (simp add: db_wf_def empty_db_def connections_wf_def reports_wf_def runs_unique_def)

lemma EnsureSite_sites: "site_ID ` set (t_sites (snd (EnsureSite env s d))) \<supseteq> site_ID ` set (t_sites d)"
  by (auto simp: EnsureSite_def set_update_where image_iff split: option.split)

lemma EnsureSite_wf:
  assumes "db_wf d"
  shows "db_wf (snd (EnsureSite env s d))"
proof -
  let ?d = "snd (EnsureSite env s d)"
  have "unique_on site_ID (t_sites ?d)"
    using assms by (auto simp: db_wf_def EnsureSite_def site_exists_def intro!: unique_on_update_where split: option.split)
  moreover have "t_connections ?d = t_connections d" "t_runs ?d = t_runs d" "t_reports ?d = t_reports d"
      "t_oauth ?d = t_oauth d" "t_audit ?d = t_audit d"
    by (auto simp: EnsureSite_def split: option.split)
  ultimately show ?thesis
    using assms EnsureSite_sites [of d env s]
    by (fastforce simp: db_wf_def connections_wf_def reports_wf_def site_exists_def)
qed

lemma EnsureConnection_wf: "db_wf d \<Longrightarrow> db_wf (snd (EnsureConnection env i p d))"
  by (auto simp: EnsureConnection_def db_wf_def connections_wf_def reports_wf_def site_exists_def new_connection_def
      list_ex_iff conn_is_def Let_def split: option.split)

text \<open>Updates of connections keep the identity of the rows.\<close>

lemma update_connections_wf:
  assumes "db_wf d" "\<And>c. cn_id (f c) = cn_id c \<and> cn_site_id (f c) = cn_site_id c \<and> cn_provider (f c) = cn_provider c"
  shows "db_wf (d\<lparr>t_connections := update_where P f (t_connections d)\<rparr>)"
proof -
  let ?d = "d\<lparr>t_connections := update_where P f (t_connections d)\<rparr>"
  have "unique_on cn_id (t_connections ?d)" "unique_on (\<lambda>c. (cn_site_id c, cn_provider c)) (t_connections ?d)"
    using assms by (auto simp: db_wf_def connections_wf_def intro!: unique_on_update_where)
  moreover have "\<forall>c \<in> set (t_connections ?d). site_exists (cn_site_id c) ?d"
    using assms by (auto simp: db_wf_def connections_wf_def set_update_where site_exists_def)
  ultimately have "connections_wf ?d" by (simp add: connections_wf_def)
  then show ?thesis by (intro db_wf_cong [OF assms(1)]) auto
qed

lemma connection_updates [simp]:
  "cn_id (set_configuration ref prop en now c) = cn_id c"
  "cn_site_id (set_configuration ref prop en now c) = cn_site_id c"
  "cn_provider (set_configuration ref prop en now c) = cn_provider c"
  "cn_id (set_success ok through now c) = cn_id c"
  "cn_site_id (set_success ok through now c) = cn_site_id c"
  "cn_provider (set_success ok through now c) = cn_provider c"
  "cn_id (set_failure code msg now c) = cn_id c"
  "cn_site_id (set_failure code msg now c) = cn_site_id c"
  "cn_provider (set_failure code msg now c) = cn_provider c"
  by (simp_all add: set_configuration_def set_success_def set_failure_def)

lemma ConfigureConnection_wf: "db_wf d \<Longrightarrow> db_wf (snd (ConfigureConnection env i p ref prop en d))"
  by (simp add: ConfigureConnection_def Let_def update_connections_wf split: option.split)

lemma ConfigureConnectionCAS_wf: "db_wf d \<Longrightarrow> db_wf (snd (ConfigureConnectionCAS env i p old ref prop en d))"
  by (simp add: ConfigureConnectionCAS_def Let_def update_connections_wf split: option.split)

lemma UpdateConnectionOutcome_wf: "db_wf d \<Longrightarrow> db_wf (snd (UpdateConnectionOutcome env i p ok through code msg d))"
  by (simp add: UpdateConnectionOutcome_def Let_def update_connections_wf split: option.split)

lemma CreateSyncRun_wf: "db_wf d \<Longrightarrow> db_wf (snd (CreateSyncRun env run i d))"
  by (auto simp: CreateSyncRun_def Let_def intro: db_wf_cong split: option.split sum.split)

lemma update_runs_wf: "db_wf d \<Longrightarrow> db_wf (snd (update_runs env P f d))"
  by (auto simp: update_runs_def intro: db_wf_cong split: option.split)

lemma snd_err_only [simp]: "snd (err_only p) = snd p"
  by (simp add: err_only_def)

lemma MarkRunRunning_wf: "db_wf d \<Longrightarrow> db_wf (snd (MarkRunRunning env i d))"
  by (simp add: MarkRunRunning_def update_runs_wf)

lemma FinishRun_wf: "db_wf d \<Longrightarrow> db_wf (snd (FinishRun env i st n cur code msg d))"
  by (simp add: FinishRun_def update_runs_wf)

lemma RequeueStaleRuns_wf: "db_wf d \<Longrightarrow> db_wf (snd (RequeueStaleRuns env lease d))"
  by (simp add: RequeueStaleRuns_def Let_def update_runs_wf)

lemma SetRunCursor_wf: "db_wf d \<Longrightarrow> db_wf (snd (SetRunCursor env i cur d))"
  by (simp add: SetRunCursor_def update_runs_wf)

lemma upsert_row_wf:
  assumes "db_wf d" "site_exists i d" "row_key_of row \<noteq> []" "ds \<noteq> []"
  shows "db_wf (d\<lparr>t_reports := upsert_row i ds (row_key_of row) row now (t_reports d)\<rparr>)"
proof -
  let ?k = "\<lambda>r. (rp_site_id r, rp_dataset r, rp_row_key r)"
  let ?rows = "upsert_row i ds (row_key_of row) row now (t_reports d)"
  have u: "unique_on ?k (t_reports d)" and all: "\<forall>r \<in> set (t_reports d). site_exists (rp_site_id r) d \<and> rp_row_key r \<noteq> []
      \<and> rp_dataset r \<noteq> [] \<and> row_key_of (rp_data r) = rp_row_key r"
    using assms(1) by (auto simp: db_wf_def reports_wf_def)
  have "unique_on ?k ?rows"
    using u by (auto simp: upsert_row_def list_ex_iff rep_is_def intro!: unique_on_update_where)
  moreover have "\<forall>r \<in> set ?rows. site_exists (rp_site_id r) d \<and> rp_row_key r \<noteq> [] \<and> rp_dataset r \<noteq> []
      \<and> row_key_of (rp_data r) = rp_row_key r"
    using all assms(2-4) by (auto simp: upsert_row_def set_update_where rep_is_def)
  ultimately have "reports_wf (d\<lparr>t_reports := ?rows\<rparr>)" by (simp add: reports_wf_def site_exists_def)
  then show ?thesis by (intro db_wf_cong [OF assms(1)]) auto
qed

lemma upsert_loop_wf:
  "upsert_loop env k i ds now rows d = Inr d' \<Longrightarrow> db_wf d \<Longrightarrow> ds \<noteq> [] \<Longrightarrow> db_wf d'"
  by (induction env k i ds now rows d rule: upsert_loop.induct)
     (auto simp: upsert_row_wf split: option.splits if_splits)

lemma UpsertReportRows_wf: "db_wf d \<Longrightarrow> db_wf (snd (UpsertReportRows env i ds rows d))"
  by (auto simp: UpsertReportRows_def intro: upsert_loop_wf split: option.split sum.split)

lemma AppendAudit_wf: "db_wf d \<Longrightarrow> db_wf (snd (AppendAudit env ev d))"
  by (auto simp: AppendAudit_def Let_def db_wf_def connections_wf_def reports_wf_def site_exists_def split: option.split)

lemma CreateOAuthState_wf: "db_wf d \<Longrightarrow> db_wf (snd (CreateOAuthState env st ttl d))"
  by (auto simp: CreateOAuthState_def Let_def db_wf_def connections_wf_def reports_wf_def site_exists_def split: option.split)

lemma delete_oauth_wf: "db_wf d \<Longrightarrow> db_wf (d\<lparr>t_oauth := delete_where P (t_oauth d)\<rparr>)"
  by (rule db_wf_cong) (auto simp: db_wf_def intro: unique_on_delete_where)

lemma ConsumeOAuthState_wf: "db_wf d \<Longrightarrow> db_wf (snd (ConsumeOAuthState env st p i sub d))"
  using delete_oauth_wf [OF delete_oauth_wf] delete_oauth_wf
  by (auto simp: ConsumeOAuthState_def Let_def split: option.split)

lemmas db_ops_wf = EnsureSite_wf EnsureConnection_wf ConfigureConnection_wf ConfigureConnectionCAS_wf
  UpdateConnectionOutcome_wf CreateSyncRun_wf MarkRunRunning_wf FinishRun_wf RequeueStaleRuns_wf SetRunCursor_wf
  UpsertReportRows_wf AppendAudit_wf CreateOAuthState_wf ConsumeOAuthState_wf

lemma run_db_call_wf: "db_wf d \<Longrightarrow> db_wf (run_db_call env c d)"
  by (cases c) (simp_all add: db_ops_wf)

lemma db_reachable_wf: "db_reachable d \<Longrightarrow> db_wf d"
  by (induction rule: db_reachable.induct) (auto intro: db_wf_empty run_db_call_wf)

end
