(* ===== verification/Paging.thy ===== *)
theory Paging
  imports StoreInv
begin

text \<open>
  Keyset pagination. The locale \<open>keyset_pages\<close> is the contract of a paged listing: rows in
  strictly descending key order, and a page that holds the first rows below the cursor together with the key
  of its last row when more follow. A client that feeds every cursor back gets each row exactly
  once, in order, in a bounded number of calls. \<^verbatim>\<open>ListReportRowsPage\<close> satisfies the contract.
\<close>

section \<open>Definitions\<close>

text \<open>The client's loop: fetch pages until the cursor is empty. The first argument bounds the number of calls.\<close>

fun collect_pages :: "nat \<Rightarrow> (string \<Rightarrow> 'r list \<times> string) \<Rightarrow> string \<Rightarrow> 'r list option" where
  "collect_pages 0 page after = None"
| "collect_pages (Suc n) page after =
     (case page after of (rows, next) \<Rightarrow>
        if next = [] then Some rows else map_option (append rows) (collect_pages n page next))"

definition below :: "('r \<Rightarrow> string) \<Rightarrow> string \<Rightarrow> 'r list \<Rightarrow> 'r list" where
  "below key after rows = filter (\<lambda>r. after \<noteq> [] \<longrightarrow> key r < after) rows"

definition dataset_rows :: "db \<Rightarrow> string \<Rightarrow> string \<Rightarrow> rep_row list" where
  "dataset_rows d siteID dataset =
     order_desc rp_row_key (filter (\<lambda>r. rp_site_id r = siteID \<and> rp_dataset r = dataset) (t_reports d))"

definition report_page :: "db_env \<Rightarrow> int \<Rightarrow> db \<times> string \<times> string \<Rightarrow> string \<Rightarrow> rep_row list \<times> string" where
  "report_page env limit s after =
     (case s of (d, siteID, dataset) \<Rightarrow>
        (case ListReportRowsPage env siteID dataset limit after d of Inl _ \<Rightarrow> ([], []) | Inr p \<Rightarrow> p))"

section \<open>The contract\<close>

locale keyset_pages =
  fixes key :: "'r \<Rightarrow> string"
    and rows :: "'s \<Rightarrow> 'r list"
    and page :: "'s \<Rightarrow> string \<Rightarrow> 'r list \<times> string"
    and n :: nat
    and inv :: "'s \<Rightarrow> bool"
  assumes n_pos: "0 < n"
    and desc: "inv s \<Longrightarrow> sorted_wrt (\<lambda>a b. key b < key a) (rows s)"
    and key_ne: "inv s \<Longrightarrow> r \<in> set (rows s) \<Longrightarrow> key r \<noteq> []"
    and page_le: "inv s \<Longrightarrow> length (below key after (rows s)) \<le> n \<Longrightarrow> page s after = (below key after (rows s), [])"
    and page_gt: "inv s \<Longrightarrow> n < length (below key after (rows s)) \<Longrightarrow>
      page s after = (take n (below key after (rows s)), key (below key after (rows s) ! (n - 1)))"
begin

lemma below_desc: "inv s \<Longrightarrow> sorted_wrt (\<lambda>a b. key b < key a) (below key after (rows s))"
  by (simp add: below_def desc sorted_wrt_filter)

lemma filter_desc:
  assumes "sorted_wrt (\<lambda>a b. key b < key a) xs" "m < length xs"
  shows "filter (\<lambda>r. key r < key (xs ! m)) xs = drop (Suc m) xs"
proof -
  have t: "\<not> key r < key (xs ! m)" if r: "r \<in> set (take (Suc m) xs)" for r
  proof -
    obtain j where "j \<le> m" "r = xs ! j"
      using r assms(2) by (auto simp: in_set_conv_nth less_Suc_eq_le)
    then show ?thesis
      using assms sorted_wrt_nth_less [OF assms(1), of j m] by (cases "j = m") auto
  qed
  have d: "key r < key (xs ! m)" if r: "r \<in> set (drop (Suc m) xs)" for r
  proof -
    obtain j where "j < length xs - Suc m" "r = xs ! (Suc m + j)"
      using r by (auto simp: in_set_conv_nth)
    then show ?thesis using sorted_wrt_nth_less [OF assms(1), of m "Suc m + j"] by simp
  qed
  have "filter (\<lambda>r. key r < key (xs ! m)) (take (Suc m) xs @ drop (Suc m) xs) = drop (Suc m) xs"
    using t d by (simp only: filter_append) (simp add: filter_empty_conv filter_id_conv)
  then show ?thesis by simp
qed

lemma below_next:
  assumes "inv s" "n < length (below key after (rows s))"
  defines "next \<equiv> key (below key after (rows s) ! (n - 1))"
  shows "next \<noteq> []" "below key next (rows s) = drop n (below key after (rows s))"
proof -
  let ?R = "below key after (rows s)"
  have m: "n - 1 < length ?R" "Suc (n - 1) = n" using assms(2) n_pos by auto
  then have mem: "?R ! (n - 1) \<in> set (rows s)" and lt: "after \<noteq> [] \<longrightarrow> next < after"
    using nth_mem [of "n - 1" ?R] by (auto simp: below_def next_def)
  show ne: "next \<noteq> []" unfolding next_def using key_ne [OF assms(1) mem] .
  have "below key next (rows s) = filter (\<lambda>r. key r < next) ?R"
    using ne lt by (auto simp: below_def intro!: filter_cong)
  also have "\<dots> = drop n ?R"
    using filter_desc [OF below_desc [OF assms(1)] m(1)] m(2) by (simp add: next_def)
  finally show "below key next (rows s) = drop n ?R" .
qed

lemma collect_from:
  assumes "inv s" "length (below key after (rows s)) \<le> f * n"
  shows "collect_pages (Suc f) (page s) after = Some (below key after (rows s))"
  using assms(2)
proof (induction f arbitrary: after)
  case 0
  then show ?case using page_le [OF assms(1), of after] by simp
next
  case (Suc f)
  let ?R = "below key after (rows s)"
  show ?case
  proof (cases "length ?R \<le> n")
    case True
    then show ?thesis using page_le [OF assms(1) True] by simp
  next
    case False
    then have gt: "n < length ?R" by simp
    note B = below_next [OF assms(1) gt]
    have "length (below key (key (?R ! (n - 1))) (rows s)) \<le> f * n"
      using B(2) Suc.prems by simp
    then have "collect_pages (Suc f) (page s) (key (?R ! (n - 1))) = Some (drop n ?R)"
      using Suc.IH B(2) by metis
    then show ?thesis
      using page_gt [OF assms(1) gt] B(1) by (subst collect_pages.simps) simp
  qed
qed

lemma collect_all:
  assumes "inv s" "length (rows s) \<le> f * n"
  shows "collect_pages (Suc f) (page s) [] = Some (rows s)"
  using collect_from [of s "[]" f] assms by (simp add: below_def)

end

section \<open>Report rows\<close>

lemma set_order_desc [simp]: "set (order_desc k rows) = set rows"
  by (simp add: order_desc_def)

lemma length_order_desc [simp]: "length (order_desc k rows) = length rows"
  by (simp add: order_desc_def)

lemma order_desc_sorted: "sorted_wrt (\<lambda>a b. k b \<le> k a) (order_desc k rows)"
proof -
  have "sorted_wrt (\<lambda>a b. k a \<le> k b) (sort_key k (rev rows))"
    using sorted_sort_key [of k "rev rows"] by (simp add: sorted_map)
  then show ?thesis by (simp add: order_desc_def sorted_wrt_rev)
qed

lemma order_desc_filter: "filter P (order_desc k rows) = order_desc k (filter P rows)"
  by (simp add: order_desc_def filter_sort flip: rev_filter)

lemma dataset_rows_desc:
  assumes "db_wf d"
  shows "sorted_wrt (\<lambda>a b. rp_row_key b < rp_row_key a) (dataset_rows d i ds)"
proof -
  let ?R = "filter (\<lambda>r. rp_site_id r = i \<and> rp_dataset r = ds) (t_reports d)"
  have "inj_on rp_row_key (set ?R)"
    using assms by (auto simp: db_wf_def reports_wf_def intro!: inj_onI dest: unique_onD)
  moreover have "distinct ?R"
    using assms by (auto simp: db_wf_def reports_wf_def unique_on_def distinct_map)
  ultimately have "distinct (map rp_row_key (dataset_rows d i ds))"
    by (simp add: dataset_rows_def order_desc_def distinct_map)
  moreover have "sorted_wrt (\<lambda>a b. rp_row_key b \<le> rp_row_key a) (dataset_rows d i ds)"
    unfolding dataset_rows_def by (rule order_desc_sorted)
  ultimately show ?thesis
    by (auto simp: sorted_wrt_iff_nth_less distinct_conv_nth order.strict_iff_order)
qed

lemma ListReportRowsPage_below:
  assumes "trim_space ds \<noteq> []" "e_fault env 0 = None"
  shows "ListReportRowsPage env i ds limit after d =
    (let R = below rp_row_key after (dataset_rows d i ds); n = nat (page_limit limit) in
     Inr (if n < length R then (take n R, rp_row_key (R ! (n - 1))) else (R, [])))"
proof -
  let ?n = "nat (page_limit limit)"
  have pos: "0 < page_limit limit" by (simp add: page_limit_def)
  have R: "order_desc rp_row_key (filter (\<lambda>r. rp_site_id r = i \<and> rp_dataset r = ds \<and> (after \<noteq> [] \<longrightarrow> rp_row_key r < after)) (t_reports d))
      = below rp_row_key after (dataset_rows d i ds)"
    by (auto simp: below_def dataset_rows_def order_desc_filter conj_assoc intro!: arg_cong [where f = "order_desc rp_row_key"] filter_cong)
  have n: "nat (page_limit limit + 1) = Suc ?n" "nat (page_limit limit - 1) = ?n - 1" "page_limit limit = int ?n" "0 < ?n"
    using pos by auto
  define B where "B = below rp_row_key after (dataset_rows d i ds)"
  have len: "page_limit limit < int (length (take (Suc ?n) B)) \<longleftrightarrow> ?n < length B"
    using pos by (auto simp: min_def nat_less_iff)
  have "take ?n (take (Suc ?n) B) = take ?n B" by simp
  moreover have "take (Suc ?n) B ! (?n - 1) = B ! (?n - 1)" using n(4) by simp
  moreover have "take (Suc ?n) B = B" if "\<not> ?n < length B" using that by simp
  ultimately show ?thesis
    using assms len unfolding ListReportRowsPage_def Let_def R n(1,2) B_def [symmetric] by auto
qed

interpretation reports: keyset_pages rp_row_key "\<lambda>(d, i, ds). dataset_rows d i ds"
  "report_page (env\<lparr>e_fault := \<lambda>_. None\<rparr>) limit" "nat (page_limit limit)" "\<lambda>(d, i, ds). db_wf d \<and> trim_space ds \<noteq> []"
  for env limit
proof (unfold_locales, goal_cases)
  case 1
  then show ?case by (simp add: page_limit_def)
next
  case (2 s)
  then show ?case by (auto simp: dataset_rows_desc)
next
  case (3 s r)
  then show ?case by (auto simp: dataset_rows_def db_wf_def reports_wf_def)
next
  case (4 s after)
  then show ?case by (auto simp: report_page_def ListReportRowsPage_below Let_def)
next
  case (5 s after)
  then show ?case by (auto simp: report_page_def ListReportRowsPage_below Let_def)
qed

section \<open>Properties\<close>

text \<open>
  C4: listing a dataset page by page, with any limit, returns every row of the dataset exactly
  once, in descending key order, after finitely many pages: one more than the number of full
  pages always suffices, and what comes back is the dataset itself.
\<close>

theorem paging_complete:
  assumes "db_reachable d" "trim_space dataset \<noteq> []" "\<And>k. e_fault env k = None"
    and "length (dataset_rows d siteID dataset) \<le> f * nat (page_limit limit)"
  shows "collect_pages (Suc f) (report_page env limit (d, siteID, dataset)) [] = Some (dataset_rows d siteID dataset)
    \<and> set (dataset_rows d siteID dataset) = {r \<in> set (t_reports d). rp_site_id r = siteID \<and> rp_dataset r = dataset}
    \<and> sorted_wrt (\<lambda>a b. rp_row_key b < rp_row_key a) (dataset_rows d siteID dataset)"
proof (intro conjI)
  have "env = env\<lparr>e_fault := \<lambda>_. None\<rparr>" using assms(3) by (cases env) auto
  then show "collect_pages (Suc f) (report_page env limit (d, siteID, dataset)) [] = Some (dataset_rows d siteID dataset)"
    using reports.collect_all [of "(d, siteID, dataset)" f limit env] db_reachable_wf [OF assms(1)] assms(2,4) by simp
  show "set (dataset_rows d siteID dataset) = {r \<in> set (t_reports d). rp_site_id r = siteID \<and> rp_dataset r = dataset}"
    by (auto simp: dataset_rows_def)
  show "sorted_wrt (\<lambda>a b. rp_row_key b < rp_row_key a) (dataset_rows d siteID dataset)"
    by (rule dataset_rows_desc [OF db_reachable_wf [OF assms(1)]])
qed

definition demo_db_env :: "string \<Rightarrow> gotime \<Rightarrow> db_env" where
  "demo_db_env i t = \<lparr>e_now = \<lambda>_. t, e_uuid = i, e_fault = \<lambda>_. None\<rparr>"

definition demo_site :: site where
  "demo_site = \<lparr>site_ID = ''main'', site_PublicURL = ''https://example.com'', site_SitemapURL = ''https://example.com/sitemap.xml'', site_Timezone = ''UTC''\<rparr>"

definition demo_rows :: "report_row list" where
  "demo_rows = [[(''_key'', JStr ''a''), (''clicks'', JInt 1)], [(''_key'', JStr ''b''), (''clicks'', JInt 2)]]"

definition demo_reports :: db where
  "demo_reports = run_db_call (demo_db_env ''u'' 0) (DoUpsert ''main'' ''bing.query'' demo_rows)
     (run_db_call (demo_db_env ''u'' 0) (DoEnsureSite demo_site) empty_db)"

lemma demo_reports_rows:
  "t_reports demo_reports = map (\<lambda>(k, row). \<lparr>rp_site_id = ''main'', rp_dataset = ''bing.query'', rp_row_key = k, rp_data = row,
     rp_updated_at = format_time 0\<rparr>) (zip [''a'', ''b''] demo_rows)"
  by (simp add: demo_reports_def UpsertReportRows_def EnsureSite_def demo_db_env_def empty_db_def site_exists_def demo_site_def
      demo_rows_def row_key_of_def row_json_ok_def upsert_row_def rep_is_def)

theorem paging_complete_witness:
  "collect_pages 3 (report_page (demo_db_env ''u'' 0) 1 (demo_reports, ''main'', ''bing.query'')) []
     = Some (dataset_rows demo_reports ''main'' ''bing.query'')
   \<and> map rp_row_key (dataset_rows demo_reports ''main'' ''bing.query'') = [''b'', ''a'']"
proof
  have rows: "map rp_row_key (dataset_rows demo_reports ''main'' ''bing.query'') = [''b'', ''a'']"
    by (simp add: dataset_rows_def demo_reports_rows demo_rows_def order_desc_def)
  have "db_reachable demo_reports"
    unfolding demo_reports_def by (intro db_reachable.intros)
  moreover have "trim_space ''bing.query'' \<noteq> []" by (simp add: trim_space_ascii ascii_print_def)
  moreover have "length (dataset_rows demo_reports ''main'' ''bing.query'') \<le> 2 * nat (page_limit 1)"
    using arg_cong [OF rows, of length] by (simp add: page_limit_def)
  ultimately show "collect_pages 3 (report_page (demo_db_env ''u'' 0) 1 (demo_reports, ''main'', ''bing.query'')) []
     = Some (dataset_rows demo_reports ''main'' ''bing.query'')"
    using paging_complete [of demo_reports "''bing.query''" "demo_db_env ''u'' 0" "''main''" 2 1]
    by (simp add: demo_db_env_def numeral_3_eq_3)
  show "map rp_row_key (dataset_rows demo_reports ''main'' ''bing.query'') = [''b'', ''a'']" by (rule rows)
qed

end
