(* ===== verification/Runs.thy ===== *)
theory Runs
  imports Paging
begin

text \<open>
  The life of a sync run in the database: creation under the idempotency and single-flight
  indexes, the texts a run is stored as and read back from, recovery of stale runs, resume
  checkpoints and listing.
\<close>

section \<open>Definitions\<close>

text \<open>A stored run that keeps a new run from being inserted.\<close>

definition run_conflict :: "sync_run \<Rightarrow> string \<Rightarrow> run_row \<Rightarrow> bool" where
  "run_conflict run siteID x \<longleftrightarrow> rn_site_id x = siteID \<and>
     (rn_idempotency_key x = sr_IdempotencyKey run
      \<or> run_active x \<and> rn_provider x = sr_Provider run \<and> rn_capability x = sr_Capability run)"

definition queued_run :: "db_env \<Rightarrow> sync_run \<Rightarrow> sync_run" where
  "queued_run env run = run\<lparr>sr_ID := e_uuid env, sr_Status := SyncQueued, sr_StartedAt := e_now env 0,
     sr_CreatedAt := e_now env 0, sr_UpdatedAt := e_now env 0\<rparr>"

definition to_second :: "gotime \<Rightarrow> gotime" where
  "to_second t = t div second_ns * second_ns"

definition no_faults :: "db_env \<Rightarrow> bool" where
  "no_faults env \<longleftrightarrow> (\<forall>k. e_fault env k = None)"

definition stale :: "gotime \<Rightarrow> run_row \<Rightarrow> bool" where
  "stale cutoff r \<longleftrightarrow> rn_status r = SyncRunning \<and> rn_started_at r < format_time cutoff"

definition run_listed :: "string \<Rightarrow> string \<Rightarrow> run_row \<Rightarrow> bool" where
  "run_listed siteID provider r \<longleftrightarrow> rn_site_id r = siteID \<and> (provider \<noteq> [] \<longrightarrow> rn_provider r = provider)"

section \<open>Lemmas\<close>

lemma no_faultsD [simp]: "no_faults env \<Longrightarrow> e_fault env k = None"
  by (simp add: no_faults_def)

lemma CreateSyncRun_unfold:
  "no_faults env \<Longrightarrow> CreateSyncRun env run i d =
     (if runs_unique (t_runs d @ [run_row_of (queued_run env run) i (format_time (e_now env 0))])
      then (Inr (queued_run env run, True), d\<lparr>t_runs := t_runs d @ [run_row_of (queued_run env run) i (format_time (e_now env 0))]\<rparr>)
      else (case findConflictingRun env 1 (queued_run env run) i d of
          Inr existing \<Rightarrow> (Inr (existing, False), d) | Inl e \<Rightarrow> (Inl e, d)))"
  by (simp add: CreateSyncRun_def queued_run_def Let_def)

lemma queued_row_sel [simp]:
  "rn_id (run_row_of (queued_run env run) i now) = e_uuid env" "rn_site_id (run_row_of (queued_run env run) i now) = i"
  "rn_provider (run_row_of (queued_run env run) i now) = sr_Provider run"
  "rn_capability (run_row_of (queued_run env run) i now) = sr_Capability run"
  "rn_idempotency_key (run_row_of (queued_run env run) i now) = sr_IdempotencyKey run"
  "rn_status (run_row_of (queued_run env run) i now) = SyncQueued"
  by (simp_all add: run_row_of_def queued_run_def)

lemma insert_unique_iff:
  assumes "runs_unique rows" "e_uuid env \<notin> rn_id ` set rows"
  shows "runs_unique (rows @ [run_row_of (queued_run env run) i now]) \<longleftrightarrow> \<not> (\<exists>x \<in> set rows. run_conflict run i x)"
proof -
  have key: "(i, sr_IdempotencyKey run) \<in> (\<lambda>r. (rn_site_id r, rn_idempotency_key r)) ` set rows
      \<longleftrightarrow> (\<exists>x \<in> set rows. rn_site_id x = i \<and> rn_idempotency_key x = sr_IdempotencyKey run)"
    by auto
  have flight: "(i, sr_Provider run, sr_Capability run) \<in> flight_key ` {x \<in> set rows. run_active x}
      \<longleftrightarrow> (\<exists>x \<in> set rows. run_active x \<and> rn_site_id x = i \<and> rn_provider x = sr_Provider run \<and> rn_capability x = sr_Capability run)"
    by auto
  show ?thesis
    using assms unfolding runs_unique_def unique_on_snoc unique_on_where_snoc queued_row_sel(1-5) key flight run_conflict_def
    by auto
qed

lemma findConflictingRun_finds:
  assumes env: "no_faults env" and x: "x \<in> set (t_runs d)" "run_conflict run i x"
  shows "\<exists>y \<in> set (t_runs d). findConflictingRun env k run i d = Inr (scanRun y) \<and> run_conflict run i y
    \<and> (rn_idempotency_key y = sr_IdempotencyKey run \<or>
       (\<forall>z \<in> set (t_runs d). rn_site_id z = i \<longrightarrow> rn_idempotency_key z \<noteq> sr_IdempotencyKey run))"
proof -
  let ?K = "filter (\<lambda>r. rn_site_id r = i \<and> rn_idempotency_key r = sr_IdempotencyKey run) (t_runs d)"
  let ?F = "order_desc rn_started_at (filter (\<lambda>r. flight_key r = (i, sr_Provider run, sr_Capability run) \<and> run_active r) (t_runs d))"
  show ?thesis
  proof (cases ?K)
    case (Cons y ys)
    then have "y \<in> set ?K" by (metis list.set_intros(1))
    then have "y \<in> set (t_runs d)" "rn_site_id y = i" "rn_idempotency_key y = sr_IdempotencyKey run" by auto
    moreover have "findConflictingRun env k run i d = Inr (scanRun y)"
      using Cons env by (simp add: findConflictingRun_def getRunWhere_def)
    ultimately show ?thesis by (auto simp: run_conflict_def)
  next
    case Nil
    then have none: "\<forall>z \<in> set (t_runs d). rn_site_id z = i \<longrightarrow> rn_idempotency_key z \<noteq> sr_IdempotencyKey run"
      by (auto simp: filter_empty_conv)
    have "x \<in> set ?F" using x none by (auto simp: run_conflict_def)
    then have "set ?F \<noteq> {}" by (metis ex_in_conv)
    then obtain y ys where F: "?F = y # ys" unfolding set_empty neq_Nil_conv by (elim exE)
    then have "y \<in> set ?F" by (metis list.set_intros(1))
    then have "y \<in> set (t_runs d)" "run_conflict run i y" by (auto simp: run_conflict_def)
    moreover have "findConflictingRun env k run i d = Inr (scanRun y)"
      using F Nil env by (simp add: findConflictingRun_def getRunWhere_def)
    ultimately show ?thesis using none by blast
  qed
qed

lemma update_runs_ok:
  assumes "no_faults env" "runs_unique (t_runs d)"
    and keep: "\<And>r. rn_id (f r) = rn_id r \<and> rn_site_id (f r) = rn_site_id r \<and> rn_idempotency_key (f r) = rn_idempotency_key r
      \<and> flight_key (f r) = flight_key r"
    and act: "\<And>r. r \<in> set (t_runs d) \<Longrightarrow> P r \<Longrightarrow> run_active (f r) \<Longrightarrow> run_active r"
  shows "update_runs env P f d = (Inr (count_where P (t_runs d)), d\<lparr>t_runs := update_where P f (t_runs d)\<rparr>)"
proof -
  have "unique_on_where run_active flight_key (update_where P f (t_runs d))"
    by (rule unique_on_where_update_where) (use assms(2) keep act in \<open>auto simp: runs_unique_def\<close>)
  then have "runs_unique (update_where P f (t_runs d))"
    using assms(2) keep unfolding runs_unique_def by (auto intro!: unique_on_update_where)
  then show ?thesis using assms(1) by (simp add: update_runs_def)
qed

lemma run_update_sel [simp]:
  "rn_id (set_stale now r) = rn_id r" "rn_site_id (set_stale now r) = rn_site_id r"
  "rn_provider (set_stale now r) = rn_provider r" "rn_capability (set_stale now r) = rn_capability r"
  "rn_idempotency_key (set_stale now r) = rn_idempotency_key r" "rn_status (set_stale now r) = SyncFailed"
  "rn_id (set_running now r) = rn_id r" "rn_site_id (set_running now r) = rn_site_id r"
  "rn_provider (set_running now r) = rn_provider r" "rn_capability (set_running now r) = rn_capability r"
  "rn_idempotency_key (set_running now r) = rn_idempotency_key r" "rn_status (set_running now r) = SyncRunning"
  "rn_id (set_finished st n cur code msg now r) = rn_id r" "rn_site_id (set_finished st n cur code msg now r) = rn_site_id r"
  "rn_provider (set_finished st n cur code msg now r) = rn_provider r"
  "rn_capability (set_finished st n cur code msg now r) = rn_capability r"
  "rn_idempotency_key (set_finished st n cur code msg now r) = rn_idempotency_key r"
  "rn_status (set_finished st n cur code msg now r) = st"
  by (simp_all add: set_stale_def set_running_def set_finished_def)

lemma RequeueStaleRuns_ok:
  assumes "no_faults env" "db_wf d"
  shows "RequeueStaleRuns env lease d = (Inr (count_where (stale (e_now env 0 - lease)) (t_runs d)),
    d\<lparr>t_runs := update_where (stale (e_now env 0 - lease)) (set_stale (format_time (e_now env 1))) (t_runs d)\<rparr>)"
proof -
  have "(\<lambda>r. rn_status r = SyncRunning \<and> rn_started_at r < format_time (e_now env 0 - lease)) = stale (e_now env 0 - lease)"
    by (auto simp: stale_def)
  then show ?thesis
    unfolding RequeueStaleRuns_def Let_def using assms by (auto simp: db_wf_def intro!: update_runs_ok)
qed

lemma parse_or_zero_time: "time_ok t \<Longrightarrow> parse_or_zero parse_time (format_time t) = to_second t"
  by (simp add: parse_or_zero_def parse_time_format_time to_second_def)

lemma parse_or_zero_date: "time_ok t \<Longrightarrow> parse_or_zero parse_date (format_date t) = truncate_day t"
  by (simp add: parse_or_zero_def parse_date_format_date)

lemma scanRun_row_of:
  assumes "time_ok (sr_StartDate run)" "time_ok (sr_EndDate run)" "time_ok now"
    "sr_RowsSynced run = 0" "sr_ErrorCode run = ErrNone" "sr_ErrorMessage run = []" "sr_FinishedAt run = None"
  shows "scanRun (run_row_of run i (format_time now)) = run\<lparr>sr_StartDate := truncate_day (sr_StartDate run),
    sr_EndDate := truncate_day (sr_EndDate run), sr_StartedAt := to_second now, sr_CreatedAt := to_second now, sr_UpdatedAt := to_second now\<rparr>"
  using assms by (simp add: scanRun_def run_row_of_def parse_or_zero_time parse_or_zero_date)

lemma GetSyncRun_unique:
  assumes "no_faults env" "unique_on rn_id (t_runs d)" "r \<in> set (t_runs d)"
  shows "GetSyncRun env (rn_site_id r) (rn_id r) d = Inr (scanRun r)"
proof (cases "filter (\<lambda>x. rn_site_id x = rn_site_id r \<and> rn_id x = rn_id r) (t_runs d)")
  case Nil
  then have False using assms(3) by (auto simp: filter_empty_conv)
  then show ?thesis ..
next
  case (Cons y ys)
  then have "y \<in> set (filter (\<lambda>x. rn_site_id x = rn_site_id r \<and> rn_id x = rn_id r) (t_runs d))"
    by (metis list.set_intros(1))
  then have "y = r" using unique_onD [OF assms(2)] assms(3) by auto
  then show ?thesis using Cons assms(1) by (simp add: GetSyncRun_def getRunWhere_def)
qed

lemma CreateSyncRun_cases:
  assumes "db_wf d" "no_faults env" "e_uuid env \<notin> rn_id ` set (t_runs d)"
  shows "if \<exists>x \<in> set (t_runs d). run_conflict run siteID x
    then \<exists>y \<in> set (t_runs d). CreateSyncRun env run siteID d = (Inr (scanRun y, False), d) \<and> run_conflict run siteID y
      \<and> (rn_idempotency_key y = sr_IdempotencyKey run \<or>
         \<not> (\<exists>z \<in> set (t_runs d). rn_site_id z = siteID \<and> rn_idempotency_key z = sr_IdempotencyKey run))
    else CreateSyncRun env run siteID d = (Inr (queued_run env run, True),
      d\<lparr>t_runs := t_runs d @ [run_row_of (queued_run env run) siteID (format_time (e_now env 0))]\<rparr>)"
proof -
  have u: "runs_unique (t_runs d)" using assms(1) by (simp add: db_wf_def)
  note I = insert_unique_iff [OF u assms(3), of run siteID "format_time (e_now env 0)"]
  show ?thesis
  proof (cases "\<exists>x \<in> set (t_runs d). run_conflict run siteID x")
    case True
    then obtain x where x: "x \<in> set (t_runs d)" "run_conflict (queued_run env run) siteID x"
      by (auto simp: run_conflict_def queued_run_def)
    show ?thesis
      using findConflictingRun_finds [OF assms(2) x, of 1] True I assms(2)
      by (auto simp: CreateSyncRun_unfold run_conflict_def queued_run_def)
  next
    case False
    then show ?thesis using I assms(2) by (simp add: CreateSyncRun_unfold)
  qed
qed

section \<open>Properties\<close>

text \<open>
  C1: in every state that any sequence of operations reaches, under any faults, there is at most
  one queued or running run per site, provider and capability, and at most one run per site and
  idempotency key.
\<close>

theorem single_flight:
  assumes "db_reachable d" "r \<in> set (t_runs d)" "r' \<in> set (t_runs d)" "rn_site_id r = rn_site_id r'"
    and "rn_idempotency_key r = rn_idempotency_key r'
      \<or> run_active r \<and> run_active r' \<and> rn_provider r = rn_provider r' \<and> rn_capability r = rn_capability r'"
  shows "r = r'"
proof -
  have u: "runs_unique (t_runs d)" using db_reachable_wf [OF assms(1)] by (simp add: db_wf_def)
  show ?thesis using assms(5)
  proof
    assume "rn_idempotency_key r = rn_idempotency_key r'"
    then show ?thesis
      using u assms(2-4) unique_onD [of "\<lambda>r. (rn_site_id r, rn_idempotency_key r)" "t_runs d" r r'] by (simp add: runs_unique_def)
  next
    assume "run_active r \<and> run_active r' \<and> rn_provider r = rn_provider r' \<and> rn_capability r = rn_capability r'"
    then show ?thesis
      using u assms(2-4) unique_on_whereD [of run_active flight_key "t_runs d" r r'] by (simp add: runs_unique_def)
  qed
qed

text \<open>
  C2: creating a run either inserts exactly one queued run, which happens exactly when no stored run
  conflicts with it, or changes nothing and returns a stored run that conflicts: the one
  with the same idempotency key if there is one, otherwise the active run of the same
  provider and capability.
\<close>

theorem create_run_outcome:
  assumes "db_reachable d" "no_faults env" "e_uuid env \<notin> rn_id ` set (t_runs d)"
  shows "if \<exists>x \<in> set (t_runs d). run_conflict run siteID x
    then \<exists>y \<in> set (t_runs d). CreateSyncRun env run siteID d = (Inr (scanRun y, False), d) \<and> run_conflict run siteID y
      \<and> (rn_idempotency_key y = sr_IdempotencyKey run \<or>
         \<not> (\<exists>z \<in> set (t_runs d). rn_site_id z = siteID \<and> rn_idempotency_key z = sr_IdempotencyKey run))
    else CreateSyncRun env run siteID d = (Inr (queued_run env run, True),
      d\<lparr>t_runs := t_runs d @ [run_row_of (queued_run env run) siteID (format_time (e_now env 0))]\<rparr>)"
  by (rule CreateSyncRun_cases [OF db_reachable_wf [OF assms(1)] assms(2,3)])

text \<open>
  A created run reads back. Fetching it returns what was created, with the range as whole days
  and the times to the second, which is the precision of the stored texts.
\<close>

theorem create_get_roundtrip:
  assumes "db_reachable d" "no_faults env" "no_faults env'" "CreateSyncRun env run siteID d = (Inr (r, True), d')"
    and "time_ok (sr_StartDate run)" "time_ok (sr_EndDate run)" "time_ok (e_now env 0)"
    and "sr_RowsSynced run = 0" "sr_ErrorCode run = ErrNone" "sr_ErrorMessage run = []" "sr_FinishedAt run = None"
  shows "GetSyncRun env' siteID (sr_ID r) d' = Inr (run\<lparr>sr_ID := e_uuid env, sr_Status := SyncQueued,
    sr_StartDate := truncate_day (sr_StartDate run), sr_EndDate := truncate_day (sr_EndDate run),
    sr_StartedAt := to_second (e_now env 0), sr_CreatedAt := to_second (e_now env 0), sr_UpdatedAt := to_second (e_now env 0)\<rparr>)"
proof -
  let ?row = "run_row_of (queued_run env run) siteID (format_time (e_now env 0))"
  have r: "r = queued_run env run" and rows: "t_runs d' = t_runs d @ [?row]" and u: "runs_unique (t_runs d')"
    using assms(2,4) by (auto simp: CreateSyncRun_unfold split: if_splits sum.splits)
  have "GetSyncRun env' (rn_site_id ?row) (rn_id ?row) d' = Inr (scanRun ?row)"
    using u rows by (intro GetSyncRun_unique [OF assms(3)]) (auto simp: runs_unique_def)
  moreover have "rn_site_id ?row = siteID" "rn_id ?row = sr_ID r" by (simp_all add: run_row_of_def r)
  moreover have "scanRun ?row = (queued_run env run)\<lparr>sr_StartDate := truncate_day (sr_StartDate run),
      sr_EndDate := truncate_day (sr_EndDate run), sr_StartedAt := to_second (e_now env 0),
      sr_CreatedAt := to_second (e_now env 0), sr_UpdatedAt := to_second (e_now env 0)\<rparr>"
    using assms(5-11) scanRun_row_of [of "queued_run env run" "e_now env 0" siteID] by (simp add: queued_run_def)
  ultimately show ?thesis by (simp add: queued_run_def)
qed

text \<open>
  Crash recovery fails exactly the runs that are running and were started before the lease
  began, comparing seconds; every other run, and every other table, stays as it is. The comparison is done on
  texts and agrees with the order of time.
\<close>

theorem requeue_exact:
  assumes "db_reachable d" "no_faults env" "time_ok (e_now env 0 - lease)"
    and starts: "\<And>r. r \<in> set (t_runs d) \<Longrightarrow> time_ok (start r) \<and> rn_started_at r = format_time (start r)"
  shows "RequeueStaleRuns env lease d =
    (Inr (count_where (\<lambda>r. rn_status r = SyncRunning \<and> start r div second_ns < (e_now env 0 - lease) div second_ns) (t_runs d)),
     d\<lparr>t_runs := map (\<lambda>r. if rn_status r = SyncRunning \<and> start r div second_ns < (e_now env 0 - lease) div second_ns
        then r\<lparr>rn_status := SyncFailed, rn_error_code := ErrTransient, rn_error_message := ''worker lease expired'',
          rn_updated_at := format_time (e_now env 1)\<rparr>
        else r) (t_runs d)\<rparr>)"
proof -
  let ?P = "\<lambda>r. rn_status r = SyncRunning \<and> start r div second_ns < (e_now env 0 - lease) div second_ns"
  have P: "stale (e_now env 0 - lease) r \<longleftrightarrow> ?P r" if "r \<in> set (t_runs d)" for r
    using starts [OF that] format_time_less [of "start r" "e_now env 0 - lease"] assms(3) by (simp add: stale_def)
  have "count_where (stale (e_now env 0 - lease)) (t_runs d) = count_where ?P (t_runs d)"
    unfolding count_where_def by (rule arg_cong [where f = length], rule filter_cong [OF refl P])
  moreover have "update_where (stale (e_now env 0 - lease)) (set_stale (format_time (e_now env 1))) (t_runs d)
      = map (\<lambda>r. if ?P r then set_stale (format_time (e_now env 1)) r else r) (t_runs d)"
    unfolding update_where_def by (rule map_cong [OF refl]) (simp only: P)
  ultimately show ?thesis
    using RequeueStaleRuns_ok [OF assms(2) db_reachable_wf [OF assms(1)], of lease] by (simp add: set_stale_def)
qed

text \<open>
  A run starts where the last one stopped. The checkpoint offered to a new run is the cursor of
  the run of the same site, provider and capability that was started last, if that run ended as
  partial, and empty if it ended otherwise or there is none.
\<close>

theorem resume_cursor_latest:
  assumes "no_faults env"
  shows "(\<nexists>r. r \<in> set (t_runs d) \<and> flight_key r = (siteID, provider, capability)) \<and> ResumeCursor env siteID provider capability d = Inr []
    \<or> (\<exists>r \<in> set (t_runs d). flight_key r = (siteID, provider, capability)
        \<and> (\<forall>x \<in> set (t_runs d). flight_key x = (siteID, provider, capability) \<longrightarrow> rn_started_at x \<le> rn_started_at r)
        \<and> ResumeCursor env siteID provider capability d = Inr (if rn_status r = SyncPartial then rn_cursor r else []))"
proof -
  define F where "F = order_desc rn_started_at (filter (\<lambda>r. flight_key r = (siteID, provider, capability)) (t_runs d))"
  have set_F: "r \<in> set F \<longleftrightarrow> r \<in> set (t_runs d) \<and> flight_key r = (siteID, provider, capability)" for r
    by (simp add: F_def)
  have R: "ResumeCursor env siteID provider capability d =
      (case F of [] \<Rightarrow> Inr [] | r # _ \<Rightarrow> Inr (if rn_status r = SyncPartial then rn_cursor r else []))"
    using assms by (simp add: ResumeCursor_def F_def split: list.split)
  show ?thesis
  proof (cases F)
    case Nil
    then show ?thesis using R set_F by fastforce
  next
    case (Cons r rs)
    have "sorted_wrt (\<lambda>a b. rn_started_at b \<le> rn_started_at a) F"
      unfolding F_def by (rule order_desc_sorted)
    then have le: "rn_started_at x \<le> rn_started_at r" if "x \<in> set F" for x
      using that Cons by auto
    have max: "\<forall>x \<in> set (t_runs d). flight_key x = (siteID, provider, capability) \<longrightarrow> rn_started_at x \<le> rn_started_at r"
      by (intro ballI impI le, unfold set_F, intro conjI)
    have r: "r \<in> set (t_runs d)" "flight_key r = (siteID, provider, capability)"
      using Cons set_F [of r] by simp_all
    have "ResumeCursor env siteID provider capability d = Inr (if rn_status r = SyncPartial then rn_cursor r else [])"
      using R Cons by simp
    with r max show ?thesis by (intro disjI2 bexI [of _ r] conjI)
  qed
qed

text \<open>
  Listing runs returns at most the requested number of runs of the site (and provider, when one is
  given), newest first, and leaves out only runs that are not newer than any it returns.
\<close>

theorem list_runs_newest:
  assumes "no_faults env" "0 < limit" "limit \<le> 200"
  shows "\<exists>rows. ListSyncRuns env siteID provider limit d = Inr (map scanRun rows)
    \<and> length rows = min (nat limit) (length (filter (run_listed siteID provider) (t_runs d)))
    \<and> set rows \<subseteq> {r \<in> set (t_runs d). run_listed siteID provider r}
    \<and> sorted_wrt (\<lambda>a b. rn_started_at b \<le> rn_started_at a) rows
    \<and> (\<forall>x \<in> {r \<in> set (t_runs d). run_listed siteID provider r} - set rows. \<forall>r \<in> set rows. rn_started_at x \<le> rn_started_at r)"
proof -
  define F where "F = order_desc rn_started_at (filter (run_listed siteID provider) (t_runs d))"
  let ?rows = "take (nat limit) F"
  have sorted: "sorted_wrt (\<lambda>a b. rn_started_at b \<le> rn_started_at a) (?rows @ drop (nat limit) F)"
    using order_desc_sorted [of rn_started_at "filter (run_listed siteID provider) (t_runs d)"] by (simp add: F_def)
  have set_F: "set F = {r \<in> set (t_runs d). run_listed siteID provider r}" by (simp add: F_def)
  have len: "length ?rows = min (nat limit) (length (filter (run_listed siteID provider) (t_runs d)))" by (simp add: F_def min.commute)
  have L: "ListSyncRuns env siteID provider limit d = Inr (map scanRun ?rows)"
    using assms(1-3) by (simp add: ListSyncRuns_def F_def run_listed_def [abs_def])
  have "set F = set ?rows \<union> set (drop (nat limit) F)" by (metis append_take_drop_id set_append)
  then have rest: "x \<in> set (drop (nat limit) F)" if "x \<in> {r \<in> set (t_runs d). run_listed siteID provider r} - set ?rows" for x
    using that set_F by blast
  have "\<forall>x \<in> {r \<in> set (t_runs d). run_listed siteID provider r} - set ?rows. \<forall>r \<in> set ?rows. rn_started_at x \<le> rn_started_at r"
    using sorted rest by (auto simp: sorted_wrt_append simp del: append_take_drop_id)
  moreover have "set ?rows \<subseteq> {r \<in> set (t_runs d). run_listed siteID provider r}" using set_F set_take_subset by fast
  moreover have "sorted_wrt (\<lambda>a b. rn_started_at b \<le> rn_started_at a) ?rows"
    using sorted by (simp add: sorted_wrt_append del: append_take_drop_id)
  ultimately show ?thesis using L len by blast
qed

text \<open>
  A run that is left queued (its worker died before it was marked running) is never recovered: recovery
  only looks at running runs, and while it is there no other run of its provider and capability
  can be inserted, whatever the idempotency key.
\<close>

lemma requeue_keeps_queued:
  assumes "r \<in> set (t_runs d)" "rn_status r = SyncQueued"
  shows "r \<in> set (t_runs (snd (RequeueStaleRuns env lease d)))"
  using assms by (auto simp: RequeueStaleRuns_def update_runs_def Let_def set_update_where split: option.split)

lemma queued_blocks_create:
  assumes "db_wf d" "no_faults env" "r \<in> set (t_runs d)" "rn_status r = SyncQueued"
    "flight_key r = (siteID, sr_Provider run, sr_Capability run)"
  shows "snd (CreateSyncRun env run siteID d) = d"
proof -
  have "\<not> runs_unique (t_runs d @ [run_row_of (queued_run env run) siteID (format_time (e_now env 0))])"
    using assms(3-5) by (force simp: runs_unique_def run_row_of_def queued_run_def image_iff)
  then show ?thesis using assms(2) by (simp add: CreateSyncRun_unfold split: sum.split)
qed

fun scheduler_rounds :: "(db_env \<times> db_env \<times> sync_run) list \<Rightarrow> int \<Rightarrow> string \<Rightarrow> db \<Rightarrow> db" where
  "scheduler_rounds [] lease siteID d = d"
| "scheduler_rounds ((env, env', run) # rest) lease siteID d =
     scheduler_rounds rest lease siteID (snd (CreateSyncRun env' run siteID (snd (RequeueStaleRuns env lease d))))"

lemma queued_orphan_blocks_forever:
  assumes "db_wf d" "r \<in> set (t_runs d)" "rn_status r = SyncQueued"
    "\<forall>(env, env', run) \<in> set rounds. no_faults env \<and> no_faults env' \<and> flight_key r = (siteID, sr_Provider run, sr_Capability run)"
  shows "r \<in> set (t_runs (scheduler_rounds rounds lease siteID d))
    \<and> length (t_runs (scheduler_rounds rounds lease siteID d)) = length (t_runs d)"
  using assms
proof (induction rounds lease siteID d rule: scheduler_rounds.induct)
  case (1 lease siteID d)
  then show ?case by simp
next
  case (2 env env' run rest lease siteID d)
  let ?d = "snd (RequeueStaleRuns env lease d)"
  have wf: "db_wf ?d" and r: "r \<in> set (t_runs ?d)"
    using 2 RequeueStaleRuns_wf requeue_keeps_queued by auto
  have len: "length (t_runs ?d) = length (t_runs d)"
    by (auto simp: RequeueStaleRuns_def update_runs_def Let_def split: option.split)
  have step: "snd (CreateSyncRun env' run siteID ?d) = ?d"
    using 2 wf r by (intro queued_blocks_create) auto
  have rest: "\<forall>(env, env', run) \<in> set rest. no_faults env \<and> no_faults env' \<and> flight_key r = (siteID, sr_Provider run, sr_Capability run)"
    using 2(5) by (meson list.set_intros(2))
  show ?case using 2(1) [unfolded step, OF wf r 2(4) rest] len step by simp
qed

subsection \<open>Instances\<close>

definition demo_run :: "string \<Rightarrow> sync_run" where
  "demo_run k = \<lparr>sr_ID = [], sr_Provider = ''bing'', sr_Capability = ''search.performance'', sr_StartDate = 0, sr_EndDate = 0,
     sr_Status = SyncQueued, sr_RowsSynced = 0, sr_Cursor = [], sr_TriggeredBy = [], sr_IdempotencyKey = k,
     sr_ErrorCode = ErrNone, sr_ErrorMessage = [], sr_StartedAt = 0, sr_FinishedAt = None, sr_CreatedAt = 0, sr_UpdatedAt = 0\<rparr>"

definition demo_runs :: db where
  "demo_runs = run_db_call (demo_db_env ''r1'' 0) (DoMarkRunning ''r1'')
     (run_db_call (demo_db_env ''r1'' 0) (DoCreateRun (demo_run ''k1'') ''main'') empty_db)"

lemma demo_no_faults [simp]: "no_faults (demo_db_env i t)"
  by (simp add: no_faults_def demo_db_env_def)

lemma demo_env_sel [simp]: "e_uuid (demo_db_env i t) = i" "e_now (demo_db_env i t) k = t"
  by (simp_all add: demo_db_env_def)

lemma demo_runs_reachable: "db_reachable demo_runs"
  unfolding demo_runs_def by (intro db_reachable.intros)

lemma demo_runs_rows:
  "t_runs demo_runs = [set_running (format_time 0) (run_row_of (queued_run (demo_db_env ''r1'' 0) (demo_run ''k1'')) ''main'' (format_time 0))]"
  by (simp add: demo_runs_def MarkRunRunning_def update_runs_def CreateSyncRun_unfold empty_db_def runs_unique_def unique_on_def)

lemma time_ok_small: "0 \<le> t \<Longrightarrow> t < 86400000000000000 \<Longrightarrow> time_ok t"
  using zdiv_mono1 [of t 86400000000000000 day_ns] pos_imp_zdiv_nonneg_iff [of day_ns t]
  by (simp add: time_ok_def day_ok_def day_of_def)

theorem single_flight_witness:
  "length (t_runs demo_runs) = 1 \<and> run_active (hd (t_runs demo_runs)) \<and> hd (t_runs demo_runs) = last (t_runs demo_runs)"
proof -
  have "hd (t_runs demo_runs) = last (t_runs demo_runs)"
    by (rule single_flight [OF demo_runs_reachable]) (simp_all add: demo_runs_rows)
  then show ?thesis by (simp add: demo_runs_rows)
qed

theorem create_run_outcome_witness:
  "(\<exists>y \<in> set (t_runs demo_runs). CreateSyncRun (demo_db_env ''r2'' 0) (demo_run ''k2'') ''main'' demo_runs = (Inr (scanRun y, False), demo_runs))
   \<and> snd (CreateSyncRun (demo_db_env ''r2'' 0) (demo_run ''k2'') ''other'' demo_runs) \<noteq> demo_runs"
proof
  have fresh: "e_uuid (demo_db_env ''r2'' 0) \<notin> rn_id ` set (t_runs demo_runs)"
    by (simp add: demo_runs_rows run_row_of_def queued_run_def)
  note T = create_run_outcome [OF demo_runs_reachable demo_no_faults fresh, of "demo_run ''k2''"]
  show "\<exists>y \<in> set (t_runs demo_runs). CreateSyncRun (demo_db_env ''r2'' 0) (demo_run ''k2'') ''main'' demo_runs = (Inr (scanRun y, False), demo_runs)"
    using T [of "''main''"]
    by (auto simp: demo_runs_rows run_conflict_def run_row_of_def queued_run_def demo_run_def split: if_splits)
  have "CreateSyncRun (demo_db_env ''r2'' 0) (demo_run ''k2'') ''other'' demo_runs = (Inr (queued_run (demo_db_env ''r2'' 0) (demo_run ''k2''), True),
      demo_runs\<lparr>t_runs := t_runs demo_runs @ [run_row_of (queued_run (demo_db_env ''r2'' 0) (demo_run ''k2'')) ''other'' (format_time 0)]\<rparr>)"
    using T [of "''other''"] by (simp add: demo_runs_rows run_conflict_def run_row_of_def)
  moreover have "t_runs demo_runs @ [x] \<noteq> t_runs demo_runs" for x by simp
  ultimately show "snd (CreateSyncRun (demo_db_env ''r2'' 0) (demo_run ''k2'') ''other'' demo_runs) \<noteq> demo_runs"
    by (auto dest: arg_cong [of _ _ t_runs])
qed

theorem create_get_roundtrip_witness:
  "\<exists>d'. CreateSyncRun (demo_db_env ''r2'' 7000000000) (demo_run ''k2'') ''other'' demo_runs
      = (Inr (queued_run (demo_db_env ''r2'' 7000000000) (demo_run ''k2''), True), d')
    \<and> (\<exists>r. GetSyncRun (demo_db_env ''x'' 0) ''other'' ''r2'' d' = Inr r \<and> sr_StartedAt r = 7000000000 \<and> sr_IdempotencyKey r = ''k2'')"
proof -
  let ?env = "demo_db_env ''r2'' 7000000000"
  obtain d' where c: "CreateSyncRun ?env (demo_run ''k2'') ''other'' demo_runs = (Inr (queued_run ?env (demo_run ''k2''), True), d')"
    by (simp add: CreateSyncRun_unfold insert_unique_iff demo_runs_rows run_conflict_def runs_unique_def unique_on_def
        unique_on_where_def run_row_of_def queued_run_def demo_run_def)
  have "GetSyncRun (demo_db_env ''x'' 0) ''other'' (sr_ID (queued_run ?env (demo_run ''k2''))) d' = Inr ((demo_run ''k2'')\<lparr>sr_ID := ''r2'', sr_Status := SyncQueued,
      sr_StartDate := truncate_day 0, sr_EndDate := truncate_day 0, sr_StartedAt := to_second 7000000000,
      sr_CreatedAt := to_second 7000000000, sr_UpdatedAt := to_second 7000000000\<rparr>)"
    using create_get_roundtrip [OF demo_runs_reachable _ _ c, of "demo_db_env ''x'' 0"]
    by (simp add: demo_run_def time_ok_small)
  then show ?thesis using c by (simp add: queued_run_def demo_run_def to_second_def)
qed

theorem requeue_exact_witness:
  "RequeueStaleRuns (demo_db_env ''x'' 7200000000000) 1800000000000 demo_runs
     = (Inr 1, demo_runs\<lparr>t_runs := map (set_stale (format_time 7200000000000)) (t_runs demo_runs)\<rparr>)
   \<and> RequeueStaleRuns (demo_db_env ''x'' 1000) 0 demo_runs = (Inr 0, demo_runs)"
proof
  have s: "rn_started_at r = format_time 0 \<and> rn_status r = SyncRunning" if "r \<in> set (t_runs demo_runs)" for r
    using that by (auto simp: demo_runs_rows set_running_def)
  note T = requeue_exact [OF demo_runs_reachable demo_no_faults, where start = "\<lambda>_. 0"]
  have all: "(\<forall>r \<in> set (t_runs demo_runs). rn_status r = SyncRunning)" "length (t_runs demo_runs) = 1"
    using s by (simp_all add: demo_runs_rows)
  show "RequeueStaleRuns (demo_db_env ''x'' 7200000000000) 1800000000000 demo_runs
     = (Inr 1, demo_runs\<lparr>t_runs := map (set_stale (format_time 7200000000000)) (t_runs demo_runs)\<rparr>)"
    using T [of "''x''" 7200000000000 1800000000000] s all
    by (simp add: time_ok_small count_where_def set_stale_def cong: map_cong filter_cong)
  show "RequeueStaleRuns (demo_db_env ''x'' 1000) 0 demo_runs = (Inr 0, demo_runs)"
    using T [of "''x''" 1000 0] s
    by (simp add: time_ok_small count_where_def)
qed

theorem resume_cursor_latest_witness:
  "ResumeCursor (demo_db_env ''x'' 0) ''main'' ''bing'' ''search.performance'' demo_runs = Inr []
   \<and> ResumeCursor (demo_db_env ''x'' 0) ''main'' ''ga4'' ''search.performance'' demo_runs = Inr []"
  using resume_cursor_latest [OF demo_no_faults, of demo_runs "''main''" "''bing''" "''search.performance''" "''x''" 0]
    resume_cursor_latest [OF demo_no_faults, of demo_runs "''main''" "''ga4''" "''search.performance''" "''x''" 0]
  by (simp add: demo_runs_rows run_row_of_def queued_run_def demo_run_def)

theorem list_runs_newest_witness:
  "\<exists>rows. ListSyncRuns (demo_db_env ''x'' 0) ''main'' ''bing'' 10 demo_runs = Inr (map scanRun rows) \<and> length rows = 1"
  using list_runs_newest [OF demo_no_faults, of 10 "''x''" 0 "''main''" "''bing''" demo_runs]
  by (auto simp: demo_runs_rows run_listed_def run_row_of_def queued_run_def demo_run_def)

end
