(* ===== verification/Tables.thy ===== *)
theory Tables
  imports Runs
begin

text \<open>
  Contracts of the remaining tables: report rows refine a map that is updated batch by batch,
  OAuth states are single use and bound to who asked for them, connections change by
  compare-and-swap.
\<close>

section \<open>Definitions\<close>

text \<open>The abstract view of the report rows: one document per site, dataset and key.\<close>

type_synonym reports = "string \<times> string \<times> string \<rightharpoonup> report_row"

definition abs_rows :: "rep_row list \<Rightarrow> reports" where
  "abs_rows rows = map_of (map (\<lambda>r. ((rp_site_id r, rp_dataset r, rp_row_key r), rp_data r)) rows)"

definition abs_reports :: "db \<Rightarrow> reports" where
  "abs_reports d = abs_rows (t_reports d)"

definition put_rows :: "string \<Rightarrow> string \<Rightarrow> report_row list \<Rightarrow> reports \<Rightarrow> reports" where
  "put_rows siteID dataset rows m = fold (\<lambda>row m. m((siteID, dataset, row_key_of row) \<mapsto> row)) rows m"

text \<open>A batch the store accepts.\<close>

definition batch_ok :: "string \<Rightarrow> string \<Rightarrow> report_row list \<Rightarrow> db \<Rightarrow> bool" where
  "batch_ok siteID dataset rows d \<longleftrightarrow> siteID \<noteq> [] \<and> dataset \<noteq> []
     \<and> list_all (\<lambda>row. row_key_of row \<noteq> [] \<and> row_json_ok row) rows
     \<and> (rows \<noteq> [] \<longrightarrow> site_exists siteID d)"

definition oauth_row_of :: "oauth_state \<Rightarrow> gotime \<Rightarrow> int \<Rightarrow> oauth_row" where
  "oauth_row_of st now ttl =
     \<lparr>oa_state = ost_State st, oa_provider = ost_Provider st, oa_site_id = ost_SiteID st,
      oa_subject_id = ost_SubjectID st, oa_pkce_verifier = ost_PKCEVerifier st,
      oa_redirect_uri = ost_RedirectURI st, oa_return_to = ost_ReturnTo st,
      oa_created_at = format_time now, oa_expires_at = format_time (now + ttl)\<rparr>"

section \<open>Report rows\<close>

lemma abs_rows_Cons:
  "abs_rows (r # rows) = (abs_rows rows)((rp_site_id r, rp_dataset r, rp_row_key r) \<mapsto> rp_data r)"
  by (simp add: abs_rows_def)

lemma abs_rows_upsert:
  assumes "unique_on (\<lambda>r. (rp_site_id r, rp_dataset r, rp_row_key r)) rows"
  shows "abs_rows (upsert_row i ds k data now rows) = (abs_rows rows)((i, ds, k) \<mapsto> data)"
proof (cases "list_ex (rep_is i ds k) rows")
  case False
  then have "(i, ds, k) \<notin> (\<lambda>r. (rp_site_id r, rp_dataset r, rp_row_key r)) ` set rows"
    by (auto simp: list_ex_iff rep_is_def)
  then have "abs_rows rows (i, ds, k) = None"
    by (simp add: abs_rows_def map_of_eq_None_iff image_image)
  with False show ?thesis
    by (auto simp: upsert_row_def abs_rows_def map_add_def fun_eq_iff split: option.split)
next
  case True
  have "abs_rows (update_where (rep_is i ds k) (\<lambda>r. r\<lparr>rp_data := data, rp_updated_at := now\<rparr>) rows) = (abs_rows rows)((i, ds, k) \<mapsto> data)"
    using True
  proof (induction rows)
    case Nil
    then show ?case by simp
  next
    case (Cons r rows)
    show ?case
    proof (cases "list_ex (rep_is i ds k) rows")
      case True
      then show ?thesis
        using Cons.IH by (cases "rep_is i ds k r") (simp_all add: abs_rows_Cons, auto simp: rep_is_def fun_upd_twist)
    next
      case False
      then have "update_where (rep_is i ds k) (\<lambda>r. r\<lparr>rp_data := data, rp_updated_at := now\<rparr>) rows = rows"
        by (intro update_where_none) (auto simp: list_ex_iff)
      moreover have "rep_is i ds k r" using Cons.prems False by simp
      moreover from this have "rp_site_id r = i" "rp_dataset r = ds" "rp_row_key r = k" by (simp_all add: rep_is_def)
      ultimately show ?thesis by (simp add: abs_rows_Cons fun_eq_iff)
    qed
  qed
  with True show ?thesis by (simp add: upsert_row_def)
qed

lemma upsert_loop_frame:
  "upsert_loop env k i ds now rows d = Inr d' \<Longrightarrow> \<exists>rs. d' = d\<lparr>t_reports := rs\<rparr>"
proof (induction env k i ds now rows d rule: upsert_loop.induct)
  case (1 env k siteID dataset now d)
  then have "d' = d\<lparr>t_reports := t_reports d\<rparr>" by (simp split: option.splits)
  then show ?case by blast
next
  case (2 env k siteID dataset now row rows d)
  then show ?case by (simp split: option.splits if_splits)
qed

lemma upsert_loop_abs:
  assumes "upsert_loop env k i ds now rows d = Inr d'" "db_wf d" "ds \<noteq> []"
  shows "abs_reports d' = put_rows i ds rows (abs_reports d)"
  using assms
proof (induction env k i ds now rows d rule: upsert_loop.induct)
  case (1 env k siteID dataset now d)
  then show ?case by (simp add: put_rows_def split: option.splits)
next
  case (2 env k siteID dataset now row rows d)
  let ?d = "d\<lparr>t_reports := upsert_row siteID dataset (row_key_of row) row now (t_reports d)\<rparr>"
  have c: "row_key_of row \<noteq> []" "row_json_ok row" "e_fault env k = None" "site_exists siteID d"
    and l: "upsert_loop env (Suc k) siteID dataset now rows ?d = Inr d'"
    using 2(2) by (auto split: option.splits if_splits)
  have "abs_reports ?d = (abs_reports d)((siteID, dataset, row_key_of row) \<mapsto> row)"
    using 2(3) by (simp add: abs_reports_def abs_rows_upsert db_wf_def reports_wf_def)
  moreover have "db_wf ?d" using 2(3,4) c by (intro upsert_row_wf)
  then have "abs_reports d' = put_rows siteID dataset rows (abs_reports ?d)"
    using 2(1) [OF _ _ c(3)] c l 2(4) by blast
  ultimately show ?case by (simp only: put_rows_def fold_Cons o_apply)
qed

lemma upsert_loop_total:
  assumes "no_faults env" "list_all (\<lambda>row. row_key_of row \<noteq> [] \<and> row_json_ok row) rows" "rows \<noteq> [] \<longrightarrow> site_exists i d"
  shows "\<exists>d'. upsert_loop env k i ds now rows d = Inr d'"
  using assms
proof (induction env k i ds now rows d rule: upsert_loop.induct)
  case (1 env k siteID dataset now d)
  then show ?case by simp
next
  case (2 env k siteID dataset now row rows d)
  then show ?case by (simp add: site_exists_def)
qed

lemma upsert_loop_batch_ok:
  "upsert_loop env k i ds now rows d = Inr d' \<Longrightarrow>
     list_all (\<lambda>row. row_key_of row \<noteq> [] \<and> row_json_ok row) rows \<and> (rows \<noteq> [] \<longrightarrow> site_exists i d)"
  by (induction env k i ds now rows d rule: upsert_loop.induct) (auto split: option.splits if_splits)

text \<open>
  C3: writing a batch of report rows is all or nothing and refines a map update. If it succeeds, the
  stored documents are the old ones overridden, in order, by the batch, and no other table changes; if it
  fails, for whatever reason and at whatever row, the database is as before. Without faults it
  succeeds exactly for the batches that name a known site and a dataset and whose rows all have a
  key and are valid JSON documents.
\<close>

theorem upsert_refines:
  assumes "db_reachable d"
  shows "case UpsertReportRows env siteID dataset rows d of
      (None, d') \<Rightarrow> abs_reports d' = put_rows siteID dataset rows (abs_reports d) \<and> (\<exists>rs. d' = d\<lparr>t_reports := rs\<rparr>)
        \<and> batch_ok siteID dataset rows d
    | (Some e, d') \<Rightarrow> d' = d \<and> (no_faults env \<longrightarrow> \<not> batch_ok siteID dataset rows d)"
proof -
  have wf: "db_wf d" using db_reachable_wf [OF assms] .
  show ?thesis
  proof (cases "siteID = [] \<or> dataset = [] \<or> e_fault env 0 \<noteq> None")
    case True
    then show ?thesis by (auto simp: UpsertReportRows_def batch_ok_def no_faults_def)
  next
    case False
    let ?L = "upsert_loop env 1 siteID dataset (format_time (e_now env 0)) rows d"
    show ?thesis
    proof (cases ?L)
      case (Inl e)
      then have "\<not> batch_ok siteID dataset rows d" if "no_faults env"
        using upsert_loop_total [OF that, of rows siteID d 1 dataset "format_time (e_now env 0)"]
        by (auto simp: batch_ok_def)
      with Inl False show ?thesis by (auto simp: UpsertReportRows_def)
    next
      case (Inr d')
      then show ?thesis
        using False upsert_loop_abs [OF Inr wf] upsert_loop_frame [OF Inr] upsert_loop_batch_ok [OF Inr]
        by (simp add: UpsertReportRows_def batch_ok_def)
    qed
  qed
qed

section \<open>OAuth states\<close>

lemma find_filter: "List.find P xs = (case filter P xs of [] \<Rightarrow> None | x # _ \<Rightarrow> Some x)"
  by (induction xs) auto

lemma find_SomeD: "List.find P xs = Some x \<Longrightarrow> x \<in> set xs \<and> P x"
  by (auto simp: find_Some_iff)

lemma ConsumeOAuthState_ok:
  assumes "ConsumeOAuthState env st p i sub d = (Inr out, d')"
  shows "\<exists>r \<in> set (t_oauth d). out = scan_oauth r \<and> oa_state r = st \<and> oa_provider r = p \<and> oa_site_id r = i
    \<and> oa_subject_id r = sub \<and> oa_expires_at r > format_time (e_now env 0)"
    and "r \<in> set (t_oauth d') \<Longrightarrow> r \<in> set (t_oauth d) \<and>
      \<not> (oa_state r = st \<and> oa_provider r = p \<and> oa_site_id r = i \<and> oa_subject_id r = sub \<and> oa_expires_at r > format_time (e_now env 0))"
  using assms by (auto simp: ConsumeOAuthState_def Let_def dest!: find_SomeD split: option.splits)

lemma ConsumeOAuthState_gone:
  assumes "db_wf d" "ConsumeOAuthState env st p i sub d = (Inr out, d')" "r \<in> set (t_oauth d')"
  shows "oa_state r \<noteq> st"
proof
  assume eq: "oa_state r = st"
  obtain x where x: "x \<in> set (t_oauth d)" "oa_state x = st" "oa_provider x = p" "oa_site_id x = i" "oa_subject_id x = sub"
      "oa_expires_at x > format_time (e_now env 0)"
    using ConsumeOAuthState_ok(1) [OF assms(2)] by auto
  have "r = x" using unique_onD [of oa_state "t_oauth d"] assms(1) x(1,2) eq ConsumeOAuthState_ok(2) [OF assms(2,3)]
    by (simp add: db_wf_def)
  then show False using ConsumeOAuthState_ok(2) [OF assms(2,3)] x by simp
qed

lemma ConsumeOAuthState_absent:
  assumes "\<forall>r \<in> set (t_oauth d). oa_state r \<noteq> st"
  shows "\<exists>e. ConsumeOAuthState env st p i sub d = (Inl e, d)"
proof -
  have "List.find (\<lambda>r. oa_state r = st \<and> oa_provider r = p \<and> oa_site_id r = i \<and> oa_subject_id r = sub
      \<and> oa_expires_at r > format_time (e_now env 0)) (t_oauth d) = None"
    using assms by (auto simp: find_None_iff)
  then show ?thesis by (simp add: ConsumeOAuthState_def Let_def split: option.split)
qed

text \<open>No operation but \<^verbatim>\<open>CreateOAuthState\<close> adds a state.\<close>

fun created_states :: "(db_env \<times> db_call) list \<Rightarrow> string set" where
  "created_states [] = {}"
| "created_states ((env, DoCreateState st ttl) # cs) = insert (ost_State st) (created_states cs)"
| "created_states (_ # cs) = created_states cs"

lemma upsert_oauth: "t_oauth (snd (UpsertReportRows env i ds rows d)) = t_oauth d"
  by (auto simp: UpsertReportRows_def dest: upsert_loop_frame split: option.split sum.split)

lemma update_runs_oauth: "t_oauth (snd (update_runs env P f d)) = t_oauth d"
  by (simp add: update_runs_def split: option.split)

lemma run_db_call_oauth:
  assumes "r \<in> set (t_oauth (run_db_call env c d))" "oa_state r \<notin> created_states [(env, c)]"
  shows "r \<in> set (t_oauth d)"
proof (cases c)
  case (DoUpsert i ds rows)
  then show ?thesis using assms by (simp add: upsert_oauth)
next
  case (DoConsumeState st p i sub)
  then show ?thesis using assms by (auto simp: ConsumeOAuthState_def Let_def split: option.splits)
next
  case (DoCreateState st ttl)
  then show ?thesis using assms by (auto simp: CreateOAuthState_def Let_def split: option.splits if_splits)
next
  case (DoCreateRun run i)
  then show ?thesis using assms by (auto simp: CreateSyncRun_def Let_def split: option.splits sum.splits if_splits)
qed (use assms in \<open>auto simp: EnsureSite_def EnsureConnection_def ConfigureConnection_def ConfigureConnectionCAS_def
      UpdateConnectionOutcome_def MarkRunRunning_def FinishRun_def RequeueStaleRuns_def SetRunCursor_def AppendAudit_def
      Let_def update_runs_oauth split: option.splits if_splits\<close>)

lemma calls_oauth_absent:
  assumes "\<forall>r \<in> set (t_oauth d). oa_state r \<noteq> st" "st \<notin> created_states cs"
  shows "\<forall>r \<in> set (t_oauth (fold (\<lambda>(env, c). run_db_call env c) cs d)). oa_state r \<noteq> st"
  using assms
proof (induction cs arbitrary: d)
  case Nil
  then show ?case by simp
next
  case (Cons x cs)
  obtain env c where x: "x = (env, c)" by force
  have st: "st \<notin> created_states cs" "st \<notin> created_states [(env, c)]" using Cons.prems(2) x by (cases c; simp)+
  have "\<forall>r \<in> set (t_oauth (run_db_call env c d)). oa_state r \<noteq> st"
    using run_db_call_oauth [of _ env c d] Cons.prems(1) st(2) by blast
  then show ?case using Cons.IH st(1) x by simp
qed

text \<open>
  C6: an OAuth state is consumed at most once. A successful consumption returns a stored state that
  was created for this provider, site and subject and has not expired; afterwards no call with
  that state succeeds, by whomever and whatever operations come in between, unless the same state is
  created again.
\<close>

theorem oauth_single_use:
  assumes "db_reachable d" "ConsumeOAuthState env st p i sub d = (Inr out, d')" "st \<notin> created_states cs"
  shows "(\<exists>r \<in> set (t_oauth d). out = scan_oauth r \<and> oa_state r = st \<and> oa_provider r = p \<and> oa_site_id r = i
      \<and> oa_subject_id r = sub \<and> oa_expires_at r > format_time (e_now env 0))
    \<and> (\<exists>e. fst (ConsumeOAuthState env' st p' i' sub' (fold (\<lambda>(env, c). run_db_call env c) cs d')) = Inl e)"
proof
  show "\<exists>r \<in> set (t_oauth d). out = scan_oauth r \<and> oa_state r = st \<and> oa_provider r = p \<and> oa_site_id r = i
      \<and> oa_subject_id r = sub \<and> oa_expires_at r > format_time (e_now env 0)"
    by (rule ConsumeOAuthState_ok(1) [OF assms(2)])
  have "\<forall>r \<in> set (t_oauth d'). oa_state r \<noteq> st"
    using ConsumeOAuthState_gone [OF db_reachable_wf [OF assms(1)] assms(2)] by blast
  then have "\<forall>r \<in> set (t_oauth (fold (\<lambda>(env, c). run_db_call env c) cs d')). oa_state r \<noteq> st"
    by (rule calls_oauth_absent [OF _ assms(3)])
  then show "\<exists>e. fst (ConsumeOAuthState env' st p' i' sub' (fold (\<lambda>(env, c). run_db_call env c) cs d')) = Inl e"
    using ConsumeOAuthState_absent by (metis fst_conv)
qed

lemma CreateOAuthState_ok:
  "CreateOAuthState env st ttl d = (None, d1) \<longleftrightarrow> e_fault env 0 = None \<and> ost_State st \<notin> oa_state ` set (t_oauth d)
     \<and> d1 = d\<lparr>t_oauth := t_oauth d @ [oauth_row_of st (e_now env 0) ttl]\<rparr>"
  by (auto simp: CreateOAuthState_def Let_def oauth_row_of_def split: option.splits)

lemma oauth_row_of_sel [simp]:
  "oa_state (oauth_row_of st now ttl) = ost_State st" "oa_provider (oauth_row_of st now ttl) = ost_Provider st"
  "oa_site_id (oauth_row_of st now ttl) = ost_SiteID st" "oa_subject_id (oauth_row_of st now ttl) = ost_SubjectID st"
  "oa_expires_at (oauth_row_of st now ttl) = format_time (now + ttl)"
  by (simp_all add: oauth_row_of_def)

lemma scan_oauth_row_of:
  "time_ok (now + ttl) \<Longrightarrow> scan_oauth (oauth_row_of st now ttl) = st\<lparr>ost_ExpiresAt := to_second (now + ttl)\<rparr>"
  by (simp add: scan_oauth_def oauth_row_of_def parse_or_zero_time)

text \<open>
  A pending authorization completes only for the one who started it and in time. A state just created
  is returned, with its verifier and destinations, to a call with the same provider, site and
  subject before the second in which it expires; any other call fails and leaves the
  state in place.
\<close>

theorem oauth_bound:
  assumes "no_faults env" "no_faults env'" "CreateOAuthState env st ttl d = (None, d1)"
    and ok: "time_ok (e_now env 0 + ttl)" "time_ok (e_now env' 0)"
  shows "if p = ost_Provider st \<and> i = ost_SiteID st \<and> sub = ost_SubjectID st
      \<and> e_now env' 0 div second_ns < (e_now env 0 + ttl) div second_ns
    then fst (ConsumeOAuthState env' (ost_State st) p i sub d1) = Inr (st\<lparr>ost_ExpiresAt := to_second (e_now env 0 + ttl)\<rparr>)
    else ConsumeOAuthState env' (ost_State st) p i sub d1 = (Inl OAuthStateInvalid, d1)"
proof -
  define P where "P r \<longleftrightarrow> oa_state r = ost_State st \<and> oa_provider r = p \<and> oa_site_id r = i \<and> oa_subject_id r = sub
    \<and> format_time (e_now env' 0) < oa_expires_at r" for r :: oauth_row
  let ?r = "oauth_row_of st (e_now env 0) ttl"
  have new: "\<forall>r \<in> set (t_oauth d). \<not> P r" and d1: "t_oauth d1 = t_oauth d @ [?r]"
    using assms(3) by (auto simp: CreateOAuthState_ok P_def) (metis image_eqI)
  then have find: "List.find P (t_oauth d1) = (if P ?r then Some ?r else None)"
    by (simp add: find_filter filter_False)
  have P: "P ?r \<longleftrightarrow> p = ost_Provider st \<and> i = ost_SiteID st \<and> sub = ost_SubjectID st
      \<and> e_now env' 0 div second_ns < (e_now env 0 + ttl) div second_ns"
    using format_time_less [OF ok(2,1)] by (auto simp: P_def)
  have C: "ConsumeOAuthState env' (ost_State st) p i sub d1 =
      (case List.find P (t_oauth d1) of None \<Rightarrow> (Inl OAuthStateInvalid, d1)
       | Some r \<Rightarrow> (Inr (scan_oauth r), snd (ConsumeOAuthState env' (ost_State st) p i sub d1)))"
    using assms(2) by (simp add: ConsumeOAuthState_def Let_def P_def [abs_def] split: option.split)
  show ?thesis
  proof (cases "P ?r")
    case True
    then have "fst (ConsumeOAuthState env' (ost_State st) p i sub d1) = Inr (scan_oauth ?r)"
      by (subst C) (simp add: find)
    with True ok(1) show ?thesis unfolding P [symmetric] by (simp add: scan_oauth_row_of)
  next
    case False
    then have "ConsumeOAuthState env' (ost_State st) p i sub d1 = (Inl OAuthStateInvalid, d1)"
      by (subst C) (simp add: find)
    with False show ?thesis unfolding P [symmetric] by simp
  qed
qed

section \<open>Connections\<close>

lemma conn_unique:
  assumes "db_wf d" "c \<in> set (t_connections d)" "conn_is i p c"
  shows "filter (conn_is i p) (t_connections d) = [c]" "List.find (conn_is i p) (t_connections d) = Some c"
proof -
  have u: "unique_on (\<lambda>c. (cn_site_id c, cn_provider c)) (t_connections d)"
    using assms(1) by (simp add: db_wf_def connections_wf_def)
  have same: "x = c" if "x \<in> set (t_connections d)" "conn_is i p x" for x
    using unique_onD [OF u that(1) assms(2)] that(2) assms(3) by (simp add: conn_is_def)
  have dist: "distinct (t_connections d)" using u by (simp add: unique_on_def distinct_map)
  have "set (filter (conn_is i p) (t_connections d)) = {c}"
  proof (intro equalityI subsetI)
    fix x assume "x \<in> set (filter (conn_is i p) (t_connections d))"
    then have "x = c" by (intro same) simp_all
    then show "x \<in> {c}" by simp
  next
    fix x assume "x \<in> {c}"
    then show "x \<in> set (filter (conn_is i p) (t_connections d))" using assms(2,3) by simp
  qed
  then have one: "length (filter (conn_is i p) (t_connections d)) = 1"
    using distinct_card [OF distinct_filter [OF dist, of "conn_is i p"]] by simp
  then obtain x where x: "filter (conn_is i p) (t_connections d) = [x]" by (auto simp: length_Suc_conv)
  then show filter: "filter (conn_is i p) (t_connections d) = [c]"
    using \<open>set (filter (conn_is i p) (t_connections d)) = {c}\<close> by simp
  show "List.find (conn_is i p) (t_connections d) = Some c"
    using filter by (simp add: find_filter)
qed

lemma GetConnection_row:
  assumes "db_wf d" "c \<in> set (t_connections d)" "conn_is i p c" "no_faults env"
  shows "GetConnection env i p d = Inr (scanConnection c)"
  using conn_unique [OF assms(1-3)] assms(4) by (simp add: GetConnection_def)

lemma GetConnection_iff:
  assumes "db_wf d" "no_faults env"
  shows "GetConnection env i p d = Inr pc \<longleftrightarrow> (\<exists>c \<in> set (t_connections d). conn_is i p c \<and> pc = scanConnection c)"
proof
  assume "GetConnection env i p d = Inr pc"
  then show "\<exists>c \<in> set (t_connections d). conn_is i p c \<and> pc = scanConnection c"
    using assms(2) by (auto simp: GetConnection_def dest!: find_SomeD split: option.splits)
next
  assume "\<exists>c \<in> set (t_connections d). conn_is i p c \<and> pc = scanConnection c"
  then show "GetConnection env i p d = Inr pc" using GetConnection_row [OF assms(1) _ _ assms(2)] by auto
qed

lemma cas_lost:
  assumes "count_where (\<lambda>x. conn_is i p x \<and> cn_credential_ref x = cr_ID expected) (t_connections d) = 0"
  shows "snd (ConfigureConnectionCAS env i p expected new pr en d) = d \<and> fst (ConfigureConnectionCAS env i p expected new pr en d) \<noteq> Inr True"
  using update_where_none [OF assms] assms
  by (simp add: ConfigureConnectionCAS_def Let_def del: count_where_zero split: option.split)

text \<open>
  C5: swapping a credential is atomic and exclusive. A swap reports success exactly when the connection
  still refers to the expected credential; it then installs the new reference, property and enablement
  and keeps everything else of the connection, and a competing swap that expected the same
  credential fails without effect. A swap that reports failure changes nothing.
\<close>

theorem cas_exclusive:
  assumes "db_reachable d" "no_faults env" "no_faults er" "GetConnection er i p d = Inr pc" "cr_ID new \<noteq> cr_ID expected"
  shows "if cr_ID (pc_CredentialRef pc) = cr_ID expected
    then \<exists>d'. ConfigureConnectionCAS env i p expected new prop en d = (Inr True, d')
      \<and> (\<exists>u. GetConnection er i p d' = Inr (pc\<lparr>pc_CredentialRef := new, pc_PropertyReference := prop, pc_Enabled := en, pc_UpdatedAt := u\<rparr>))
      \<and> (\<forall>env' new' prop' en'. snd (ConfigureConnectionCAS env' i p expected new' prop' en' d') = d'
          \<and> fst (ConfigureConnectionCAS env' i p expected new' prop' en' d') \<noteq> Inr True)
    else ConfigureConnectionCAS env i p expected new prop en d = (Inr False, d)"
proof -
  have wf: "db_wf d" using db_reachable_wf [OF assms(1)] .
  obtain c where c: "c \<in> set (t_connections d)" "conn_is i p c" "pc = scanConnection c"
    using assms(4) GetConnection_iff [OF wf assms(3)] by auto
  define P where "P x \<longleftrightarrow> conn_is i p x \<and> cn_credential_ref x = cr_ID expected" for x :: conn_row
  define f where "f = set_configuration new prop en (format_time (e_now env 0))"
  have F: "filter P (t_connections d) = filter (\<lambda>x. cn_credential_ref x = cr_ID expected) [c]"
    unfolding conn_unique(1) [OF wf c(1,2), symmetric] filter_filter by (auto simp: P_def intro!: filter_cong)
  have CAS: "ConfigureConnectionCAS env i p expected new prop en d =
      (Inr (count_where P (t_connections d) = 1), d\<lparr>t_connections := update_where P f (t_connections d)\<rparr>)"
    using assms(2) by (simp add: ConfigureConnectionCAS_def Let_def P_def [abs_def] f_def)
  have ref: "cr_ID (pc_CredentialRef pc) = cn_credential_ref c" by (simp add: c(3) scanConnection_def)
  show ?thesis
  proof (cases "cn_credential_ref c = cr_ID expected")
    case False
    then have "update_where P f (t_connections d) = t_connections d" "count_where P (t_connections d) = 0"
      using F by (simp_all add: update_where_none count_where_def)
    with False ref CAS show ?thesis by simp
  next
    case True
    let ?d = "d\<lparr>t_connections := update_where P f (t_connections d)\<rparr>"
    have "count_where P (t_connections d) = 1" using F True by (simp add: count_where_def)
    then have 1: "ConfigureConnectionCAS env i p expected new prop en d = (Inr True, ?d)" using CAS by simp
    have wf': "db_wf ?d" using ConfigureConnectionCAS_wf [OF wf, of env i p expected new "prop" en] 1 by simp
    have "f c \<in> set (t_connections ?d)" "conn_is i p (f c)"
      using c(1,2) True by (auto simp: set_update_where P_def f_def conn_is_def)
    then have get: "GetConnection er i p ?d = Inr (scanConnection (f c))"
      using GetConnection_row [OF wf' _ _ assms(3)] by simp
    have "\<not> P x" if "x \<in> set (update_where P f (t_connections d))" for x
      using that assms(5) by (auto simp: set_update_where P_def f_def set_configuration_def)
    then have none: "count_where P (t_connections ?d) = 0" by simp
    have lose: "snd (ConfigureConnectionCAS env' i p expected new' prop' en' ?d) = ?d
        \<and> fst (ConfigureConnectionCAS env' i p expected new' prop' en' ?d) \<noteq> Inr True" for env' new' prop' en'
      by (rule cas_lost) (use none in \<open>simp add: P_def [abs_def]\<close>)
    have "scanConnection (f c) = pc\<lparr>pc_CredentialRef := new, pc_PropertyReference := prop, pc_Enabled := en,
        pc_UpdatedAt := parse_or_zero parse_time (format_time (e_now env 0))\<rparr>"
      by (simp add: c(3) scanConnection_def f_def set_configuration_def boolInt_def)
    with get have "\<exists>u. GetConnection er i p ?d = Inr (pc\<lparr>pc_CredentialRef := new, pc_PropertyReference := prop, pc_Enabled := en, pc_UpdatedAt := u\<rparr>)"
      by auto
    with 1 lose True ref show ?thesis by auto
  qed
qed

text \<open>
  The outcome of a run on its connection. A success sets the time of the last success, moves the data
  date only when one is reported and clears the error; a failure records code and message
  and keeps the last success and the data date.
\<close>

theorem outcome_recorded:
  assumes "db_reachable d" "no_faults env" "no_faults er" "GetConnection er i p d = Inr pc"
    and "time_ok (e_now env 0)" "\<And>t. ok = Some t \<Longrightarrow> time_ok t" "\<And>t. through = Some t \<Longrightarrow> time_ok t"
  shows "\<exists>d'. UpdateConnectionOutcome env i p ok through code msg d = (None, d') \<and> GetConnection er i p d' = Inr
    (case ok of
       Some t \<Rightarrow> pc\<lparr>pc_LastSuccessAt := Some (to_second t),
         pc_DataThroughDate := (case through of None \<Rightarrow> pc_DataThroughDate pc | Some x \<Rightarrow> Some (truncate_day x)),
         pc_LastErrorCode := ErrNone, pc_LastErrorMessage := [], pc_UpdatedAt := to_second (e_now env 0)\<rparr>
     | None \<Rightarrow> pc\<lparr>pc_LastErrorCode := code, pc_LastErrorMessage := msg, pc_UpdatedAt := to_second (e_now env 0)\<rparr>)"
proof -
  have wf: "db_wf d" using db_reachable_wf [OF assms(1)] .
  obtain c where c: "c \<in> set (t_connections d)" "conn_is i p c" "pc = scanConnection c"
    using assms(4) GetConnection_iff [OF wf assms(3)] by auto
  define f where "f = (case ok of
       Some t \<Rightarrow> set_success (format_time t) (map_option format_date through) (format_time (e_now env 0))
     | None \<Rightarrow> set_failure code msg (format_time (e_now env 0)))"
  have f: "cn_id (f x) = cn_id x \<and> cn_site_id (f x) = cn_site_id x \<and> cn_provider (f x) = cn_provider x" for x
    by (simp add: f_def split: option.split)
  let ?d = "d\<lparr>t_connections := update_where (conn_is i p) f (t_connections d)\<rparr>"
  have U: "UpdateConnectionOutcome env i p ok through code msg d = (None, ?d)"
    using assms(2) by (simp add: UpdateConnectionOutcome_def Let_def f_def)
  have "f c \<in> set (t_connections ?d)" "conn_is i p (f c)"
    using c(1,2) f by (auto simp: set_update_where conn_is_def)
  then have "GetConnection er i p ?d = Inr (scanConnection (f c))"
    using GetConnection_row [OF update_connections_wf [OF wf f] _ _ assms(3)] by simp
  moreover have "scanConnection (f c) = (case ok of
       Some t \<Rightarrow> pc\<lparr>pc_LastSuccessAt := Some (to_second t),
         pc_DataThroughDate := (case through of None \<Rightarrow> pc_DataThroughDate pc | Some x \<Rightarrow> Some (truncate_day x)),
         pc_LastErrorCode := ErrNone, pc_LastErrorMessage := [], pc_UpdatedAt := to_second (e_now env 0)\<rparr>
     | None \<Rightarrow> pc\<lparr>pc_LastErrorCode := code, pc_LastErrorMessage := msg, pc_UpdatedAt := to_second (e_now env 0)\<rparr>)"
    using assms(5-7)
    by (simp add: c(3) scanConnection_def f_def set_success_def set_failure_def parse_or_zero_time
        parse_time_format_time parse_date_format_date to_second_def split: option.split)
  ultimately show ?thesis using U by simp
qed

section \<open>Instances\<close>

definition demo_state :: oauth_state where
  "demo_state = \<lparr>ost_State = ''s1'', ost_Provider = ''ga4'', ost_SiteID = ''main'', ost_SubjectID = ''alice'',
     ost_PKCEVerifier = ''v'', ost_RedirectURI = ''https://example.com/cb'', ost_ReturnTo = ''/'', ost_ExpiresAt = 0\<rparr>"

definition demo_oauth :: db where
  "demo_oauth = run_db_call (demo_db_env ''x'' 0) (DoCreateState demo_state 600000000000) empty_db"

definition demo_conn :: db where
  "demo_conn = run_db_call (demo_db_env ''x'' 0) (DoConfigure ''main'' ''bing'' \<lparr>cr_ID = ''c1'', cr_Type = ''api_key''\<rparr> ''p'' True)
     (run_db_call (demo_db_env ''x'' 0) (DoEnsureConnection ''main'' ''bing'')
       (run_db_call (demo_db_env ''x'' 0) (DoEnsureSite demo_site) empty_db))"

lemma demo_conn_reachable: "db_reachable demo_conn"
  unfolding demo_conn_def by (intro db_reachable.intros)

lemma demo_conn_rows:
  "t_connections demo_conn = [set_configuration \<lparr>cr_ID = ''c1'', cr_Type = ''api_key''\<rparr> ''p'' True (format_time 0)
     (new_connection ''x'' ''main'' ''bing'' (format_time 0))]"
  by (simp add: demo_conn_def ConfigureConnection_def EnsureConnection_def EnsureSite_def empty_db_def site_exists_def demo_site_def
      Let_def conn_is_def new_connection_def)

lemma demo_conn_get:
  "GetConnection (demo_db_env ''y'' 0) ''main'' ''bing'' demo_conn = Inr (scanConnection (hd (t_connections demo_conn)))"
  by (simp add: GetConnection_def demo_conn_rows conn_is_def set_configuration_def new_connection_def)

theorem upsert_refines_witness:
  "abs_reports demo_reports (''main'', ''bing.query'', ''b'') = Some [(''_key'', JStr ''b''), (''clicks'', JInt 2)]"
proof -
  let ?d = "run_db_call (demo_db_env ''u'' 0) (DoEnsureSite demo_site) empty_db"
  have d: "db_reachable ?d" by (intro db_reachable.intros)
  have "batch_ok ''main'' ''bing.query'' demo_rows ?d"
    by (simp add: batch_ok_def demo_rows_def row_key_of_def row_json_ok_def site_exists_def EnsureSite_def empty_db_def demo_site_def demo_db_env_def)
  then have "abs_reports demo_reports = put_rows ''main'' ''bing.query'' demo_rows (abs_reports ?d)"
    using upsert_refines [OF d, where env = "demo_db_env ''u'' 0" and siteID = "''main''" and dataset = "''bing.query''" and rows = demo_rows]
    by (auto simp: demo_reports_def split: prod.splits option.splits)
  then show ?thesis by (simp add: put_rows_def demo_rows_def row_key_of_def)
qed

theorem oauth_single_use_witness:
  "\<exists>d'. ConsumeOAuthState (demo_db_env ''x'' 1000000000) ''s1'' ''ga4'' ''main'' ''alice'' demo_oauth
      = (Inr (demo_state\<lparr>ost_ExpiresAt := 600000000000\<rparr>), d')
    \<and> (\<exists>e. fst (ConsumeOAuthState (demo_db_env ''x'' 2000000000) ''s1'' ''ga4'' ''main'' ''alice'' d') = Inl e)"
proof -
  have reach: "db_reachable demo_oauth" unfolding demo_oauth_def by (intro db_reachable.intros)
  have "List.find (\<lambda>r. oa_state r = ''s1'' \<and> oa_provider r = ''ga4'' \<and> oa_site_id r = ''main'' \<and> oa_subject_id r = ''alice''
        \<and> format_time 1000000000 < oa_expires_at r) (t_oauth demo_oauth) = Some (oauth_row_of demo_state 0 600000000000)"
    using format_time_less [of 1000000000 600000000000]
    by (simp add: demo_oauth_def CreateOAuthState_def empty_db_def oauth_row_of_def demo_state_def time_ok_small)
  then obtain d' where c: "ConsumeOAuthState (demo_db_env ''x'' 1000000000) ''s1'' ''ga4'' ''main'' ''alice'' demo_oauth
      = (Inr (demo_state\<lparr>ost_ExpiresAt := 600000000000\<rparr>), d')"
    by (simp add: ConsumeOAuthState_def Let_def scan_oauth_row_of time_ok_small to_second_def)
  then show ?thesis using oauth_single_use [OF reach c, of "[]" "demo_db_env ''x'' 2000000000" "''ga4''" "''main''" "''alice''"]
    by simp
qed

theorem oauth_bound_witness:
  "fst (ConsumeOAuthState (demo_db_env ''x'' 1000000000) ''s1'' ''ga4'' ''main'' ''alice'' demo_oauth)
      = Inr (demo_state\<lparr>ost_ExpiresAt := 600000000000\<rparr>)
   \<and> ConsumeOAuthState (demo_db_env ''x'' 1000000000) ''s1'' ''ga4'' ''main'' ''mallory'' demo_oauth = (Inl OAuthStateInvalid, demo_oauth)"
proof
  have c: "CreateOAuthState (demo_db_env ''x'' 0) demo_state 600000000000 empty_db = (None, demo_oauth)"
    by (simp add: demo_oauth_def CreateOAuthState_def empty_db_def Let_def)
  note T = oauth_bound [OF demo_no_faults demo_no_faults c, of "''x''" 1000000000]
  show "fst (ConsumeOAuthState (demo_db_env ''x'' 1000000000) ''s1'' ''ga4'' ''main'' ''alice'' demo_oauth)
      = Inr (demo_state\<lparr>ost_ExpiresAt := 600000000000\<rparr>)"
    using T [of "''ga4''" "''main''" "''alice''"] by (simp add: time_ok_small demo_state_def to_second_def)
  show "ConsumeOAuthState (demo_db_env ''x'' 1000000000) ''s1'' ''ga4'' ''main'' ''mallory'' demo_oauth = (Inl OAuthStateInvalid, demo_oauth)"
    using T [of "''ga4''" "''main''" "''mallory''"] by (simp add: time_ok_small demo_state_def)
qed

theorem cas_exclusive_witness:
  "\<exists>d'. ConfigureConnectionCAS (demo_db_env ''x'' 0) ''main'' ''bing'' \<lparr>cr_ID = ''c1'', cr_Type = []\<rparr> \<lparr>cr_ID = ''c2'', cr_Type = ''api_key''\<rparr> ''p'' True demo_conn
      = (Inr True, d')
    \<and> fst (ConfigureConnectionCAS (demo_db_env ''x'' 0) ''main'' ''bing'' \<lparr>cr_ID = ''c1'', cr_Type = []\<rparr> \<lparr>cr_ID = ''c3'', cr_Type = ''api_key''\<rparr> ''p'' True d')
      \<noteq> Inr True"
  using cas_exclusive [OF demo_conn_reachable demo_no_faults demo_no_faults demo_conn_get,
      of "\<lparr>cr_ID = ''c2'', cr_Type = ''api_key''\<rparr>" "\<lparr>cr_ID = ''c1'', cr_Type = []\<rparr>" "''x''" 0 "''p''" True]
  by (auto simp: demo_conn_rows scanConnection_def set_configuration_def)

theorem outcome_recorded_witness:
  "\<exists>d' pc. UpdateConnectionOutcome (demo_db_env ''x'' 0) ''main'' ''bing'' (Some 5000000000) None ErrNone [] demo_conn = (None, d')
    \<and> GetConnection (demo_db_env ''y'' 0) ''main'' ''bing'' d' = Inr pc \<and> pc_LastSuccessAt pc = Some 5000000000"
  using outcome_recorded [OF demo_conn_reachable demo_no_faults demo_no_faults demo_conn_get, of "''x''" 0 "Some 5000000000" None ErrNone "[]"]
  by (auto simp: time_ok_small to_second_def)

end
