(* ===== verification/Runtime.thy ===== *)
theory Runtime
  imports Tables FileStore
begin

text \<open>
  The setting in which the engine and the HTTP handlers run. Their code is a program of the state
  monad over a \<open>world\<close>: the database, the secret store and the goroutines started so far. Every
  call of the store, of the secret store and of the clock is numbered; a \<open>sched\<close> (schedule) says, for each
  number, what the call gets from outside (time, identifiers, faults) and what other goroutines did to the
  database and to the secret store since the previous call. A statement that holds for every schedule
  covers all faults and every interleaving at the granularity of calls.
\<close>

section \<open>Definitions\<close>

record sched =
  o_db :: "nat \<Rightarrow> db_env"
  o_sec :: "nat \<Rightarrow> sec_env"
  o_clock :: "nat \<Rightarrow> gotime"
  o_uuid :: "nat \<Rightarrow> string"
  o_done :: "nat \<Rightarrow> bool"
  o_others :: "nat \<Rightarrow> (db_env \<times> db_call) list"
  o_others_sec :: "nat \<Rightarrow> sec_call list"

record 's world =
  w_db :: db
  w_sec :: 's
  w_tick :: nat
  w_spawned :: "string list"

record 's runtime =
  rt_ops :: "'s secret_ops"
  rt_sched :: sched

definition others :: "'s runtime \<Rightarrow> 's world \<Rightarrow> 's world" where
  "others rt w = w\<lparr>
     w_db := fold (\<lambda>(env, c). run_db_call env c) (o_others (rt_sched rt) (w_tick w)) (w_db w),
     w_sec := fold (run_call (rt_ops rt)) (o_others_sec (rt_sched rt) (w_tick w)) (w_sec w)\<rparr>"

definition db_query :: "'s runtime \<Rightarrow> (db_env \<Rightarrow> db \<Rightarrow> 'a) \<Rightarrow> ('s world, 'a) state" where
  "db_query rt q = State (\<lambda>w0. let w = others rt w0 in
     (q (o_db (rt_sched rt) (w_tick w)) (w_db w), w\<lparr>w_tick := Suc (w_tick w)\<rparr>))"

definition db_exec :: "'s runtime \<Rightarrow> (db_env \<Rightarrow> db \<Rightarrow> 'a \<times> db) \<Rightarrow> ('s world, 'a) state" where
  "db_exec rt f = State (\<lambda>w0. let w = others rt w0 in
     case f (o_db (rt_sched rt) (w_tick w)) (w_db w) of (a, d) \<Rightarrow> (a, w\<lparr>w_db := d, w_tick := Suc (w_tick w)\<rparr>))"

definition sec_query :: "'s runtime \<Rightarrow> (sec_env \<Rightarrow> 's \<Rightarrow> 'a) \<Rightarrow> ('s world, 'a) state" where
  "sec_query rt q = State (\<lambda>w0. let w = others rt w0 in
     (q (o_sec (rt_sched rt) (w_tick w)) (w_sec w), w\<lparr>w_tick := Suc (w_tick w)\<rparr>))"

definition sec_exec :: "'s runtime \<Rightarrow> (sec_env \<Rightarrow> 's \<Rightarrow> 'a \<times> 's) \<Rightarrow> ('s world, 'a) state" where
  "sec_exec rt f = State (\<lambda>w0. let w = others rt w0 in
     case f (o_sec (rt_sched rt) (w_tick w)) (w_sec w) of (a, s) \<Rightarrow> (a, w\<lparr>w_sec := s, w_tick := Suc (w_tick w)\<rparr>))"

definition ask :: "'s runtime \<Rightarrow> (sched \<Rightarrow> nat \<Rightarrow> 'a) \<Rightarrow> ('s world, 'a) state" where
  "ask rt q = State (\<lambda>w. (q (rt_sched rt) (w_tick w), w\<lparr>w_tick := Suc (w_tick w)\<rparr>))"

definition spawn :: "string \<Rightarrow> ('s world, unit) state" where
  "spawn i = State (\<lambda>w. ((), w\<lparr>w_spawned := w_spawned w @ [i]\<rparr>))"

subsection \<open>Schedules\<close>

text \<open>No other goroutine interferes, and no statement fails.\<close>

definition undisturbed :: "'s runtime \<Rightarrow> bool" where
  "undisturbed rt \<longleftrightarrow> (\<forall>n. o_others (rt_sched rt) n = [] \<and> o_others_sec (rt_sched rt) n = [])"

definition db_reliable :: "'s runtime \<Rightarrow> bool" where
  "db_reliable rt \<longleftrightarrow> (\<forall>n. no_faults (o_db (rt_sched rt) n))"

text \<open>Programs that keep a property of worlds, whatever they return.\<close>

definition keeps :: "('s world \<Rightarrow> bool) \<Rightarrow> ('s world, 'a) state \<Rightarrow> bool" where
  "keeps I m \<longleftrightarrow> (\<forall>w. I w \<longrightarrow> wp m (\<lambda>_ w'. I w') w)"

definition db_good :: "'s world \<Rightarrow> bool" where
  "db_good w \<longleftrightarrow> db_reachable (w_db w)"

section \<open>Rules\<close>

lemma wp_db_query [wp_simps]:
  "wp (db_query rt q) Q w = (let v = others rt w in Q (q (o_db (rt_sched rt) (w_tick w)) (w_db v)) (v\<lparr>w_tick := Suc (w_tick w)\<rparr>))"
  by (simp add: db_query_def wp_State Let_def others_def)

lemma wp_db_exec [wp_simps]:
  "wp (db_exec rt f) Q w = (let v = others rt w in case f (o_db (rt_sched rt) (w_tick w)) (w_db v) of (a, d) \<Rightarrow> Q a (v\<lparr>w_db := d, w_tick := Suc (w_tick w)\<rparr>))"
  by (simp add: db_exec_def wp_State Let_def others_def split: prod.splits)

lemma wp_sec_query [wp_simps]:
  "wp (sec_query rt q) Q w = (let v = others rt w in Q (q (o_sec (rt_sched rt) (w_tick w)) (w_sec v)) (v\<lparr>w_tick := Suc (w_tick w)\<rparr>))"
  by (simp add: sec_query_def wp_State Let_def others_def)

lemma wp_sec_exec [wp_simps]:
  "wp (sec_exec rt f) Q w = (let v = others rt w in case f (o_sec (rt_sched rt) (w_tick w)) (w_sec v) of (a, s) \<Rightarrow> Q a (v\<lparr>w_sec := s, w_tick := Suc (w_tick w)\<rparr>))"
  by (simp add: sec_exec_def wp_State Let_def others_def split: prod.splits)

lemma wp_ask [wp_simps]: "wp (ask rt q) Q w = Q (q (rt_sched rt) (w_tick w)) (w\<lparr>w_tick := Suc (w_tick w)\<rparr>)"
  by (simp add: ask_def wp_State)

lemma wp_spawn [wp_simps]: "wp (spawn i) Q w = Q () (w\<lparr>w_spawned := w_spawned w @ [i]\<rparr>)"
  by (simp add: spawn_def wp_State)

lemma others_undisturbed [simp]: "undisturbed rt \<Longrightarrow> others rt w = w"
  by (simp add: undisturbed_def others_def)

lemma others_sel [simp]: "w_tick (others rt w) = w_tick w" "w_spawned (others rt w) = w_spawned w"
  by (simp_all add: others_def)

lemma db_reliableD [simp]: "db_reliable rt \<Longrightarrow> no_faults (o_db (rt_sched rt) n)"
  by (simp add: db_reliable_def)

subsection \<open>Keeping an invariant\<close>

lemma keepsI: "(\<And>w. I w \<Longrightarrow> wp m (\<lambda>_ w'. I w') w) \<Longrightarrow> keeps I m"
  by (simp add: keeps_def)

lemma keeps_return [intro]: "keeps I (State_Monad.return a)"
  by (simp add: keeps_def wp_return)

lemma keeps_bind [intro]: "keeps I m \<Longrightarrow> (\<And>a. keeps I (f a)) \<Longrightarrow> keeps I (State_Monad.bind m f)"
  unfolding keeps_def wp_bind by (blast intro: wp_mono)

lemma keeps_if [intro]: "(b \<Longrightarrow> keeps I m) \<Longrightarrow> (\<not> b \<Longrightarrow> keeps I n) \<Longrightarrow> keeps I (if b then m else n)"
  by simp

lemma keeps_option [intro]:
  "(x = None \<Longrightarrow> keeps I m) \<Longrightarrow> (\<And>a. x = Some a \<Longrightarrow> keeps I (f a)) \<Longrightarrow> keeps I (case x of None \<Rightarrow> m | Some a \<Rightarrow> f a)"
  by (cases x) auto

lemma keeps_sum [intro]:
  "(\<And>a. x = Inl a \<Longrightarrow> keeps I (f a)) \<Longrightarrow> (\<And>b. x = Inr b \<Longrightarrow> keeps I (g b)) \<Longrightarrow> keeps I (case x of Inl a \<Rightarrow> f a | Inr b \<Rightarrow> g b)"
  by (cases x) auto

lemma keeps_prod [intro]: "(\<And>a b. x = (a, b) \<Longrightarrow> keeps I (f a b)) \<Longrightarrow> keeps I (case x of (a, b) \<Rightarrow> f a b)"
  by (cases x) auto

lemma run_calls_reachable: "db_reachable d \<Longrightarrow> db_reachable (fold (\<lambda>(env, c). run_db_call env c) cs d)"
  by (induction cs arbitrary: d) (auto intro: db_reachable.db_call)

lemma others_good: "db_good w \<Longrightarrow> db_good (others rt w)"
  by (simp add: db_good_def others_def run_calls_reachable)

lemma keeps_db_query [intro]: "keeps db_good (db_query rt q)"
  using others_good by (intro keepsI) (auto simp: wp_db_query Let_def db_good_def)

lemma keeps_db_exec [intro]:
  assumes "\<And>env d. db_reachable d \<Longrightarrow> db_reachable (snd (f env d))"
  shows "keeps db_good (db_exec rt f)"
proof (rule keepsI)
  fix w :: "'b world" assume "db_good w"
  then have "db_reachable (w_db (others rt w))" using others_good unfolding db_good_def by blast
  then show "wp (db_exec rt f) (\<lambda>_. db_good) w"
    using assms by (auto simp: wp_db_exec Let_def db_good_def split: prod.split) (metis snd_conv)
qed

lemma keeps_sec_query [intro]: "keeps db_good (sec_query rt q)"
  using others_good by (intro keepsI) (auto simp: wp_sec_query Let_def db_good_def)

lemma keeps_sec_exec [intro]: "keeps db_good (sec_exec rt f)"
  using others_good by (intro keepsI) (auto simp: wp_sec_exec Let_def db_good_def split: prod.split)

lemma keeps_ask [intro]: "keeps db_good (ask rt q)"
  by (rule keepsI) (simp add: wp_ask db_good_def)

lemma keeps_spawn [intro]: "keeps db_good (spawn i)"
  by (rule keepsI) (simp add: wp_spawn db_good_def)

text \<open>Every operation of the store leads from a reachable database to a reachable one.\<close>

lemma op_reachable:
  assumes "db_reachable d"
  shows "db_reachable (snd (EnsureSite env s d))" "db_reachable (snd (EnsureConnection env i p d))"
    "db_reachable (snd (ConfigureConnection env i p ref pr en d))"
    "db_reachable (snd (ConfigureConnectionCAS env i p old ref pr en d))"
    "db_reachable (snd (UpdateConnectionOutcome env i p ok through code msg d))"
    "db_reachable (snd (CreateSyncRun env run i d))" "db_reachable (snd (MarkRunRunning env i d))"
    "db_reachable (snd (FinishRun env i st n cur code msg d))" "db_reachable (snd (RequeueStaleRuns env lease d))"
    "db_reachable (snd (SetRunCursor env i cur d))" "db_reachable (snd (UpsertReportRows env i ds rows d))"
    "db_reachable (snd (AppendAudit env ev d))" "db_reachable (snd (CreateOAuthState env ost ttl d))"
    "db_reachable (snd (ConsumeOAuthState env state p i sub d))"
  using db_reachable.db_call [OF assms, of env] by (metis run_db_call.simps)+

end
