(* ===== verification/Engine.thy ===== *)
theory Engine
  imports Runtime Registry
begin

text \<open>
  The sync engine (\<^verbatim>\<open>internal/sync/engine.go\<close>): validation and creation of runs, execution with
  error classification, the scheduler. Logging is left out. A goroutine started with
  \<^verbatim>\<open>go e.execute(id)\<close> is recorded in the world as started; \<open>execute\<close> is its body.
\<close>

section \<open>Definitions\<close>

record config =
  cfg_LookbackDays :: int
  cfg_Timeout :: int
  cfg_Interval :: int
  cfg_Lease :: int

definition withDefaults :: "config \<Rightarrow> config" where
  "withDefaults c =
     \<lparr>cfg_LookbackDays = (if cfg_LookbackDays c \<le> 0 then 30 else cfg_LookbackDays c),
      cfg_Timeout = (if cfg_Timeout c \<le> 0 then 10 * minute_ns else cfg_Timeout c),
      cfg_Interval = (if cfg_Interval c \<le> 0 then 24 * hour_ns else cfg_Interval c),
      cfg_Lease = (if cfg_Lease c \<le> 0 then 30 * minute_ns else cfg_Lease c)\<rparr>"

record engine =
  eng_registry :: registry
  eng_site :: site
  eng_cfg :: config

definition NewEngine :: "registry \<Rightarrow> site \<Rightarrow> config \<Rightarrow> engine" where
  "NewEngine reg s cfg = \<lparr>eng_registry = reg, eng_site = s, eng_cfg = withDefaults cfg\<rparr>"

record create_request =
  cq_Provider :: string
  cq_Capability :: capability
  cq_StartDate :: string
  cq_EndDate :: string
  cq_IdempotencyKey :: string
  cq_TriggeredBy :: string

record create_result =
  cz_Run :: sync_run
  cz_AlreadyRunning :: bool

definition sync_err :: "error_code \<Rightarrow> string \<Rightarrow> go_error" where
  "sync_err c m = SyncErr (SyncErrorOf c m)"

text \<open>
  \<^verbatim>\<open>%q\<close>: quotation marks and backslashes are escaped. (Control and invalid characters are escaped too by
  \<^verbatim>\<open>fmt\<close>; nothing depends on their form.)
\<close>

definition quoted :: "string \<Rightarrow> string" where
  "quoted s = ''\"'' @ concat (map (\<lambda>c. if c = CHR 0x22 \<or> c = CHR 0x5C then [CHR 0x5C, c] else [c]) s) @ ''\"''"

subsection \<open>The date range\<close>

text \<open>
  \<open>day_span s t\<close> is \<^verbatim>\<open>int(t.Sub(s).Hours()/24)\<close> for days \<open>s \<le> t\<close>: the difference in days, cut off where
  \<^verbatim>\<open>time.Duration\<close> saturates at the largest 64-bit number of nanoseconds.
\<close>

definition day_span :: "gotime \<Rightarrow> gotime \<Rightarrow> int" where
  "day_span s t = min (t - s) max_int64 div day_ns"

definition resolveRange :: "config \<Rightarrow> gotime \<Rightarrow> string \<Rightarrow> string \<Rightarrow> capability_spec \<Rightarrow> go_error + gotime \<times> gotime" where
  "resolveRange cfg now startRaw endRaw spec =
     (let today = truncate_day now;
          end0 = add_days today (- max (cs_FreshnessLagDays spec) 1) in
      case (if trim_space endRaw \<noteq> [] then parse_date endRaw else Some end0) of
        None \<Rightarrow> Inl (sync_err ErrInternal ''end_date must be YYYY-MM-DD'')
      | Some end \<Rightarrow>
          (let start0 = add_days end (- (cfg_LookbackDays cfg - 1)) in
           case (if trim_space startRaw \<noteq> [] then parse_date startRaw else Some start0) of
             None \<Rightarrow> Inl (sync_err ErrInternal ''start_date must be YYYY-MM-DD'')
           | Some start \<Rightarrow>
               if end < start then Inl (sync_err ErrInternal ''end_date must not be before start_date'')
               else if end > today then Inl (sync_err ErrInternal ''end_date must not be in the future'')
               else
                 let maxDays = (if cs_MaxRangeDays spec \<le> 0 then 366 else cs_MaxRangeDays spec) in
                 if day_span start end + 1 > maxDays
                 then Inl (sync_err ErrInternal (''sync range must not exceed '' @ itoa maxDays @ '' days''))
                 else Inr (start, end)))"

subsection \<open>Creating a run\<close>

definition new_run :: "create_request \<Rightarrow> gotime \<Rightarrow> gotime \<Rightarrow> string \<Rightarrow> string \<Rightarrow> sync_run" where
  "new_run req start end key cursor =
     \<lparr>sr_ID = [], sr_Provider = cq_Provider req, sr_Capability = cq_Capability req, sr_StartDate = start, sr_EndDate = end,
      sr_Status = SyncQueued, sr_RowsSynced = 0, sr_Cursor = cursor, sr_TriggeredBy = cq_TriggeredBy req,
      sr_IdempotencyKey = key, sr_ErrorCode = ErrNone, sr_ErrorMessage = [], sr_StartedAt = zero_time,
      sr_FinishedAt = None, sr_CreatedAt = zero_time, sr_UpdatedAt = zero_time\<rparr>"

definition request_key :: "create_request \<Rightarrow> string \<Rightarrow> string" where
  "request_key req fresh = (let k = trim_space (cq_IdempotencyKey req) in if k = [] then fresh else k)"

definition insert_run :: "'s runtime \<Rightarrow> engine \<Rightarrow> create_request \<Rightarrow> gotime \<Rightarrow> gotime \<Rightarrow> string \<Rightarrow> ('s world, go_error + create_result) state" where
  "insert_run rt eng req start end key =
     do { resume \<leftarrow> db_query rt (\<lambda>env. ResumeCursor env (site_ID (eng_site eng)) (cq_Provider req) (cq_Capability req));
          case resume of
            Inl e \<Rightarrow> State_Monad.return (Inl (Wrapped ''read sync checkpoint'' e))
          | Inr cursor \<Rightarrow>
              do { created \<leftarrow> db_exec rt (\<lambda>env. CreateSyncRun env (new_run req start end key cursor) (site_ID (eng_site eng)));
                   case created of
                     Inl e \<Rightarrow> State_Monad.return (Inl e)
                   | Inr (run, inserted) \<Rightarrow>
                       if \<not> inserted
                       then State_Monad.return (Inr \<lparr>cz_Run = run, cz_AlreadyRunning = active_status (sr_Status run)\<rparr>)
                       else do { spawn (sr_ID run);
                                 State_Monad.return (Inr \<lparr>cz_Run = run, cz_AlreadyRunning = False\<rparr>) } } }"

definition Create :: "'s runtime \<Rightarrow> engine \<Rightarrow> create_request \<Rightarrow> ('s world, go_error + create_result) state" where
  "Create rt eng req =
     (case Get (eng_registry eng) (cq_Provider req) of
        None \<Rightarrow> State_Monad.return (Inl (sync_err ErrNotConfigured (''provider '' @ quoted (cq_Provider req) @ '' is not installed'')))
      | Some p \<Rightarrow>
          (case Spec (Descriptor p) (cq_Capability req) of
             None \<Rightarrow> State_Monad.return (Inl (sync_err ErrUnsupported
               (''provider '' @ quoted (cq_Provider req) @ '' does not support '' @ quoted (cq_Capability req))))
           | Some spec \<Rightarrow>
               do { conn \<leftarrow> db_query rt (\<lambda>env. GetConnection env (site_ID (eng_site eng)) (cq_Provider req));
                    case conn of
                      Inl _ \<Rightarrow> State_Monad.return (Inl (sync_err ErrNotConfigured ''provider connection does not exist''))
                    | Inr c \<Rightarrow>
                        if \<not> pc_Enabled c \<or> cr_ID (pc_CredentialRef c) = []
                        then State_Monad.return (Inl (sync_err ErrNotConfigured ''provider is not configured''))
                        else do { now \<leftarrow> ask rt o_clock;
                                  case resolveRange (eng_cfg eng) now (cq_StartDate req) (cq_EndDate req) spec of
                                    Inl e \<Rightarrow> State_Monad.return (Inl e)
                                  | Inr (start, end) \<Rightarrow>
                                      do { fresh \<leftarrow> ask rt o_uuid;
                                           let key = request_key req fresh in
                                           if length key > 200
                                           then State_Monad.return (Inl (sync_err ErrInternal ''idempotency_key is too long''))
                                           else insert_run rt eng req start end key } } }))"

subsection \<open>Executing a run\<close>

definition truncate :: "string \<Rightarrow> string" where
  "truncate s = (if length s > 500 then take 500 s else s)"

definition classify :: "go_error \<Rightarrow> error_code \<times> string" where
  "classify e =
     (case as_sync_error e of
        Some se \<Rightarrow> (se_code se, truncate (se_message se))
      | None \<Rightarrow> if is_deadline e then (ErrTransient, ''sync run timed out'') else (ErrInternal, ''sync failed''))"

text \<open>The status, code and message \<^verbatim>\<open>finish\<close> records for the error of a run.\<close>

definition run_outcome :: "go_error option \<Rightarrow> sync_status \<times> error_code \<times> string" where
  "run_outcome syncErr =
     (case syncErr of
        None \<Rightarrow> (SyncSucceeded, ErrNone, [])
      | Some e \<Rightarrow>
          (case classify e of (code, message) \<Rightarrow>
             (if code = ErrPartial then SyncPartial else SyncFailed, code, message)))"

definition finish :: "'s runtime \<Rightarrow> engine \<Rightarrow> sync_run \<Rightarrow> sync_result \<Rightarrow> go_error option \<Rightarrow> ('s world, unit) state" where
  "finish rt eng run result syncErr =
     (case run_outcome syncErr of (status, code, message) \<Rightarrow>
        do { _ \<leftarrow> db_exec rt (\<lambda>env. FinishRun env (sr_ID run) status (rs_Rows result) (rs_Cursor result) code message);
             if syncErr = None \<or> code = ErrPartial
             then do { now \<leftarrow> ask rt o_clock;
                       _ \<leftarrow> db_exec rt (\<lambda>env. UpdateConnectionOutcome env (site_ID (eng_site eng)) (sr_Provider run) (Some now)
                              (if is_zero (rs_DataThroughDate result) then None else Some (rs_DataThroughDate result)) ErrNone []);
                       State_Monad.return () }
             else do { _ \<leftarrow> db_exec rt (\<lambda>env. UpdateConnectionOutcome env (site_ID (eng_site eng)) (sr_Provider run) None None code message);
                       State_Monad.return () } })"

definition sink_Write :: "'s runtime \<Rightarrow> string \<Rightarrow> string \<Rightarrow> report_row list \<Rightarrow> ('s world, go_error option) state" where
  "sink_Write rt siteID dataset rows = db_exec rt (\<lambda>env. UpsertReportRows env siteID dataset rows)"

definition sink_Checkpoint :: "'s runtime \<Rightarrow> string \<Rightarrow> string \<Rightarrow> ('s world, go_error option) state" where
  "sink_Checkpoint rt runID cursor = db_exec rt (\<lambda>env. SetRunCursor env runID cursor)"

text \<open>Running a provider's \<^verbatim>\<open>Sync\<close> against the sink of a run.\<close>

primrec run_sync :: "'s runtime \<Rightarrow> string \<Rightarrow> string \<Rightarrow> sync_prog \<Rightarrow> ('s world, sync_result \<times> go_error option) state" where
  "run_sync rt siteID runID (SyncDone r e) = State_Monad.return (r, e)"
| "run_sync rt siteID runID (SinkWrite dataset rows k) =
     State_Monad.bind (sink_Write rt siteID dataset rows) (\<lambda>e. run_sync rt siteID runID (k e))"
| "run_sync rt siteID runID (SinkCheckpoint cursor k) =
     State_Monad.bind (sink_Checkpoint rt runID cursor) (\<lambda>e. run_sync rt siteID runID (k e))"

definition run_request :: "engine \<Rightarrow> provider_connection \<Rightarrow> sync_run \<Rightarrow> sync_request" where
  "run_request eng c run =
     \<lparr>rq_Site = eng_site eng,
      rq_Property = \<lparr>pr_ConnectionID = pc_ID c, pr_Reference = pc_PropertyReference c, pr_DisplayName = [], pr_Timezone = []\<rparr>,
      rq_Capability = sr_Capability run, rq_StartDate = sr_StartDate run, rq_EndDate = sr_EndDate run, rq_Cursor = sr_Cursor run\<rparr>"

definition sync_scope :: "engine \<Rightarrow> string \<Rightarrow> scope" where
  "sync_scope eng provider = \<lparr>sc_Workspace = [], sc_SiteID = site_ID (eng_site eng), sc_Provider = provider\<rparr>"

definition execute_run :: "'s runtime \<Rightarrow> engine \<Rightarrow> sync_run \<Rightarrow> ('s world, unit) state" where
  "execute_run rt eng run =
     (case Get (eng_registry eng) (sr_Provider run) of
        None \<Rightarrow> finish rt eng run no_result (Some (sync_err ErrNotConfigured ''provider adapter is not available''))
      | Some p \<Rightarrow>
          do { conn \<leftarrow> db_query rt (\<lambda>env. GetConnection env (site_ID (eng_site eng)) (sr_Provider run));
               case conn of
                 Inl _ \<Rightarrow> finish rt eng run no_result (Some (sync_err ErrNotConfigured ''provider is not configured''))
               | Inr c \<Rightarrow>
                   if cr_ID (pc_CredentialRef c) = []
                   then finish rt eng run no_result (Some (sync_err ErrNotConfigured ''provider is not configured''))
                   else do { cred \<leftarrow> sec_query rt (\<lambda>env. ss_Open (rt_ops rt) env (sync_scope eng (sr_Provider run)) (pc_CredentialRef c) PurposeSync);
                             case cred of
                               Inl _ \<Rightarrow> finish rt eng run no_result (Some (sync_err ErrUnauthorized ''credential is not available''))
                             | Inr mat \<Rightarrow>
                                 do { (result, syncErr) \<leftarrow> run_sync rt (site_ID (eng_site eng)) (sr_ID run) (SyncRange p (run_request eng c run) mat);
                                      expired \<leftarrow> ask rt o_done;
                                      finish rt eng run result
                                        (if syncErr = None \<and> expired then Some (sync_err ErrTransient ''sync run timed out'') else syncErr) } } })"

definition execute :: "'s runtime \<Rightarrow> engine \<Rightarrow> string \<Rightarrow> ('s world, unit) state" where
  "execute rt eng runID =
     do { run \<leftarrow> db_query rt (\<lambda>env. GetSyncRun env (site_ID (eng_site eng)) runID);
          case run of
            Inl _ \<Rightarrow> State_Monad.return ()
          | Inr r \<Rightarrow>
              do { marked \<leftarrow> db_exec rt (\<lambda>env. MarkRunRunning env runID);
                   case marked of
                     Some _ \<Rightarrow> State_Monad.return ()
                   | None \<Rightarrow> execute_run rt eng r } }"

subsection \<open>The scheduler\<close>

definition default_request :: "string \<Rightarrow> capability \<Rightarrow> create_request" where
  "default_request provider cap =
     \<lparr>cq_Provider = provider, cq_Capability = cap, cq_StartDate = [], cq_EndDate = [], cq_IdempotencyKey = [], cq_TriggeredBy = []\<rparr>"

fun schedule_all :: "'s runtime \<Rightarrow> engine \<Rightarrow> (string \<times> capability) list \<Rightarrow> ('s world, unit) state" where
  "schedule_all rt eng [] = State_Monad.return ()"
| "schedule_all rt eng ((name, cap) # rest) =
     do { _ \<leftarrow> Create rt eng (default_request name cap); schedule_all rt eng rest }"

definition scheduled_pairs :: "engine \<Rightarrow> (string \<times> capability) list" where
  "scheduled_pairs eng =
     concat (map (\<lambda>d. map (\<lambda>s. (d_Name d, cs_Capability s)) (d_Capabilities d)) (Descriptors (eng_registry eng)))"

definition eng_tick :: "'s runtime \<Rightarrow> engine \<Rightarrow> ('s world, unit) state" where
  "eng_tick rt eng =
     do { _ \<leftarrow> db_exec rt (\<lambda>env. RequeueStaleRuns env (cfg_Lease (eng_cfg eng)));
          schedule_all rt eng (scheduled_pairs eng) }"

text \<open>\<^verbatim>\<open>Run\<close>: one tick at once, then one per firing of the ticker until the context ends.\<close>

fun Run :: "'s runtime \<Rightarrow> engine \<Rightarrow> nat \<Rightarrow> ('s world, unit) state" where
  "Run rt eng 0 = eng_tick rt eng"
| "Run rt eng (Suc n) = do { _ \<leftarrow> Run rt eng n; eng_tick rt eng }"

end
