(* ===== verification/EngineProps.thy ===== *)
theory EngineProps
  imports Engine
begin

text \<open>
  What the engine guarantees: the range a run covers, when a run is created and started,
  that an executed run ends in a terminal state with the provider's outcome, what of an error becomes public,
  and that none of it, under any schedule, breaks the database invariant.
\<close>

section \<open>The date range\<close>

definition max_days :: "capability_spec \<Rightarrow> int" where
  "max_days spec = (if cs_MaxRangeDays spec \<le> 0 then 366 else cs_MaxRangeDays spec)"

definition end_day :: "gotime \<Rightarrow> string \<Rightarrow> capability_spec \<Rightarrow> gotime option" where
  "end_day now endRaw spec =
     (if trim_space endRaw \<noteq> [] then parse_date endRaw else Some (add_days (truncate_day now) (- max (cs_FreshnessLagDays spec) 1)))"

definition start_day :: "config \<Rightarrow> gotime \<Rightarrow> string \<Rightarrow> gotime option" where
  "start_day cfg end startRaw =
     (if trim_space startRaw \<noteq> [] then parse_date startRaw else Some (add_days end (- (cfg_LookbackDays cfg - 1))))"

lemma truncate_day_add_days [simp]: "truncate_day (add_days (truncate_day t) n) = add_days (truncate_day t) n"
  by (simp add: truncate_day_def add_days_def day_of_def of_day_def)

lemma truncate_day_add_days': "truncate_day t = t \<Longrightarrow> truncate_day (add_days t n) = add_days t n"
  by (metis truncate_day_add_days)

lemma end_day_midnight: "end_day now endRaw spec = Some e \<Longrightarrow> truncate_day e = e"
  by (auto simp: end_day_def parse_date_iff split: if_splits)

lemma start_day_midnight: "start_day cfg e startRaw = Some s \<Longrightarrow> truncate_day e = e \<Longrightarrow> truncate_day s = s"
  by (auto simp: start_day_def parse_date_iff truncate_day_add_days' split: if_splits)

lemma day_span_days:
  assumes "truncate_day s = s" "truncate_day e = e" "s \<le> e"
  shows "day_span s e = min (day_of e - day_of s) 106751"
proof -
  have s: "s = day_of s * day_ns" and e: "e = day_of e * day_ns"
    using assms(1,2) by (simp_all add: truncate_day_def of_day_def)
  define n where "n = day_of e - day_of s"
  have diff: "e - s = n * day_ns" using s e unfolding n_def by (metis left_diff_distrib)
  then have n0: "0 \<le> n" using assms(3) by (metis diff_ge_0_iff_ge mult_less_0_iff not_le zero_less_numeral)
  show ?thesis
  proof (cases "n \<le> 106751")
    case True
    then have "n * day_ns \<le> 106751 * day_ns" by (intro mult_right_mono) simp_all
    then show ?thesis using True unfolding n_def [symmetric] by (simp add: day_span_def diff min_def)
  next
    case False
    then have "106752 * day_ns \<le> n * day_ns" by (intro mult_right_mono) simp_all
    then show ?thesis using False unfolding n_def [symmetric] by (simp add: day_span_def diff min_def)
  qed
qed

lemma resolveRange_alt:
  "resolveRange cfg now startRaw endRaw spec =
     (case end_day now endRaw spec of
        None \<Rightarrow> Inl (sync_err ErrInternal ''end_date must be YYYY-MM-DD'')
      | Some e \<Rightarrow>
          (case start_day cfg e startRaw of
             None \<Rightarrow> Inl (sync_err ErrInternal ''start_date must be YYYY-MM-DD'')
           | Some s \<Rightarrow>
               if e < s then Inl (sync_err ErrInternal ''end_date must not be before start_date'')
               else if e > truncate_day now then Inl (sync_err ErrInternal ''end_date must not be in the future'')
               else if day_span s e + 1 > max_days spec
               then Inl (sync_err ErrInternal (''sync range must not exceed '' @ itoa (max_days spec) @ '' days''))
               else Inr (s, e)))"
  unfolding resolveRange_def end_day_def start_day_def max_days_def Let_def by (rule refl)

lemma resolveRange_default:
  assumes "1 \<le> cfg_LookbackDays cfg" "cfg_LookbackDays cfg \<le> 106751"
  shows "resolveRange cfg now [] [] spec =
    (let e = add_days (truncate_day now) (- max (cs_FreshnessLagDays spec) 1) in
     if cfg_LookbackDays cfg \<le> max_days spec then Inr (add_days e (- (cfg_LookbackDays cfg - 1)), e)
     else Inl (sync_err ErrInternal (''sync range must not exceed '' @ itoa (max_days spec) @ '' days'')))"
proof -
  let ?e = "add_days (truncate_day now) (- max (cs_FreshnessLagDays spec) 1)"
  let ?s = "add_days ?e (- (cfg_LookbackDays cfg - 1))"
  have ends: "end_day now [] spec = Some ?e" "start_day cfg ?e [] = Some ?s"
    by (simp_all add: end_day_def start_day_def)
  have le: "?s \<le> ?e" "?e \<le> truncate_day now" using assms(1) by (simp_all add: add_days_def)
  have "day_span ?s ?e = min (day_of ?e - day_of ?s) 106751"
    using le(1) by (intro day_span_days) (simp_all add: truncate_day_add_days')
  moreover have "day_of ?e - day_of ?s = cfg_LookbackDays cfg - 1" by (simp add: day_of_add_days)
  ultimately have "day_span ?s ?e + 1 = cfg_LookbackDays cfg" using assms(2) by simp
  then show ?thesis unfolding resolveRange_alt using ends le by (simp add: Let_def not_less)
qed


text \<open>
  A request without dates, as the scheduler makes it, covers the lookback and ends on the last day whose
  data is final; it is rejected exactly when the capability allows fewer days than the lookback.
  A capability that allows a single day is therefore never scheduled under a lookback of more than one day.
\<close>

theorem default_range:
  assumes "1 \<le> cfg_LookbackDays cfg" "cfg_LookbackDays cfg \<le> 106751"
  shows "resolveRange cfg now [] [] spec =
    (let e = add_days (truncate_day now) (- max (cs_FreshnessLagDays spec) 1) in
     if cfg_LookbackDays cfg \<le> max_days spec then Inr (add_days e (- (cfg_LookbackDays cfg - 1)), e)
     else Inl (sync_err ErrInternal (''sync range must not exceed '' @ itoa (max_days spec) @ '' days'')))"
  by (rule resolveRange_default [OF assms])

section \<open>Public errors\<close>

text \<open>
  What becomes public of an error. The recorded message is the message of a classified error, cut
  to 500 bytes, or one of two fixed texts: nothing of any other error, however it is wrapped,
  reaches the database or the API. A run is partial exactly for the code \<^verbatim>\<open>PARTIAL\<close>, successful exactly
  without an error, and failed otherwise.
\<close>

theorem classify_public:
  "classify e = (case as_sync_error e of
       Some se \<Rightarrow> (se_code se, take 500 (se_message se))
     | None \<Rightarrow> (if is_deadline e then (ErrTransient, ''sync run timed out'') else (ErrInternal, ''sync failed'')))
   \<and> length (snd (classify e)) \<le> 500
   \<and> classify (Wrapped ctx e) = classify e
   \<and> run_outcome (Some e) = (if fst (classify e) = ErrPartial then SyncPartial else SyncFailed, classify e)
   \<and> run_outcome None = (SyncSucceeded, ErrNone, [])"
proof -
  have tr: "truncate s = take 500 s" for s by (simp add: truncate_def)
  show ?thesis
    by (auto simp: classify_def run_outcome_def tr split: option.split prod.split)
qed

section \<open>Creating runs\<close>

definition fresh_ids :: "'s runtime \<Rightarrow> 's world \<Rightarrow> bool" where
  "fresh_ids rt w \<longleftrightarrow> (\<forall>n \<in> {w_tick w ..< w_tick w + 5}. e_uuid (o_db (rt_sched rt) n) \<notin> rn_id ` set (t_runs (w_db w)))"

lemma GetConnection_cong: "no_faults env \<Longrightarrow> no_faults er \<Longrightarrow> GetConnection env i p d = GetConnection er i p d"
  by (simp add: GetConnection_def)

lemma ResumeCursor_ok: "no_faults env \<Longrightarrow> \<exists>c. ResumeCursor env i p cap d = Inr c"
  by (simp add: ResumeCursor_def split: list.split)

text \<open>The possible effects of an insertion: a new queued run, started once, or a conflicting one returned.\<close>

definition inserted :: "create_request \<Rightarrow> engine \<Rightarrow> string \<Rightarrow> create_result \<Rightarrow> 's world \<Rightarrow> 's world \<Rightarrow> bool" where
  "inserted req eng key res w w' \<longleftrightarrow>
     (\<exists>row. w_db w' = (w_db w)\<lparr>t_runs := t_runs (w_db w) @ [row]\<rparr> \<and> rn_status row = SyncQueued
       \<and> flight_key row = (site_ID (eng_site eng), cq_Provider req, cq_Capability req) \<and> rn_idempotency_key row = key
       \<and> rn_id row = sr_ID (cz_Run res) \<and> sr_Status (cz_Run res) = SyncQueued \<and> \<not> cz_AlreadyRunning res
       \<and> w_spawned w' = w_spawned w @ [rn_id row])"

definition deduplicated :: "create_request \<Rightarrow> engine \<Rightarrow> string \<Rightarrow> create_result \<Rightarrow> 's world \<Rightarrow> 's world \<Rightarrow> bool" where
  "deduplicated req eng key res w w' \<longleftrightarrow>
     (\<exists>row \<in> set (t_runs (w_db w)). w_db w' = w_db w \<and> w_spawned w' = w_spawned w \<and> cz_Run res = scanRun row
       \<and> cz_AlreadyRunning res = run_active row \<and> rn_site_id row = site_ID (eng_site eng)
       \<and> (rn_idempotency_key row = key
          \<or> run_active row \<and> rn_provider row = cq_Provider req \<and> rn_capability row = cq_Capability req))"

lemma run_sel [simp]:
  "sr_ID (queued_run env run) = e_uuid env" "sr_Status (queued_run env run) = SyncQueued"
  "sr_Provider (new_run req s e key c) = cq_Provider req" "sr_Capability (new_run req s e key c) = cq_Capability req"
  "sr_IdempotencyKey (new_run req s e key c) = key"
  by (simp_all add: queued_run_def new_run_def)

lemma insert_run_wp:
  assumes "undisturbed rt" "db_reliable rt" "db_wf (w_db w)" "e_uuid (o_db (rt_sched rt) (w_tick w + 1)) \<notin> rn_id ` set (t_runs (w_db w))"
  shows "wp (insert_run rt eng req s e key) (\<lambda>r w'. \<exists>res. r = Inr res \<and> w_tick w' = w_tick w + 2 \<and> w_sec w' = w_sec w
    \<and> (inserted req eng key res w w' \<and> sr_ID (cz_Run res) = e_uuid (o_db (rt_sched rt) (w_tick w' - 1))
       \<or> deduplicated req eng key res w w')) w"
proof -
  let ?site = "site_ID (eng_site eng)"
  let ?env = "o_db (rt_sched rt) (Suc (w_tick w))"
  obtain c where c: "ResumeCursor (o_db (rt_sched rt) (w_tick w)) ?site (cq_Provider req) (cq_Capability req) (w_db w) = Inr c"
    using ResumeCursor_ok assms(2) by (metis db_reliableD)
  let ?run = "new_run req s e key c"
  have fresh: "e_uuid ?env \<notin> rn_id ` set (t_runs (w_db w))" using assms(4) by simp
  note C = CreateSyncRun_cases [OF assms(3) db_reliableD [OF assms(2)] fresh, of ?run ?site]
  show ?thesis
  proof (cases "\<exists>x \<in> set (t_runs (w_db w)). run_conflict ?run ?site x")
    case True
    then obtain y where y: "y \<in> set (t_runs (w_db w))" "CreateSyncRun ?env ?run ?site (w_db w) = (Inr (scanRun y, False), w_db w)"
        "run_conflict ?run ?site y"
      using C by auto
    then show ?thesis
      using assms(1) c by (auto simp: insert_run_def wp_simps deduplicated_def run_conflict_def scanRun_def)
  next
    case False
    let ?row = "run_row_of (queued_run ?env ?run) ?site (format_time (e_now ?env 0))"
    have cr: "CreateSyncRun ?env ?run ?site (w_db w) = (Inr (queued_run ?env ?run, True), (w_db w)\<lparr>t_runs := t_runs (w_db w) @ [?row]\<rparr>)"
      using C False by simp
    show ?thesis
      using assms(1) c cr
      by (auto simp: insert_run_def wp_simps inserted_def intro!: exI [of _ ?row])
  qed
qed

text \<open>The conditions under which a request for a run is accepted.\<close>

definition accepted :: "engine \<Rightarrow> db \<Rightarrow> gotime \<Rightarrow> string \<Rightarrow> create_request \<Rightarrow> bool" where
  "accepted eng d now fresh req \<longleftrightarrow>
     (case Get (eng_registry eng) (cq_Provider req) of None \<Rightarrow> False | Some p \<Rightarrow>
      case Spec (Descriptor p) (cq_Capability req) of None \<Rightarrow> False | Some spec \<Rightarrow>
      list_ex (\<lambda>c. conn_is (site_ID (eng_site eng)) (cq_Provider req) c \<and> cn_enabled c \<noteq> 0 \<and> cn_credential_ref c \<noteq> []) (t_connections d)
      \<and> (\<exists>s e. resolveRange (eng_cfg eng) now (cq_StartDate req) (cq_EndDate req) spec = Inr (s, e))
      \<and> length (request_key req fresh) \<le> 200)"

lemma scanConnection_sel [simp]:
  "pc_Enabled (scanConnection c) \<longleftrightarrow> cn_enabled c \<noteq> 0" "cr_ID (pc_CredentialRef (scanConnection c)) = cn_credential_ref c"
  by (simp_all add: scanConnection_def)

lemma GetConnection_cases:
  assumes "db_wf d" "no_faults env"
  obtains (none) "GetConnection env i p d = Inl NoRows" "\<not> list_ex (conn_is i p) (t_connections d)"
  | (some) c where "GetConnection env i p d = Inr (scanConnection c)"
      "\<And>P. list_ex (\<lambda>x. conn_is i p x \<and> P x) (t_connections d) \<longleftrightarrow> P c"
proof (cases "\<exists>c \<in> set (t_connections d). conn_is i p c")
  case True
  then obtain c where c: "c \<in> set (t_connections d)" "conn_is i p c" by blast
  have "list_ex (\<lambda>x. conn_is i p x \<and> P x) (t_connections d) \<longleftrightarrow> list_ex P (filter (conn_is i p) (t_connections d))" for P
    by (auto simp: list_ex_iff)
  then have "list_ex (\<lambda>x. conn_is i p x \<and> P x) (t_connections d) \<longleftrightarrow> P c" for P
    by (simp add: conn_unique(1) [OF assms(1) c])
  then show ?thesis using some GetConnection_row [OF assms(1) c assms(2)] by blast
next
  case False
  then have "List.find (conn_is i p) (t_connections d) = None" by (auto simp: find_None_iff)
  then show ?thesis using none False assms(2) by (auto simp: GetConnection_def list_ex_iff)
qed

lemma Create_wp:
  assumes rt: "undisturbed rt" "db_reliable rt" and db: "db_wf (w_db w)" and fresh: "fresh_ids rt w"
    and key_def: "key = request_key req (o_uuid (rt_sched rt) (w_tick w + 2))"
  shows "wp (Create rt eng req) (\<lambda>r w'. w_tick w \<le> w_tick w' \<and> w_tick w' \<le> w_tick w + 5 \<and> w_sec w' = w_sec w \<and>
    (if accepted eng (w_db w) (o_clock (rt_sched rt) (w_tick w + 1)) (o_uuid (rt_sched rt) (w_tick w + 2)) req
     then \<exists>res. r = Inr res \<and> w_tick w' = w_tick w + 5
       \<and> (inserted req eng key res w w' \<and> sr_ID (cz_Run res) = e_uuid (o_db (rt_sched rt) (w_tick w' - 1))
          \<or> deduplicated req eng key res w w')
     else (\<exists>e. r = Inl e) \<and> w_db w' = w_db w \<and> w_spawned w' = w_spawned w)) w"
proof (cases "Get (eng_registry eng) (cq_Provider req)")
  case None
  then show ?thesis by (simp add: Create_def accepted_def wp_simps)
next
  case p: (Some p)
  show ?thesis
  proof (cases "Spec (Descriptor p) (cq_Capability req)")
    case None
    then show ?thesis by (simp add: Create_def accepted_def wp_simps p)
  next
    case spec: (Some spec)
    let ?w = "w\<lparr>w_tick := Suc (Suc (Suc (w_tick w)))\<rparr>"
    have "e_uuid (o_db (rt_sched rt) (w_tick ?w + 1)) \<notin> rn_id ` set (t_runs (w_db ?w))"
      using fresh by (simp add: fresh_ids_def)
    then have I: "wp (insert_run rt eng req s e key) (\<lambda>r w'. \<exists>res. r = Inr res \<and> w_tick w' = w_tick ?w + 2 \<and> w_sec w' = w_sec ?w
        \<and> (inserted req eng key res ?w w' \<and> sr_ID (cz_Run res) = e_uuid (o_db (rt_sched rt) (w_tick w' - 1))
           \<or> deduplicated req eng key res ?w w')) ?w" for s e
      using insert_run_wp [of rt ?w eng req s e key] rt db by simp
    have same: "inserted req eng key res ?w w' = inserted req eng key res w w'"
        "deduplicated req eng key res ?w w' = deduplicated req eng key res w w'" for res w'
      by (simp_all add: inserted_def deduplicated_def)
    have J: "wp (insert_run rt eng req s e key) (\<lambda>r w'. w_tick w \<le> w_tick w' \<and> w_tick w' \<le> w_tick w + 5 \<and> w_sec w' = w_sec w \<and>
        (\<exists>res. r = Inr res \<and> w_tick w' = w_tick w + 5
          \<and> (inserted req eng key res w w' \<and> sr_ID (cz_Run res) = e_uuid (o_db (rt_sched rt) (w_tick w' - 1))
             \<or> deduplicated req eng key res w w'))) ?w" for s e
      by (rule wp_mono [OF I]) (auto simp: same)
    show ?thesis
    proof (rule GetConnection_cases [OF db db_reliableD [OF rt(2)], of "w_tick w" "site_ID (eng_site eng)" "cq_Provider req"])
      assume none: "GetConnection (o_db (rt_sched rt) (w_tick w)) (site_ID (eng_site eng)) (cq_Provider req) (w_db w) = Inl NoRows"
        "\<not> list_ex (conn_is (site_ID (eng_site eng)) (cq_Provider req)) (t_connections (w_db w))"
      then show ?thesis
        using rt by (auto simp: Create_def accepted_def wp_simps p spec list_ex_iff)
    next
      fix c assume c: "GetConnection (o_db (rt_sched rt) (w_tick w)) (site_ID (eng_site eng)) (cq_Provider req) (w_db w) = Inr (scanConnection c)"
        and ex: "\<And>P. list_ex (\<lambda>x. conn_is (site_ID (eng_site eng)) (cq_Provider req) x \<and> P x) (t_connections (w_db w)) \<longleftrightarrow> P c"
      show ?thesis
        using rt J by (auto simp: Create_def accepted_def wp_simps p spec c ex key_def Let_def split: sum.split)
    qed
  qed
qed

text \<open>
  C12: creating a run. A request is accepted exactly when its provider is installed and supports the
  capability, the connection is enabled and has a credential, the range is valid and the
  idempotency key is at most 200 bytes long. An accepted request either inserts one queued run and starts
  exactly one worker for it, or finds a run that conflicts (same key, or active for the same provider and
  capability), returns that and starts nothing. A rejected request changes nothing.
\<close>

theorem create_correct:
  assumes "undisturbed rt" "db_reliable rt" "db_reachable (w_db w)" "fresh_ids rt w"
    and "run_state (Create rt eng req) w = (r, w')"
  shows "if accepted eng (w_db w) (o_clock (rt_sched rt) (w_tick w + 1)) (o_uuid (rt_sched rt) (w_tick w + 2)) req
    then \<exists>res. r = Inr res \<and>
      (inserted req eng (request_key req (o_uuid (rt_sched rt) (w_tick w + 2))) res w w'
       \<or> deduplicated req eng (request_key req (o_uuid (rt_sched rt) (w_tick w + 2))) res w w')
    else (\<exists>e. r = Inl e) \<and> w_db w' = w_db w \<and> w_spawned w' = w_spawned w"
  using wp_run [OF Create_wp [OF assms(1,2) db_reachable_wf [OF assms(3)] assms(4) refl, of eng req] assms(5)]
  by (auto split: if_splits)

section \<open>Executing runs\<close>

lemma wp_eta:
  "wp (State_Monad.bind m f) Q = wp m (\<lambda>a. wp (f a) Q)"
  "wp (ask rt q) R = (\<lambda>w. R (q (rt_sched rt) (w_tick w)) (w\<lparr>w_tick := Suc (w_tick w)\<rparr>))"
  by (rule ext, simp add: wp_simps)+

lemma run_outcome_terminal: "run_outcome e = (st, code, msg) \<Longrightarrow> \<not> active_status st"
  by (auto simp: run_outcome_def split: option.splits prod.splits if_splits)

lemma run_outcome_success: "run_outcome e = (SyncSucceeded, code, msg) \<longleftrightarrow> e = None \<and> code = ErrNone \<and> msg = []"
  by (auto simp: run_outcome_def split: option.splits prod.splits if_splits)

lemma FinishRun_terminal:
  assumes "db_wf d" "no_faults env" "\<not> active_status st"
  shows "FinishRun env i st n cur code msg d =
    (None, d\<lparr>t_runs := update_where (\<lambda>r. rn_id r = i) (set_finished st n cur code msg (format_time (e_now env 0))) (t_runs d)\<rparr>)"
  using update_runs_ok [OF assms(2), of d "set_finished st n cur code msg (format_time (e_now env 0))" "\<lambda>r. rn_id r = i"] assms
  by (simp add: FinishRun_def err_only_def db_wf_def)

lemma MarkRunRunning_active:
  assumes "db_wf d" "no_faults env" "\<forall>r \<in> set (t_runs d). rn_id r = i \<longrightarrow> run_active r"
  shows "MarkRunRunning env i d =
    (None, d\<lparr>t_runs := update_where (\<lambda>r. rn_id r = i) (set_running (format_time (e_now env 0))) (t_runs d)\<rparr>)"
  using update_runs_ok [OF assms(2), of d "set_running (format_time (e_now env 0))" "\<lambda>r. rn_id r = i"] assms
  by (simp add: MarkRunRunning_def err_only_def db_wf_def)

lemma UpdateConnectionOutcome_runs [simp]: "t_runs (snd (UpdateConnectionOutcome env i p ok through code msg d)) = t_runs d"
  by (simp add: UpdateConnectionOutcome_def Let_def split: option.split)

text \<open>A row of the run \<open>i\<close> may differ from another one in its cursor and its time of update.\<close>

definition same_but_cursor :: "string \<Rightarrow> run_row list \<Rightarrow> run_row list \<Rightarrow> bool" where
  "same_but_cursor i rows rows' \<longleftrightarrow>
     list_all2 (\<lambda>r r'. r' = r \<or> rn_id r = i \<and> (\<exists>c u. r' = r\<lparr>rn_cursor := c, rn_updated_at := u\<rparr>)) rows rows'"

lemma same_but_cursor_refl [simp]: "same_but_cursor i rows rows"
  by (simp add: same_but_cursor_def list_all2_same)

lemma same_but_cursor_trans:
  "same_but_cursor i a b \<Longrightarrow> same_but_cursor i b c \<Longrightarrow> same_but_cursor i a c"
  unfolding same_but_cursor_def by (erule list_all2_trans [rotated]) fastforce+

lemma same_but_cursor_finish:
  "same_but_cursor i rows rows' \<Longrightarrow>
     update_where (\<lambda>r. rn_id r = i) (set_finished st n cur code msg now) rows' = update_where (\<lambda>r. rn_id r = i) (set_finished st n cur code msg now) rows"
  unfolding same_but_cursor_def
  by (induction rows rows' rule: list_all2_induct) (auto simp: set_finished_def)

lemma SetRunCursor_runs:
  assumes "db_wf d" "no_faults env"
  shows "\<exists>rows. SetRunCursor env i cur d = (None, d\<lparr>t_runs := rows\<rparr>) \<and> same_but_cursor i (t_runs d) rows"
proof -
  let ?f = "\<lambda>r. r\<lparr>rn_cursor := cur, rn_updated_at := format_time (e_now env 0)\<rparr>"
  have "SetRunCursor env i cur d = (None, d\<lparr>t_runs := update_where (\<lambda>r. rn_id r = i) ?f (t_runs d)\<rparr>)"
    using update_runs_ok [OF assms(2), of d ?f "\<lambda>r. rn_id r = i"] assms by (simp add: SetRunCursor_def err_only_def db_wf_def)
  moreover have "same_but_cursor i rows (update_where (\<lambda>r. rn_id r = i) ?f rows)" for rows
    by (induction rows) (auto simp: same_but_cursor_def)
  ultimately show ?thesis by blast
qed

lemma UpsertReportRows_runs [simp]: "t_runs (snd (UpsertReportRows env i ds rows d)) = t_runs d"
  by (auto simp: UpsertReportRows_def dest: upsert_loop_frame split: option.split sum.split)

lemma run_sync_wp:
  assumes rt: "undisturbed rt" "db_reliable rt" and w: "db_wf (w_db w)"
  shows "wp (run_sync rt siteID i prog) (\<lambda>_ w'. db_wf (w_db w') \<and> same_but_cursor i (t_runs (w_db w)) (t_runs (w_db w'))
    \<and> w_sec w' = w_sec w \<and> w_spawned w' = w_spawned w) w"
  using w
proof (induction prog arbitrary: w)
  case (SyncDone r e)
  then show ?case by (simp add: wp_simps)
next
  case (SinkWrite ds rows k)
  obtain e d' where u: "UpsertReportRows (o_db (rt_sched rt) (w_tick w)) siteID ds rows (w_db w) = (e, d')" by force
  have d': "db_wf d'" "t_runs d' = t_runs (w_db w)"
    using UpsertReportRows_wf [OF SinkWrite.prems] UpsertReportRows_runs [of _ siteID ds rows "w_db w"] u by (metis snd_conv)+
  show ?case
    using SinkWrite.IH [of "k e" "w\<lparr>w_db := d', w_tick := Suc (w_tick w)\<rparr>"] d' rt(1) u
    by (simp add: sink_Write_def wp_simps)
next
  case (SinkCheckpoint cur k)
  obtain rows where s: "SetRunCursor (o_db (rt_sched rt) (w_tick w)) i cur (w_db w) = (None, (w_db w)\<lparr>t_runs := rows\<rparr>)"
      "same_but_cursor i (t_runs (w_db w)) rows"
    using SetRunCursor_runs [OF SinkCheckpoint.prems db_reliableD [OF rt(2)]] by blast
  have wf: "db_wf ((w_db w)\<lparr>t_runs := rows\<rparr>)" using SetRunCursor_wf [OF SinkCheckpoint.prems] s(1) by (metis snd_conv)
  have "wp (run_sync rt siteID i (k None)) (\<lambda>_ w'. db_wf (w_db w') \<and> same_but_cursor i rows (t_runs (w_db w'))
      \<and> w_sec w' = w_sec w \<and> w_spawned w' = w_spawned w) (w\<lparr>w_db := (w_db w)\<lparr>t_runs := rows\<rparr>, w_tick := Suc (w_tick w)\<rparr>)"
    using SinkCheckpoint.IH [of "k None" "w\<lparr>w_db := (w_db w)\<lparr>t_runs := rows\<rparr>, w_tick := Suc (w_tick w)\<rparr>"] wf by simp
  then have "wp (run_sync rt siteID i (k None)) (\<lambda>_ w'. db_wf (w_db w') \<and> same_but_cursor i (t_runs (w_db w)) (t_runs (w_db w'))
      \<and> w_sec w' = w_sec w \<and> w_spawned w' = w_spawned w) (w\<lparr>w_db := (w_db w)\<lparr>t_runs := rows\<rparr>, w_tick := Suc (w_tick w)\<rparr>)"
    by (rule wp_mono) (auto intro: same_but_cursor_trans [OF s(2)])
  then show ?case using rt(1) s(1) by (simp add: sink_Checkpoint_def wp_simps)
qed

text \<open>
  \<open>run_ended eng i p w w' st code msg\<close>: from \<open>w\<close> to \<open>w'\<close> the run \<open>i\<close> was given the terminal status \<open>st\<close> with \<open>code\<close> and
  \<open>msg\<close>, no other run changed, and the connection of provider \<open>p\<close> shows the outcome.
\<close>

definition run_ended :: "engine \<Rightarrow> string \<Rightarrow> string \<Rightarrow> run_row list \<Rightarrow> 's world \<Rightarrow> sync_status \<Rightarrow> error_code \<Rightarrow> string \<Rightarrow> bool" where
  "run_ended eng i p rows w' st code msg \<longleftrightarrow>
     \<not> active_status st
     \<and> (\<exists>n cur t. t_runs (w_db w') = update_where (\<lambda>r. rn_id r = i) (set_finished st n cur code msg t) rows)
     \<and> (\<forall>c \<in> set (t_connections (w_db w')). conn_is (site_ID (eng_site eng)) p c \<longrightarrow>
          cn_last_error_code c = (if st = SyncFailed then code else ErrNone)
          \<and> cn_last_error_message c = (if st = SyncFailed then msg else []))"

lemma finish_wp:
  assumes rt: "undisturbed rt" "db_reliable rt" and w: "db_wf (w_db w)" and o: "run_outcome err = (st, code, msg)"
  shows "wp (finish rt eng run res err) (\<lambda>_ w'. run_ended eng (sr_ID run) (sr_Provider run) (t_runs (w_db w)) w' st code msg
    \<and> w_spawned w' = w_spawned w) w"
proof -
  have st: "\<not> active_status st" using run_outcome_terminal [OF o] .
  have fin: "FinishRun (o_db (rt_sched rt) n) (sr_ID run) st (rs_Rows res) (rs_Cursor res) code msg (w_db w) =
      (None, (w_db w)\<lparr>t_runs := update_where (\<lambda>r. rn_id r = sr_ID run)
        (set_finished st (rs_Rows res) (rs_Cursor res) code msg (format_time (e_now (o_db (rt_sched rt) n) 0))) (t_runs (w_db w))\<rparr>)" for n
    by (rule FinishRun_terminal [OF w db_reliableD [OF rt(2)] st])
  have case_eq: "err = None \<or> code = ErrPartial \<longleftrightarrow> st \<noteq> SyncFailed"
    using o by (auto simp: run_outcome_def split: option.splits prod.splits if_splits)
  show ?thesis
  proof (cases "st = SyncFailed")
    case True
    then show ?thesis
      using rt st fin case_eq
      by (auto simp: finish_def o wp_simps run_ended_def UpdateConnectionOutcome_def set_update_where set_failure_def conn_is_def)
  next
    case False
    then show ?thesis
      using rt st fin case_eq
      by (auto simp: finish_def o wp_simps run_ended_def UpdateConnectionOutcome_def set_update_where set_success_def conn_is_def)
  qed
qed

lemma run_ended_cursor:
  "same_but_cursor i rows rows' \<Longrightarrow> run_ended eng i p rows' w' st code msg \<Longrightarrow> run_ended eng i p rows w' st code msg"
  unfolding run_ended_def using same_but_cursor_finish by metis

text \<open>A run can only succeed with a credential that was opened for its site and provider.\<close>

definition sync_authorised :: "'s runtime \<Rightarrow> engine \<Rightarrow> string \<Rightarrow> 's world \<Rightarrow> bool" where
  "sync_authorised rt eng p w \<longleftrightarrow> Get (eng_registry eng) p \<noteq> None \<and>
     (\<exists>c \<in> set (t_connections (w_db w)). conn_is (site_ID (eng_site eng)) p c \<and> cn_credential_ref c \<noteq> []
       \<and> (\<exists>env mat. ss_Open (rt_ops rt) env (sync_scope eng p)
            \<lparr>cr_ID = cn_credential_ref c, cr_Type = cn_credential_type c\<rparr> PurposeSync (w_sec w) = Inr mat))"

definition run_done :: "'s runtime \<Rightarrow> engine \<Rightarrow> string \<Rightarrow> string \<Rightarrow> 's world \<Rightarrow> 's world \<Rightarrow> bool" where
  "run_done rt eng i p w w' \<longleftrightarrow> w_spawned w' = w_spawned w \<and>
     (\<exists>st code msg. run_ended eng i p (t_runs (w_db w)) w' st code msg
        \<and> (st = SyncSucceeded \<or> st = SyncPartial \<longrightarrow> sync_authorised rt eng p w))"

lemma finish_failed_wp:
  assumes "undisturbed rt" "db_reliable rt" "db_wf (w_db v)" "t_runs (w_db v) = t_runs (w_db w)" "w_spawned v = w_spawned w"
    "code \<noteq> ErrPartial"
  shows "wp (finish rt eng run res (Some (sync_err code msg))) (\<lambda>_ w'. run_done rt eng (sr_ID run) (sr_Provider run) w w') v"
proof -
  have o: "run_outcome (Some (sync_err code msg)) = (SyncFailed, code, truncate msg)"
    using assms(6) by (simp add: run_outcome_def classify_def sync_err_def)
  show ?thesis
    by (rule wp_mono [OF finish_wp [OF assms(1-3) o]]) (use assms(4,5) in \<open>auto simp: run_done_def\<close>)
qed

lemma execute_run_wp:
  assumes rt: "undisturbed rt" "db_reliable rt" and w: "db_wf (w_db w)"
  shows "wp (execute_run rt eng run) (\<lambda>_ w'. run_done rt eng (sr_ID run) (sr_Provider run) w w') w"
proof (cases "Get (eng_registry eng) (sr_Provider run)")
  case None
  then show ?thesis using finish_failed_wp [OF rt w refl refl] by (simp add: execute_run_def)
next
  case p: (Some p)
  let ?site = "site_ID (eng_site eng)"
  let ?v = "w\<lparr>w_tick := Suc (Suc (w_tick w))\<rparr>"
  have F: "wp (finish rt eng run res (Some (sync_err code msg))) (\<lambda>_ w'. run_done rt eng (sr_ID run) (sr_Provider run) w w') (w\<lparr>w_tick := n\<rparr>)"
    if "code \<noteq> ErrPartial" for res code msg n
    by (rule finish_failed_wp [OF rt _ _ _ that]) (use w in simp_all)
  show ?thesis
  proof (cases "GetConnection (o_db (rt_sched rt) (w_tick w)) ?site (sr_Provider run) (w_db w)")
    case (Inl e)
    then show ?thesis using rt F by (simp add: execute_run_def p wp_simps)
  next
    case conn: (Inr pc)
    then obtain c where c: "c \<in> set (t_connections (w_db w))" "conn_is ?site (sr_Provider run) c" "pc = scanConnection c"
      using GetConnection_iff [OF w db_reliableD [OF rt(2)]] by blast
    show ?thesis
    proof (cases "cn_credential_ref c = []")
      case True
      then show ?thesis using rt F c(3) by (simp add: execute_run_def p conn wp_simps)
    next
      case False
      let ?ref = "\<lparr>cr_ID = cn_credential_ref c, cr_Type = cn_credential_type c\<rparr>"
      have ref: "pc_CredentialRef pc = ?ref" by (simp add: c(3) scanConnection_def)
      show ?thesis
      proof (cases "ss_Open (rt_ops rt) (o_sec (rt_sched rt) (Suc (w_tick w))) (sync_scope eng (sr_Provider run)) ?ref PurposeSync (w_sec w)")
        case (Inl e)
        then show ?thesis using rt F ref False by (simp add: execute_run_def p conn wp_simps)
      next
        case open_ok: (Inr mat)
        have auth: "sync_authorised rt eng (sr_Provider run) w"
          unfolding sync_authorised_def using p c(1,2) False open_ok by blast
        have G: "wp (finish rt eng run res err) (\<lambda>_ w'. run_done rt eng (sr_ID run) (sr_Provider run) w w') v"
          if v: "db_wf (w_db v)" "same_but_cursor (sr_ID run) (t_runs (w_db w)) (t_runs (w_db v))" "w_spawned v = w_spawned w" for res err v
        proof -
          obtain st code msg where o: "run_outcome err = (st, code, msg)" by (metis prod_cases3)
          have "run_done rt eng (sr_ID run) (sr_Provider run) w w'"
            if "run_ended eng (sr_ID run) (sr_Provider run) (t_runs (w_db v)) w' st code msg \<and> w_spawned w' = w_spawned v" for w'
            unfolding run_done_def using that auth v(3) run_ended_cursor [OF v(2)] by metis
          then show ?thesis by (rule wp_mono [OF finish_wp [OF rt v(1) o]])
        qed
        have "wp (run_sync rt ?site (sr_ID run) (SyncRange p (run_request eng pc run) mat))
            (\<lambda>r v. \<forall>n err. wp (finish rt eng run (fst r) err) (\<lambda>_ w'. run_done rt eng (sr_ID run) (sr_Provider run) w w') (v\<lparr>w_tick := n\<rparr>)) ?v"
          by (rule wp_mono [OF run_sync_wp [OF rt]]) (use w G in auto)
        then have "wp (run_sync rt ?site (sr_ID run) (SyncRange p (run_request eng pc run) mat))
            (\<lambda>r. case r of (result, syncErr) \<Rightarrow> \<lambda>v. wp (finish rt eng run result
              (if syncErr = None \<and> o_done (rt_sched rt) (w_tick v) then Some (sync_err ErrTransient ''sync run timed out'') else syncErr))
              (\<lambda>_ w'. run_done rt eng (sr_ID run) (sr_Provider run) w w') (v\<lparr>w_tick := Suc (w_tick v)\<rparr>)) ?v"
          by (rule wp_mono) (auto split: prod.split)
        then show ?thesis
          using rt ref False open_ok by (simp add: execute_run_def p conn wp_simps wp_eta case_prod_beta)
      qed
    qed
  qed
qed


section \<open>Safety under every schedule\<close>

lemma keeps_finish: "keeps db_good (finish rt eng run res err)"
  unfolding finish_def by (intro keeps_prod keeps_bind keeps_if keeps_return keeps_ask keeps_db_exec op_reachable)

lemma keeps_run_sync: "keeps db_good (run_sync rt siteID i prog)"
  by (induction prog) (auto simp: sink_Write_def sink_Checkpoint_def intro!: keeps_bind keeps_db_exec op_reachable)

lemma keeps_Create: "keeps db_good (Create rt eng req)"
  unfolding Create_def insert_run_def Let_def
  by (intro keeps_option keeps_return keeps_bind keeps_db_query keeps_sum keeps_if keeps_ask keeps_prod keeps_db_exec keeps_spawn op_reachable)

lemma keeps_execute: "keeps db_good (execute rt eng i)"
  unfolding execute_def execute_run_def
  by (intro keeps_option keeps_return keeps_bind keeps_db_query keeps_sum keeps_if keeps_ask keeps_prod keeps_db_exec
      keeps_sec_query op_reachable keeps_finish keeps_run_sync)

lemma keeps_schedule_all: "keeps db_good (schedule_all rt eng ps)"
  by (induction rt eng ps rule: schedule_all.induct) (auto intro!: keeps_bind keeps_return keeps_Create)

lemma keeps_tick: "keeps db_good (eng_tick rt eng)"
  unfolding eng_tick_def by (intro keeps_bind keeps_db_exec op_reachable keeps_schedule_all)

lemma keeps_Run: "keeps db_good (Run rt eng n)"
  by (induction n) (auto intro!: keeps_bind keeps_tick)

section \<open>The scheduler\<close>

text \<open>Identifiers and keys the schedule will hand out are not in use, and all different.\<close>

definition fresh_supply :: "nat \<Rightarrow> 's runtime \<Rightarrow> 's world \<Rightarrow> bool" where
  "fresh_supply m rt w \<longleftrightarrow> inj_on (\<lambda>n. e_uuid (o_db (rt_sched rt) n)) {..< m} \<and> inj_on (o_uuid (rt_sched rt)) {..< m}
     \<and> (\<forall>n < m. length (o_uuid (rt_sched rt) n) \<le> 200)
     \<and> (\<forall>n \<in> {w_tick w ..< m}. \<forall>r \<in> set (t_runs (w_db w)). e_uuid (o_db (rt_sched rt) n) \<noteq> rn_id r \<and> o_uuid (rt_sched rt) n \<noteq> rn_idempotency_key r)"

lemma fresh_supply_ids: "fresh_supply m rt w \<Longrightarrow> w_tick w + 5 \<le> m \<Longrightarrow> fresh_ids rt w"
  by (auto simp: fresh_supply_def fresh_ids_def)

definition sched_inv :: "nat \<Rightarrow> 's runtime \<Rightarrow> conn_row list \<Rightarrow> 's world \<Rightarrow> bool" where
  "sched_inv m rt conns w \<longleftrightarrow> db_good w \<and> fresh_supply m rt w \<and> t_connections (w_db w) = conns"

definition in_flight :: "engine \<Rightarrow> string \<Rightarrow> capability \<Rightarrow> 's world \<Rightarrow> bool" where
  "in_flight eng name cap w \<longleftrightarrow> (\<exists>r \<in> set (t_runs (w_db w)). run_active r \<and> flight_key r = (site_ID (eng_site eng), name, cap))"

definition ready :: "engine \<Rightarrow> conn_row list \<Rightarrow> string \<Rightarrow> capability \<Rightarrow> bool" where
  "ready eng conns name cap \<longleftrightarrow>
     (case Get (eng_registry eng) name of None \<Rightarrow> False | Some p \<Rightarrow>
      case Spec (Descriptor p) cap of None \<Rightarrow> False | Some spec \<Rightarrow>
      list_ex (\<lambda>c. conn_is (site_ID (eng_site eng)) name c \<and> cn_enabled c \<noteq> 0 \<and> cn_credential_ref c \<noteq> []) conns
      \<and> 1 \<le> cfg_LookbackDays (eng_cfg eng) \<and> cfg_LookbackDays (eng_cfg eng) \<le> min (max_days spec) 106751)"

lemma ready_accepted:
  assumes "ready eng (t_connections d) name cap" "length fresh \<le> 200"
  shows "accepted eng d now fresh (default_request name cap)"
  using assms resolveRange_default [of "eng_cfg eng" now]
  by (auto simp: ready_def accepted_def default_request_def request_key_def Let_def split: option.splits)

lemma fresh_supply_later: "fresh_supply m rt w \<Longrightarrow> w_tick w \<le> w_tick w' \<Longrightarrow> w_db w' = w_db w \<Longrightarrow> fresh_supply m rt w'"
  by (simp add: fresh_supply_def)

lemma Create_sched_wp:
  assumes rt: "undisturbed rt" "db_reliable rt" and inv: "sched_inv m rt conns w" and m: "w_tick w + 5 \<le> m"
  shows "wp (Create rt eng (default_request name cap)) (\<lambda>_ w'. sched_inv m rt conns w' \<and> w_tick w' \<le> w_tick w + 5
    \<and> (ready eng conns name cap \<longrightarrow> in_flight eng name cap w')
    \<and> (\<forall>n c. in_flight eng n c w \<longrightarrow> in_flight eng n c w')) w"
proof (rule wpI)
  fix r w' assume run: "run_state (Create rt eng (default_request name cap)) w = (r, w')"
  let ?req = "default_request name cap"
  let ?key = "o_uuid (rt_sched rt) (w_tick w + 2)"
  have good: "db_good w" and fresh: "fresh_supply m rt w" and conns: "t_connections (w_db w) = conns"
    using inv by (auto simp: sched_inv_def)
  have db: "db_wf (w_db w)" using good db_reachable_wf by (simp add: db_good_def)
  have key: "request_key ?req ?key = ?key"
    by (simp add: request_key_def default_request_def)
  note C = wp_run [OF Create_wp [OF rt db fresh_supply_ids [OF fresh m] refl, of eng ?req] run, unfolded key]
  have good': "db_good w'"
    using keeps_Create [of rt eng ?req] good run unfolding keeps_def by (metis wp_run)
  have unused: "?key \<noteq> rn_idempotency_key x" if "x \<in> set (t_runs (w_db w))" for x
    using fresh that m by (auto simp: fresh_supply_def)
  have req: "cq_Provider ?req = name" "cq_Capability ?req = cap" by (simp_all add: default_request_def)
  have tick_le: "w_tick w \<le> w_tick w'" "w_tick w' \<le> w_tick w + 5" using C by simp_all
  show "sched_inv m rt conns w' \<and> w_tick w' \<le> w_tick w + 5 \<and> (ready eng conns name cap \<longrightarrow> in_flight eng name cap w') \<and> (\<forall>n c. in_flight eng n c w \<longrightarrow> in_flight eng n c w')"
  proof (cases "accepted eng (w_db w) (o_clock (rt_sched rt) (w_tick w + 1)) ?key ?req")
    case False
    then have "\<not> ready eng conns name cap"
      using ready_accepted [of eng "w_db w" name cap ?key] conns fresh m by (auto simp: fresh_supply_def)
    moreover have "w_db w' = w_db w" using C False by auto
    ultimately show ?thesis
      using good' tick_le fresh_supply_later [OF fresh tick_le(1)] conns by (simp add: sched_inv_def in_flight_def)
  next
    case True
    then obtain res where tick: "w_tick w' = w_tick w + 5"
      and ins: "inserted ?req eng ?key res w w' \<and> sr_ID (cz_Run res) = e_uuid (o_db (rt_sched rt) (w_tick w' - 1)) \<or> deduplicated ?req eng ?key res w w'"
      using C unfolding if_P [OF True] by (elim conjE exE)
    from ins show ?thesis
    proof
      assume i: "inserted ?req eng ?key res w w' \<and> sr_ID (cz_Run res) = e_uuid (o_db (rt_sched rt) (w_tick w' - 1))"
      then obtain row where row: "w_db w' = (w_db w)\<lparr>t_runs := t_runs (w_db w) @ [row]\<rparr>" "rn_status row = SyncQueued"
          "flight_key row = (site_ID (eng_site eng), name, cap)" "rn_idempotency_key row = ?key"
          "rn_id row = sr_ID (cz_Run res)"
        unfolding inserted_def req by blast
      have minus: "w_tick w' - 1 = w_tick w + 4" using tick by simp
      have id: "rn_id row = e_uuid (o_db (rt_sched rt) (w_tick w + 4))" using i row(5) unfolding minus by simp
      have "fresh_supply m rt w'"
        using fresh tick row(1,4) id m by (auto simp: fresh_supply_def dest: inj_onD)
      moreover have "in_flight eng name cap w'" using row by (simp add: in_flight_def)
      moreover have "in_flight eng n c w'" if "in_flight eng n c w" for n c using that row(1) by (auto simp: in_flight_def)
      ultimately show ?thesis using good' conns row(1) tick_le by (simp add: sched_inv_def)
    next
      assume "deduplicated ?req eng ?key res w w'"
      then obtain row where row: "row \<in> set (t_runs (w_db w))" "w_db w' = w_db w" "rn_site_id row = site_ID (eng_site eng)"
          "rn_idempotency_key row = ?key \<or> run_active row \<and> rn_provider row = name \<and> rn_capability row = cap"
        by (auto simp: deduplicated_def req)
      then have "in_flight eng name cap w'" using unused [OF row(1)] by (auto simp: in_flight_def)
      then show ?thesis
        using good' tick_le fresh_supply_later [OF fresh tick_le(1)] conns row(2) by (simp add: sched_inv_def in_flight_def)
    qed
  qed
qed

lemma schedule_all_wp:
  assumes rt: "undisturbed rt" "db_reliable rt" and inv: "sched_inv m rt conns w" and m: "w_tick w + 5 * length ps \<le> m"
  shows "wp (schedule_all rt eng ps) (\<lambda>_ w'. sched_inv m rt conns w'
    \<and> (\<forall>(name, cap) \<in> set ps. ready eng conns name cap \<longrightarrow> in_flight eng name cap w')
    \<and> (\<forall>n c. in_flight eng n c w \<longrightarrow> in_flight eng n c w')) w"
  using inv m
proof (induction ps arbitrary: w)
  case Nil
  then show ?case by (simp add: wp_simps)
next
  case (Cons x ps)
  obtain name cap where x: "x = (name, cap)" by force
  have m5: "w_tick w + 5 \<le> m" using Cons.prems(2) by simp
  have "wp (Create rt eng (default_request name cap)) (\<lambda>_. wp (schedule_all rt eng ps) (\<lambda>_ w'. sched_inv m rt conns w'
      \<and> (\<forall>(name, cap) \<in> set (x # ps). ready eng conns name cap \<longrightarrow> in_flight eng name cap w')
      \<and> (\<forall>n c. in_flight eng n c w \<longrightarrow> in_flight eng n c w'))) w"
  proof (rule wp_mono [OF Create_sched_wp [OF rt Cons.prems(1) m5, of eng name cap]], elim conjE)
    fix v assume v: "sched_inv m rt conns v" and tick: "w_tick v \<le> w_tick w + 5" and v': "ready eng conns name cap \<longrightarrow> in_flight eng name cap v"
      "\<forall>n c. in_flight eng n c w \<longrightarrow> in_flight eng n c v"
    show "wp (schedule_all rt eng ps) (\<lambda>_ w'. sched_inv m rt conns w'
        \<and> (\<forall>(name, cap) \<in> set (x # ps). ready eng conns name cap \<longrightarrow> in_flight eng name cap w')
        \<and> (\<forall>n c. in_flight eng n c w \<longrightarrow> in_flight eng n c w')) v"
      by (rule wp_mono [OF Cons.IH [OF v]]) (use v' x tick Cons.prems(2) in auto)
  qed
  then show ?case by (simp only: x schedule_all.simps wp_bind)
qed

text \<open>
  C14: the scheduler keeps every configured capability in flight. After a tick, without interference and with a working
  database, every capability of every installed provider whose connection is enabled and has a
  credential, and whose lookback fits the range it allows, has a queued or running run.
\<close>

theorem tick_schedules:
  assumes rt: "undisturbed rt" "db_reliable rt" and db: "db_reachable (w_db w)"
    and reg: "registry_wf (eng_registry eng)" "Get (eng_registry eng) name = Some p" "Spec (Descriptor p) cap = Some spec"
    and conn: "c \<in> set (t_connections (w_db w))" "conn_is (site_ID (eng_site eng)) name c" "cn_enabled c \<noteq> 0" "cn_credential_ref c \<noteq> []"
    and look: "1 \<le> cfg_LookbackDays (eng_cfg eng)" "cfg_LookbackDays (eng_cfg eng) \<le> min (max_days spec) 106751"
    and fresh: "fresh_supply (w_tick w + 1 + 5 * length (scheduled_pairs eng)) rt w"
    and run: "run_state (eng_tick rt eng) w = (u, w')"
  shows "\<exists>r \<in> set (t_runs (w_db w')). run_active r \<and> flight_key r = (site_ID (eng_site eng), name, cap)"
proof -
  let ?env = "o_db (rt_sched rt) (w_tick w)"
  let ?conns = "t_connections (w_db w)"
  define d where "d = snd (RequeueStaleRuns ?env (cfg_Lease (eng_cfg eng)) (w_db w))"
  let ?v = "w\<lparr>w_db := d, w_tick := Suc (w_tick w)\<rparr>"
  have d: "t_connections d = ?conns" "\<forall>r \<in> set (t_runs d). \<exists>x \<in> set (t_runs (w_db w)). rn_id r = rn_id x \<and> rn_idempotency_key r = rn_idempotency_key x"
    using db_reachable_wf [OF db] rt(2) by (auto simp: d_def RequeueStaleRuns_ok set_update_where)
  let ?m = "w_tick w + 1 + 5 * length (scheduled_pairs eng)"
  have "fresh_supply ?m rt ?v" using fresh d(2) unfolding fresh_supply_def by (fastforce dest: Suc_leD)
  moreover have "db_good ?v" using op_reachable(9) [OF db] by (simp add: db_good_def d_def)
  ultimately have inv: "sched_inv ?m rt ?conns ?v" using d(1) by (simp add: sched_inv_def)
  have W: "wp (eng_tick rt eng) (\<lambda>_ w'. \<forall>(name, cap) \<in> set (scheduled_pairs eng). ready eng ?conns name cap \<longrightarrow> in_flight eng name cap w') w"
  proof -
    obtain a where R: "RequeueStaleRuns ?env (cfg_Lease (eng_cfg eng)) (w_db w) = (a, d)"
      unfolding d_def by (metis prod.collapse)
    have "wp (schedule_all rt eng (scheduled_pairs eng))
        (\<lambda>_ w'. \<forall>(name, cap) \<in> set (scheduled_pairs eng). ready eng ?conns name cap \<longrightarrow> in_flight eng name cap w') ?v"
      by (rule wp_mono [OF schedule_all_wp [OF rt inv]]) (simp, blast)
    then show ?thesis using rt(1) by (simp add: eng_tick_def wp_simps R)
  qed
  have "(name, cap) \<in> set (scheduled_pairs eng)"
  proof -
    have "Descriptor p \<in> set (Descriptors (eng_registry eng))" "d_Name (Descriptor p) = name"
      using reg(1,2) Descriptors_mem Get_Descriptor by metis+
    then show ?thesis using Spec_Some [OF reg(3)] by (auto simp: scheduled_pairs_def)
  qed
  moreover have "ready eng ?conns name cap"
    using reg(2,3) conn look by (auto simp: ready_def list_ex_iff)
  ultimately have "in_flight eng name cap w'" using wp_run [OF W run] by blast
  then show ?thesis by (simp add: in_flight_def)
qed

section \<open>The invariant of the whole engine\<close>

datatype eng_action = ActCreate create_request | ActExecute string | ActTick

fun run_action :: "'s runtime \<Rightarrow> engine \<Rightarrow> eng_action \<Rightarrow> ('s world, unit) state" where
  "run_action rt eng (ActCreate req) = do { _ \<leftarrow> Create rt eng req; State_Monad.return () }"
| "run_action rt eng (ActExecute i) = execute rt eng i"
| "run_action rt eng ActTick = eng_tick rt eng"

fun run_actions :: "'s runtime \<Rightarrow> engine \<Rightarrow> eng_action list \<Rightarrow> ('s world, unit) state" where
  "run_actions rt eng [] = State_Monad.return ()"
| "run_actions rt eng (a # as) = do { _ \<leftarrow> run_action rt eng a; run_actions rt eng as }"

lemma keeps_run_action: "keeps db_good (run_action rt eng a)"
  by (cases a) (auto intro!: keeps_bind keeps_return keeps_Create keeps_execute keeps_tick)

lemma keeps_run_actions: "keeps db_good (run_actions rt eng as)"
  by (induction as) (auto intro!: keeps_bind keeps_return keeps_run_action)

text \<open>
  Whatever the engine does, under every schedule of faults and every interleaving with other goroutines,
  at the end no two active runs share site, provider and capability, no two runs of a site share an idempotency key,
  no two connections share site and provider, every connection and report row belongs to an existing
  site, and report rows are keyed by their document's key.
\<close>

theorem engine_invariant:
  assumes "db_reachable (w_db w)" "run_state (run_actions rt eng as) w = (u, w')"
  shows "unique_on_where run_active flight_key (t_runs (w_db w'))
    \<and> unique_on (\<lambda>r. (rn_site_id r, rn_idempotency_key r)) (t_runs (w_db w'))
    \<and> unique_on (\<lambda>c. (cn_site_id c, cn_provider c)) (t_connections (w_db w'))
    \<and> (\<forall>c \<in> set (t_connections (w_db w')). site_exists (cn_site_id c) (w_db w'))
    \<and> (\<forall>r \<in> set (t_reports (w_db w')). site_exists (rp_site_id r) (w_db w') \<and> row_key_of (rp_data r) = rp_row_key r)"
proof -
  have "db_good w" using assms(1) by (simp add: db_good_def)
  then have W: "wp (run_actions rt eng as) (\<lambda>_. db_good) w"
    using keeps_run_actions [of rt eng as] by (simp add: keeps_def)
  have "db_wf (w_db w')" using wp_run [OF W assms(2)] db_reachable_wf by (simp add: db_good_def)
  then show ?thesis by (simp add: db_wf_def connections_wf_def reports_wf_def runs_unique_def)
qed

section \<open>Instances\<close>

definition demo_spec :: capability_spec where
  "demo_spec = \<lparr>cs_Capability = ''search.performance'', cs_Dimensions = [], cs_Metrics = [], cs_MaxRangeDays = 90,
     cs_FreshnessLagDays = 2, cs_SupportsCursor = False, cs_QuotaHint = []\<rparr>"

definition demo_provider :: provider where
  "demo_provider = \<lparr>Descriptor = \<lparr>d_Name = ''bing'', d_DisplayName = [], d_CredentialTypes = [''api_key''], d_Capabilities = [demo_spec],
       d_SetupURL = [], d_DocsURL = [], d_SetupLinks = []\<rparr>,
     DiscoverProperties = \<lambda>_. Inr [], TestProperty = \<lambda>_ _ _. None,
     SyncRange = \<lambda>_ _. SinkWrite ''bing.query'' [] (\<lambda>e. SinkCheckpoint ''c'' (\<lambda>_. SyncDone no_result e)), RevokeCredential = \<lambda>_. None\<rparr>"

definition demo_engine :: engine where
  "demo_engine = NewEngine [(''bing'', demo_provider)] demo_site \<lparr>cfg_LookbackDays = 0, cfg_Timeout = 0, cfg_Interval = 0, cfg_Lease = 0\<rparr>"

definition demo_rt :: "memory runtime" where
  "demo_rt = \<lparr>rt_ops = memory_ops, rt_sched = \<lparr>o_db = \<lambda>n. demo_db_env (replicate n (CHR ''r'')) 0, o_sec = \<lambda>_. demo_env ''x'',
     o_clock = \<lambda>_. 0, o_uuid = \<lambda>n. replicate n (CHR ''k''), o_done = \<lambda>_. False, o_others = \<lambda>_. [], o_others_sec = \<lambda>_. []\<rparr>\<rparr>"

definition demo_world :: "db \<Rightarrow> memory world" where
  "demo_world d = \<lparr>w_db = d, w_sec = NewMemory, w_tick = 0, w_spawned = []\<rparr>"

lemma demo_sel [simp]:
  "w_db (demo_world d) = d" "w_tick (demo_world d) = 0" "w_spawned (demo_world d) = []"
  "o_clock (rt_sched demo_rt) n = 0" "o_uuid (rt_sched demo_rt) n = replicate n (CHR ''k'')"
  by (simp_all add: demo_world_def demo_rt_def)

lemma demo_rt_ok: "undisturbed demo_rt" "db_reliable demo_rt"
  by (simp_all add: undisturbed_def db_reliable_def demo_rt_def)

lemma demo_conn_no_runs: "t_runs demo_conn = []"
  by (simp add: demo_conn_def ConfigureConnection_def EnsureConnection_def EnsureSite_def empty_db_def Let_def split: option.split)

lemma demo_engine_sel:
  "Get (eng_registry demo_engine) ''bing'' = Some demo_provider" "Spec (Descriptor demo_provider) ''search.performance'' = Some demo_spec"
  "site_ID (eng_site demo_engine) = ''main''" "cfg_LookbackDays (eng_cfg demo_engine) = 30" "max_days demo_spec = 90"
  by (simp_all add: demo_engine_def NewEngine_def withDefaults_def Get_def Spec_def demo_provider_def demo_spec_def demo_site_def max_days_def)


theorem default_range_witness:
  "resolveRange (eng_cfg demo_engine) 0 [] [] (demo_spec\<lparr>cs_MaxRangeDays := 1\<rparr>)
     = Inl (sync_err ErrInternal (''sync range must not exceed '' @ itoa 1 @ '' days''))"
  using default_range [of "eng_cfg demo_engine" 0 "demo_spec\<lparr>cs_MaxRangeDays := 1\<rparr>"]
  by (simp add: demo_engine_sel max_days_def demo_spec_def)

theorem create_correct_witness:
  "\<exists>res w'. run_state (Create demo_rt demo_engine (default_request ''bing'' ''search.performance'')) (demo_world demo_conn) = (Inr res, w')
     \<and> length (w_spawned w') = 1"
proof -
  let ?req = "default_request ''bing'' ''search.performance''"
  obtain r w' where run: "run_state (Create demo_rt demo_engine ?req) (demo_world demo_conn) = (r, w')" by force
  have "ready demo_engine (t_connections demo_conn) ''bing'' ''search.performance''"
    by (simp add: ready_def demo_engine_sel demo_conn_rows conn_is_def set_configuration_def new_connection_def boolInt_def)
  then have acc: "accepted demo_engine demo_conn 0 ''kk'' ?req" by (rule ready_accepted) simp
  have "db_reachable (w_db (demo_world demo_conn))" "fresh_ids demo_rt (demo_world demo_conn)"
    by (simp_all add: demo_world_def demo_conn_reachable fresh_ids_def demo_conn_no_runs)
  note T = create_correct [OF demo_rt_ok this run]
  have "\<exists>res. r = Inr res \<and> (inserted ?req demo_engine (request_key ?req ''kk'') res (demo_world demo_conn) w'
      \<or> deduplicated ?req demo_engine (request_key ?req ''kk'') res (demo_world demo_conn) w')"
    using T acc by (simp add: numeral_2_eq_2)
  then show ?thesis using run by (auto simp: inserted_def deduplicated_def demo_conn_no_runs)
qed


theorem tick_schedules_witness:
  "\<exists>w'. run_state (eng_tick demo_rt demo_engine) (demo_world demo_conn) = ((), w')
     \<and> (\<exists>r \<in> set (t_runs (w_db w')). run_active r \<and> flight_key r = (''main'', ''bing'', ''search.performance''))"
proof -
  obtain w' where run: "run_state (eng_tick demo_rt demo_engine) (demo_world demo_conn) = ((), w')" by (metis old.unit.exhaust surj_pair)
  let ?c = "hd (t_connections demo_conn)"
  have reg: "registry_wf (eng_registry demo_engine)"
    by (simp add: registry_wf_def demo_engine_def NewEngine_def demo_provider_def)
  have pairs: "length (scheduled_pairs demo_engine) = 1"
    by (simp add: scheduled_pairs_def Descriptors_def demo_engine_def NewEngine_def demo_provider_def demo_spec_def)
  have c: "?c \<in> set (t_connections (w_db (demo_world demo_conn)))" "conn_is (site_ID (eng_site demo_engine)) ''bing'' ?c"
      "cn_enabled ?c \<noteq> 0" "cn_credential_ref ?c \<noteq> []"
    by (simp_all add: demo_world_def demo_conn_rows demo_engine_sel conn_is_def set_configuration_def new_connection_def boolInt_def)
  have fresh: "fresh_supply (w_tick (demo_world demo_conn) + 1 + 5 * length (scheduled_pairs demo_engine)) demo_rt (demo_world demo_conn)"
    by (auto simp: fresh_supply_def pairs demo_world_def demo_rt_def demo_conn_no_runs inj_on_def)
  have db: "db_reachable (w_db (demo_world demo_conn))" by (simp add: demo_world_def demo_conn_reachable)
  show ?thesis
    using tick_schedules [OF demo_rt_ok db reg demo_engine_sel(1,2) c _ _ fresh run] run by (simp add: demo_engine_sel)
qed

theorem engine_invariant_witness:
  "\<exists>w'. run_state (run_actions demo_rt demo_engine [ActTick, ActExecute ''rrrr'']) (demo_world demo_conn) = ((), w')
     \<and> unique_on_where run_active flight_key (t_runs (w_db w'))"
proof -
  obtain w' where run: "run_state (run_actions demo_rt demo_engine [ActTick, ActExecute ''rrrr'']) (demo_world demo_conn) = ((), w')"
    by (metis old.unit.exhaust surj_pair)
  have "db_reachable (w_db (demo_world demo_conn))" by (simp add: demo_world_def demo_conn_reachable)
  then show ?thesis using engine_invariant [OF _ run] run by blast
qed

end
