(* ===== verification/HttpApi.thy ===== *)
theory HttpApi
  imports EngineProps Auth
begin

text \<open>
  The HTTP API (\<^verbatim>\<open>internal/httpapi/server.go\<close>): the authorization wrapper, the read endpoints and the creation of runs.
  A handler is a program that yields a response: a status and a JSON document. A request is what
  the handlers read of it: the subject its authentication yields, the query
  parameters, the provider in the path. A JSON body is represented by its decoded value, \<open>None\<close> when decoding fails.
\<close>

section \<open>Definitions\<close>

record response =
  rsp_status :: int
  rsp_body :: jval

record request =
  rq_Query :: "string \<Rightarrow> string"
  rq_Path :: string

record oauth_app =
  oap_ClientID :: string
  oap_ClientSecret :: string
  oap_AuthURL :: string
  oap_TokenURL :: string
  oap_Scopes :: "string list"

record server =
  srv_registry :: registry
  srv_engine :: engine
  srv_site :: site
  srv_oauthApps :: "string \<rightharpoonup> oauth_app"
  srv_oauthCallbackURL :: string

definition New :: "registry \<Rightarrow> engine \<Rightarrow> site \<Rightarrow> server" where
  "New reg eng s = \<lparr>srv_registry = reg, srv_engine = eng, srv_site = s, srv_oauthApps = Map.empty,
     srv_oauthCallbackURL = trim_right (site_PublicURL s) (CHR ''/'') @ ''/oauth/callback''\<rparr>"

definition WithPlatformURL :: "string \<Rightarrow> server \<Rightarrow> server" where
  "WithPlatformURL publicURL s = s\<lparr>srv_oauthCallbackURL := trim_right publicURL (CHR ''/'') @ ''/oauth/callback''\<rparr>"

definition WithOAuthCallbackURL :: "string \<Rightarrow> server \<Rightarrow> server" where
  "WithOAuthCallbackURL callbackURL s = s\<lparr>srv_oauthCallbackURL := trim_space callbackURL\<rparr>"

definition WithOAuthApps :: "(string \<rightharpoonup> oauth_app) \<Rightarrow> server \<Rightarrow> server" where
  "WithOAuthApps apps s = s\<lparr>srv_oauthApps := apps\<rparr>"

definition writeJSON :: "int \<Rightarrow> jval \<Rightarrow> response" where
  "writeJSON status body = \<lparr>rsp_status = status, rsp_body = body\<rparr>"

definition writeError :: "int \<Rightarrow> string \<Rightarrow> response" where
  "writeError status message = writeJSON status (JObj [(''error'', JStr message)])"

text \<open>The texts of the errors that handlers may show; other errors are only logged.\<close>

fun error_text :: "go_error \<Rightarrow> string" where
  "error_text (SyncErr e) = sync_error_text e"
| "error_text (Msg m) = m"
| "error_text (Wrapped p e) = p @ '': '' @ error_text e"
| "error_text _ = ''error''"

type_synonym 's handler = "request \<Rightarrow> subject \<Rightarrow> ('s world, response) state"

definition authorized ::
  "(request \<Rightarrow> go_error + subject) \<Rightarrow> string \<Rightarrow> 's handler \<Rightarrow> request \<Rightarrow> ('s world, response) state" where
  "authorized authenticate sc nxt r =
     (case authenticate r of
        Inl _ \<Rightarrow> State_Monad.return (writeError 401 ''authentication required'')
      | Inr sub \<Rightarrow>
          if \<not> HasScope sub sc then State_Monad.return (writeError 403 (''missing scope '' @ sc))
          else nxt r sub)"

subsection \<open>JSON documents\<close>

definition omit_str :: "string \<Rightarrow> string \<Rightarrow> (string \<times> jval) list" where
  "omit_str k v = (if v = [] then [] else [(k, JStr v)])"

text \<open>A slice that was never appended to is \<^verbatim>\<open>nil\<close> and encodes as \<^verbatim>\<open>null\<close>.\<close>

definition json_slice :: "jval list \<Rightarrow> jval" where
  "json_slice vs = (if vs = [] then JNull else JArr vs)"

definition omit_strs :: "string \<Rightarrow> string list \<Rightarrow> (string \<times> jval) list" where
  "omit_strs k vs = (if vs = [] then [] else [(k, JArr (map JStr vs))])"

definition omit_int :: "string \<Rightarrow> int \<Rightarrow> (string \<times> jval) list" where
  "omit_int k v = (if v = 0 then [] else [(k, JInt v)])"

definition capability_json :: "capability_spec \<Rightarrow> jval" where
  "capability_json c = JObj ((''capability'', JStr (cs_Capability c)) # omit_strs ''dimensions'' (cs_Dimensions c)
     @ omit_strs ''metrics'' (cs_Metrics c) @ omit_int ''max_range_days'' (cs_MaxRangeDays c)
     @ omit_int ''freshness_lag_days'' (cs_FreshnessLagDays c) @ [(''supports_cursor'', JBool (cs_SupportsCursor c))]
     @ omit_str ''quota_hint'' (cs_QuotaHint c))"

definition setup_link_json :: "setup_link \<Rightarrow> jval" where
  "setup_link_json l = JObj (omit_str ''kind'' (sl_Kind l) @ [(''label'', JStr (sl_Label l)), (''url'', JStr (sl_URL l))]
     @ omit_str ''description'' (sl_Description l))"

definition provider_json :: "server \<Rightarrow> descriptor \<Rightarrow> jval" where
  "provider_json s d = JObj ([(''name'', JStr (d_Name d)), (''display_name'', JStr (d_DisplayName d)),
      (''credential_types'', json_slice (map JStr (d_CredentialTypes d))), (''capabilities'', json_slice (map capability_json (d_Capabilities d)))]
     @ omit_str ''setup_url'' (d_SetupURL d) @ omit_str ''docs_url'' (d_DocsURL d)
     @ [(''oauth_available'', JBool (srv_oauthApps s (d_Name d) \<noteq> None))]
     @ (if d_SetupLinks d = [] then [] else [(''setup_links'', JArr (map setup_link_json (d_SetupLinks d)))]))"

definition listProviders :: "server \<Rightarrow> 's handler" where
  "listProviders s r sub = State_Monad.return (writeJSON 200 (JObj
     [(''providers'', JArr (map (provider_json s) (Descriptors (srv_registry s))))]))"

definition getSite :: "server \<Rightarrow> 's handler" where
  "getSite s r sub = State_Monad.return (writeJSON 200 (JObj
     [(''public_url'', JStr (site_PublicURL (srv_site s))), (''sitemap_url'', JStr (site_SitemapURL (srv_site s))),
      (''oauth_callback'', JStr (srv_oauthCallbackURL s))]))"

definition connectionState :: "gotime \<Rightarrow> provider_connection \<Rightarrow> string" where
  "connectionState now c =
     (if cr_ID (pc_CredentialRef c) = [] then ''not_configured''
      else if pc_LastErrorCode c \<noteq> ErrNone then
        (if pc_LastErrorCode c = ErrUnauthorized then ''reauthorization_required'' else ''error'')
      else if \<not> pc_Enabled c \<or> pc_PropertyReference c = [] then ''needs_property''
      else if (case pc_DataThroughDate c of None \<Rightarrow> False | Some t \<Rightarrow> now - t > 5 * 24 * hour_ns) then ''stale''
      else if pc_LastSuccessAt c = None then ''no_data''
      else ''connected'')"

definition connectionToJSON :: "gotime \<Rightarrow> provider_connection \<Rightarrow> jval" where
  "connectionToJSON now c = JObj ([(''provider'', JStr (pc_Provider c)), (''configured'', JBool (cr_ID (pc_CredentialRef c) \<noteq> [])),
      (''enabled'', JBool (pc_Enabled c))] @ omit_str ''credential_type'' (cr_Type (pc_CredentialRef c))
     @ omit_str ''property_reference'' (pc_PropertyReference c) @ [(''state'', JStr (connectionState now c))]
     @ omit_str ''last_success_at'' (case pc_LastSuccessAt c of None \<Rightarrow> [] | Some t \<Rightarrow> format_time t)
     @ omit_str ''data_through_date'' (case pc_DataThroughDate c of None \<Rightarrow> [] | Some t \<Rightarrow> format_date t)
     @ omit_str ''last_error_code'' (error_code_text (pc_LastErrorCode c))
     @ omit_str ''last_error_message'' (pc_LastErrorMessage c))"

definition runToJSON :: "sync_run \<Rightarrow> jval" where
  "runToJSON r = JObj ([(''id'', JStr (sr_ID r)), (''provider'', JStr (sr_Provider r)), (''capability'', JStr (sr_Capability r)),
      (''start_date'', JStr (format_date (sr_StartDate r))), (''end_date'', JStr (format_date (sr_EndDate r))),
      (''status'', JStr (sync_status_text (sr_Status r))), (''rows_synced'', JInt (sr_RowsSynced r))]
     @ omit_str ''cursor'' (sr_Cursor r) @ omit_str ''triggered_by'' (sr_TriggeredBy r)
     @ [(''idempotency_key'', JStr (sr_IdempotencyKey r))]
     @ omit_str ''error_code'' (error_code_text (sr_ErrorCode r)) @ omit_str ''error_message'' (sr_ErrorMessage r)
     @ [(''started_at'', JStr (format_time (sr_StartedAt r)))]
     @ omit_str ''finished_at'' (case sr_FinishedAt r of None \<Rightarrow> [] | Some t \<Rightarrow> format_time t))"

subsection \<open>Read endpoints\<close>

definition listConnections :: "'s runtime \<Rightarrow> server \<Rightarrow> 's handler" where
  "listConnections rt s r sub =
     do { rows \<leftarrow> db_query rt (\<lambda>env. ListConnections env (site_ID (srv_site s)));
          case rows of
            Inl _ \<Rightarrow> State_Monad.return (writeError 500 ''list connections'')
          | Inr cs \<Rightarrow>
              do { now \<leftarrow> ask rt o_clock;
                   State_Monad.return (writeJSON 200 (JObj [(''connections'', JArr (map (connectionToJSON now) cs))])) } }"

definition listSyncRuns :: "'s runtime \<Rightarrow> server \<Rightarrow> 's handler" where
  "listSyncRuns rt s r sub =
     do { rows \<leftarrow> db_query rt (\<lambda>env. ListSyncRuns env (site_ID (srv_site s)) (rq_Query r ''provider'') (fst (atoi (rq_Query r ''limit''))));
          case rows of
            Inl _ \<Rightarrow> State_Monad.return (writeError 500 ''list sync runs'')
          | Inr rs \<Rightarrow> State_Monad.return (writeJSON 200 (JObj [(''sync_runs'', JArr (map runToJSON rs))])) }"

definition listReportDatasets :: "'s runtime \<Rightarrow> server \<Rightarrow> 's handler" where
  "listReportDatasets rt s r sub =
     do { ds \<leftarrow> db_query rt (\<lambda>env. ListReportDatasets env (site_ID (srv_site s)));
          case ds of
            Inl _ \<Rightarrow> State_Monad.return (writeError 500 ''list report datasets'')
          | Inr names \<Rightarrow> State_Monad.return (writeJSON 200 (JObj
              [(''datasets'', json_slice (map JStr names))])) }"

definition report_row_json :: "rep_row \<Rightarrow> jval" where
  "report_row_json r = JObj [(''dataset'', JStr (rp_dataset r)), (''key'', JStr (rp_row_key r)), (''data'', JObj (rp_data r)),
     (''updated_at'', JStr (format_time (parse_or_zero parse_time (rp_updated_at r))))]"

definition listReportRows :: "'s runtime \<Rightarrow> server \<Rightarrow> 's handler" where
  "listReportRows rt s r sub =
     (let dataset = rq_Query r ''dataset'' in
      if dataset = [] then State_Monad.return (writeError 400 ''dataset is required'')
      else do { page \<leftarrow> db_query rt (\<lambda>env. ListReportRowsPage env (site_ID (srv_site s)) dataset (fst (atoi (rq_Query r ''limit''))) (rq_Query r ''cursor''));
                case page of
                  Inl _ \<Rightarrow> State_Monad.return (writeError 500 ''list report rows'')
                | Inr (rows, nxt) \<Rightarrow> State_Monad.return (writeJSON 200 (JObj
                    [(''rows'', JArr (map report_row_json rows)), (''next_cursor'', JStr nxt)])) })"

subsection \<open>Creating runs\<close>

record create_run_body =
  crb_Provider :: string
  crb_Capability :: string
  crb_StartDate :: string
  crb_EndDate :: string
  crb_IdempotencyKey :: string

definition audit_event_of :: "string \<Rightarrow> string \<Rightarrow> string \<Rightarrow> string \<Rightarrow> audit_event" where
  "audit_event_of actor action target result =
     \<lparr>ae_ID = [], ae_Actor = actor, ae_Action = action, ae_Target = target, ae_Result = result, ae_RequestID = [], ae_At = zero_time\<rparr>"

definition audit :: "'s runtime \<Rightarrow> subject \<Rightarrow> string \<Rightarrow> string \<Rightarrow> string \<Rightarrow> ('s world, unit) state" where
  "audit rt sub action target result =
     do { _ \<leftarrow> db_exec rt (\<lambda>env. AppendAudit env (audit_event_of (sub_ID sub) action target result)); State_Monad.return () }"

definition createSyncRun :: "'s runtime \<Rightarrow> server \<Rightarrow> create_run_body option \<Rightarrow> 's handler" where
  "createSyncRun rt s body r sub =
     (case body of
        None \<Rightarrow> State_Monad.return (writeError 400 ''invalid JSON body'')
      | Some b \<Rightarrow>
          do { created \<leftarrow> Create rt (srv_engine s) \<lparr>cq_Provider = crb_Provider b, cq_Capability = crb_Capability b,
                 cq_StartDate = crb_StartDate b, cq_EndDate = crb_EndDate b, cq_IdempotencyKey = crb_IdempotencyKey b, cq_TriggeredBy = sub_ID sub\<rparr>;
               case created of
                 Inl e \<Rightarrow>
                   (case as_sync_error e of
                      Some se \<Rightarrow> State_Monad.return (writeError (if se_code se = ErrNotConfigured then 409 else 400) (se_message se))
                    | None \<Rightarrow> State_Monad.return (writeError 500 ''create sync run''))
               | Inr res \<Rightarrow>
                   do { _ \<leftarrow> audit rt sub ''sync.create'' (crb_Provider b @ ''/'' @ crb_Capability b) (sync_status_text (sr_Status (cz_Run res)));
                        State_Monad.return (writeJSON 202 (JObj [(''sync_run'', runToJSON (cz_Run res)), (''already_running'', JBool (cz_AlreadyRunning res))])) } })"

end
