(* ===== verification/Connections.thy ===== *)
theory Connections
  imports HttpApi
begin

text \<open>
  Connection management (\<^verbatim>\<open>internal/httpapi/connections.go\<close>), the completion of an OAuth authorization
  (\<^verbatim>\<open>internal/httpapi/oauth.go\<close>) and the import of a credential by an embedding host
  (\<^verbatim>\<open>platform/platform.go\<close>). All three install a credential by storing the secret first, validating it and
  swapping the reference of the connection last.

  The exchange of an authorization code (the library \<^verbatim>\<open>oauth2\<close>) and the encoding of the resulting
  material are parameters.
\<close>

section \<open>Definitions\<close>

definition publicError :: "go_error \<Rightarrow> go_error" where
  "publicError e = (case as_sync_error e of Some se \<Rightarrow> SyncErr se | None \<Rightarrow> Msg ''provider request failed'')"

fun supportsCredentialType :: "string list \<Rightarrow> string \<Rightarrow> bool" where
  "supportsCredentialType [] t = False"
| "supportsCredentialType (s # ss) t = (if s = t then True else supportsCredentialType ss t)"

definition srv_scope :: "server \<Rightarrow> string \<Rightarrow> scope" where
  "srv_scope s provider = \<lparr>sc_Workspace = [], sc_SiteID = site_ID (srv_site s), sc_Provider = provider\<rparr>"

definition sec_Open :: "'s runtime \<Rightarrow> scope \<Rightarrow> credential_ref \<Rightarrow> purpose \<Rightarrow> ('s world, go_error + secret_material) state" where
  "sec_Open rt sc ref pur = sec_query rt (\<lambda>env. ss_Open (rt_ops rt) env sc ref pur)"

definition sec_Put :: "'s runtime \<Rightarrow> scope \<Rightarrow> secret_material \<Rightarrow> ('s world, go_error + credential_ref) state" where
  "sec_Put rt sc mat = sec_exec rt (\<lambda>env. ss_Put (rt_ops rt) env sc mat)"

definition sec_Revoke :: "'s runtime \<Rightarrow> scope \<Rightarrow> credential_ref \<Rightarrow> ('s world, go_error option) state" where
  "sec_Revoke rt sc ref = sec_exec rt (\<lambda>env. ss_Revoke (rt_ops rt) env sc ref)"

definition get_connection :: "'s runtime \<Rightarrow> server \<Rightarrow> string \<Rightarrow> ('s world, go_error + provider_connection) state" where
  "get_connection rt s provider = db_query rt (\<lambda>env. GetConnection env (site_ID (srv_site s)) provider)"

definition property_json :: "property \<Rightarrow> jval" where
  "property_json p = JObj [(''reference'', JStr (pr_Reference p)), (''display_name'', JStr (pr_DisplayName p))]"

definition discoverProperties :: "'s runtime \<Rightarrow> server \<Rightarrow> string \<Rightarrow> credential_ref \<Rightarrow> ('s world, go_error + jval list) state" where
  "discoverProperties rt s provider ref =
     (case Get (srv_registry s) provider of
        None \<Rightarrow> State_Monad.return (Inl (Msg ''unknown provider''))
      | Some p \<Rightarrow>
          do { handle \<leftarrow> sec_Open rt (srv_scope s provider) ref PurposeTest;
               State_Monad.return (case handle of
                   Inl _ \<Rightarrow> Inl (Msg ''credential is not available'')
                 | Inr mat \<Rightarrow>
                     (case DiscoverProperties p mat of
                        Inl e \<Rightarrow> Inl (publicError e)
                      | Inr props \<Rightarrow> Inr (map property_json props))) })"

definition registeredTest :: "server \<Rightarrow> string \<Rightarrow> string \<Rightarrow> secret_material \<Rightarrow> go_error option" where
  "registeredTest s provider reference mat =
     (case Get (srv_registry s) provider of
        None \<Rightarrow> Some (Msg ''unknown provider'')
      | Some p \<Rightarrow> TestProperty p (srv_site s) (property_ref reference) mat)"

text \<open>Giving up on a credential: revoke the new secret and answer with an error.\<close>

definition reject :: "'s runtime \<Rightarrow> server \<Rightarrow> string \<Rightarrow> credential_ref \<Rightarrow> response \<Rightarrow> ('s world, response) state" where
  "reject rt s provider ref rsp =
     do { _ \<leftarrow> sec_Revoke rt (srv_scope s provider) ref; State_Monad.return rsp }"

definition reject_audited :: "'s runtime \<Rightarrow> server \<Rightarrow> subject \<Rightarrow> string \<Rightarrow> credential_ref \<Rightarrow> response \<Rightarrow> ('s world, response) state" where
  "reject_audited rt s sub provider ref rsp =
     do { _ \<leftarrow> sec_Revoke rt (srv_scope s provider) ref;
          _ \<leftarrow> audit rt sub ''connection.credential.set'' provider ''validation_failed'';
          State_Monad.return rsp }"

text \<open>The last part of \<^verbatim>\<open>finishCredentialUpdate\<close>: the swap and what follows it.\<close>

definition swapCredential ::
  "'s runtime \<Rightarrow> server \<Rightarrow> subject \<Rightarrow> string \<Rightarrow> provider_connection \<Rightarrow> credential_ref \<Rightarrow> jval \<Rightarrow> string \<Rightarrow> (string \<times> jval) list
   \<Rightarrow> ('s world, response) state" where
  "swapCredential rt s sub provider prev ref props msg extra =
     do { swapped \<leftarrow> db_exec rt (\<lambda>env. ConfigureConnectionCAS env (site_ID (srv_site s)) provider (pc_CredentialRef prev) ref
            (pc_PropertyReference prev) (pc_PropertyReference prev \<noteq> []));
          case swapped of
            Inl _ \<Rightarrow> reject rt s provider ref (writeError 500 ''configure connection'')
          | Inr False \<Rightarrow> reject rt s provider ref
              (writeError 409 ''connection changed while the credential was being validated; try again'')
          | Inr True \<Rightarrow>
              do { _ \<leftarrow> (if cr_ID (pc_CredentialRef prev) \<noteq> [] then sec_Revoke rt (srv_scope s provider) (pc_CredentialRef prev)
                        else State_Monad.return None);
                   _ \<leftarrow> audit rt sub ''connection.credential.set'' provider ''ok'';
                   State_Monad.return (writeJSON 200 (JObj ([(''configured'', JBool True), (''properties'', props)] @ extra
                     @ omit_str ''property_discovery_error'' msg))) } }"

definition finishCredentialUpdate ::
  "'s runtime \<Rightarrow> server \<Rightarrow> subject \<Rightarrow> string \<Rightarrow> provider_connection \<Rightarrow> credential_ref \<Rightarrow> (string \<times> jval) list \<Rightarrow> ('s world, response) state" where
  "finishCredentialUpdate rt s sub provider prev ref extra =
     do { discovered \<leftarrow> discoverProperties rt s provider ref;
          case (case discovered of
                  Inr props \<Rightarrow> Inr (JArr props, [])
                | Inl e \<Rightarrow>
                    (case as_sync_error e of
                       Some se \<Rightarrow> if se_code se = ErrUnsupported then Inr (JNull, se_message se) else Inl e
                     | None \<Rightarrow> Inl e)) of
            Inl e \<Rightarrow> reject_audited rt s sub provider ref (writeError 502 (error_text e))
          | Inr (props, msg) \<Rightarrow>
              if pc_PropertyReference prev = [] then swapCredential rt s sub provider prev ref props msg extra
              else do { handle \<leftarrow> sec_Open rt (srv_scope s provider) ref PurposeTest;
                        case handle of
                          Inl _ \<Rightarrow> reject rt s provider ref (writeError 409 ''credential is not available'')
                        | Inr mat \<Rightarrow>
                            (case registeredTest s provider (pc_PropertyReference prev) mat of
                               Some e \<Rightarrow> reject_audited rt s sub provider ref (writeError 502 (error_text (publicError e)))
                             | None \<Rightarrow> swapCredential rt s sub provider prev ref props msg extra) } }"

record set_credential_body =
  scb_CredentialType :: string
  scb_Material :: string

definition setCredential :: "'s runtime \<Rightarrow> server \<Rightarrow> set_credential_body option \<Rightarrow> 's handler" where
  "setCredential rt s body r sub =
     (let provider = rq_Path r in
      case Get (srv_registry s) provider of
        None \<Rightarrow> State_Monad.return (writeError 404 ''unknown provider'')
      | Some p \<Rightarrow>
          (case body of
             None \<Rightarrow> State_Monad.return (writeError 400 ''invalid JSON body'')
           | Some b \<Rightarrow>
               let ct = trim_space (scb_CredentialType b) in
               if \<not> supportsCredentialType (d_CredentialTypes (Descriptor p)) ct
               then State_Monad.return (writeError 400 ''provider does not accept this credential type'')
               else if trim_space (scb_Material b) = []
               then State_Monad.return (writeError 400 ''credential material is required'')
               else do { conn \<leftarrow> get_connection rt s provider;
                         case conn of
                           Inl _ \<Rightarrow> State_Monad.return (writeError 404 ''connection does not exist'')
                         | Inr c \<Rightarrow>
                             do { put \<leftarrow> sec_Put rt (srv_scope s provider) \<lparr>sm_Type = ct, sm_Bytes = scb_Material b\<rparr>;
                                  case put of
                                    Inl _ \<Rightarrow> State_Monad.return (writeError 500 ''store credential'')
                                  | Inr ref \<Rightarrow> finishCredentialUpdate rt s sub provider c ref [] } }))"

definition listProperties :: "'s runtime \<Rightarrow> server \<Rightarrow> 's handler" where
  "listProperties rt s r sub =
     do { conn \<leftarrow> get_connection rt s (rq_Path r);
          case conn of
            Inl _ \<Rightarrow> State_Monad.return (writeError 409 ''provider is not configured'')
          | Inr c \<Rightarrow>
              if cr_ID (pc_CredentialRef c) = [] then State_Monad.return (writeError 409 ''provider is not configured'')
              else do { props \<leftarrow> discoverProperties rt s (rq_Path r) (pc_CredentialRef c);
                        State_Monad.return (case props of
                            Inl e \<Rightarrow> writeError 502 (error_text e)
                          | Inr ps \<Rightarrow> writeJSON 200 (JObj [(''properties'', JArr ps)])) } }"

definition setProperty :: "'s runtime \<Rightarrow> server \<Rightarrow> string option \<Rightarrow> 's handler" where
  "setProperty rt s body r sub =
     (let provider = rq_Path r in
      case body of
        None \<Rightarrow> State_Monad.return (writeError 400 ''invalid JSON body'')
      | Some raw \<Rightarrow>
          let reference = trim_space raw in
          if reference = [] then State_Monad.return (writeError 400 ''property_reference is required'')
          else do { conn \<leftarrow> get_connection rt s provider;
                    case conn of
                      Inl _ \<Rightarrow> State_Monad.return (writeError 404 ''connection does not exist'')
                    | Inr c \<Rightarrow>
                        if cr_ID (pc_CredentialRef c) = []
                        then State_Monad.return (writeError 409 ''set a credential before choosing a property'')
                        else (case Get (srv_registry s) provider of
                            None \<Rightarrow> State_Monad.return (writeError 404 ''unknown provider'')
                          | Some p \<Rightarrow>
                              do { handle \<leftarrow> sec_Open rt (srv_scope s provider) (pc_CredentialRef c) PurposeTest;
                                   case handle of
                                     Inl _ \<Rightarrow> State_Monad.return (writeError 409 ''credential is not available'')
                                   | Inr mat \<Rightarrow>
                                       (case TestProperty p (srv_site s) (property_ref reference) mat of
                                          Some e \<Rightarrow>
                                            do { _ \<leftarrow> audit rt sub ''connection.property.set'' (provider @ ''/'' @ reference) ''validation_failed'';
                                                 State_Monad.return (writeError 502 (error_text (publicError e))) }
                                        | None \<Rightarrow>
                                            do { done \<leftarrow> db_exec rt (\<lambda>env. ConfigureConnection env (site_ID (srv_site s)) provider (pc_CredentialRef c) reference True);
                                                 case done of
                                                   Some _ \<Rightarrow> State_Monad.return (writeError 500 ''configure connection'')
                                                 | None \<Rightarrow>
                                                     do { _ \<leftarrow> audit rt sub ''connection.property.set'' (provider @ ''/'' @ reference) ''ok'';
                                                          State_Monad.return (writeJSON 200 (JObj [(''configured'', JBool True), (''property_reference'', JStr reference)])) } }) }) })"

definition testConnection :: "'s runtime \<Rightarrow> server \<Rightarrow> 's handler" where
  "testConnection rt s r sub =
     (let provider = rq_Path r in
      case Get (srv_registry s) provider of
        None \<Rightarrow> State_Monad.return (writeError 404 ''unknown provider'')
      | Some p \<Rightarrow>
          do { conn \<leftarrow> get_connection rt s provider;
               case conn of
                 Inl _ \<Rightarrow> State_Monad.return (writeError 409 ''provider is not configured'')
               | Inr c \<Rightarrow>
                   if cr_ID (pc_CredentialRef c) = [] then State_Monad.return (writeError 409 ''provider is not configured'')
                   else do { handle \<leftarrow> sec_Open rt (srv_scope s provider) (pc_CredentialRef c) PurposeTest;
                             case handle of
                               Inl _ \<Rightarrow> State_Monad.return (writeError 409 ''credential is not available'')
                             | Inr mat \<Rightarrow>
                                 let testErr = TestProperty p (srv_site s) (property_ref (pc_PropertyReference c)) mat in
                                 do { _ \<leftarrow> audit rt sub ''connection.test'' provider (if testErr \<noteq> None then ''failed'' else ''ok'');
                                      State_Monad.return (case testErr of
                                          Some e \<Rightarrow> writeJSON 200 (JObj [(''ok'', JBool False), (''error'', JStr (error_text (publicError e)))])
                                        | None \<Rightarrow> writeJSON 200 (JObj [(''ok'', JBool True)])) } } })"

text \<open>The end of \<^verbatim>\<open>revokeConnection\<close>: clear the connection.\<close>

definition clearConnection :: "'s runtime \<Rightarrow> server \<Rightarrow> subject \<Rightarrow> string \<Rightarrow> ('s world, response) state" where
  "clearConnection rt s sub provider =
     do { done \<leftarrow> db_exec rt (\<lambda>env. ConfigureConnection env (site_ID (srv_site s)) provider no_ref [] False);
          case done of
            Some _ \<Rightarrow> State_Monad.return (writeError 500 ''configure connection'')
          | None \<Rightarrow>
              do { _ \<leftarrow> audit rt sub ''connection.revoke'' provider ''ok'';
                   State_Monad.return (writeJSON 200 (JObj [(''configured'', JBool False)])) } }"

text \<open>
  The call of the provider's \<^verbatim>\<open>Revoke\<close> only has an effect at the provider, and its error is only logged: what
  remains of it here is that the credential is opened for it.
\<close>

definition revokeConnection :: "'s runtime \<Rightarrow> server \<Rightarrow> 's handler" where
  "revokeConnection rt s r sub =
     (let provider = rq_Path r in
      case Get (srv_registry s) provider of
        None \<Rightarrow> State_Monad.return (writeError 404 ''unknown provider'')
      | Some p \<Rightarrow>
          do { conn \<leftarrow> get_connection rt s provider;
               case conn of
                 Inl _ \<Rightarrow> State_Monad.return (writeError 404 ''connection does not exist'')
               | Inr c \<Rightarrow>
                   if cr_ID (pc_CredentialRef c) = [] then clearConnection rt s sub provider
                   else do { handle \<leftarrow> sec_Open rt (srv_scope s provider) (pc_CredentialRef c) PurposeRevoke;
                             let _ = (case handle of Inl _ \<Rightarrow> None | Inr mat \<Rightarrow> RevokeCredential p mat);
                             revoked \<leftarrow> sec_Revoke rt (srv_scope s provider) (pc_CredentialRef c);
                             case revoked of
                               Some _ \<Rightarrow> State_Monad.return (writeError 500 ''revoke credential'')
                             | None \<Rightarrow> clearConnection rt s sub provider } })"

subsection \<open>Completing an OAuth authorization\<close>

record oauth_complete_body =
  ocb_State :: string
  ocb_Code :: string

text \<open>
  \<open>exchange app redirect code verifier\<close> is \<^verbatim>\<open>oauth2.Config.Exchange\<close>, which yields the refresh token (empty if the server sent
  none); \<open>marshal\<close> is \<^verbatim>\<open>OAuthMaterial.Marshal\<close>.
\<close>

definition oauthComplete ::
  "(oauth_app \<Rightarrow> string \<Rightarrow> string \<Rightarrow> string \<Rightarrow> go_error + string) \<Rightarrow> (oauth_material \<Rightarrow> string) \<Rightarrow>
   's runtime \<Rightarrow> server \<Rightarrow> oauth_complete_body option \<Rightarrow> 's handler" where
  "oauthComplete exchange marshal rt s body r sub =
     (let provider = rq_Path r in
      case srv_oauthApps s provider of
        None \<Rightarrow> State_Monad.return (writeError 404 ''provider has no OAuth client configured'')
      | Some app \<Rightarrow>
          (case body of
             None \<Rightarrow> State_Monad.return (writeError 400 ''invalid JSON body'')
           | Some b \<Rightarrow>
               do { consumed \<leftarrow> db_exec rt (\<lambda>env. ConsumeOAuthState env (trim_space (ocb_State b)) provider (site_ID (srv_site s)) (sub_ID sub));
                    case consumed of
                      Inl e \<Rightarrow>
                        if e = OAuthStateInvalid
                        then do { _ \<leftarrow> audit rt sub ''connection.oauth.complete'' provider ''invalid_state'';
                                  State_Monad.return (writeError 400 ''authorization state is invalid or expired; start again'') }
                        else State_Monad.return (writeError 500 ''read oauth state'')
                    | Inr pending \<Rightarrow>
                        if ost_Provider pending \<noteq> provider \<or> ost_SiteID pending \<noteq> site_ID (srv_site s) \<or> ost_SubjectID pending \<noteq> sub_ID sub
                        then do { _ \<leftarrow> audit rt sub ''connection.oauth.complete'' provider ''state_mismatch'';
                                  State_Monad.return (writeError 400 ''authorization state does not match this provider'') }
                        else (case exchange app (ost_RedirectURI pending) (trim_space (ocb_Code b)) (ost_PKCEVerifier pending) of
                            Inl _ \<Rightarrow> do { _ \<leftarrow> audit rt sub ''connection.oauth.complete'' provider ''exchange_failed'';
                                          State_Monad.return (writeError 502 ''authorization code exchange failed'') }
                          | Inr refresh \<Rightarrow>
                              if refresh = []
                              then State_Monad.return (writeError 502 ''authorization server returned no refresh token; re-consent is required'')
                              else let material = marshal \<lparr>om_ClientID = oap_ClientID app, om_ClientSecret = oap_ClientSecret app,
                                     om_TokenURL = oap_TokenURL app, om_RefreshToken = refresh\<rparr> in
                                do { conn \<leftarrow> get_connection rt s provider;
                                     case conn of
                                       Inl _ \<Rightarrow> State_Monad.return (writeError 404 ''connection does not exist'')
                                     | Inr c \<Rightarrow>
                                         do { put \<leftarrow> sec_Put rt (srv_scope s provider) \<lparr>sm_Type = ''oauth2'', sm_Bytes = material\<rparr>;
                                              case put of
                                                Inl _ \<Rightarrow> State_Monad.return (writeError 500 ''store credential'')
                                              | Inr ref \<Rightarrow>
                                                  do { _ \<leftarrow> audit rt sub ''connection.oauth.complete'' provider ''ok'';
                                                       finishCredentialUpdate rt s sub provider c ref [(''return_to'', JStr (ost_ReturnTo pending))] } } }) }))"

subsection \<open>Import by an embedding host\<close>

record import_request =
  ir_Provider :: string
  ir_Credential :: secret_material
  ir_PropertyReference :: string
  ir_Actor :: string
  ir_RetainOnDiscoveryFailure :: bool

record import_result =
  iz_Imported :: bool
  iz_Connection :: provider_connection
  iz_Properties :: "property list"
  iz_DiscoveryErrorCode :: error_code
  iz_DiscoveryErrorMessage :: string

definition safeProviderError :: "go_error \<Rightarrow> error_code \<times> string" where
  "safeProviderError e =
     (case as_sync_error e of Some se \<Rightarrow> (se_code se, se_message se) | None \<Rightarrow> (ErrInternal, ''provider property discovery failed''))"

text \<open>Leaving \<^verbatim>\<open>ImportConnection\<close> before the swap: the deferred function revokes the secret.\<close>

definition import_undo :: "'s runtime \<Rightarrow> server \<Rightarrow> string \<Rightarrow> credential_ref \<Rightarrow> go_error + import_result \<Rightarrow> ('s world, go_error + import_result) state" where
  "import_undo rt s provider ref res = do { _ \<leftarrow> sec_Revoke rt (srv_scope s provider) ref; State_Monad.return res }"

definition import_unchanged :: "provider_connection \<Rightarrow> import_result" where
  "import_unchanged c = \<lparr>iz_Imported = False, iz_Connection = c, iz_Properties = [], iz_DiscoveryErrorCode = ErrNone, iz_DiscoveryErrorMessage = []\<rparr>"

definition import_swap ::
  "'s runtime \<Rightarrow> server \<Rightarrow> import_request \<Rightarrow> string \<Rightarrow> provider_connection \<Rightarrow> credential_ref \<Rightarrow> go_error + property list \<Rightarrow> ('s world, go_error + import_result) state" where
  "import_swap rt s req provider current ref discovered =
     (let reference = trim_space (ir_PropertyReference req) in
      do { swapped \<leftarrow> db_exec rt (\<lambda>env. ConfigureConnectionCAS env (site_ID (srv_site s)) provider (pc_CredentialRef current) ref reference (reference \<noteq> []));
           case swapped of
             Inl e \<Rightarrow> import_undo rt s provider ref (Inl (Wrapped ''configure imported connection'' e))
           | Inr False \<Rightarrow>
               do { latest \<leftarrow> get_connection rt s provider;
                    import_undo rt s provider ref (case latest of
                        Inl _ \<Rightarrow> Inl (Msg ''provider connection changed during import'')
                      | Inr c \<Rightarrow> Inr (import_unchanged c)) }
           | Inr True \<Rightarrow>
               do { _ \<leftarrow> db_exec rt (\<lambda>env. AppendAudit env (audit_event_of
                           (let actor = trim_space (ir_Actor req) in if actor = [] then ''host-import'' else actor)
                           ''connection.credential.import'' provider ''ok''));
                    conn \<leftarrow> get_connection rt s provider;
                    State_Monad.return (case conn of
                        Inl e \<Rightarrow> Inl (Wrapped ''read imported connection'' e)
                      | Inr c \<Rightarrow> Inr (case discovered of
                            Inr props \<Rightarrow> \<lparr>iz_Imported = True, iz_Connection = c, iz_Properties = props, iz_DiscoveryErrorCode = ErrNone, iz_DiscoveryErrorMessage = []\<rparr>
                          | Inl de \<Rightarrow> \<lparr>iz_Imported = True, iz_Connection = c, iz_Properties = [],
                              iz_DiscoveryErrorCode = fst (safeProviderError de), iz_DiscoveryErrorMessage = snd (safeProviderError de)\<rparr>)) } })"

definition import_validate ::
  "'s runtime \<Rightarrow> server \<Rightarrow> import_request \<Rightarrow> string \<Rightarrow> provider \<Rightarrow> provider_connection \<Rightarrow> credential_ref \<Rightarrow> ('s world, go_error + import_result) state" where
  "import_validate rt s req provider p current ref =
     do { handle \<leftarrow> sec_Open rt (srv_scope s provider) ref PurposeTest;
          case handle of
            Inl _ \<Rightarrow> import_undo rt s provider ref (Inl (Msg ''open imported credential''))
          | Inr mat \<Rightarrow>
              let discovered = DiscoverProperties p mat; reference = trim_space (ir_PropertyReference req) in
              if (case discovered of Inl _ \<Rightarrow> \<not> ir_RetainOnDiscoveryFailure req \<or> reference \<noteq> [] | Inr _ \<Rightarrow> False)
              then import_undo rt s provider ref (Inl (Wrapped ''discover provider properties'' (projl discovered)))
              else if reference = [] then import_swap rt s req provider current ref discovered
              else do { handle2 \<leftarrow> sec_Open rt (srv_scope s provider) ref PurposeTest;
                        case handle2 of
                          Inl _ \<Rightarrow> import_undo rt s provider ref (Inl (Msg ''open imported credential''))
                        | Inr mat2 \<Rightarrow>
                            (case TestProperty p (srv_site s) (property_ref reference) mat2 of
                               Some e \<Rightarrow> import_undo rt s provider ref (Inl (Wrapped ''test provider property'' e))
                             | None \<Rightarrow> import_swap rt s req provider current ref discovered) } }"

definition ImportConnection :: "'s runtime \<Rightarrow> server \<Rightarrow> import_request \<Rightarrow> ('s world, go_error + import_result) state" where
  "ImportConnection rt s req =
     (let provider = trim_space (ir_Provider req); ct = trim_space (sm_Type (ir_Credential req)) in
      if provider = [] then State_Monad.return (Inl (Msg ''provider is required''))
      else (case Get (srv_registry s) provider of
          None \<Rightarrow> State_Monad.return (Inl (Msg (''provider '' @ quoted provider @ '' is not installed'')))
        | Some p \<Rightarrow>
            if ct = [] \<or> sm_Bytes (ir_Credential req) = []
            then State_Monad.return (Inl (Msg ''credential type and material are required''))
            else if \<not> supportsCredentialType (d_CredentialTypes (Descriptor p)) ct
            then State_Monad.return (Inl (Msg (''provider '' @ quoted provider @ '' does not accept credential type '' @ quoted ct)))
            else do { conn \<leftarrow> get_connection rt s provider;
                      case conn of
                        Inl e \<Rightarrow> State_Monad.return (Inl (Wrapped ''get provider connection'' e))
                      | Inr current \<Rightarrow>
                          if cr_ID (pc_CredentialRef current) \<noteq> [] then State_Monad.return (Inr (import_unchanged current))
                          else do { put \<leftarrow> sec_Put rt (srv_scope s provider) \<lparr>sm_Type = ct, sm_Bytes = sm_Bytes (ir_Credential req)\<rparr>;
                                    case put of
                                      Inl e \<Rightarrow> State_Monad.return (Inl (Wrapped ''store imported credential'' e))
                                    | Inr ref \<Rightarrow> import_validate rt s req provider p current ref } }))"

end
