(* ===== verification/ConnectionProps.thy ===== *)
theory ConnectionProps
  imports Connections
begin

text \<open>
  What connection management guarantees, for every secret store that satisfies the contract
  \<open>secret_store\<close>: credentials are installed after they were stored and validated, a failed update leaves no trace, a
  replaced or revoked credential is dead, and no response shows a credential.
\<close>

section \<open>Definitions\<close>

definition sec_reliable :: "'s runtime \<Rightarrow> bool" where
  "sec_reliable rt \<longleftrightarrow> (\<forall>n. env_reliable (o_sec (rt_sched rt) n))"

text \<open>
  The fixed setting of the lemmas: nothing interferes, the secret store keeps its contract and does not fail. Statements of the
  database may fail at any point.
\<close>

definition calm :: "'s runtime \<Rightarrow> ('s \<Rightarrow> string \<rightharpoonup> scope \<times> secret_material) \<Rightarrow> (string \<Rightarrow> bool) \<Rightarrow> ('s \<Rightarrow> bool) \<Rightarrow> bool" where
  "calm rt live id_ok ok \<longleftrightarrow> undisturbed rt \<and> sec_reliable rt \<and> secret_store (rt_ops rt) live id_ok ok"

lemma calmD:
  assumes "calm rt live id_ok ok"
  shows "undisturbed rt" "env_reliable (o_sec (rt_sched rt) n)" "secret_store (rt_ops rt) live id_ok ok"
    "\<not> env_read_fails (o_sec (rt_sched rt) n)"
  using assms by (auto simp: calm_def sec_reliable_def env_reliable_def)

section \<open>Steps\<close>

lemma wp_return_eta: "wp (State_Monad.return a) Q = Q a"
  by (rule ext) (simp add: wp_simps)

lemma sec_Open_wp:
  assumes "calm rt live id_ok ok"
  shows "wp (sec_Open rt sc ref pur) Q w = Q (ss_Open (rt_ops rt) (o_sec (rt_sched rt) (w_tick w)) sc ref pur (w_sec w)) (w\<lparr>w_tick := Suc (w_tick w)\<rparr>)"
  using calmD(1) [OF assms] by (simp add: sec_Open_def wp_simps)

lemma GetConnection_Inr:
  "GetConnection env i p d = Inr pc \<Longrightarrow> \<exists>c \<in> set (t_connections d). conn_is i p c \<and> pc = scanConnection c"
  by (auto simp: GetConnection_def dest!: find_SomeD split: option.splits)

lemma get_connection_wp:
  assumes "calm rt live id_ok ok"
  shows "wp (get_connection rt s p) Q w =
    Q (GetConnection (o_db (rt_sched rt) (w_tick w)) (site_ID (srv_site s)) p (w_db w)) (w\<lparr>w_tick := Suc (w_tick w)\<rparr>)"
  using calmD(1) [OF assms] by (simp add: get_connection_def wp_simps)

text \<open>An audit entry touches neither connections nor secrets.\<close>

lemma audit_wp:
  assumes "calm rt live id_ok ok"
    and "\<And>d n. t_connections d = t_connections (w_db w) \<Longrightarrow> db_wf d \<Longrightarrow> Q () (w\<lparr>w_db := d, w_tick := n\<rparr>)" and "db_wf (w_db w)"
  shows "wp (audit rt sub action target result) Q w"
proof -
  obtain e d where a: "AppendAudit (o_db (rt_sched rt) (w_tick w)) (audit_event_of (sub_ID sub) action target result) (w_db w) = (e, d)" by force
  have "db_wf d" using AppendAudit_wf [OF assms(3)] a by (metis snd_conv)
  moreover have "t_connections d = t_connections (w_db w)"
    using a by (auto simp: AppendAudit_def Let_def split: option.splits if_splits)
  ultimately show ?thesis using assms(2) [of d "Suc (w_tick w)"] calmD(1) [OF assms(1)] a by (simp add: audit_def wp_simps)
qed

text \<open>Revoking a live credential of the right scope, or one that is not live, leaves it dead and nothing else changed.\<close>

lemma sec_Revoke_wp:
  assumes c: "calm rt live id_ok ok" and ok: "ok (w_sec w)"
    and sc: "\<And>sc' m. live (w_sec w) (cr_ID ref) = Some (sc', m) \<Longrightarrow> sc' = sc"
    and post: "\<And>s e. ok s \<Longrightarrow> live s = (live (w_sec w))(cr_ID ref := None) \<Longrightarrow> Q e (w\<lparr>w_sec := s, w_tick := Suc (w_tick w)\<rparr>)"
  shows "wp (sec_Revoke rt sc ref) Q w"
proof -
  let ?env = "o_sec (rt_sched rt) (w_tick w)"
  note D = calmD [OF c]
  obtain e s where r: "ss_Revoke (rt_ops rt) ?env sc ref (w_sec w) = (e, s)" by force
  have "ok s \<and> live s = (live (w_sec w))(cr_ID ref := None)"
  proof (cases "live (w_sec w) (cr_ID ref)")
    case None
    then have "(live (w_sec w))(cr_ID ref := None) = live (w_sec w)" by (simp add: fun_upd_None_idem)
    then show ?thesis using secret_store.revoke_any [OF D(3) ok r] by auto
  next
    case (Some x)
    then obtain m where m: "live (w_sec w) (cr_ID ref) = Some (sc, m)" using sc by (cases x) auto
    have "e = None" using secret_store.revoke_total [OF D(3) ok D(2) [of "w_tick w"] m] r by auto
    then show ?thesis using secret_store.revoke_ok [OF D(3) ok D(4) [of "w_tick w"]] r by simp
  qed
  then show ?thesis using post D(1) r by (simp add: sec_Revoke_def wp_simps)
qed

section \<open>Rejecting and installing\<close>

text \<open>
  The state while a credential is being installed: the new secret \<open>ref\<close> is live on top of the live secrets \<open>L\<close>, which do not
  contain it, and the connections are as before.
\<close>

definition pending :: "('s \<Rightarrow> string \<rightharpoonup> scope \<times> secret_material) \<Rightarrow> ('s \<Rightarrow> bool) \<Rightarrow> (string \<rightharpoonup> scope \<times> secret_material) \<Rightarrow> conn_row list \<Rightarrow>
    scope \<Rightarrow> credential_ref \<Rightarrow> secret_material \<Rightarrow> 's world \<Rightarrow> bool" where
  "pending live ok L conns sc ref mat w \<longleftrightarrow> ok (w_sec w) \<and> db_wf (w_db w) \<and> t_connections (w_db w) = conns
     \<and> L (cr_ID ref) = None \<and> live (w_sec w) = L(cr_ID ref \<mapsto> (sc, mat))"

definition unchanged :: "('s \<Rightarrow> string \<rightharpoonup> scope \<times> secret_material) \<Rightarrow> (string \<rightharpoonup> scope \<times> secret_material) \<Rightarrow> conn_row list \<Rightarrow> 's world \<Rightarrow> bool" where
  "unchanged live L conns w \<longleftrightarrow> live (w_sec w) = L \<and> t_connections (w_db w) = conns"

lemma pending_tick [simp]: "pending live ok L conns sc ref mat (w\<lparr>w_tick := n\<rparr>) = pending live ok L conns sc ref mat w"
  by (simp add: pending_def)

lemma revoke_pending_wp:
  assumes "calm rt live id_ok ok" "pending live ok L conns sc ref mat w"
    and "\<And>v e. ok (w_sec v) \<Longrightarrow> db_wf (w_db v) \<Longrightarrow> unchanged live L conns v \<Longrightarrow> Q e v"
  shows "wp (sec_Revoke rt sc ref) Q w"
proof (rule sec_Revoke_wp [OF assms(1)])
  have P: "ok (w_sec w)" "db_wf (w_db w)" "t_connections (w_db w) = conns" "L (cr_ID ref) = None" "live (w_sec w) = L(cr_ID ref \<mapsto> (sc, mat))"
    using assms(2) by (auto simp: pending_def)
  show "ok (w_sec w)" by (rule P(1))
  show "sc' = sc" if "live (w_sec w) (cr_ID ref) = Some (sc', m)" for sc' m using that P(5) by simp
  show "Q e (w\<lparr>w_sec := s, w_tick := Suc (w_tick w)\<rparr>)" if "ok s" "live s = (live (w_sec w))(cr_ID ref := None)" for s e
    using that P by (intro assms(3)) (simp_all add: unchanged_def fun_upd_None_idem)
qed

lemma reject_wp:
  assumes "calm rt live id_ok ok" "pending live ok L conns (srv_scope s p) ref mat w"
  shows "wp (reject rt s p ref rsp) (\<lambda>r v. r = rsp \<and> unchanged live L conns v) w"
  unfolding reject_def wp_bind by (rule revoke_pending_wp [OF assms]) (simp add: wp_simps)

lemma reject_audited_wp:
  assumes "calm rt live id_ok ok" "pending live ok L conns (srv_scope s p) ref mat w"
  shows "wp (reject_audited rt s sub p ref rsp) (\<lambda>r v. r = rsp \<and> unchanged live L conns v) w"
  unfolding reject_audited_def wp_bind
proof (rule revoke_pending_wp [OF assms])
  fix v e assume v: "ok (w_sec v)" "db_wf (w_db v)" "unchanged live L conns v"
  show "wp (audit rt sub ''connection.credential.set'' p ''validation_failed'')
      (\<lambda>a. wp (State_Monad.return rsp) (\<lambda>r v. r = rsp \<and> unchanged live L conns v)) v"
    by (rule audit_wp [OF assms(1) _ v(2)]) (use v(3) in \<open>simp add: wp_simps unchanged_def\<close>)
qed

text \<open>The state after a successful installation.\<close>

definition installed :: "('s \<Rightarrow> string \<rightharpoonup> scope \<times> secret_material) \<Rightarrow> (string \<rightharpoonup> scope \<times> secret_material) \<Rightarrow> conn_row list \<Rightarrow>
    server \<Rightarrow> string \<Rightarrow> provider_connection \<Rightarrow> string \<Rightarrow> credential_ref \<Rightarrow> secret_material \<Rightarrow> 's world \<Rightarrow> bool" where
  "installed live L conns s p prev prp ref mat w \<longleftrightarrow>
     live (w_sec w) = (let L' = L(cr_ID ref \<mapsto> (srv_scope s p, mat)) in
       if cr_ID (pc_CredentialRef prev) = [] then L' else L'(cr_ID (pc_CredentialRef prev) := None))
     \<and> (\<exists>now. t_connections (w_db w) = update_where (conn_is (site_ID (srv_site s)) p)
          (set_configuration ref prp (prp \<noteq> []) now) conns)"

lemma update_where_cong:
  "(\<And>r. r \<in> set rows \<Longrightarrow> P r \<longleftrightarrow> Q r) \<Longrightarrow> update_where P f rows = update_where Q f rows"
  by (simp add: update_where_def)

lemma ConfigureConnectionCAS_hit:
  assumes "db_wf d" "e_fault env 0 = None" "c \<in> set (t_connections d)" "conn_is i p c" "cn_credential_ref c = cr_ID expected"
  shows "ConfigureConnectionCAS env i p expected new prp en d = (Inr True,
    d\<lparr>t_connections := update_where (conn_is i p) (set_configuration new prp en (format_time (e_now env 0))) (t_connections d)\<rparr>)"
proof -
  let ?P = "\<lambda>x. conn_is i p x \<and> cn_credential_ref x = cr_ID expected"
  note F = conn_unique(1) [OF assms(1,3,4)]
  have all: "?P x \<longleftrightarrow> conn_is i p x" if "x \<in> set (t_connections d)" for x
  proof -
    have "x = c" if "conn_is i p x"
    proof -
      have "x \<in> set (filter (conn_is i p) (t_connections d))" using that \<open>x \<in> set (t_connections d)\<close> by simp
      then show ?thesis unfolding F by simp
    qed
    then show ?thesis using assms(5) by blast
  qed
  have "filter ?P (t_connections d) = [c]" unfolding F [symmetric] by (rule filter_cong [OF refl all])
  then have "count_where ?P (t_connections d) = 1" by (simp add: count_where_def)
  moreover have "update_where ?P f (t_connections d) = update_where (conn_is i p) f (t_connections d)" for f
    by (rule update_where_cong [OF all])
  ultimately show ?thesis using assms(2) by (simp add: ConfigureConnectionCAS_def Let_def)
qed

definition update_outcome :: "('s \<Rightarrow> string \<rightharpoonup> scope \<times> secret_material) \<Rightarrow> (string \<rightharpoonup> scope \<times> secret_material) \<Rightarrow> conn_row list \<Rightarrow>
    server \<Rightarrow> string \<Rightarrow> provider_connection \<Rightarrow> credential_ref \<Rightarrow> secret_material \<Rightarrow> response \<Rightarrow> 's world \<Rightarrow> bool" where
  "update_outcome live L conns s p prev ref mat r w \<longleftrightarrow>
     (if rsp_status r = 200 then installed live L conns s p prev (pc_PropertyReference prev) ref mat w else unchanged live L conns w)"

lemma swapCredential_wp:
  assumes c: "calm rt live id_ok ok" and P: "pending live ok L conns (srv_scope s p) ref mat w"
    and row: "row \<in> set conns" "conn_is (site_ID (srv_site s)) p row" "prev = scanConnection row"
    and old: "\<And>sc m. L (cr_ID (pc_CredentialRef prev)) = Some (sc, m) \<Longrightarrow> sc = srv_scope s p"
    and new: "cr_ID ref \<noteq> cr_ID (pc_CredentialRef prev)"
  shows "wp (swapCredential rt s sub p prev ref props msg extra) (update_outcome live L conns s p prev ref mat) w"
proof -
  note D = calmD [OF c]
  have w: "ok (w_sec w)" "db_wf (w_db w)" "t_connections (w_db w) = conns" "live (w_sec w) = L(cr_ID ref \<mapsto> (srv_scope s p, mat))"
    using P by (auto simp: pending_def)
  let ?env = "o_db (rt_sched rt) (w_tick w)"
  let ?f = "set_configuration ref (pc_PropertyReference prev) (pc_PropertyReference prev \<noteq> []) (format_time (e_now ?env 0))"
  let ?d = "(w_db w)\<lparr>t_connections := update_where (conn_is (site_ID (srv_site s)) p) ?f conns\<rparr>"
  let ?fin = "update_outcome live L conns s p prev ref mat"
  show ?thesis
  proof (cases "e_fault ?env 0")
    case (Some x)
    have "wp (reject rt s p ref (writeError 500 m)) ?fin (w\<lparr>w_tick := n\<rparr>)" for m n
      by (rule wp_mono [OF reject_wp [OF c]]) (use P in \<open>auto simp: update_outcome_def writeError_def writeJSON_def\<close>)
    then show ?thesis using D(1) Some by (simp add: swapCredential_def wp_simps ConfigureConnectionCAS_def Let_def)
  next
    case None
    have cas: "ConfigureConnectionCAS ?env (site_ID (srv_site s)) p (pc_CredentialRef prev) ref (pc_PropertyReference prev) (pc_PropertyReference prev \<noteq> []) (w_db w) = (Inr True, ?d)"
      using ConfigureConnectionCAS_hit [OF w(2) None, of row] row w(3) by (simp add: row(3))
    have wf: "db_wf ?d" using ConfigureConnectionCAS_wf [OF w(2)] cas by (metis snd_conv)
    let ?v = "w\<lparr>w_db := ?d, w_tick := Suc (w_tick w)\<rparr>"
    have A: "wp (audit rt sub ''connection.credential.set'' p ''ok'') (\<lambda>a. wp (State_Monad.return (writeJSON 200 body)) ?fin) u"
      if u: "db_wf (w_db u)" "t_connections (w_db u) = t_connections ?d"
        "live (w_sec u) = (let L' = L(cr_ID ref \<mapsto> (srv_scope s p, mat)) in
           if cr_ID (pc_CredentialRef prev) = [] then L' else L'(cr_ID (pc_CredentialRef prev) := None))" for u body
      by (rule audit_wp [OF c _ u(1)]) (use u(2,3) in \<open>auto simp: wp_simps update_outcome_def installed_def writeJSON_def\<close>)
    show ?thesis
    proof (cases "cr_ID (pc_CredentialRef prev) = []")
      case True
      then show ?thesis using A [of ?v] wf w(4) D(1) cas by (simp add: swapCredential_def wp_simps)
    next
      case False
      have "wp (sec_Revoke rt (srv_scope s p) (pc_CredentialRef prev))
          (\<lambda>a. wp (audit rt sub ''connection.credential.set'' p ''ok'') (\<lambda>a. wp (State_Monad.return (writeJSON 200 body)) ?fin)) ?v" for body
      proof (rule sec_Revoke_wp [OF c])
        show "ok (w_sec ?v)" using w(1) by simp
        show "sc' = srv_scope s p" if "live (w_sec ?v) (cr_ID (pc_CredentialRef prev)) = Some (sc', m)" for sc' m
          using that w(4) old new by simp
      next
        fix t e assume t: "ok t" "live t = (live (w_sec ?v))(cr_ID (pc_CredentialRef prev) := None)"
        show "wp (audit rt sub ''connection.credential.set'' p ''ok'') (\<lambda>a. wp (State_Monad.return (writeJSON 200 body)) ?fin)
            (?v\<lparr>w_sec := t, w_tick := Suc (w_tick ?v)\<rparr>)"
          by (rule A) (use wf t(2) w(4) False in \<open>simp_all add: Let_def\<close>)
      qed
      then show ?thesis using False D(1) cas by (simp add: swapCredential_def wp_simps wp_eta(1))
    qed
  qed
qed

lemma discoverProperties_wp:
  assumes "calm rt live id_ok ok"
  shows "wp (discoverProperties rt s p ref) (\<lambda>r v. \<exists>n. v = w\<lparr>w_tick := n\<rparr>) w"
proof (cases "Get (srv_registry s) p")
  case None
  then show ?thesis by (simp add: discoverProperties_def wp_simps exI [of _ "w_tick w"])
next
  case (Some a)
  then show ?thesis by (auto simp: discoverProperties_def wp_simps sec_Open_wp [OF assms])
qed

lemma finishCredentialUpdate_wp:
  assumes c: "calm rt live id_ok ok" and P: "pending live ok L conns (srv_scope s p) ref mat w"
    and row: "row \<in> set conns" "conn_is (site_ID (srv_site s)) p row" "prev = scanConnection row"
    and old: "\<And>sc m. L (cr_ID (pc_CredentialRef prev)) = Some (sc, m) \<Longrightarrow> sc = srv_scope s p"
    and new: "cr_ID ref \<noteq> cr_ID (pc_CredentialRef prev)"
  shows "wp (finishCredentialUpdate rt s sub p prev ref extra)
    (update_outcome live L conns s p prev ref mat) w"
proof -
  let ?fin = "update_outcome live L conns s p prev ref mat"
  have S: "wp (swapCredential rt s sub p prev ref props msg extra) ?fin (w\<lparr>w_tick := n\<rparr>)" for props msg n
    by (rule swapCredential_wp [OF c _ row old new]) (use P in auto)
  have R: "wp (reject rt s p ref (writeError code m)) ?fin (w\<lparr>w_tick := n\<rparr>)" if "code \<noteq> 200" for code m n
    by (rule wp_mono [OF reject_wp [OF c]]) (use P that in \<open>auto simp: update_outcome_def writeError_def writeJSON_def\<close>)
  have RA: "wp (reject_audited rt s sub p ref (writeError code m)) ?fin (w\<lparr>w_tick := n\<rparr>)" if "code \<noteq> 200" for code m n
    by (rule wp_mono [OF reject_audited_wp [OF c]]) (use P that in \<open>auto simp: update_outcome_def writeError_def writeJSON_def\<close>)
  show ?thesis
    unfolding finishCredentialUpdate_def wp_bind
  proof (rule wp_mono [OF discoverProperties_wp [OF c]], elim exE)
    fix d v n assume v: "v = w\<lparr>w_tick := n\<rparr>"
    have T: "wp (State_Monad.bind (sec_Open rt (srv_scope s p) ref PurposeTest) (\<lambda>handle. case handle of
          Inl _ \<Rightarrow> reject rt s p ref (writeError 409 ''credential is not available'')
        | Inr mat \<Rightarrow> (case registeredTest s p (pc_PropertyReference prev) mat of
            Some e \<Rightarrow> reject_audited rt s sub p ref (writeError 502 (error_text (publicError e)))
          | None \<Rightarrow> swapCredential rt s sub p prev ref props msg extra))) ?fin v" for props msg
      unfolding wp_bind sec_Open_wp [OF c] v by (simp add: S R RA split: sum.split option.split)
    show "wp (case (case d of Inr props \<Rightarrow> Inr (JArr props, [])
            | Inl e \<Rightarrow> (case as_sync_error e of
                 Some se \<Rightarrow> if se_code se = ErrUnsupported then Inr (JNull, se_message se) else Inl e | None \<Rightarrow> Inl e)) of
          Inl e \<Rightarrow> reject_audited rt s sub p ref (writeError 502 (error_text e))
        | Inr (props, msg) \<Rightarrow>
            if pc_PropertyReference prev = [] then swapCredential rt s sub p prev ref props msg extra
            else State_Monad.bind (sec_Open rt (srv_scope s p) ref PurposeTest) (\<lambda>handle. case handle of
                Inl _ \<Rightarrow> reject rt s p ref (writeError 409 ''credential is not available'')
              | Inr mat \<Rightarrow> (case registeredTest s p (pc_PropertyReference prev) mat of
                  Some e \<Rightarrow> reject_audited rt s sub p ref (writeError 502 (error_text (publicError e)))
                | None \<Rightarrow> swapCredential rt s sub p prev ref props msg extra))) ?fin v"
      using T S RA v by (auto split: sum.split option.split prod.split)
  qed
qed

section \<open>Setting a credential\<close>

text \<open>The identifiers the schedule hands out are acceptable and not in use, neither as secrets nor on the connection.\<close>

definition fresh_secrets :: "'s runtime \<Rightarrow> ('s \<Rightarrow> string \<rightharpoonup> scope \<times> secret_material) \<Rightarrow> (string \<Rightarrow> bool) \<Rightarrow> 's world \<Rightarrow> bool" where
  "fresh_secrets rt live id_ok w \<longleftrightarrow> (\<forall>n. id_ok (env_uuid (o_sec (rt_sched rt) n)) \<and> live (w_sec w) (env_uuid (o_sec (rt_sched rt) n)) = None
     \<and> (\<forall>c \<in> set (t_connections (w_db w)). cn_credential_ref c \<noteq> env_uuid (o_sec (rt_sched rt) n)))"

text \<open>Secrets that connections refer to live in the scope of the connection.\<close>

definition scopes_match :: "('s \<Rightarrow> string \<rightharpoonup> scope \<times> secret_material) \<Rightarrow> 's world \<Rightarrow> bool" where
  "scopes_match live w \<longleftrightarrow> (\<forall>c \<in> set (t_connections (w_db w)). \<forall>sc m. live (w_sec w) (cn_credential_ref c) = Some (sc, m) \<longrightarrow>
     sc = \<lparr>sc_Workspace = [], sc_SiteID = cn_site_id c, sc_Provider = cn_provider c\<rparr>)"

lemma put_and_finish_wp:
  assumes c: "calm rt live id_ok ok" and w: "ok (w_sec w)" "db_wf (w_db w)" "fresh_secrets rt live id_ok w" "scopes_match live w"
    and row: "row \<in> set (t_connections (w_db w))" "conn_is (site_ID (srv_site s)) p row"
    and pre: "\<And>ref v. pending live ok (live (w_sec w)) (t_connections (w_db w)) (srv_scope s p) ref mat v \<Longrightarrow>
      (\<And>u. pending live ok (live (w_sec w)) (t_connections (w_db w)) (srv_scope s p) ref mat u \<Longrightarrow>
        wp (finishCredentialUpdate rt s sub p (scanConnection row) ref extra) Q u) \<Longrightarrow> wp (K ref) Q v"
    and err: "\<And>v e. unchanged live (live (w_sec w)) (t_connections (w_db w)) v \<Longrightarrow> wp (F e) Q v"
    and post: "\<And>r v ref. live (w_sec w) (cr_ID ref) = None \<Longrightarrow>
      update_outcome live (live (w_sec w)) (t_connections (w_db w)) s p (scanConnection row) ref mat r v \<Longrightarrow> Q r v"
  shows "wp (State_Monad.bind (sec_Put rt (srv_scope s p) mat) (\<lambda>put. case put of Inl e \<Rightarrow> F e | Inr ref \<Rightarrow> K ref)) Q w"
proof -
  note D = calmD [OF c]
  let ?env = "o_sec (rt_sched rt) (w_tick w)"
  let ?conns = "t_connections (w_db w)"
  obtain r t where put: "ss_Put (rt_ops rt) ?env (srv_scope s p) mat (w_sec w) = (r, t)" by force
  have fresh: "id_ok (env_uuid ?env)" "live (w_sec w) (env_uuid ?env) = None" "cn_credential_ref row \<noteq> env_uuid ?env"
    using w(3) row(1) by (auto simp: fresh_secrets_def)
  let ?v = "w\<lparr>w_sec := t, w_tick := Suc (w_tick w)\<rparr>"
  show ?thesis
  proof (cases r)
    case (Inl e)
    then have "unchanged live (live (w_sec w)) ?conns ?v"
      using secret_store.put_err [OF D(3) w(1)] put by (simp add: unchanged_def)
    then show ?thesis using err D(1) put Inl by (simp add: sec_Put_def wp_simps)
  next
    case (Inr ref)
    have put': "ss_Put (rt_ops rt) ?env (srv_scope s p) mat (w_sec w) = (Inr ref, t)" using put Inr by simp
    have p: "ok t" "cr_ID ref = env_uuid ?env" "live t = (live (w_sec w))(env_uuid ?env \<mapsto> (srv_scope s p, mat))"
      using secret_store.put_ok [OF D(3) w(1) fresh(1) put'] by simp_all
    have P: "pending live ok (live (w_sec w)) ?conns (srv_scope s p) ref mat ?v"
      using p w(2) fresh(2) by (simp add: pending_def)
    have old: "sc = srv_scope s p" if "live (w_sec w) (cr_ID (pc_CredentialRef (scanConnection row))) = Some (sc, m)" for sc m
      using w(4) row that by (auto simp: scopes_match_def conn_is_def srv_scope_def)
    have "wp (finishCredentialUpdate rt s sub p (scanConnection row) ref extra) Q u"
      if u: "pending live ok (live (w_sec w)) ?conns (srv_scope s p) ref mat u" for u
    proof (rule wp_mono [OF finishCredentialUpdate_wp [OF c u row refl old]])
      show "cr_ID ref \<noteq> cr_ID (pc_CredentialRef (scanConnection row))" using fresh(3) p(2) by simp
      show "Q a t" if "update_outcome live (live (w_sec w)) ?conns s p (scanConnection row) ref mat a t" for a t
        by (rule post [OF _ that]) (simp add: p(2) fresh(2))
    qed
    then have "wp (K ref) Q ?v" by (rule pre [OF P])
    then show ?thesis using D(1) put Inr by (simp add: sec_Put_def wp_simps)
  qed
qed

definition cred_outcome :: "('s \<Rightarrow> string \<rightharpoonup> scope \<times> secret_material) \<Rightarrow> server \<Rightarrow> string \<Rightarrow> set_credential_body option \<Rightarrow> 's world \<Rightarrow> response \<Rightarrow> 's world \<Rightarrow> bool" where
  "cred_outcome live s p body w rsp w' \<longleftrightarrow>
     (if rsp_status rsp = 200
      then \<exists>b row ref. body = Some b \<and> row \<in> set (t_connections (w_db w)) \<and> conn_is (site_ID (srv_site s)) p row
        \<and> live (w_sec w) (cr_ID ref) = None
        \<and> installed live (live (w_sec w)) (t_connections (w_db w)) s p (scanConnection row) (cn_property_reference row) ref
            \<lparr>sm_Type = trim_space (scb_CredentialType b), sm_Bytes = scb_Material b\<rparr> w'
      else unchanged live (live (w_sec w)) (t_connections (w_db w)) w')"

lemma cred_outcomeI:
  assumes "row \<in> set (t_connections (w_db w))" "conn_is (site_ID (srv_site s)) p row" "live (w_sec w) (cr_ID ref) = None"
    "update_outcome live (live (w_sec w)) (t_connections (w_db w)) s p (scanConnection row) ref
       \<lparr>sm_Type = trim_space (scb_CredentialType b), sm_Bytes = scb_Material b\<rparr> rp v"
  shows "cred_outcome live s p (Some b) w rp v"
proof (cases "rsp_status rp = 200")
  case True
  have "pc_PropertyReference (scanConnection row) = cn_property_reference row" by (simp add: scanConnection_def)
  then show ?thesis using assms True unfolding cred_outcome_def update_outcome_def if_P [OF True] by (metis (full_types))
next
  case False
  then show ?thesis using assms(4) by (simp add: cred_outcome_def update_outcome_def)
qed

text \<open>Storing the new credential and finishing the update, once the connection was read.\<close>

lemma store_credential_wp:
  fixes b :: set_credential_body
  assumes c: "calm rt live id_ok ok" and w: "ok (w_sec w)" "db_wf (w_db w)" "fresh_secrets rt live id_ok w" "scopes_match live w"
    and row: "row \<in> set (t_connections (w_db w))" "conn_is (site_ID (srv_site s)) (rq_Path r) row"
  defines "mat \<equiv> \<lparr>sm_Type = trim_space (scb_CredentialType b), sm_Bytes = scb_Material b\<rparr>"
  shows "wp (State_Monad.bind (sec_Put rt (srv_scope s (rq_Path r)) mat) (\<lambda>put. case put of
            Inl e \<Rightarrow> State_Monad.return (writeError 500 ''store credential'')
          | Inr ref \<Rightarrow> finishCredentialUpdate rt s sub (rq_Path r) (scanConnection row) ref []))
     (cred_outcome live s (rq_Path r) (Some b) w) (w\<lparr>w_tick := Suc (w_tick w)\<rparr>)"
    (is "wp _ ?Q ?w")
proof (rule put_and_finish_wp [OF c, of ?w row s "rq_Path r"])
  show "ok (w_sec ?w)" "db_wf (w_db ?w)" "fresh_secrets rt live id_ok ?w" "scopes_match live ?w"
    using w by (simp_all add: fresh_secrets_def scopes_match_def)
  show "row \<in> set (t_connections (w_db ?w))" "conn_is (site_ID (srv_site s)) (rq_Path r) row" using row by simp_all
  show "wp (finishCredentialUpdate rt s sub (rq_Path r) (scanConnection row) ref []) ?Q v"
    if "pending live ok (live (w_sec ?w)) (t_connections (w_db ?w)) (srv_scope s (rq_Path r)) ref mat v"
      "\<And>u. pending live ok (live (w_sec ?w)) (t_connections (w_db ?w)) (srv_scope s (rq_Path r)) ref mat u \<Longrightarrow>
        wp (finishCredentialUpdate rt s sub (rq_Path r) (scanConnection row) ref []) ?Q u" for ref v
    by (rule that(2) [OF that(1)])
  show "wp (State_Monad.return (writeError 500 ''store credential'')) ?Q v" if "unchanged live (live (w_sec ?w)) (t_connections (w_db ?w)) v" for v
    using that by (simp add: wp_simps cred_outcome_def writeError_def writeJSON_def)
  show "?Q rp v" if "live (w_sec ?w) (cr_ID ref) = None"
    "update_outcome live (live (w_sec ?w)) (t_connections (w_db ?w)) s (rq_Path r) (scanConnection row) ref mat rp v" for rp v ref
    unfolding mat_def by (rule cred_outcomeI [OF row]) (use that in \<open>simp_all add: mat_def\<close>)
qed

text \<open>
  C15: setting a credential is all or nothing. If the response is 200, the connection refers to a new secret that opens in the
  scope of its provider with exactly the submitted material, keeps its property (and is enabled exactly if it
  has one), and the secret it referred to before is dead. With any other response the connection is as it was
  and the live secrets are exactly the ones from before: a credential that was stored and then
  failed validation is gone. No other connection and no other secret is touched either way.
\<close>

theorem set_credential_atomic:
  assumes c: "calm rt live id_ok ok" and w: "ok (w_sec w)" "db_reachable (w_db w)" "fresh_secrets rt live id_ok w" "scopes_match live w"
    and run: "run_state (setCredential rt s body r sub) w = (rsp, w')"
  shows "if rsp_status rsp = 200
    then \<exists>b row ref. body = Some b \<and> row \<in> set (t_connections (w_db w)) \<and> conn_is (site_ID (srv_site s)) (rq_Path r) row
      \<and> live (w_sec w) (cr_ID ref) = None
      \<and> installed live (live (w_sec w)) (t_connections (w_db w)) s (rq_Path r) (scanConnection row) (cn_property_reference row) ref
          \<lparr>sm_Type = trim_space (scb_CredentialType b), sm_Bytes = scb_Material b\<rparr> w'
    else unchanged live (live (w_sec w)) (t_connections (w_db w)) w'"
proof -
  let ?Q = "cred_outcome live s (rq_Path r) body w"
  have wf: "db_wf (w_db w)" using db_reachable_wf [OF w(2)] .
  have E: "?Q (writeError code m) (w\<lparr>w_tick := n\<rparr>)" "?Q (writeError code m) w" if "code \<noteq> 200" for code m n
    using that by (simp_all add: cred_outcome_def writeError_def writeJSON_def unchanged_def)
  have "wp (setCredential rt s body r sub) ?Q w"
  proof (cases "Get (srv_registry s) (rq_Path r)")
    case None
    then show ?thesis by (simp add: setCredential_def wp_simps E)
  next
    case p: (Some p)
    show ?thesis
    proof (cases body)
      case None
      then show ?thesis by (simp add: setCredential_def wp_simps p E [unfolded None])
    next
      case b: (Some b)
      note store = store_credential_wp [OF c w(1) wf w(3,4), of _ s r b sub]
      show ?thesis
      proof (cases "GetConnection (o_db (rt_sched rt) (w_tick w)) (site_ID (srv_site s)) (rq_Path r) (w_db w)")
        case (Inl e)
        then show ?thesis by (simp add: setCredential_def wp_simps p b get_connection_wp [OF c] E [unfolded b] Let_def)
      next
        case (Inr pc)
        then obtain row where row: "row \<in> set (t_connections (w_db w))" "conn_is (site_ID (srv_site s)) (rq_Path r) row" "pc = scanConnection row"
          using GetConnection_Inr by blast
        show ?thesis
          using store [OF row(1,2)] Inr
          by (simp add: setCredential_def wp_simps p b get_connection_wp [OF c] E [unfolded b] Let_def row(3))
      qed
    qed
  qed
  then have "?Q rsp w'" by (rule wp_run [OF _ run])
  then show ?thesis by (simp add: cred_outcome_def)
qed

section \<open>Instances\<close>

definition demo_srv :: server where
  "demo_srv = New [(''bing'', demo_provider)] demo_engine demo_site"

definition demo_req :: request where
  "demo_req = \<lparr>rq_Query = \<lambda>_. [], rq_Path = ''bing''\<rparr>"

definition demo_sub :: subject where
  "demo_sub = \<lparr>sub_ID = ''alice'', sub_Issuer = [], sub_Roles = [], sub_Scopes = all_scopes, sub_Workspace = []\<rparr>"

text \<open>The connection of \<open>demo_conn\<close> refers to the secret \<open>c1\<close>, which is live.\<close>

definition demo_sec :: "memory world" where
  "demo_sec = (demo_world demo_conn)\<lparr>w_sec := snd (mem_put (demo_env ''c1'') (demo_scope ''bing'') demo_material NewMemory)\<rparr>"

lemma demo_calm: "calm demo_rt mem_live (\<lambda>_. True) (\<lambda>_. True)"
  using mem.secret_store_axioms demo_rt_ok(1)
  by (simp add: calm_def sec_reliable_def env_reliable_def demo_rt_def demo_env_def)

lemma demo_sec_sel:
  "w_db demo_sec = demo_conn" "mem_live (w_sec demo_sec) = [''c1'' \<mapsto> (demo_scope ''bing'', demo_material)]"
  by (auto simp: demo_sec_def mem_put_def mem_live_def NewMemory_def demo_env_def)

lemma demo_sec_ok: "fresh_secrets demo_rt mem_live (\<lambda>_. True) demo_sec" "scopes_match mem_live demo_sec"
  by (simp_all add: fresh_secrets_def scopes_match_def demo_sec_sel demo_rt_def demo_env_def demo_conn_rows demo_scope_def
      set_configuration_def new_connection_def)

lemma demo_srv_sel: "Get (srv_registry demo_srv) ''bing'' = Some demo_provider" "site_ID (srv_site demo_srv) = ''main''"
  by (simp_all add: demo_srv_def New_def Get_def demo_site_def)


lemma GetConnection_demo: "e_fault env 0 = None \<Longrightarrow> GetConnection env ''main'' ''bing'' demo_conn = Inr (scanConnection (hd (t_connections demo_conn)))"
  by (simp add: GetConnection_def demo_conn_rows conn_is_def set_configuration_def new_connection_def)

lemma demo_rt_sel [simp]: "e_fault (o_db (rt_sched demo_rt) n) k = None" "o_sec (rt_sched demo_rt) n = demo_env ''x''" "rt_ops demo_rt = memory_ops"
  by (simp_all add: demo_rt_def demo_db_env_def)

lemma demo_trim: "trim_space ''api_key'' = ''api_key''" "trim_space ''k2'' = ''k2''"
  by (rule trim_space_ascii; simp add: ascii_print_def)+

lemma demo_audit: "wp (audit demo_rt sub a b c) (\<lambda>_ _. P) w = P"
  by (auto simp: audit_def wp_simps split: prod.split)

lemma demo_set_credential:
  "wp (setCredential demo_rt demo_srv (Some \<lparr>scb_CredentialType = ''api_key'', scb_Material = ''k2''\<rparr>) demo_req demo_sub)
     (\<lambda>r v. rsp_status r = 200) demo_sec"
proof -
  note D = demo_rt_ok demo_srv_sel demo_sec_sel demo_conn_rows set_configuration_def new_connection_def
  show ?thesis
    apply (simp add: setCredential_def demo_req_def demo_srv_sel wp_simps Let_def demo_provider_def demo_trim
        get_connection_wp [OF demo_calm] demo_sec_sel GetConnection_demo)
    apply (simp add: sec_Put_def finishCredentialUpdate_def discoverProperties_def registeredTest_def wp_simps D sec_Open_wp [OF demo_calm]
        memory_ops_def mem_put_def mem_open_def demo_provider_def demo_env_def scanConnection_def)
    apply (simp add: swapCredential_def wp_simps D ConfigureConnectionCAS_def Let_def conn_is_def count_where_def
        sec_Revoke_def demo_audit writeJSON_def wp_eta(1) wp_return_eta split: prod.split)
    done
qed

theorem set_credential_atomic_witness:
  "\<exists>rsp w'. run_state (setCredential demo_rt demo_srv (Some \<lparr>scb_CredentialType = ''api_key'', scb_Material = ''k2''\<rparr>) demo_req demo_sub) demo_sec = (rsp, w')
    \<and> rsp_status rsp = 200 \<and> mem_live (w_sec w') ''c1'' = None"
proof -
  obtain rsp w' where run: "run_state (setCredential demo_rt demo_srv (Some \<lparr>scb_CredentialType = ''api_key'', scb_Material = ''k2''\<rparr>) demo_req demo_sub) demo_sec = (rsp, w')"
    by force
  have ok: "rsp_status rsp = 200" using wp_run [OF demo_set_credential run] .
  have "db_reachable (w_db demo_sec)" by (simp add: demo_sec_sel demo_conn_reachable)
  note T = set_credential_atomic [OF demo_calm TrueI this demo_sec_ok run, unfolded if_P [OF ok]]
  then obtain ref where "installed mem_live (mem_live (w_sec demo_sec)) (t_connections demo_conn) demo_srv ''bing'' (scanConnection (hd (t_connections demo_conn)))
      ''p'' ref \<lparr>sm_Type = ''api_key'', sm_Bytes = ''k2''\<rparr> w'"
    by (auto simp: demo_sec_sel demo_conn_rows demo_req_def demo_trim set_configuration_def)
  then have "mem_live (w_sec w') ''c1'' = None"
    by (simp add: installed_def Let_def demo_conn_rows set_configuration_def scanConnection_def)
  then show ?thesis using run ok by blast
qed

end
