(* ===== verification/ConnectionFlows.thy ===== *)
theory ConnectionFlows
  imports ConnectionProps
begin

text \<open>
  The outcomes of completing an OAuth authorization, of importing a host credential, of revoking a connection and of
  choosing a property, for every secret store with the contract \<open>secret_store\<close> and with database faults at any point.
\<close>

section \<open>Completing an authorization\<close>

text \<open>Everything but the consumption of a state leaves the table of states alone.\<close>

definition no_state :: "string \<Rightarrow> 's world \<Rightarrow> bool" where
  "no_state st w \<longleftrightarrow> (\<forall>x \<in> set (t_oauth (w_db w)). oa_state x \<noteq> st)"

lemma no_state_query: "undisturbed rt \<Longrightarrow> keeps (no_state st) (db_query rt q)" "undisturbed rt \<Longrightarrow> keeps (no_state st) (sec_query rt p)"
  "undisturbed rt \<Longrightarrow> keeps (no_state st) (sec_exec rt f)"
  by (auto simp: keeps_def wp_simps no_state_def split: prod.split)

lemma no_state_exec:
  "undisturbed rt \<Longrightarrow> (\<And>env d. t_oauth (snd (f env d)) = t_oauth d) \<Longrightarrow> keeps (no_state st) (db_exec rt f)"
  by (auto simp: keeps_def wp_simps no_state_def split: prod.split) (metis snd_conv)

lemma t_oauth_same:
  "t_oauth (snd (AppendAudit env ev d)) = t_oauth d" "t_oauth (snd (ConfigureConnectionCAS env i p old ref pr en d)) = t_oauth d"
  by (simp_all add: AppendAudit_def ConfigureConnectionCAS_def Let_def split: option.split)

lemma no_state_finish:
  assumes "undisturbed rt"
  shows "keeps (no_state st) (audit rt sub a b c)" "keeps (no_state st) (finishCredentialUpdate rt s sub p prev ref extra)"
proof -
  note Q = no_state_query [OF assms] no_state_exec [OF assms]
  show A: "keeps (no_state st) (audit rt sub a b c)" for a b c
    unfolding audit_def by (intro keeps_bind keeps_return Q t_oauth_same)
  have "keeps (no_state st) (reject rt s p ref rsp)" "keeps (no_state st) (reject_audited rt s sub p ref rsp)" for rsp
    unfolding reject_def reject_audited_def sec_Revoke_def by (intro keeps_bind keeps_return Q A)+
  note R = this
  have "keeps (no_state st) (swapCredential rt s sub p prev ref props msg extra)" for props msg
    unfolding swapCredential_def sec_Revoke_def
    by (intro keeps_bind keeps_return keeps_sum keeps_if Q A R t_oauth_same) (auto split: bool.split intro!: keeps_bind keeps_return keeps_if Q A R)
  then show "keeps (no_state st) (finishCredentialUpdate rt s sub p prev ref extra)"
    unfolding finishCredentialUpdate_def discoverProperties_def sec_Open_def
    by (intro keeps_bind keeps_return keeps_option keeps_sum keeps_prod keeps_if Q R)
qed

lemma ConsumeOAuthState_conns: "t_connections (snd (ConsumeOAuthState env st p i sub d)) = t_connections d"
  by (simp add: ConsumeOAuthState_def Let_def split: option.split)

definition oauth_grant ::
  "(oauth_app \<Rightarrow> string \<Rightarrow> string \<Rightarrow> string \<Rightarrow> go_error + string) \<Rightarrow> server \<Rightarrow> string \<Rightarrow> subject \<Rightarrow> oauth_complete_body \<Rightarrow> db_env \<Rightarrow> db
   \<Rightarrow> oauth_app \<Rightarrow> oauth_row \<Rightarrow> string \<Rightarrow> bool" where
  "oauth_grant exchange s p sub b env d app x refresh \<longleftrightarrow>
     srv_oauthApps s p = Some app \<and> x \<in> set (t_oauth d) \<and> oa_state x = trim_space (ocb_State b) \<and> oa_provider x = p
     \<and> oa_site_id x = site_ID (srv_site s) \<and> oa_subject_id x = sub_ID sub \<and> format_time (e_now env 0) < oa_expires_at x
     \<and> exchange app (oa_redirect_uri x) (trim_space (ocb_Code b)) (oa_pkce_verifier x) = Inr refresh \<and> refresh \<noteq> []"

definition oauth_secret :: "(oauth_material \<Rightarrow> string) \<Rightarrow> oauth_app \<Rightarrow> string \<Rightarrow> secret_material" where
  "oauth_secret marshal app refresh = \<lparr>sm_Type = ''oauth2'', sm_Bytes = marshal \<lparr>om_ClientID = oap_ClientID app,
     om_ClientSecret = oap_ClientSecret app, om_TokenURL = oap_TokenURL app, om_RefreshToken = refresh\<rparr>\<rparr>"

definition oauth_outcome where
  "oauth_outcome live exchange marshal s p sub body env w rsp w' \<longleftrightarrow>
     (if rsp_status rsp = 200
      then \<exists>b app x refresh row ref. body = Some b \<and> oauth_grant exchange s p sub b env (w_db w) app x refresh
        \<and> row \<in> set (t_connections (w_db w)) \<and> conn_is (site_ID (srv_site s)) p row \<and> live (w_sec w) (cr_ID ref) = None
        \<and> installed live (live (w_sec w)) (t_connections (w_db w)) s p (scanConnection row) (cn_property_reference row) ref
            (oauth_secret marshal app refresh) w'
      else unchanged live (live (w_sec w)) (t_connections (w_db w)) w')"

lemma oauth_outcome_fail:
  "code \<noteq> 200 \<Longrightarrow> unchanged live (live (w_sec w)) (t_connections (w_db w)) v \<Longrightarrow>
    oauth_outcome live exchange marshal s p sub body env w (writeError code m) v"
  by (simp add: oauth_outcome_def writeError_def writeJSON_def)

lemma oauth_outcomeI:
  assumes "oauth_grant exchange s p sub b env (w_db w) app x refresh" "row \<in> set (t_connections (w_db w))"
    "conn_is (site_ID (srv_site s)) p row" "live (w_sec w) (cr_ID ref) = None"
    "update_outcome live (live (w_sec w)) (t_connections (w_db w)) s p (scanConnection row) ref (oauth_secret marshal app refresh) rp v"
  shows "oauth_outcome live exchange marshal s p sub (Some b) env w rp v"
proof (cases "rsp_status rp = 200")
  case True
  have "pc_PropertyReference (scanConnection row) = cn_property_reference row" by (simp add: scanConnection_def)
  then have "installed live (live (w_sec w)) (t_connections (w_db w)) s p (scanConnection row) (cn_property_reference row) ref
      (oauth_secret marshal app refresh) v"
    using assms(5) True by (simp add: update_outcome_def)
  then show ?thesis unfolding oauth_outcome_def if_P [OF True] using assms(1-4) by blast
next
  case False
  then show ?thesis using assms(5) by (simp add: oauth_outcome_def update_outcome_def)
qed

lemma store_oauth_wp:
  assumes c: "calm rt live id_ok ok" and v: "ok (w_sec v)" "db_wf (w_db v)" "w_sec v = w_sec w" "t_connections (w_db v) = t_connections (w_db w)"
    and w: "fresh_secrets rt live id_ok w" "scopes_match live w"
    and row: "row \<in> set (t_connections (w_db w))" "conn_is (site_ID (srv_site s)) p row"
    and g: "oauth_grant exchange s p sub b env (w_db w) app x refresh"
  shows "wp (State_Monad.bind (sec_Put rt (srv_scope s p) (oauth_secret marshal app refresh)) (\<lambda>put. case put of
      Inl e \<Rightarrow> State_Monad.return (writeError 500 ''store credential'')
    | Inr ref \<Rightarrow> State_Monad.bind (audit rt sub ''connection.oauth.complete'' p ''ok'')
        (\<lambda>_. finishCredentialUpdate rt s sub p (scanConnection row) ref extra))) (oauth_outcome live exchange marshal s p sub (Some b) env w) v"
proof (rule put_and_finish_wp [OF c v(1,2), of row s p])
  show "fresh_secrets rt live id_ok v" "scopes_match live v" using w v(3,4) by (simp_all add: fresh_secrets_def scopes_match_def)
  show "row \<in> set (t_connections (w_db v))" "conn_is (site_ID (srv_site s)) p row" using row v(4) by simp_all
next
  fix u assume "unchanged live (live (w_sec v)) (t_connections (w_db v)) u"
  then show "wp (State_Monad.return (writeError 500 ''store credential'')) (oauth_outcome live exchange marshal s p sub (Some b) env w) u"
    using v(3,4) by (simp add: wp_simps oauth_outcome_fail)
next
  fix rp u ref
  assume "live (w_sec v) (cr_ID ref) = None"
    "update_outcome live (live (w_sec v)) (t_connections (w_db v)) s p (scanConnection row) ref (oauth_secret marshal app refresh) rp u"
  then show "oauth_outcome live exchange marshal s p sub (Some b) env w rp u"
    using oauth_outcomeI [OF g row] v(3,4) by simp
next
  fix ref u
  let ?P = "pending live ok (live (w_sec v)) (t_connections (w_db v)) (srv_scope s p) ref (oauth_secret marshal app refresh)"
  assume u: "?P u" and F: "\<And>u. ?P u \<Longrightarrow>
    wp (finishCredentialUpdate rt s sub p (scanConnection row) ref extra) (oauth_outcome live exchange marshal s p sub (Some b) env w) u"
  show "wp (State_Monad.bind (audit rt sub ''connection.oauth.complete'' p ''ok'')
        (\<lambda>_. finishCredentialUpdate rt s sub p (scanConnection row) ref extra)) (oauth_outcome live exchange marshal s p sub (Some b) env w) u"
    unfolding wp_bind by (rule audit_wp [OF c]) (use u in \<open>auto simp: pending_def intro!: F\<close>)
qed

lemma oauthComplete_wp:
  assumes c: "calm rt live id_ok ok" and w: "ok (w_sec w)" "db_wf (w_db w)" "fresh_secrets rt live id_ok w" "scopes_match live w"
  shows "wp (oauthComplete exchange marshal rt s body r sub)
    (oauth_outcome live exchange marshal s (rq_Path r) sub body (o_db (rt_sched rt) (w_tick w)) w) w"
proof -
  let ?p = "rq_Path r" and ?env = "o_db (rt_sched rt) (w_tick w)"
  let ?Q = "oauth_outcome live exchange marshal s ?p sub body ?env w"
  have same: "unchanged live (live (w_sec w)) (t_connections (w_db w)) w" by (simp add: unchanged_def)
  show ?thesis
  proof (cases "srv_oauthApps s ?p")
    case None
    then show ?thesis using same by (simp add: oauthComplete_def wp_simps oauth_outcome_fail)
  next
    case app: (Some app)
    show ?thesis
    proof (cases body)
      case None
      then show ?thesis using same app by (simp add: oauthComplete_def wp_simps oauth_outcome_fail)
    next
      case b: (Some b)
      let ?Qb = "oauth_outcome live exchange marshal s ?p sub (Some b) ?env w"
      obtain res d where con: "ConsumeOAuthState ?env (trim_space (ocb_State b)) ?p (site_ID (srv_site s)) (sub_ID sub) (w_db w) = (res, d)" by force
      let ?v = "w\<lparr>w_db := d, w_tick := Suc (w_tick w)\<rparr>"
      have d: "db_wf d" "t_connections d = t_connections (w_db w)"
        using ConsumeOAuthState_wf [OF w(2)] ConsumeOAuthState_conns con by (metis snd_conv)+
      have fail: "?Qb (writeError code m) (?v\<lparr>w_tick := n\<rparr>)" "?Qb (writeError code m) ?v" if "code \<noteq> 200" for code m n
        using d(2) that by (simp_all add: oauth_outcome_fail unchanged_def)
      have A: "wp (State_Monad.bind (audit rt sub a t res') (\<lambda>_. State_Monad.return (writeError code m))) ?Qb (?v\<lparr>w_tick := n\<rparr>)"
        if "code \<noteq> 200" for a t res' code m n
        unfolding wp_bind by (rule audit_wp [OF c]) (use d that in \<open>auto simp: wp_simps oauth_outcome_fail unchanged_def\<close>)
      have A0: "wp (State_Monad.bind (audit rt sub a t res') (\<lambda>_. State_Monad.return (writeError code m))) ?Qb ?v"
        if "code \<noteq> 200" for a t res' code m using A [OF that, of a t res' m "Suc (w_tick w)"] by simp
      show ?thesis
      proof (cases res)
        case (Inl e)
        then show ?thesis using calmD(1) [OF c] con A0 fail
          by (simp add: oauthComplete_def Let_def app b wp_db_exec wp_bind [of "db_exec _ _"] wp_if wp_return)
      next
        case (Inr st)
        then obtain x where x: "x \<in> set (t_oauth (w_db w))" "st = scan_oauth x" "oa_state x = trim_space (ocb_State b)" "oa_provider x = ?p"
            "oa_site_id x = site_ID (srv_site s)" "oa_subject_id x = sub_ID sub" "format_time (e_now ?env 0) < oa_expires_at x"
          using ConsumeOAuthState_ok(1) con by blast
        have ok: "\<not> (ost_Provider st \<noteq> ?p \<or> ost_SiteID st \<noteq> site_ID (srv_site s) \<or> ost_SubjectID st \<noteq> sub_ID sub)"
          using x by (simp add: scan_oauth_def)
        note unf = oauthComplete_def Let_def app b option.case wp_db_exec wp_bind [of "db_exec _ _"] con Inr others_undisturbed [OF calmD(1) [OF c]]
          prod.case sum.case if_not_P [OF ok]
        show ?thesis
        proof (cases "exchange app (ost_RedirectURI st) (trim_space (ocb_Code b)) (ost_PKCEVerifier st)")
          case ex: (Inl e)
          show ?thesis unfolding unf ex by (rule A0) simp
        next
          case ex: (Inr refresh)
          show ?thesis
          proof (cases "refresh = []")
            case True
            show ?thesis unfolding unf ex if_P [OF True] wp_return by (rule fail(2)) simp
          next
            case ne: False
            have g: "oauth_grant exchange s ?p sub b ?env (w_db w) app x refresh"
              using x ex ne app by (simp add: oauth_grant_def scan_oauth_def)
            note unf = unf ex sum.case if_not_P [OF ne] wp_bind [of "get_connection _ _ _"] get_connection_wp [OF c]
            show ?thesis
            proof (cases "GetConnection (o_db (rt_sched rt) (w_tick ?v)) (site_ID (srv_site s)) ?p (w_db ?v)")
              case g: (Inl e)
              show ?thesis unfolding unf g wp_return by (rule fail(1)) simp
            next
              case conn: (Inr pc)
              then obtain row where row: "row \<in> set (t_connections (w_db w))" "conn_is (site_ID (srv_site s)) ?p row" "pc = scanConnection row"
                using GetConnection_Inr d(2) by fastforce
              show ?thesis unfolding unf conn sum.case row(3) oauth_secret_def [symmetric]
                by (rule store_oauth_wp [OF c _ _ _ _ w(3,4) row(1,2) g]) (use w d in simp_all)
            qed
          qed
        qed
      qed
    qed
  qed
qed

lemma oauthComplete_no_state:
  assumes c: "undisturbed rt" and w: "db_wf (w_db w)" and b: "body = Some b"
  shows "wp (oauthComplete exchange marshal rt s body r sub) (\<lambda>rsp v. rsp_status rsp = 200 \<longrightarrow> no_state (trim_space (ocb_State b)) v) w"
proof (cases "srv_oauthApps s (rq_Path r)")
  case None
  then show ?thesis by (simp add: oauthComplete_def wp_simps writeError_def writeJSON_def)
next
  case app: (Some app)
  let ?st = "trim_space (ocb_State b)"
  note Q = no_state_query [OF c] no_state_finish [OF c]
  have K: "keeps (no_state ?st) m \<Longrightarrow> no_state ?st v \<Longrightarrow> wp m (\<lambda>rsp v. rsp_status rsp = 200 \<longrightarrow> no_state ?st v) v" for m :: "('s world, response) state" and v
    unfolding keeps_def by (blast intro: wp_mono)
  obtain res d where con: "ConsumeOAuthState (o_db (rt_sched rt) (w_tick w)) ?st (rq_Path r) (site_ID (srv_site s)) (sub_ID sub) (w_db w) = (res, d)" by force
  show ?thesis
  proof (cases res)
    case (Inl e)
    then show ?thesis using con c by (simp add: oauthComplete_def b app wp_simps Let_def audit_def writeError_def writeJSON_def split: prod.split)
  next
    case (Inr st)
    have "no_state ?st (w\<lparr>w_db := d, w_tick := Suc (w_tick w)\<rparr>)"
      unfolding no_state_def using ConsumeOAuthState_gone [OF w con [unfolded Inr]] by simp
    then show ?thesis
      unfolding oauthComplete_def Let_def app b option.case wp_db_exec wp_bind [of "db_exec _ _"] con Inr others_undisturbed [OF c] prod.case sum.case
        get_connection_def sec_Put_def
      by (intro K keeps_if keeps_sum keeps_bind keeps_return Q)
  qed
qed


section \<open>Import\<close>

text \<open>What an import leaves behind when it put the credential in place.\<close>

definition imported where
  "imported live s req w w' \<longleftrightarrow> (\<exists>row ref. row \<in> set (t_connections (w_db w)) \<and> conn_is (site_ID (srv_site s)) (trim_space (ir_Provider req)) row
     \<and> cn_credential_ref row = [] \<and> live (w_sec w) (cr_ID ref) = None
     \<and> installed live (live (w_sec w)) (t_connections (w_db w)) s (trim_space (ir_Provider req)) (scanConnection row)
         (trim_space (ir_PropertyReference req)) ref
         \<lparr>sm_Type = trim_space (sm_Type (ir_Credential req)), sm_Bytes = sm_Bytes (ir_Credential req)\<rparr> w')"

definition import_outcome where
  "import_outcome live s req w res w' \<longleftrightarrow>
     (case res of
        Inr z \<Rightarrow> if iz_Imported z then imported live s req w w' else unchanged live (live (w_sec w)) (t_connections (w_db w)) w'
      | Inl e \<Rightarrow> if \<exists>e'. e = Wrapped ''read imported connection'' e' then imported live s req w w'
          else unchanged live (live (w_sec w)) (t_connections (w_db w)) w')"

lemma import_undo_wp:
  assumes "calm rt live id_ok ok" "pending live ok L conns (srv_scope s p) ref mat w"
    and "\<And>v. unchanged live L conns v \<Longrightarrow> Q res v"
  shows "wp (import_undo rt s p ref res) Q w"
  unfolding import_undo_def wp_bind by (rule revoke_pending_wp [OF assms(1,2)]) (simp add: wp_simps assms(3))

lemma import_swap_wp:
  assumes c: "calm rt live id_ok ok" and P: "pending live ok (live (w_sec w)) (t_connections (w_db w)) (srv_scope s p) ref mat v"
    and row: "row \<in> set (t_connections (w_db w))" "conn_is (site_ID (srv_site s)) p row" "cn_credential_ref row = []"
    and req: "p = trim_space (ir_Provider req)" "mat = \<lparr>sm_Type = trim_space (sm_Type (ir_Credential req)), sm_Bytes = sm_Bytes (ir_Credential req)\<rparr>"
  shows "wp (import_swap rt s req p (scanConnection row) ref disc) (import_outcome live s req w) v"
proof -
  let ?env = "o_db (rt_sched rt) (w_tick v)" and ?pr = "trim_space (ir_PropertyReference req)"
  note D = calmD [OF c]
  have v: "db_wf (w_db v)" "t_connections (w_db v) = t_connections (w_db w)" "live (w_sec w) (cr_ID ref) = None"
      "live (w_sec v) = (live (w_sec w))(cr_ID ref \<mapsto> (srv_scope s p, mat))"
    using P by (auto simp: pending_def)
  have cr: "cr_ID (pc_CredentialRef (scanConnection row)) = []" using row(3) by (simp add: scanConnection_def)
  show ?thesis
  proof (cases "e_fault ?env 0")
    case (Some x)
    have "wp (import_undo rt s p ref (Inl (Wrapped ''configure imported connection'' e))) (import_outcome live s req w) (v\<lparr>w_tick := n\<rparr>)" for e n
      by (rule import_undo_wp [OF c]) (use P in \<open>auto simp: import_outcome_def\<close>)
    then show ?thesis using D(1) Some by (simp add: import_swap_def wp_simps Let_def ConfigureConnectionCAS_def)
  next
    case None
    let ?f = "set_configuration ref ?pr (?pr \<noteq> []) (format_time (e_now ?env 0))"
    let ?conns = "update_where (conn_is (site_ID (srv_site s)) p) ?f (t_connections (w_db w))"
    have cas: "ConfigureConnectionCAS ?env (site_ID (srv_site s)) p (pc_CredentialRef (scanConnection row)) ref ?pr (?pr \<noteq> []) (w_db v)
        = (Inr True, (w_db v)\<lparr>t_connections := ?conns\<rparr>)"
      using ConfigureConnectionCAS_hit [OF v(1) None, of row] row v(2) cr by simp
    have imp: "imported live s req w u" if "w_sec u = w_sec v" "t_connections (w_db u) = ?conns" for u
      using row v(3,4) that cr unfolding imported_def installed_def req(1) [symmetric] req(2) [symmetric] by (intro exI [of _ row] exI [of _ ref]) auto
    have out: "import_outcome live s req w (case conn of Inl e \<Rightarrow> Inl (Wrapped ''read imported connection'' e)
        | Inr c \<Rightarrow> Inr (case disc of
              Inr props \<Rightarrow> \<lparr>iz_Imported = True, iz_Connection = c, iz_Properties = props, iz_DiscoveryErrorCode = ErrNone, iz_DiscoveryErrorMessage = []\<rparr>
            | Inl de \<Rightarrow> \<lparr>iz_Imported = True, iz_Connection = c, iz_Properties = [],
                iz_DiscoveryErrorCode = fst (safeProviderError de), iz_DiscoveryErrorMessage = snd (safeProviderError de)\<rparr>)) u"
      if "w_sec u = w_sec v" "t_connections (w_db u) = ?conns" for conn u
      using imp [OF that] by (simp add: import_outcome_def split: sum.split)
    define ev where "ev = audit_event_of (let actor = trim_space (ir_Actor req) in if actor = [] then ''host-import'' else actor)
      ''connection.credential.import'' p ''ok''"
    obtain e d where a: "AppendAudit (o_db (rt_sched rt) (Suc (w_tick v))) ev ((w_db v)\<lparr>t_connections := ?conns\<rparr>) = (e, d)" by force
    have d: "t_connections d = ?conns" using a by (auto simp: AppendAudit_def Let_def split: option.splits if_splits)
    show ?thesis
      unfolding import_swap_def Let_def [of "trim_space (ir_PropertyReference req)"] wp_bind wp_db_exec others_undisturbed [OF D(1)] Let_def [of v] cas prod.case sum.case if_True
        ev_def [symmetric] get_connection_wp [OF c] wp_return
      using a by (simp add: wp_simps get_connection_wp [OF c] D(1) out d)
  qed
qed

lemma import_validate_wp:
  assumes c: "calm rt live id_ok ok" and P: "pending live ok (live (w_sec w)) (t_connections (w_db w)) (srv_scope s p) ref mat v"
    and row: "row \<in> set (t_connections (w_db w))" "conn_is (site_ID (srv_site s)) p row" "cn_credential_ref row = []"
    and req: "p = trim_space (ir_Provider req)" "mat = \<lparr>sm_Type = trim_space (sm_Type (ir_Credential req)), sm_Bytes = sm_Bytes (ir_Credential req)\<rparr>"
  shows "wp (import_validate rt s req p prov (scanConnection row) ref) (import_outcome live s req w) v"
proof -
  let ?Q = "import_outcome live s req w"
  have U: "wp (import_undo rt s p ref (Inl e)) ?Q (v\<lparr>w_tick := n\<rparr>)" if "\<forall>e'. e \<noteq> Wrapped ''read imported connection'' e'" for e n
    by (rule import_undo_wp [OF c]) (use P that in \<open>auto simp: import_outcome_def\<close>)
  have S: "wp (import_swap rt s req p (scanConnection row) ref disc) ?Q (v\<lparr>w_tick := n\<rparr>)" for disc n
    by (rule import_swap_wp [OF c _ row req]) (use P in simp)
  show ?thesis
    unfolding import_validate_def wp_bind sec_Open_wp [OF c]
    using U S by (auto simp: Let_def wp_simps sec_Open_wp [OF c] split: sum.split option.split)
qed

text \<open>Storing the credential of an import and validating it, once a connection without credential was read.\<close>

lemma store_import_wp:
  fixes req :: import_request
  assumes c: "calm rt live id_ok ok" and w: "ok (w_sec w)" "db_wf (w_db w)" "fresh_secrets rt live id_ok w"
  defines "p \<equiv> trim_space (ir_Provider req)"
    and "mat \<equiv> \<lparr>sm_Type = trim_space (sm_Type (ir_Credential req)), sm_Bytes = sm_Bytes (ir_Credential req)\<rparr>"
  assumes row: "row \<in> set (t_connections (w_db w))" "conn_is (site_ID (srv_site s)) p row" "cn_credential_ref row = []"
  shows "wp (State_Monad.bind (sec_Put rt (srv_scope s p) mat) (\<lambda>put. case put of
        Inl e \<Rightarrow> State_Monad.return (Inl (Wrapped ''store imported credential'' e))
      | Inr ref \<Rightarrow> import_validate rt s req p prov (scanConnection row) ref)) (import_outcome live s req w) (w\<lparr>w_tick := n\<rparr>)"
proof -
  note D = calmD [OF c]
  let ?env = "o_sec (rt_sched rt) n"
  obtain r t where put: "ss_Put (rt_ops rt) ?env (srv_scope s p) mat (w_sec w) = (r, t)" by force
  show ?thesis
  proof (cases r)
    case (Inl e)
    then have "live t = live (w_sec w)" using secret_store.put_err [OF D(3) w(1)] put by blast
    then show ?thesis using D(1) put Inl by (simp add: sec_Put_def wp_simps import_outcome_def unchanged_def)
  next
    case (Inr ref)
    have f: "id_ok (env_uuid ?env)" "live (w_sec w) (env_uuid ?env) = None" using w(3) by (auto simp: fresh_secrets_def)
    have "pending live ok (live (w_sec w)) (t_connections (w_db w)) (srv_scope s p) ref mat (w\<lparr>w_sec := t, w_tick := Suc n\<rparr>)"
      using secret_store.put_ok [OF D(3) w(1) f(1) put [unfolded Inr]] f(2) w(2) by (simp add: pending_def)
    from import_validate_wp [OF c this row p_def [THEN meta_eq_to_obj_eq] mat_def [THEN meta_eq_to_obj_eq]] show ?thesis using D(1) put Inr by (simp add: sec_Put_def wp_simps)
  qed
qed

text \<open>
  C17: an import never replaces a credential and never leaves one behind. If the import reports success, or fails only in
  reading the connection back, then the connection had no credential, and it now refers to a new secret with exactly the
  given material and to the given property, and is enabled exactly if a property was given. In all other
  cases, an import that found a credential in place included, the connections and the live secrets are what they were.
\<close>

theorem import_create_only:
  assumes c: "calm rt live id_ok ok" and w: "ok (w_sec w)" "db_reachable (w_db w)" "fresh_secrets rt live id_ok w"
    and run: "run_state (ImportConnection rt s req) w = (res, w')"
  shows "if (\<exists>z. res = Inr z \<and> iz_Imported z) \<or> (\<exists>e. res = Inl (Wrapped ''read imported connection'' e))
    then imported live s req w w' else unchanged live (live (w_sec w)) (t_connections (w_db w)) w'"
proof -
  let ?p = "trim_space (ir_Provider req)" and ?Q = "import_outcome live s req w"
  have wf: "db_wf (w_db w)" by (rule db_reachable_wf [OF w(2)])
  have same: "?Q (Inl (Msg m)) w" "?Q (Inl (Wrapped ''get provider connection'' e)) (w\<lparr>w_tick := n\<rparr>)" "?Q (Inr (import_unchanged z)) (w\<lparr>w_tick := n\<rparr>)" for m e n z
    by (simp_all add: import_outcome_def unchanged_def import_unchanged_def)
  note put = store_import_wp [OF c w(1) wf w(3)]
  have "wp (ImportConnection rt s req) ?Q w"
  proof (cases "GetConnection (o_db (rt_sched rt) (w_tick w)) (site_ID (srv_site s)) ?p (w_db w)")
    case (Inl e)
    then show ?thesis by (auto simp: ImportConnection_def Let_def wp_simps get_connection_wp [OF c] same split: option.split)
  next
    case (Inr pc)
    then obtain row where row: "row \<in> set (t_connections (w_db w))" "conn_is (site_ID (srv_site s)) ?p row" "pc = scanConnection row"
      using GetConnection_Inr by blast
    have ref: "cr_ID (pc_CredentialRef (scanConnection row)) = cn_credential_ref row" by (simp add: scanConnection_def)
    show ?thesis using put [OF row(1,2)] Inr
      by (auto simp: ImportConnection_def Let_def wp_simps get_connection_wp [OF c] same row(3) ref split: option.split)
  qed
  then have "?Q res w'" by (rule wp_run [OF _ run])
  then show ?thesis by (auto simp: import_outcome_def split: sum.splits if_splits)
qed

section \<open>Revoking and choosing a property\<close>

lemma clearConnection_wp:
  assumes c: "calm rt live id_ok ok" and w: "db_wf (w_db w)" "row \<in> set (t_connections (w_db w))" "conn_is (site_ID (srv_site s)) p row"
  shows "wp (clearConnection rt s sub p) (\<lambda>rsp v. w_sec v = w_sec w \<and> (if rsp_status rsp = 200
      then \<exists>now. t_connections (w_db v) = update_where (conn_is (site_ID (srv_site s)) p) (set_configuration no_ref [] False now) (t_connections (w_db w))
      else t_connections (w_db v) = t_connections (w_db w))) w"
proof -
  let ?env = "o_db (rt_sched rt) (w_tick w)"
  obtain e d where d: "ConfigureConnection ?env (site_ID (srv_site s)) p no_ref [] False (w_db w) = (e, d)" by force
  have wf: "db_wf d" using ConfigureConnection_wf [OF w(1)] d by (metis snd_conv)
  show ?thesis
  proof (cases e)
    case (Some x)
    have "count_where (conn_is (site_ID (srv_site s)) p) (t_connections (w_db w)) = 1"
      using conn_unique(1) [OF w] by (simp add: count_where_def)
    then have "t_connections d = t_connections (w_db w)" using d Some by (auto simp: ConfigureConnection_def Let_def split: option.splits)
    then show ?thesis using calmD(1) [OF c] d Some by (simp add: clearConnection_def wp_simps writeError_def writeJSON_def)
  next
    case None
    then have up: "\<exists>now. t_connections d = update_where (conn_is (site_ID (srv_site s)) p) (set_configuration no_ref [] False now) (t_connections (w_db w))"
      using d by (auto simp: ConfigureConnection_def Let_def split: option.splits if_splits)
    show ?thesis
      using None d calmD(1) [OF c]
      by (simp add: clearConnection_def wp_simps)
        (rule audit_wp [OF c], use up wf in \<open>auto simp: wp_simps writeJSON_def\<close>)
  qed
qed

definition revoke_outcome where
  "revoke_outcome live s p w rsp w' \<longleftrightarrow>
     (if rsp_status rsp = 200
      then \<exists>row now. row \<in> set (t_connections (w_db w)) \<and> conn_is (site_ID (srv_site s)) p row
        \<and> live (w_sec w') = (if cn_credential_ref row = [] then live (w_sec w) else (live (w_sec w))(cn_credential_ref row := None))
        \<and> t_connections (w_db w') = update_where (conn_is (site_ID (srv_site s)) p) (set_configuration no_ref [] False now) (t_connections (w_db w))
      else t_connections (w_db w') = t_connections (w_db w) \<and> live (w_sec w') \<subseteq>\<^sub>m live (w_sec w))"

lemma revoke_clear_wp:
  assumes c: "calm rt live id_ok ok" and v: "db_wf (w_db v)" "t_connections (w_db v) = t_connections (w_db w)"
    and row: "row \<in> set (t_connections (w_db w))" "conn_is (site_ID (srv_site s)) p row"
    and live: "live (w_sec v) = (if cn_credential_ref row = [] then live (w_sec w) else (live (w_sec w))(cn_credential_ref row := None))"
  shows "wp (clearConnection rt s sub p) (revoke_outcome live s p w) v"
proof (rule wp_mono [OF clearConnection_wp [OF c v(1)]])
  show "row \<in> set (t_connections (w_db v))" "conn_is (site_ID (srv_site s)) p row" using row v(2) by simp_all
next
  fix rsp u
  assume u: "w_sec u = w_sec v \<and> (if rsp_status rsp = 200
      then \<exists>now. t_connections (w_db u) = update_where (conn_is (site_ID (srv_site s)) p) (set_configuration no_ref [] False now) (t_connections (w_db v))
      else t_connections (w_db u) = t_connections (w_db v))"
  have "live (w_sec u) \<subseteq>\<^sub>m live (w_sec w)" using u live by (auto simp: map_le_def)
  then show "revoke_outcome live s p w rsp u"
    using u live row unfolding v(2) revoke_outcome_def by (cases "rsp_status rsp = 200") auto
qed


definition row_ref :: "conn_row \<Rightarrow> credential_ref" where
  "row_ref row = \<lparr>cr_ID = cn_credential_ref row, cr_Type = cn_credential_type row\<rparr>"

lemma scan_ref: "pc_CredentialRef (scanConnection row) = row_ref row" "cr_ID (row_ref row) = cn_credential_ref row"
  by (simp_all add: scanConnection_def row_ref_def)

definition property_outcome ::
  "('s \<Rightarrow> string \<rightharpoonup> scope \<times> secret_material) \<Rightarrow> server \<Rightarrow> string \<Rightarrow> string option \<Rightarrow> 's world \<Rightarrow> response \<Rightarrow> 's world \<Rightarrow> bool" where
  "property_outcome live s p body w rsp v \<longleftrightarrow> w_sec v = w_sec w \<and> (if rsp_status rsp = 200
    then \<exists>raw row prov mat now. body = Some raw \<and> trim_space raw \<noteq> [] \<and> row \<in> set (t_connections (w_db w)) \<and> conn_is (site_ID (srv_site s)) p row
      \<and> Get (srv_registry s) p = Some prov \<and> live (w_sec w) (cn_credential_ref row) = Some (srv_scope s p, mat)
      \<and> TestProperty prov (srv_site s) (property_ref (trim_space raw)) mat = None
      \<and> t_connections (w_db v) = update_where (conn_is (site_ID (srv_site s)) p) (set_configuration (row_ref row) (trim_space raw) True now) (t_connections (w_db w))
    else t_connections (w_db v) = t_connections (w_db w))"

lemma property_outcome_err:
  "code \<noteq> 200 \<Longrightarrow> t_connections (w_db v) = t_connections (w_db w) \<Longrightarrow> w_sec v = w_sec w \<Longrightarrow> property_outcome live s p body w (writeError code m) v"
  by (simp add: property_outcome_def writeError_def writeJSON_def)

lemma store_property_wp:
  assumes c: "calm rt live id_ok ok" and wf: "db_wf (w_db w)" and row: "row \<in> set (t_connections (w_db w))" "conn_is (site_ID (srv_site s)) p row"
    and g: "trim_space raw \<noteq> []" "Get (srv_registry s) p = Some prov" "live (w_sec w) (cn_credential_ref row) = Some (srv_scope s p, mat)"
      "TestProperty prov (srv_site s) (property_ref (trim_space raw)) mat = None"
  shows "wp (State_Monad.bind (db_exec rt (\<lambda>env. ConfigureConnection env (site_ID (srv_site s)) p (row_ref row) (trim_space raw) True))
      (\<lambda>x. case x of Some _ \<Rightarrow> State_Monad.return (writeError 500 ''configure connection'')
       | None \<Rightarrow> State_Monad.bind (audit rt sub a t ''ok'') (\<lambda>_. State_Monad.return (writeJSON 200 j))))
    (property_outcome live s p (Some raw) w) (w\<lparr>w_tick := n\<rparr>)"
proof -
  let ?i = "site_ID (srv_site s)"
  note D = calmD [OF c]
  obtain e d where d: "ConfigureConnection (o_db (rt_sched rt) n) ?i p (row_ref row) (trim_space raw) True (w_db w) = (e, d)" by force
  have wfd: "db_wf d" using ConfigureConnection_wf [OF wf] d by (metis snd_conv)
  show ?thesis
  proof (cases e)
    case (Some x)
    have "count_where (conn_is ?i p) (t_connections (w_db w)) = 1"
      using conn_unique(1) [OF wf row] by (simp add: count_where_def)
    then have "t_connections d = t_connections (w_db w)" using d Some by (auto simp: ConfigureConnection_def Let_def split: option.splits)
    then show ?thesis using D(1) d Some by (simp add: wp_simps property_outcome_err)
  next
    case None
    then obtain now where up: "t_connections d = update_where (conn_is ?i p) (set_configuration (row_ref row) (trim_space raw) True now) (t_connections (w_db w))"
      using d by (auto simp: ConfigureConnection_def Let_def split: option.splits if_splits)
    have fin: "property_outcome live s p (Some raw) w (writeJSON 200 j) v" if "w_sec v = w_sec w" "t_connections (w_db v) = t_connections d" for v
      unfolding property_outcome_def using that g row up by (auto simp: writeJSON_def)
    show ?thesis using D(1) d None
      by (simp add: wp_simps) (rule audit_wp [OF c], use wfd in \<open>auto simp: wp_simps intro!: fin\<close>)
  qed
qed

text \<open>
  C19: choosing a property. A response 200 means that the credential of the connection is live in its scope and that the
  provider accepted the property with it; the connection then keeps its credential, has the property and is enabled. With
  any other response the connections are what they were. The secrets are not touched.
\<close>

theorem set_property_tested:
  assumes c: "calm rt live id_ok ok" and w: "ok (w_sec w)" "db_reachable (w_db w)"
    and run: "run_state (setProperty rt s body r sub) w = (rsp, w')"
  shows "w_sec w' = w_sec w \<and> (if rsp_status rsp = 200
    then \<exists>raw row prov mat now. body = Some raw \<and> trim_space raw \<noteq> [] \<and> row \<in> set (t_connections (w_db w))
      \<and> conn_is (site_ID (srv_site s)) (rq_Path r) row
      \<and> Get (srv_registry s) (rq_Path r) = Some prov \<and> live (w_sec w) (cn_credential_ref row) = Some (srv_scope s (rq_Path r), mat)
      \<and> TestProperty prov (srv_site s) (property_ref (trim_space raw)) mat = None
      \<and> t_connections (w_db w') = update_where (conn_is (site_ID (srv_site s)) (rq_Path r))
          (set_configuration (row_ref row) (trim_space raw) True now) (t_connections (w_db w))
    else t_connections (w_db w') = t_connections (w_db w))"
proof -
  let ?p = "rq_Path r" and ?i = "site_ID (srv_site s)"
  let ?Q = "\<lambda>b. property_outcome live s ?p b w"
  note D = calmD [OF c]
  have wf: "db_wf (w_db w)" by (rule db_reachable_wf [OF w(2)])
  note err = property_outcome_err
  have "wp (setProperty rt s body r sub) (?Q body) w"
  proof (cases body)
    case None
    then show ?thesis by (simp add: setProperty_def wp_simps err)
  next
    case b: (Some raw)
    have A: "wp (State_Monad.bind (audit rt sub a t x) (\<lambda>_. State_Monad.return (writeError 502 m))) (?Q (Some raw)) (w\<lparr>w_tick := n\<rparr>)" for a t x m n
      unfolding wp_bind by (rule audit_wp [OF c]) (use wf in \<open>auto simp: wp_simps intro!: err\<close>)
    show ?thesis
    proof (cases "GetConnection (o_db (rt_sched rt) (w_tick w)) ?i ?p (w_db w)")
      case (Inl e)
      then show ?thesis by (simp add: setProperty_def Let_def b wp_simps get_connection_wp [OF c] err)
    next
      case (Inr pc)
      then obtain row where row: "row \<in> set (t_connections (w_db w))" "conn_is ?i ?p row" "pc = scanConnection row"
        using GetConnection_Inr by blast
      have live: "live (w_sec w) (cn_credential_ref row) = Some (srv_scope s ?p, mat)"
        if "ss_Open (rt_ops rt) env (srv_scope s ?p) (row_ref row) PurposeTest (w_sec w) = Inr mat" for env mat
        using secret_store.open_live [OF D(3) w(1) that] by (simp add: scan_ref)
      show ?thesis using Inr A store_property_wp [OF c wf row(1,2) _ _ live]
        unfolding setProperty_def Let_def b
        by (auto simp: wp_bind [of "get_connection _ _ _"] wp_bind [of "sec_Open _ _ _ _"] wp_if wp_return
            get_connection_wp [OF c] sec_Open_wp [OF c] row(3) scan_ref intro!: err split: option.split sum.split)
    qed
  qed
  then have "?Q body rsp w'" by (rule wp_run [OF _ run])
  then show ?thesis unfolding property_outcome_def .
qed

section \<open>Concrete worlds\<close>

lemmas demo_db_simps = demo_rt_ok demo_srv_sel demo_sec_sel demo_conn_rows set_configuration_def new_connection_def conn_is_def count_where_def

lemma demo_open: "mem_open env (srv_scope demo_srv ''bing'') \<lparr>cr_ID = ''c1'', cr_Type = ''api_key''\<rparr> pur (w_sec demo_sec) = Inr demo_material"
  by (simp add: mem_open_def demo_sec_def mem_put_def NewMemory_def demo_env_def srv_scope_def demo_srv_sel demo_scope_def)

lemma demo_row_ref: "pc_CredentialRef (scanConnection (hd (t_connections demo_conn))) = \<lparr>cr_ID = ''c1'', cr_Type = ''api_key''\<rparr>"
  by (simp add: demo_conn_rows scanConnection_def set_configuration_def)


theorem set_property_tested_witness:
  "\<exists>rsp w'. run_state (setProperty demo_rt demo_srv (Some ''q'') demo_req demo_sub) demo_sec = (rsp, w')
    \<and> rsp_status rsp = 200 \<and> map cn_property_reference (t_connections (w_db w')) = [''q'']"
proof -
  obtain rsp w' where run: "run_state (setProperty demo_rt demo_srv (Some ''q'') demo_req demo_sub) demo_sec = (rsp, w')" by force
  have q: "trim_space ''q'' = ''q''" by (rule trim_space_ascii; simp add: ascii_print_def)
  have "wp (setProperty demo_rt demo_srv (Some ''q'') demo_req demo_sub) (\<lambda>r v. rsp_status r = 200) demo_sec"
    by (simp add: setProperty_def demo_req_def demo_srv_sel wp_simps Let_def q get_connection_wp [OF demo_calm] sec_Open_wp [OF demo_calm] demo_sec_sel
        GetConnection_demo demo_row_ref demo_open demo_provider_def)
      (simp add: wp_simps ConfigureConnection_def Let_def demo_db_simps demo_audit writeJSON_def wp_return_eta)
  then have ok: "rsp_status rsp = 200" by (rule wp_run [OF _ run])
  have "db_reachable (w_db demo_sec)" by (simp add: demo_sec_sel demo_conn_reachable)
  from set_property_tested [OF demo_calm TrueI this run, unfolded if_P [OF ok]]
  have "map cn_property_reference (t_connections (w_db w')) = [''q'']" by (auto simp: demo_sec_sel demo_conn_rows set_configuration_def q demo_srv_sel demo_req_def conn_is_def new_connection_def)
  with run ok show ?thesis by (intro exI conjI)
qed

text \<open>A connection without a credential, and a pending authorization for the connection of \<open>demo_conn\<close>.\<close>

definition demo_bare :: db where
  "demo_bare = run_db_call (demo_db_env ''x'' 0) (DoEnsureConnection ''main'' ''bing'') (run_db_call (demo_db_env ''x'' 0) (DoEnsureSite demo_site) empty_db)"

definition demo_import :: import_request where
  "demo_import = \<lparr>ir_Provider = ''bing'', ir_Credential = \<lparr>sm_Type = ''api_key'', sm_Bytes = ''k2''\<rparr>, ir_PropertyReference = [], ir_Actor = [],
     ir_RetainOnDiscoveryFailure = False\<rparr>"

lemma demo_bare_rows: "t_connections demo_bare = [new_connection ''x'' ''main'' ''bing'' (format_time 0)]"
  by (simp add: demo_bare_def EnsureConnection_def EnsureSite_def empty_db_def site_exists_def demo_site_def demo_db_env_def Let_def conn_is_def)

lemma demo_bare_reachable: "db_reachable demo_bare"
  unfolding demo_bare_def by (intro db_reachable.intros)

theorem import_create_only_witness:
  "\<exists>res w'. run_state (ImportConnection demo_rt demo_srv demo_import) (demo_world demo_bare) = (Inr res, w') \<and> iz_Imported res
    \<and> (\<exists>i. mem_live (w_sec w') i = Some (demo_scope ''bing'', \<lparr>sm_Type = ''api_key'', sm_Bytes = ''k2''\<rparr>))"
proof -
  let ?w = "demo_world demo_bare"
  obtain res w' where run: "run_state (ImportConnection demo_rt demo_srv demo_import) ?w = (res, w')" by force
  have b: "trim_space ''bing'' = ''bing''" by (rule trim_space_ascii; simp add: ascii_print_def)
  have "wp (ImportConnection demo_rt demo_srv demo_import) (\<lambda>r v. \<exists>z. r = Inr z \<and> iz_Imported z) ?w"
    apply (simp add: ImportConnection_def demo_import_def b demo_trim demo_srv_sel wp_simps Let_def demo_provider_def get_connection_wp [OF demo_calm]
        GetConnection_def demo_bare_rows new_connection_def conn_is_def scanConnection_def sec_Put_def demo_rt_ok)
    apply (simp add: import_validate_def wp_simps sec_Open_wp [OF demo_calm] memory_ops_def mem_put_def mem_open_def demo_env_def Let_def
       import_swap_def demo_rt_ok)
    apply (simp add: ConfigureConnectionCAS_def Let_def demo_bare_rows new_connection_def conn_is_def demo_srv_sel count_where_def wp_simps demo_rt_ok
        get_connection_wp [OF demo_calm] AppendAudit_def GetConnection_def set_configuration_def)
    done
  then obtain z where z: "res = Inr z" "iz_Imported z" using wp_run [OF _ run] by blast
  have "db_reachable (w_db ?w)" by (simp add: demo_bare_reachable)
  moreover have "fresh_secrets demo_rt mem_live (\<lambda>_. True) ?w"
    by (simp add: fresh_secrets_def demo_world_def mem_live_def NewMemory_def demo_bare_rows new_connection_def demo_env_def)
  ultimately have "imported mem_live demo_srv demo_import ?w w'"
    using import_create_only [OF demo_calm TrueI _ _ run] z by auto
  then have "\<exists>i. mem_live (w_sec w') i = Some (demo_scope ''bing'', \<lparr>sm_Type = ''api_key'', sm_Bytes = ''k2''\<rparr>)"
    by (auto simp: imported_def installed_def demo_bare_rows new_connection_def scanConnection_def Let_def demo_import_def b demo_trim srv_scope_def demo_srv_sel demo_scope_def)
  then show ?thesis using run z by blast
qed

definition demo_pending :: oauth_state where
  "demo_pending = \<lparr>ost_State = ''s1'', ost_Provider = ''bing'', ost_SiteID = ''main'', ost_SubjectID = ''alice'',
     ost_PKCEVerifier = ''v'', ost_RedirectURI = ''r'', ost_ReturnTo = ''/'', ost_ExpiresAt = 0\<rparr>"

definition demo_oauth_world :: "memory world" where
  "demo_oauth_world = demo_sec\<lparr>w_db := run_db_call (demo_db_env ''x'' 0) (DoCreateState demo_pending 600000000000) demo_conn\<rparr>"

definition demo_oauth_srv :: server where
  "demo_oauth_srv = WithOAuthApps [''bing'' \<mapsto> \<lparr>oap_ClientID = ''id'', oap_ClientSecret = ''s'', oap_AuthURL = [], oap_TokenURL = [], oap_Scopes = []\<rparr>] demo_srv"

abbreviation demo_exchange :: "oauth_app \<Rightarrow> string \<Rightarrow> string \<Rightarrow> string \<Rightarrow> go_error + string" where
  "demo_exchange app redirect code verifier \<equiv> if code = ''code'' \<and> verifier = ''v'' then Inr ''token'' else Inl (Msg ''denied'')"

lemma demo_oauth_sel:
  "t_connections (w_db demo_oauth_world) = t_connections demo_conn" "w_sec demo_oauth_world = w_sec demo_sec"
  "t_oauth (w_db demo_oauth_world) = [oauth_row_of demo_pending 0 600000000000]"
proof -
  have "t_oauth demo_conn = []"
    by (simp add: demo_conn_def ConfigureConnection_def EnsureConnection_def EnsureSite_def empty_db_def Let_def split: option.split)
  then show "t_connections (w_db demo_oauth_world) = t_connections demo_conn" "w_sec demo_oauth_world = w_sec demo_sec"
    "t_oauth (w_db demo_oauth_world) = [oauth_row_of demo_pending 0 600000000000]"
    by (simp_all add: demo_oauth_world_def CreateOAuthState_def Let_def oauth_row_of_def)
qed

lemma demo_consume:
  "\<exists>d. ConsumeOAuthState (o_db (rt_sched demo_rt) n) ''s1'' ''bing'' ''main'' ''alice'' (w_db demo_oauth_world) = (Inr (scan_oauth (oauth_row_of demo_pending 0 600000000000)), d)
    \<and> t_connections d = t_connections demo_conn"
proof -
  have "format_time 0 < format_time 600000000000" using format_time_less [of 0 600000000000] by (simp add: time_ok_small)
  then show ?thesis by (simp add: ConsumeOAuthState_def Let_def demo_oauth_sel demo_rt_def oauth_row_of_def demo_pending_def)
qed


end
