(* ===== verification/GoURL.thy ===== *)
theory GoURL
  imports GoStrings
begin

text \<open>
  What the sources use of the package \<^verbatim>\<open>net/url\<close> (Go 1.25): percent-encoding, \<^verbatim>\<open>url.Parse\<close>, the methods \<^verbatim>\<open>String\<close>,
  \<^verbatim>\<open>EscapedPath\<close>, \<^verbatim>\<open>RequestURI\<close>, \<^verbatim>\<open>Hostname\<close> and \<^verbatim>\<open>IsAbs\<close>, \<^verbatim>\<open>url.PathEscape\<close> and \<^verbatim>\<open>url.Values.Encode\<close>. An error of the parser is
  \<open>None\<close>: no caller looks at its text. Bytes are characters, as in \<open>GoStrings\<close>.
\<close>

section \<open>Definitions\<close>

subsection \<open>Percent-encoding\<close>

datatype enc_mode = EncPath | EncPathSegment | EncHost | EncZone | EncUserPassword | EncQuery | EncFragment

definition byte :: "char \<Rightarrow> nat" where
  "byte c = of_char c"

definition is_alpha :: "char \<Rightarrow> bool" where
  "is_alpha c = (65 \<le> byte c \<and> byte c \<le> 90 \<or> 97 \<le> byte c \<and> byte c \<le> 122)"

definition shouldEscape :: "char \<Rightarrow> enc_mode \<Rightarrow> bool" where
  "shouldEscape c mode =
     (if is_alpha c \<or> is_digit c then False
      else if (mode = EncHost \<or> mode = EncZone) \<and> c \<in> set ''!$&()*+,;=:[]<>'' \<union> {CHR 0x27, CHR 0x22} then False
      else if c \<in> set ''-_.~'' then False
      else if c \<in> set ''$&+,/:;=?@'' \<and> mode \<noteq> EncHost \<and> mode \<noteq> EncZone then
        (case mode of
           EncPath \<Rightarrow> c = CHR ''?''
         | EncPathSegment \<Rightarrow> c \<in> set ''/;,?''
         | EncUserPassword \<Rightarrow> c \<in> set ''@/?:''
         | EncQuery \<Rightarrow> True
         | _ \<Rightarrow> False)
      else if mode = EncFragment \<and> c \<in> set ''!()*'' then False
      else True)"

definition unhex :: "char \<Rightarrow> nat option" where
  "unhex c =
     (if is_digit c then Some (byte c - 48)
      else if 97 \<le> byte c \<and> byte c \<le> 102 then Some (byte c - 97 + 10)
      else if 65 \<le> byte c \<and> byte c \<le> 70 then Some (byte c - 65 + 10)
      else None)"

definition hex_upper :: "nat \<Rightarrow> char" where
  "hex_upper n = (if n < 10 then char_of (48 + n) else char_of (65 + (n - 10)))"

text \<open>An escape \<open>%ab\<close> is refused in a host unless it stands for a byte outside ASCII or for the percent sign itself.\<close>

definition escape_ok :: "enc_mode \<Rightarrow> char \<Rightarrow> char \<Rightarrow> nat \<Rightarrow> nat \<Rightarrow> bool" where
  "escape_ok mode a b x y =
     ((mode = EncHost \<longrightarrow> x \<ge> 8 \<or> [a, b] = ''25'')
      \<and> (mode = EncZone \<longrightarrow> [a, b] = ''25'' \<or> 16 * x + y = 32 \<or> \<not> shouldEscape (char_of (16 * x + y)) EncHost))"

fun unescape :: "enc_mode \<Rightarrow> string \<Rightarrow> string option" where
  "unescape mode [] = Some []"
| "unescape mode (c # s) =
     (if c = CHR ''%'' then
        (case s of
           a # b # t \<Rightarrow>
             (case (unhex a, unhex b) of
                (Some x, Some y) \<Rightarrow>
                  if escape_ok mode a b x y then map_option ((#) (char_of (16 * x + y))) (unescape mode t) else None
              | _ \<Rightarrow> None)
         | _ \<Rightarrow> None)
      else if (mode = EncHost \<or> mode = EncZone) \<and> byte c < 128 \<and> shouldEscape c mode then None
      else map_option ((#) (if c = CHR ''+'' \<and> mode = EncQuery then CHR '' '' else c)) (unescape mode s))"

definition escape_char :: "enc_mode \<Rightarrow> char \<Rightarrow> string" where
  "escape_char mode c =
     (if c = CHR '' '' \<and> mode = EncQuery then ''+''
      else if shouldEscape c mode then [CHR ''%'', hex_upper (byte c div 16), hex_upper (byte c mod 16)]
      else [c])"

definition escape :: "enc_mode \<Rightarrow> string \<Rightarrow> string" where
  "escape mode s = concat (map (escape_char mode) s)"

definition valid_encoded_char :: "enc_mode \<Rightarrow> char \<Rightarrow> bool" where
  "valid_encoded_char mode c = (c \<in> set ''!$&()*+,;=:@[]%'' \<union> {CHR 0x27} \<or> \<not> shouldEscape c mode)"

definition validEncoded :: "enc_mode \<Rightarrow> string \<Rightarrow> bool" where
  "validEncoded mode s = list_all (valid_encoded_char mode) s"

subsection \<open>The type URL\<close>

record url =
  u_Scheme :: string
  u_Opaque :: string
  u_User :: "(string \<times> string option) option"
  u_Host :: string
  u_Path :: string
  u_RawPath :: string
  u_OmitHost :: bool
  u_ForceQuery :: bool
  u_RawQuery :: string
  u_Fragment :: string
  u_RawFragment :: string

definition no_url :: url where
  "no_url = \<lparr>u_Scheme = [], u_Opaque = [], u_User = None, u_Host = [], u_Path = [], u_RawPath = [], u_OmitHost = False,
     u_ForceQuery = False, u_RawQuery = [], u_Fragment = [], u_RawFragment = []\<rparr>"

definition contains_ctl :: "string \<Rightarrow> bool" where
  "contains_ctl s = list_ex (\<lambda>c. byte c < 32 \<or> byte c = 127) s"

text \<open>\<open>getScheme\<close>: \<open>None\<close> when the colon comes first; \<open>first\<close> says that no character was read yet.\<close>

fun get_scheme :: "bool \<Rightarrow> string \<Rightarrow> string \<Rightarrow> (string \<times> string) option" where
  "get_scheme first acc [] = Some ([], rev acc)"
| "get_scheme first acc (c # s) =
     (if is_alpha c then get_scheme False (c # acc) s
      else if is_digit c \<or> c \<in> set ''+-.'' then
        (if first then Some ([], c # s) else get_scheme False (c # acc) s)
      else if c = CHR '':'' then
        (if first then None else Some (rev acc, s))
      else Some ([], rev acc @ c # s))"

definition validOptionalPort :: "string \<Rightarrow> bool" where
  "validOptionalPort port = (case port of [] \<Rightarrow> True | c # ds \<Rightarrow> c = CHR '':'' \<and> list_all is_digit ds)"

text \<open>\<open>split_last c s\<close> splits at the last \<open>c\<close>: what is before it, and the rest, which starts with it.\<close>

definition split_last :: "char \<Rightarrow> string \<Rightarrow> (string \<times> string) option" where
  "split_last c s =
     (if c \<in> set s
      then Some (rev (tl (dropWhile (\<lambda>x. x \<noteq> c) (rev s))), c # rev (takeWhile (\<lambda>x. x \<noteq> c) (rev s)))
      else None)"

text \<open>The text form of an IPv6 address, as \<^verbatim>\<open>netip.ParseAddr\<close> accepts it: eight groups, or fewer with one ellipsis; an IPv4
  address may stand for the last two groups; a zone may follow.\<close>

definition ip4_field :: "string \<Rightarrow> bool" where
  "ip4_field f = (f \<noteq> [] \<and> length f \<le> 3 \<and> list_all is_digit f \<and> digits_val f \<le> 255 \<and> (length f > 1 \<longrightarrow> hd f \<noteq> CHR ''0''))"

definition is_ip4 :: "string \<Rightarrow> bool" where
  "is_ip4 s = (length (split_on (CHR ''.'') s) = 4 \<and> list_all ip4_field (split_on (CHR ''.'') s))"

definition ip6_group :: "string \<Rightarrow> bool" where
  "ip6_group g = (g \<noteq> [] \<and> length g \<le> 4 \<and> list_all (\<lambda>c. unhex c \<noteq> None) g)"

definition ip6_groups :: "bool \<Rightarrow> string \<Rightarrow> nat option" where
  "ip6_groups final s =
     (if s = [] then Some 0
      else let gs = split_on (CHR '':'') s in
        if list_all ip6_group gs then Some (length gs)
        else if final \<and> list_all ip6_group (butlast gs) \<and> is_ip4 (last gs) then Some (Suc (length gs))
        else None)"

fun split_ellipsis :: "string \<Rightarrow> string \<Rightarrow> (string \<times> string) option" where
  "split_ellipsis acc (a # b # s) = (if a = CHR '':'' \<and> b = CHR '':'' then Some (rev acc, s) else split_ellipsis (a # acc) (b # s))"
| "split_ellipsis acc s = None"

definition is_ip6 :: "string \<Rightarrow> bool" where
  "is_ip6 s =
     (case cut s (CHR ''%'') of (addr, zone, zoned) \<Rightarrow>
        (zoned \<longrightarrow> zone \<noteq> []) \<and>
        (case split_ellipsis [] addr of
           None \<Rightarrow> ip6_groups True addr = Some 8
         | Some (l, r) \<Rightarrow>
             (case (ip6_groups False l, ip6_groups True r) of
                (Some m, Some n) \<Rightarrow> m + n \<le> 7
              | _ \<Rightarrow> False)))"

text \<open>The zone of a bracketed host starts with the first \<open>%25\<close>.\<close>

fun split_zone :: "string \<Rightarrow> string \<Rightarrow> string \<times> string" where
  "split_zone acc [] = (rev acc, [])"
| "split_zone acc (c # s) = (if has_prefix (c # s) ''%25'' then (rev acc, c # s) else split_zone (c # acc) s)"

definition parseHost :: "string \<Rightarrow> string option" where
  "parseHost host =
     (if CHR ''['' \<in> set host then
        (if \<not> has_prefix host ''['' \<or> CHR ''['' \<in> set (tl host) then None
         else case split_last (CHR '']'') host of
           None \<Rightarrow> None
         | Some (pre, colonPort0) \<Rightarrow>
             let colonPort = tl colonPort0; (h, z) = split_zone [] (tl pre) in
             if \<not> validOptionalPort colonPort then None
             else (case (unescape EncHost h, unescape EncZone z, unescape EncHost colonPort) of
                 (Some h', Some z', Some p') \<Rightarrow> if is_ip6 (h' @ z') then Some (''['' @ h' @ z' @ '']'' @ p') else None
               | _ \<Rightarrow> None))
      else if (case split_last (CHR '':'') host of None \<Rightarrow> False | Some (_, colonPort) \<Rightarrow> \<not> validOptionalPort colonPort) then None
      else unescape EncHost host)"

definition validUserinfo :: "string \<Rightarrow> bool" where
  "validUserinfo s = list_all (\<lambda>c. is_alpha c \<or> is_digit c \<or> c \<in> set ''-._:~!$&()*+,;=%@'' \<union> {CHR 0x27}) s"

definition parse_userinfo :: "string \<Rightarrow> (string \<times> string option) option" where
  "parse_userinfo s =
     (if \<not> validUserinfo s then None
      else if CHR '':'' \<notin> set s then map_option (\<lambda>n. (n, None)) (unescape EncUserPassword s)
      else (case cut s (CHR '':'') of (n, p, _) \<Rightarrow>
          (case (unescape EncUserPassword n, unescape EncUserPassword p) of
             (Some n', Some p') \<Rightarrow> Some (n', Some p')
           | _ \<Rightarrow> None)))"

definition parseAuthority :: "string \<Rightarrow> ((string \<times> string option) option \<times> string) option" where
  "parseAuthority authority =
     (case split_last (CHR ''@'') authority of
        None \<Rightarrow> map_option (Pair None) (parseHost authority)
      | Some (userinfo, host0) \<Rightarrow>
          (case parseHost (tl host0) of
             None \<Rightarrow> None
           | Some host \<Rightarrow> map_option (\<lambda>ui. (Some ui, host)) (parse_userinfo userinfo)))"

definition setPath :: "string \<Rightarrow> url \<Rightarrow> url option" where
  "setPath p u =
     (case unescape EncPath p of
        None \<Rightarrow> None
      | Some path \<Rightarrow> Some (u\<lparr>u_Path := path, u_RawPath := (if p = escape EncPath path then [] else p)\<rparr>))"

definition setFragment :: "string \<Rightarrow> url \<Rightarrow> url option" where
  "setFragment f u =
     (case unescape EncFragment f of
        None \<Rightarrow> None
      | Some frag \<Rightarrow> Some (u\<lparr>u_Fragment := frag, u_RawFragment := (if f = escape EncFragment frag then [] else f)\<rparr>))"

definition split_query :: "string \<Rightarrow> string \<times> bool \<times> string" where
  "split_query rest =
     (if rest \<noteq> [] \<and> last rest = CHR ''?'' \<and> CHR ''?'' \<notin> set (butlast rest) then (butlast rest, True, [])
      else case cut rest (CHR ''?'') of (r, q, _) \<Rightarrow> (r, False, q))"

definition parse_rest :: "string \<Rightarrow> string \<Rightarrow> url \<Rightarrow> url option" where
  "parse_rest scheme rest u =
     (if \<not> has_prefix rest ''/'' \<and> scheme \<noteq> [] then Some (u\<lparr>u_Opaque := rest\<rparr>)
      else if \<not> has_prefix rest ''/'' \<and> contains_char (fst (cut rest (CHR ''/''))) (CHR '':'') then None
      else if (scheme \<noteq> [] \<or> \<not> has_prefix rest ''///'') \<and> has_prefix rest ''//'' then
        (let authority = takeWhile (\<lambda>c. c \<noteq> CHR ''/'') (drop 2 rest); path = dropWhile (\<lambda>c. c \<noteq> CHR ''/'') (drop 2 rest) in
         case parseAuthority authority of
           None \<Rightarrow> None
         | Some (user, host) \<Rightarrow> setPath path (u\<lparr>u_User := user, u_Host := host\<rparr>))
      else setPath rest (u\<lparr>u_OmitHost := (scheme \<noteq> [] \<and> has_prefix rest ''/'')\<rparr>))"

definition parse_url :: "string \<Rightarrow> url option" where
  "parse_url raw =
     (if contains_ctl raw then None
      else if raw = ''*'' then Some (no_url\<lparr>u_Path := ''*''\<rparr>)
      else case get_scheme True [] raw of
          None \<Rightarrow> None
        | Some (scheme0, rest0) \<Rightarrow>
            (let scheme = to_lower scheme0 in
             case split_query rest0 of (rest, force, query) \<Rightarrow>
               parse_rest scheme rest (no_url\<lparr>u_Scheme := scheme, u_ForceQuery := force, u_RawQuery := query\<rparr>)))"

definition Parse :: "string \<Rightarrow> url option" where
  "Parse raw =
     (case cut raw (CHR ''#'') of (u, frag, _) \<Rightarrow>
        (case parse_url u of
           None \<Rightarrow> None
         | Some url \<Rightarrow> if frag = [] then Some url else setFragment frag url))"

subsection \<open>Methods\<close>

definition IsAbs :: "url \<Rightarrow> bool" where
  "IsAbs u = (u_Scheme u \<noteq> [])"

definition EscapedPath :: "url \<Rightarrow> string" where
  "EscapedPath u =
     (if u_RawPath u \<noteq> [] \<and> validEncoded EncPath (u_RawPath u) \<and> unescape EncPath (u_RawPath u) = Some (u_Path u) then u_RawPath u
      else if u_Path u = ''*'' then ''*''
      else escape EncPath (u_Path u))"

definition EscapedFragment :: "url \<Rightarrow> string" where
  "EscapedFragment u =
     (if u_RawFragment u \<noteq> [] \<and> validEncoded EncFragment (u_RawFragment u) \<and> unescape EncFragment (u_RawFragment u) = Some (u_Fragment u)
      then u_RawFragment u else escape EncFragment (u_Fragment u))"

definition userinfo_text :: "string \<times> string option \<Rightarrow> string" where
  "userinfo_text ui = escape EncUserPassword (fst ui) @ (case snd ui of None \<Rightarrow> [] | Some p \<Rightarrow> '':'' @ escape EncUserPassword p)"

definition query_text :: "url \<Rightarrow> string" where
  "query_text u = (if u_ForceQuery u \<or> u_RawQuery u \<noteq> [] then ''?'' @ u_RawQuery u else [])"

definition authority_text :: "url \<Rightarrow> string" where
  "authority_text u =
     (if (u_Scheme u \<noteq> [] \<or> u_Host u \<noteq> [] \<or> u_User u \<noteq> None) \<and> \<not> (u_OmitHost u \<and> u_Host u = [] \<and> u_User u = None)
      then (if u_Host u \<noteq> [] \<or> u_Path u \<noteq> [] \<or> u_User u \<noteq> None then ''//'' else [])
        @ (case u_User u of None \<Rightarrow> [] | Some ui \<Rightarrow> userinfo_text ui @ ''@'')
        @ escape EncHost (u_Host u)
      else [])"

definition String :: "url \<Rightarrow> string" where
  "String u =
     (if u_Scheme u \<noteq> [] then u_Scheme u @ '':'' else [])
     @ (if u_Opaque u \<noteq> [] then u_Opaque u
        else let path = EscapedPath u; auth = authority_text u in
          auth @ (if path \<noteq> [] \<and> hd path \<noteq> CHR ''/'' \<and> u_Host u \<noteq> [] then ''/'' else [])
          @ (if u_Scheme u = [] \<and> auth = [] \<and> contains_char (fst (cut path (CHR ''/''))) (CHR '':'')
             then ''./'' else [])
          @ path)
     @ query_text u
     @ (if u_Fragment u \<noteq> [] then ''#'' @ EscapedFragment u else [])"

definition RequestURI :: "url \<Rightarrow> string" where
  "RequestURI u =
     (if u_Opaque u = [] then (if EscapedPath u = [] then ''/'' else EscapedPath u)
      else if has_prefix (u_Opaque u) ''//'' then u_Scheme u @ '':'' @ u_Opaque u else u_Opaque u)
     @ query_text u"

definition Hostname :: "url \<Rightarrow> string" where
  "Hostname u =
     (let host = (case split_last (CHR '':'') (u_Host u) of
                    None \<Rightarrow> u_Host u
                  | Some (h, port) \<Rightarrow> if validOptionalPort port then h else u_Host u) in
      if has_prefix host ''['' \<and> has_suffix host '']'' then butlast (tl host) else host)"

subsection \<open>Query strings\<close>

definition PathEscape :: "string \<Rightarrow> string" where
  "PathEscape = escape EncPathSegment"

definition QueryEscape :: "string \<Rightarrow> string" where
  "QueryEscape = escape EncQuery"

text \<open>\<^verbatim>\<open>Values.Encode\<close> for one value per key: sorted by key.\<close>

definition Encode :: "(string \<times> string) list \<Rightarrow> string" where
  "Encode vs = join ''&'' (map (\<lambda>(k, v). QueryEscape k @ ''='' @ QueryEscape v) (sort_key fst vs))"

section \<open>Encoding\<close>

lemma byte_less [simp]: "byte c < 256"
  by (simp add: byte_def)

lemma unhex_hex_upper: "n < 16 \<Longrightarrow> unhex (hex_upper n) = Some n"
  by (auto simp: hex_upper_def unhex_def byte_def is_digit_def)

lemma percent_escaped: "shouldEscape (CHR ''%'') mode"
  by (simp add: shouldEscape_def is_alpha_def byte_def is_digit_def)

text \<open>Outside of hosts, decoding undoes encoding.\<close>

lemma unescape_escape_char:
  assumes "mode \<noteq> EncHost" "mode \<noteq> EncZone"
  shows "unescape mode (escape_char mode c @ s) = map_option ((#) c) (unescape mode s)"
proof (cases "c = CHR '' '' \<and> mode = EncQuery")
  case True
  then show ?thesis by (simp add: escape_char_def)
next
  case space: False
  show ?thesis
  proof (cases "shouldEscape c mode")
    case True
    have "16 * (byte c div 16) + byte c mod 16 = byte c" by simp
    moreover have "byte c div 16 < 16" using byte_less [of c] by (simp add: div_less_iff_less_mult)
    ultimately show ?thesis
      using True assms unfolding escape_char_def if_not_P [OF space] if_P [OF True]
      by (simp add: unhex_hex_upper escape_ok_def) (simp add: byte_def)
  next
    case False
    then have "c \<noteq> CHR ''%''" using percent_escaped by metis
    moreover have "\<not> (c = CHR ''+'' \<and> mode = EncQuery)" using False by (auto simp: shouldEscape_def is_alpha_def is_digit_def byte_def)
    ultimately show ?thesis
      using False assms unfolding escape_char_def if_not_P [OF space] if_not_P [OF False] by auto
  qed
qed

lemma unescape_escape: "mode \<noteq> EncHost \<Longrightarrow> mode \<noteq> EncZone \<Longrightarrow> unescape mode (escape mode s) = Some s"
  by (induction s) (simp_all add: escape_def unescape_escape_char)

lemma PathEscape_no_slash: "CHR ''/'' \<notin> set (PathEscape s)" "CHR ''?'' \<notin> set (PathEscape s)"
proof -
  have h: "hex_upper n \<noteq> CHR ''/'' \<and> hex_upper n \<noteq> CHR ''?''" if "n < 16" for n
    using unhex_hex_upper [OF that] by (auto simp: unhex_def is_digit_def byte_def)
  have sl: "shouldEscape (CHR ''/'') EncPathSegment" "shouldEscape (CHR ''?'') EncPathSegment"
    by (simp_all add: shouldEscape_def is_alpha_def is_digit_def byte_def)
  have "CHR ''/'' \<notin> set (escape_char EncPathSegment c) \<and> CHR ''?'' \<notin> set (escape_char EncPathSegment c)" for c
  proof (cases "shouldEscape c EncPathSegment")
    case True
    have "byte c div 16 < 16" using byte_less [of c] by (simp add: div_less_iff_less_mult)
    then show ?thesis using True h [of "byte c div 16"] h [of "byte c mod 16"] by (auto simp: escape_char_def)
  next
    case False
    then have "c \<noteq> CHR ''/''" "c \<noteq> CHR ''?''" using sl by metis+
    then show ?thesis using False by (simp add: escape_char_def)
  qed
  then show "CHR ''/'' \<notin> set (PathEscape s)" "CHR ''?'' \<notin> set (PathEscape s)" by (simp_all add: PathEscape_def escape_def)
qed

section \<open>Parsing\<close>

lemma get_scheme_none: "get_scheme first acc s = Some ([], r) \<Longrightarrow> (first \<longleftrightarrow> acc = []) \<Longrightarrow> r = rev acc @ s"
  by (induction first acc s rule: get_scheme.induct) (auto split: if_splits)

lemma split_query_text:
  assumes "split_query r = (r', force, q)"
  shows "r = r' @ (if force \<or> q \<noteq> [] then ''?'' @ q else [])" "CHR ''?'' \<notin> set r'"
proof -
  show "r = r' @ (if force \<or> q \<noteq> [] then ''?'' @ q else [])"
  proof (cases "CHR ''?'' \<in> set r")
    case False
    then have "\<not> (r \<noteq> [] \<and> last r = CHR ''?'' \<and> CHR ''?'' \<notin> set (butlast r))" using last_in_set by metis
    then show ?thesis using assms False by (auto simp: split_query_def cut_def)
  next
    case True
    define a b where "a = takeWhile (\<lambda>x. x \<noteq> CHR ''?'') r" and "b = tl (dropWhile (\<lambda>x. x \<noteq> CHR ''?'') r)"
    have r: "r = a @ CHR ''?'' # b" "CHR ''?'' \<notin> set a"
    proof -
      have "dropWhile (\<lambda>x. x \<noteq> CHR ''?'') r \<noteq> []" using True by (simp add: dropWhile_eq_Nil_conv)
      then have "dropWhile (\<lambda>x. x \<noteq> CHR ''?'') r = CHR ''?'' # b" using hd_dropWhile [of "\<lambda>x. x \<noteq> CHR ''?''" r]
        by (cases "dropWhile (\<lambda>x. x \<noteq> CHR ''?'') r") (auto simp: b_def)
      then show "r = a @ CHR ''?'' # b" using takeWhile_dropWhile_id [of "\<lambda>x. x \<noteq> CHR ''?''" r] by (simp add: a_def)
      show "CHR ''?'' \<notin> set a" unfolding a_def by (auto dest: set_takeWhileD)
    qed
    have c: "cut r (CHR ''?'') = (a, b, True)" using cut_found [OF r(2)] r(1) by simp
    show ?thesis
    proof (cases "b = []")
      case True
      then show ?thesis using assms r by (simp add: split_query_def)
    next
      case False
      then show ?thesis using assms c r by (auto simp: split_query_def butlast_append split: if_splits)
    qed
  qed
  show "CHR ''?'' \<notin> set r'"
    using assms by (auto simp: split_query_def cut_def dest: set_takeWhileD split: if_splits)
qed

text \<open>
  A reference without a scheme that does not start with two slashes is a path and a query. If the path is
  validly encoded, the reference comes back from \<open>RequestURI\<close> as it was, up to the fragment.
\<close>

lemma EscapedPath_setPath:
  assumes "setPath p u = Some u'" "u_Path u' \<noteq> ''*''" "validEncoded EncPath p"
  shows "EscapedPath u' = p"
  using assms by (auto simp: setPath_def EscapedPath_def escape_def split: option.splits if_splits)

lemma parse_rest_local:
  assumes "parse_rest [] rest u = Some u'" "\<not> has_prefix rest ''//''"
  shows "setPath rest (u\<lparr>u_OmitHost := False\<rparr>) = Some u'"
  using assms by (simp add: parse_rest_def split: if_splits)

lemma setPath_keeps:
  "setPath p u = Some u' \<Longrightarrow> u_Opaque u' = u_Opaque u \<and> u_Host u' = u_Host u \<and> u_User u' = u_User u \<and> query_text u' = query_text u
    \<and> u_Fragment u' = u_Fragment u \<and> u_Scheme u' = u_Scheme u"
  by (auto simp: setPath_def query_text_def split: option.splits)

lemma RequestURI_fragment: "RequestURI (u\<lparr>u_Fragment := f, u_RawFragment := g\<rparr>) = RequestURI u"
  by (simp add: RequestURI_def EscapedPath_def query_text_def)

lemma setFragment_keeps:
  "setFragment f u = Some u' \<Longrightarrow> RequestURI u' = RequestURI u \<and> u_Path u' = u_Path u \<and> u_Host u' = u_Host u \<and> u_User u' = u_User u
    \<and> u_Scheme u' = u_Scheme u"
  unfolding setFragment_def by (cases "unescape EncFragment f") (auto simp: RequestURI_fragment)

lemma parse_rest_scheme: "parse_rest sch rest u = Some u' \<Longrightarrow> u_Scheme u' = u_Scheme u"
  by (auto simp: parse_rest_def Let_def dest!: setPath_keeps split: if_splits option.splits)

lemma parse_url_local:
  assumes "parse_url raw = Some u" "u_Scheme u = []" "\<not> has_prefix raw ''//''" "u_Path u \<noteq> ''*''" "u_Path u \<noteq> []"
    "validEncoded EncPath (takeWhile (\<lambda>c. c \<noteq> CHR ''?'') raw)"
  shows "RequestURI u = raw"
proof -
  have star: "raw \<noteq> ''*''" using assms(1,4) by (auto simp: parse_url_def contains_ctl_def byte_def)
  then obtain sch rest0 where g: "get_scheme True [] raw = Some (sch, rest0)" using assms(1) by (auto simp: parse_url_def split: if_splits option.splits)
  obtain rest force q where q: "split_query rest0 = (rest, force, q)" by (cases "split_query rest0") auto
  let ?u = "no_url\<lparr>u_Scheme := to_lower sch, u_ForceQuery := force, u_RawQuery := q\<rparr>"
  have "\<not> contains_ctl raw" using assms(1) by (auto simp: parse_url_def)
  then have p: "parse_rest (to_lower sch) rest ?u = Some u"
    using assms(1) star by (simp add: parse_url_def Let_def g q)
  have "u_Scheme u = to_lower sch"
    using parse_rest_scheme [OF p] by simp
  then have sch: "sch = []" using assms(2) by (simp add: to_lower_def)
  then have raw: "rest0 = raw" using get_scheme_none [of True "[]" raw rest0] g by simp
  note t = split_query_text [OF q, unfolded raw]
  have "\<not> has_prefix rest ''//''" using assms(3) t(1) unfolding has_prefix_iff by (metis append.assoc)
  from parse_rest_local [OF p [unfolded sch to_lower_def list.map] this]
  have sp: "setPath rest (no_url\<lparr>u_Scheme := [], u_ForceQuery := force, u_RawQuery := q, u_OmitHost := False\<rparr>) = Some u" by simp
  have "takeWhile (\<lambda>c. c \<noteq> CHR ''?'') raw = rest"
    by (subst t(1), subst takeWhile_append2) (use t(2) in auto)
  then have e: "EscapedPath u = rest" using EscapedPath_setPath [OF sp assms(4)] assms(6) by simp
  have "rest \<noteq> []" using sp assms(5) by (auto simp: setPath_def)
  then show ?thesis using e setPath_keeps [OF sp] t(1) by (auto simp: RequestURI_def query_text_def no_url_def)
qed

lemma Parse_local:
  assumes "Parse raw = Some u" "u_Scheme u = []" "\<not> has_prefix raw ''//''" "u_Path u \<noteq> ''*''" "u_Path u \<noteq> []"
    "validEncoded EncPath (takeWhile (\<lambda>c. c \<noteq> CHR ''?'') (takeWhile (\<lambda>c. c \<noteq> CHR ''#'') raw))"
  shows "RequestURI u = takeWhile (\<lambda>c. c \<noteq> CHR ''#'') raw"
proof -
  let ?r = "takeWhile (\<lambda>c. c \<noteq> CHR ''#'') raw"
  obtain frag b where c: "cut raw (CHR ''#'') = (?r, frag, b)"
  proof (cases "CHR ''#'' \<in> set raw")
    case True
    then show thesis using that by (simp add: cut_def)
  next
    case False
    then have "takeWhile (\<lambda>c. c \<noteq> CHR ''#'') raw = raw" "cut raw (CHR ''#'') = (raw, [], False)"
      by (auto simp: takeWhile_eq_all_conv cut_def)
    then show thesis using that by metis
  qed
  then obtain v where v: "parse_url ?r = Some v" "RequestURI u = RequestURI v" "u_Path u = u_Path v" "u_Scheme u = u_Scheme v"
    using assms(1) setFragment_keeps by (auto simp: Parse_def split: option.splits if_splits)
  have "\<not> has_prefix ?r ''//''" using assms(3) takeWhile_dropWhile_id [of "\<lambda>c. c \<noteq> CHR ''#''" raw]
    by (metis append.assoc has_prefix_iff)
  then show ?thesis using parse_url_local [OF v(1)] assms v by simp
qed

end
