(* ===== verification/Authorize.thy ===== *)
theory Authorize
  imports ConnectionFlows GoURL
begin

text \<open>
  Starting an OAuth authorization (\<^verbatim>\<open>internal/httpapi/oauth.go\<close>): the checks of the redirect address and of the return path, the
  random state and verifier, and the row that binds them to the subject. The random bytes, the hash function and the
  composition of the authorization address by the library \<^verbatim>\<open>oauth2\<close> are parameters.
\<close>

section \<open>Definitions\<close>

fun containsCredentialType :: "string list \<Rightarrow> string \<Rightarrow> bool" where
  "containsCredentialType [] want = False"
| "containsCredentialType (t # ts) want = (if t = want then True else containsCredentialType ts want)"

definition isLoopbackHost :: "string \<Rightarrow> bool" where
  "isLoopbackHost host = (equal_fold host ''localhost'' \<or> host = ''127.0.0.1'' \<or> host = ''::1'')"

definition safeReturnTo :: "string \<Rightarrow> go_error + string" where
  "safeReturnTo raw =
     (let value = trim_space raw in
      if value = [] then Inr ''/''
      else case Parse value of
          None \<Rightarrow> Inl (Msg ''unsafe return path'')
        | Some parsed \<Rightarrow>
            if IsAbs parsed \<or> u_Host parsed \<noteq> [] \<or> u_User parsed \<noteq> None \<or> u_Fragment parsed \<noteq> []
               \<or> \<not> has_prefix (u_Path parsed) ''/'' \<or> has_prefix value ''//'' \<or> contains_char value (CHR 0x5C)
            then Inl (Msg ''unsafe return path'')
            else Inr (RequestURI parsed))"

text \<open>\<^verbatim>\<open>base64.RawURLEncoding\<close>.\<close>

definition b64_char :: "nat \<Rightarrow> char" where
  "b64_char n = ''ABCDEFGHIJKLMNOPQRSTUVWXYZabcdefghijklmnopqrstuvwxyz0123456789-_'' ! n"

fun base64url :: "nat list \<Rightarrow> string" where
  "base64url (a # b # c # s) =
     [b64_char (a div 4), b64_char (a mod 4 * 16 + b div 16), b64_char (b mod 16 * 4 + c div 64), b64_char (c mod 64)] @ base64url s"
| "base64url [a, b] = [b64_char (a div 4), b64_char (a mod 4 * 16 + b div 16), b64_char (b mod 16 * 4)]"
| "base64url [a] = [b64_char (a div 4), b64_char (a mod 4 * 16)]"
| "base64url [] = []"

text \<open>\<open>rand n k\<close> are the \<open>k\<close> bytes that the call number \<open>n\<close> gets from \<^verbatim>\<open>crypto/rand\<close>, or \<open>None\<close> if reading them fails.\<close>

definition randomToken :: "(nat \<Rightarrow> nat \<Rightarrow> nat list option) \<Rightarrow> 's runtime \<Rightarrow> nat \<Rightarrow> ('s world, string option) state" where
  "randomToken rand rt k = ask rt (\<lambda>_ n. map_option base64url (rand n k))"

record oauth_start_body =
  osb_RedirectURI :: string
  osb_ReturnTo :: string

definition oauthStateTTL :: int where
  "oauthStateTTL = 10 * minute_ns"

definition redirect_ok :: "url \<Rightarrow> bool" where
  "redirect_ok redirect =
     (\<not> (\<not> IsAbs redirect \<or> u_User redirect \<noteq> None \<or> u_Fragment redirect \<noteq> []
        \<or> u_Scheme redirect \<noteq> ''https'' \<and> \<not> isLoopbackHost (Hostname redirect)))"

definition pending_state :: "server \<Rightarrow> string \<Rightarrow> subject \<Rightarrow> string \<Rightarrow> string \<Rightarrow> url \<Rightarrow> string \<Rightarrow> oauth_state" where
  "pending_state s provider sub st verifier redirect returnTo =
     \<lparr>ost_State = st, ost_Provider = provider, ost_SiteID = site_ID (srv_site s), ost_SubjectID = sub_ID sub,
      ost_PKCEVerifier = verifier, ost_RedirectURI = String redirect, ost_ReturnTo = returnTo, ost_ExpiresAt = zero_time\<rparr>"

definition authorize_params :: "(string \<Rightarrow> nat list) \<Rightarrow> url \<Rightarrow> string \<Rightarrow> (string \<times> string) list" where
  "authorize_params sha256 redirect verifier =
     [(''redirect_uri'', String redirect), (''code_challenge'', base64url (sha256 verifier)), (''code_challenge_method'', ''S256''),
      (''access_type'', ''offline''), (''prompt'', ''consent'')]"

text \<open>\<open>auth_code_url app state params\<close> is \<^verbatim>\<open>oauth2.Config.AuthCodeURL\<close>.\<close>

definition oauthStart ::
  "(nat \<Rightarrow> nat \<Rightarrow> nat list option) \<Rightarrow> (string \<Rightarrow> nat list) \<Rightarrow> (oauth_app \<Rightarrow> string \<Rightarrow> (string \<times> string) list \<Rightarrow> string) \<Rightarrow>
   's runtime \<Rightarrow> server \<Rightarrow> oauth_start_body option \<Rightarrow> 's handler" where
  "oauthStart rand sha256 auth_code_url rt s body r sub =
     (let provider = rq_Path r in
      if \<not> (case Get (srv_registry s) provider of None \<Rightarrow> False
            | Some p \<Rightarrow> containsCredentialType (d_CredentialTypes (Descriptor p)) ''oauth2'')
      then State_Monad.return (writeError 404 ''provider does not support OAuth'')
      else case srv_oauthApps s provider of
        None \<Rightarrow> State_Monad.return (writeError 404 ''provider has no OAuth client configured'')
      | Some app \<Rightarrow>
          (case body of
             None \<Rightarrow> State_Monad.return (writeError 400 ''invalid JSON body'')
           | Some b \<Rightarrow>
               (case Parse (trim_space (osb_RedirectURI b)) of
                  None \<Rightarrow> State_Monad.return (writeError 400 ''redirect_uri must be absolute and https (or loopback)'')
                | Some redirect \<Rightarrow>
                    if \<not> redirect_ok redirect
                    then State_Monad.return (writeError 400 ''redirect_uri must be absolute and https (or loopback)'')
                    else if String redirect \<noteq> srv_oauthCallbackURL s
                    then State_Monad.return (writeError 400 ''redirect_uri must match the configured OAuth callback'')
                    else (case safeReturnTo (osb_ReturnTo b) of
                        Inl _ \<Rightarrow> State_Monad.return (writeError 400 ''return_to must be a local absolute path'')
                      | Inr returnTo \<Rightarrow>
                          do { st \<leftarrow> randomToken rand rt 32;
                               case st of
                                 None \<Rightarrow> State_Monad.return (writeError 500 ''create authorization state'')
                               | Some st \<Rightarrow>
                                   do { vf \<leftarrow> randomToken rand rt 48;
                                        case vf of
                                          None \<Rightarrow> State_Monad.return (writeError 500 ''create authorization state'')
                                        | Some verifier \<Rightarrow>
                                            do { created \<leftarrow> db_exec rt (\<lambda>env. CreateOAuthState env (pending_state s provider sub st verifier redirect returnTo) oauthStateTTL);
                                                 case created of
                                                   Some _ \<Rightarrow> State_Monad.return (writeError 500 ''create oauth state'')
                                                 | None \<Rightarrow>
                                                     do { _ \<leftarrow> audit rt sub ''connection.oauth.start'' provider ''ok'';
                                                          State_Monad.return (writeJSON 200 (JObj
                                                            [(''authorize_url'', JStr (auth_code_url app st (authorize_params sha256 redirect verifier))),
                                                             (''state'', JStr st)])) } } } }))))"

section \<open>The return path\<close>

text \<open>
  C21: a return path that is accepted, written with an absolute and validly encoded path, is stored as it was given up to an empty
  fragment; it starts with exactly one slash, so the browser stays on the same host.
\<close>

theorem safe_return_local:
  assumes ok: "safeReturnTo raw = Inr v" and ne: "trim_space raw \<noteq> []" and path: "has_prefix (trim_space raw) ''/''"
    and valid: "validEncoded EncPath (takeWhile (\<lambda>c. c \<noteq> CHR ''?'') (takeWhile (\<lambda>c. c \<noteq> CHR ''#'') (trim_space raw)))"
  shows "v = takeWhile (\<lambda>c. c \<noteq> CHR ''#'') (trim_space raw) \<and> has_prefix v ''/'' \<and> \<not> has_prefix v ''//'' \<and> CHR 0x5C \<notin> set v"
proof -
  let ?raw = "trim_space raw"
  obtain u where u: "Parse ?raw = Some u" "u_Scheme u = []" "has_prefix (u_Path u) ''/''" "\<not> has_prefix ?raw ''//''"
      "CHR 0x5C \<notin> set ?raw" "v = RequestURI u"
    using ok ne by (auto simp: safeReturnTo_def Let_def IsAbs_def contains_char_def split: option.splits if_splits)
  have "u_Path u \<noteq> ''*''" "u_Path u \<noteq> []" using u(3) by (auto simp: has_prefix_def)
  then have v: "v = takeWhile (\<lambda>c. c \<noteq> CHR ''#'') ?raw"
    using Parse_local [OF u(1,2,4) _ _ valid] u(6) by simp
  obtain t where t: "?raw = CHR ''/'' # t" using path by (auto simp: has_prefix_iff)
  have "\<not> has_prefix v ''//''" using u(4) t unfolding v by (cases t) (auto simp: has_prefix_def split: if_splits)
  moreover have "has_prefix v ''/''" using t unfolding v by (simp add: has_prefix_def)
  moreover have "CHR 0x5C \<notin> set v" using u(5) unfolding v by (auto dest: set_takeWhileD)
  ultimately show ?thesis using v by simp
qed

text \<open>
  The condition on the encoding is needed: a path with a character that has to be escaped is
  rebuilt from its decoded form, and an encoded slash becomes a slash. The accepted return path then names a foreign host.
\<close>

lemma return_to_open_redirect:
  "safeReturnTo ''/%2Fevil.example/a b'' = Inr ''//evil.example/a%20b''"
proof -
  have t: "trim_space ''/%2Fevil.example/a b'' = ''/%2Fevil.example/a b''" by (rule trim_space_ascii; simp add: ascii_print_def)
  have "Parse ''/%2Fevil.example/a b'' = Some (no_url\<lparr>u_Path := ''//evil.example/a b'', u_RawPath := ''/%2Fevil.example/a b''\<rparr>)"
    by code_simp
  moreover have "RequestURI (no_url\<lparr>u_Path := ''//evil.example/a b'', u_RawPath := ''/%2Fevil.example/a b''\<rparr>) = ''//evil.example/a%20b''"
    by code_simp
  ultimately show ?thesis by (simp add: safeReturnTo_def t IsAbs_def no_url_def has_prefix_def contains_char_def)
qed

section \<open>Starting an authorization\<close>

definition start_outcome ::
  "(string \<Rightarrow> nat list) \<Rightarrow> (oauth_app \<Rightarrow> string \<Rightarrow> (string \<times> string) list \<Rightarrow> string) \<Rightarrow> server \<Rightarrow> string \<Rightarrow> subject \<Rightarrow> oauth_start_body option \<Rightarrow>
   's world \<Rightarrow> response \<Rightarrow> 's world \<Rightarrow> bool" where
  "start_outcome sha256 url s p sub body w rsp w' \<longleftrightarrow>
     w_sec w' = w_sec w \<and> t_connections (w_db w') = t_connections (w_db w) \<and>
     (if rsp_status rsp = 200
      then \<exists>b app redirect returnTo st verifier now. body = Some b \<and> srv_oauthApps s p = Some app
        \<and> Parse (trim_space (osb_RedirectURI b)) = Some redirect \<and> String redirect = srv_oauthCallbackURL s
        \<and> (u_Scheme redirect = ''https'' \<or> isLoopbackHost (Hostname redirect)) \<and> safeReturnTo (osb_ReturnTo b) = Inr returnTo
        \<and> (\<forall>x \<in> set (t_oauth (w_db w)). oa_state x \<noteq> st)
        \<and> t_oauth (w_db w') = t_oauth (w_db w) @ [oauth_row_of (pending_state s p sub st verifier redirect returnTo) now oauthStateTTL]
        \<and> rsp_body rsp = JObj [(''authorize_url'', JStr (url app st (authorize_params sha256 redirect verifier))), (''state'', JStr st)]
      else t_oauth (w_db w') = t_oauth (w_db w))"

lemma start_err:
  "code \<noteq> 200 \<Longrightarrow> start_outcome sha256 url s p sub body w (writeError code m) (w\<lparr>w_tick := n\<rparr>)"
  "code \<noteq> 200 \<Longrightarrow> start_outcome sha256 url s p sub body w (writeError code m) w"
  by (simp_all add: start_outcome_def writeError_def writeJSON_def)

lemma start_okI:
  assumes "w_sec v = w_sec w" "t_connections (w_db v) = t_connections (w_db w)" "srv_oauthApps s p = Some app"
    "Parse (trim_space (osb_RedirectURI b)) = Some redirect" "redirect_ok redirect" "String redirect = srv_oauthCallbackURL s"
    "safeReturnTo (osb_ReturnTo b) = Inr returnTo" "st \<notin> oa_state ` set (t_oauth (w_db w))"
    "t_oauth (w_db v) = t_oauth (w_db w) @ [oauth_row_of (pending_state s p sub st verifier redirect returnTo) now oauthStateTTL]"
  shows "start_outcome sha256 url s p sub (Some b) w (writeJSON 200 (JObj
    [(''authorize_url'', JStr (url app st (authorize_params sha256 redirect verifier))), (''state'', JStr st)])) v"
proof -
  have ok: "rsp_status (writeJSON 200 j) = 200" for j by (simp add: writeJSON_def)
  have "u_Scheme redirect = ''https'' \<or> isLoopbackHost (Hostname redirect)" using assms(5) by (simp add: redirect_ok_def)
  then show ?thesis unfolding start_outcome_def if_P [OF ok] using assms
    by (intro conjI exI [of _ b] exI [of _ app] exI [of _ redirect] exI [of _ returnTo] exI [of _ st] exI [of _ verifier] exI [of _ now])
      (auto simp: writeJSON_def)
qed

lemma randomToken_wp:
  "wp (randomToken rand rt k) Q v = Q (map_option base64url (rand (w_tick v) k)) (v\<lparr>w_tick := Suc (w_tick v)\<rparr>)"
  by (simp add: randomToken_def wp_ask)

lemma store_state_wp:
  assumes rt: "undisturbed rt" and app: "srv_oauthApps s p = Some app" and red: "Parse (trim_space (osb_RedirectURI b)) = Some redirect" "redirect_ok redirect"
      "String redirect = srv_oauthCallbackURL s"
    and ret: "safeReturnTo (osb_ReturnTo b) = Inr returnTo"
  shows "wp (State_Monad.bind (db_exec rt (\<lambda>env. CreateOAuthState env (pending_state s p sub st verifier redirect returnTo) oauthStateTTL)) (\<lambda>created. case created of
        Some _ \<Rightarrow> State_Monad.return (writeError 500 ''create oauth state'')
      | None \<Rightarrow> State_Monad.bind (audit rt sub a p res) (\<lambda>_. State_Monad.return (writeJSON 200 (JObj
          [(''authorize_url'', JStr (url app st (authorize_params sha256 redirect verifier))), (''state'', JStr st)])))))
    (start_outcome sha256 url s p sub (Some b) w) (w\<lparr>w_tick := n\<rparr>)"
proof -
  let ?st = "pending_state s p sub st verifier redirect returnTo"
  obtain e d where c: "CreateOAuthState (o_db (rt_sched rt) n) ?st oauthStateTTL (w_db w) = (e, d)" by force
  show ?thesis
  proof (cases e)
    case (Some x)
    then have "d = w_db w" using c by (auto simp: CreateOAuthState_def Let_def split: option.splits if_splits)
    then show ?thesis using rt c Some start_err(1) [of 500 sha256 url s p sub "Some b" w] by (simp add: wp_simps)
  next
    case None
    then have d: "st \<notin> oa_state ` set (t_oauth (w_db w))" "d = (w_db w)\<lparr>t_oauth := t_oauth (w_db w) @ [oauth_row_of ?st (e_now (o_db (rt_sched rt) n) 0) oauthStateTTL]\<rparr>"
      using c by (auto simp: CreateOAuthState_ok pending_state_def)
    obtain e' d' where a: "AppendAudit (o_db (rt_sched rt) (Suc n)) (audit_event_of (sub_ID sub) a p res) d = (e', d')" by force
    have d': "t_oauth d' = t_oauth d" "t_connections d' = t_connections d" using a by (auto simp: AppendAudit_def Let_def split: option.splits if_splits)
    have "start_outcome sha256 url s p sub (Some b) w (writeJSON 200 (JObj
        [(''authorize_url'', JStr (url app st (authorize_params sha256 redirect verifier))), (''state'', JStr st)])) (w\<lparr>w_db := d', w_tick := k\<rparr>)" for k
      using d d' by (intro start_okI [OF _ _ app red ret d(1)]) simp_all
    then show ?thesis using rt c None a by (simp add: wp_simps audit_def)
  qed
qed

text \<open>
  C20: starting an authorization. A response 200 means that the redirect address is the configured callback, over https or on a
  loopback host, and that exactly one state was added: a fresh one, bound to this subject, provider and site, which
  expires after ten minutes and carries the redirect address, the checked return path and the verifier. The response shows the state and
  the authorization address, and of the verifier only its hash. With any other response no state was added. Connections
  and secrets are not touched.
\<close>

theorem oauth_start_bound:
  assumes rt: "undisturbed rt" and run: "run_state (oauthStart rand sha256 url rt s body r sub) w = (rsp, w')"
  shows "w_sec w' = w_sec w \<and> t_connections (w_db w') = t_connections (w_db w) \<and>
    (if rsp_status rsp = 200
     then \<exists>b app redirect returnTo st verifier now. body = Some b \<and> srv_oauthApps s (rq_Path r) = Some app
       \<and> Parse (trim_space (osb_RedirectURI b)) = Some redirect \<and> String redirect = srv_oauthCallbackURL s
       \<and> (u_Scheme redirect = ''https'' \<or> isLoopbackHost (Hostname redirect)) \<and> safeReturnTo (osb_ReturnTo b) = Inr returnTo
       \<and> (\<forall>x \<in> set (t_oauth (w_db w)). oa_state x \<noteq> st)
       \<and> t_oauth (w_db w') = t_oauth (w_db w) @ [oauth_row_of (pending_state s (rq_Path r) sub st verifier redirect returnTo) now oauthStateTTL]
       \<and> rsp_body rsp = JObj [(''authorize_url'', JStr (url app st (authorize_params sha256 redirect verifier))), (''state'', JStr st)]
     else t_oauth (w_db w') = t_oauth (w_db w))"
proof -
  let ?Q = "start_outcome sha256 url s (rq_Path r) sub body w"
  have "wp (oauthStart rand sha256 url rt s body r sub) ?Q w"
  proof (cases "srv_oauthApps s (rq_Path r)")
    case None
    then show ?thesis by (auto simp: oauthStart_def Let_def wp_simps start_err split: option.split)
  next
    case app: (Some app)
    show ?thesis
    proof (cases body)
      case None
      then show ?thesis using app by (auto simp: oauthStart_def Let_def wp_simps start_err split: option.split)
    next
      case b: (Some b)
      show ?thesis
        using app store_state_wp [OF rt app]
        by (auto simp: oauthStart_def Let_def b wp_if wp_return start_err wp_bind [of "randomToken _ _ _"] randomToken_wp split: option.split sum.split)
    qed
  qed
  then have "?Q rsp w'" by (rule wp_run [OF _ run])
  then show ?thesis unfolding start_outcome_def .
qed

section \<open>Concrete requests\<close>

theorem safe_return_local_witness:
  "safeReturnTo ''/a?t=c'' = Inr ''/a?t=c'' \<and> \<not> has_prefix ''/a?t=c'' ''//''"
proof -
  let ?u = "no_url\<lparr>u_Path := ''/a'', u_RawQuery := ''t=c''\<rparr>"
  have t: "trim_space ''/a?t=c'' = ''/a?t=c''" by (rule trim_space_ascii; simp add: ascii_print_def)
  have "Parse ''/a?t=c'' = Some ?u" by code_simp
  then obtain v where v: "safeReturnTo ''/a?t=c'' = Inr v"
    by (simp add: safeReturnTo_def t IsAbs_def no_url_def has_prefix_def contains_char_def)
  have "validEncoded EncPath ''/a''" by code_simp
  then show ?thesis using safe_return_local [OF v] v by (simp add: t has_prefix_def)
qed

definition demo_start_srv :: server where
  "demo_start_srv = WithOAuthCallbackURL ''https://a.b/cb'' (demo_oauth_srv\<lparr>srv_registry := [(''bing'',
     demo_provider\<lparr>Descriptor := (Descriptor demo_provider)\<lparr>d_CredentialTypes := [''oauth2'']\<rparr>\<rparr>)]\<rparr>)"

theorem oauth_start_bound_witness:
  "\<exists>rsp w'. run_state (oauthStart (\<lambda>_ k. Some (replicate k 0)) (\<lambda>_. []) (\<lambda>_ _ _. []) demo_rt demo_start_srv
        (Some \<lparr>osb_RedirectURI = ''https://a.b/cb'', osb_ReturnTo = []\<rparr>) demo_req demo_sub) demo_sec = (rsp, w')
    \<and> rsp_status rsp = 200 \<and> map oa_subject_id (t_oauth (w_db w')) = [''alice'']"
proof -
  let ?m = "oauthStart (\<lambda>_ k. Some (replicate k 0)) (\<lambda>_. []) (\<lambda>_ _ _. []) demo_rt demo_start_srv
        (Some \<lparr>osb_RedirectURI = ''https://a.b/cb'', osb_ReturnTo = []\<rparr>) demo_req demo_sub"
  obtain rsp w' where run: "run_state ?m demo_sec = (rsp, w')" by force
  let ?u = "no_url\<lparr>u_Scheme := ''https'', u_Host := ''a.b'', u_Path := ''/cb''\<rparr>"
  have t: "trim_space ''https://a.b/cb'' = ''https://a.b/cb''" by (rule trim_space_ascii; simp add: ascii_print_def)
  have p: "Parse ''https://a.b/cb'' = Some ?u" "String ?u = ''https://a.b/cb''" by code_simp+
  have srv: "Get (srv_registry demo_start_srv) ''bing'' = Some (demo_provider\<lparr>Descriptor := (Descriptor demo_provider)\<lparr>d_CredentialTypes := [''oauth2'']\<rparr>\<rparr>)"
      "\<exists>app. srv_oauthApps demo_start_srv ''bing'' = Some app" "srv_oauthCallbackURL demo_start_srv = ''https://a.b/cb''"
    by (simp_all add: demo_start_srv_def WithOAuthCallbackURL_def demo_oauth_srv_def WithOAuthApps_def Get_def t)
  have ro: "redirect_ok ?u" by (simp add: redirect_ok_def IsAbs_def no_url_def)
  have r: "safeReturnTo [] = Inr ''/''" by (simp add: safeReturnTo_def)
  have none: "t_oauth demo_conn = []"
    by (simp add: demo_conn_def ConfigureConnection_def EnsureConnection_def EnsureSite_def empty_db_def Let_def split: option.split)
  have "wp ?m (\<lambda>r v. rsp_status r = 200) demo_sec"
    using srv(2) by (auto simp: oauthStart_def Let_def demo_req_def srv(1,3) t p r ro wp_simps randomToken_wp demo_rt_ok
        CreateOAuthState_def demo_sec_sel none demo_audit writeJSON_def wp_return_eta)
  then have ok: "rsp_status rsp = 200" by (rule wp_run [OF _ run])
  have "map oa_subject_id (t_oauth (w_db w')) = [''alice'']"
    using oauth_start_bound [OF demo_rt_ok(1) run, unfolded if_P [OF ok]] by (auto simp: demo_sec_sel none pending_state_def demo_sub_def)
  with run ok show ?thesis by (intro exI conjI)
qed

end
