(* ===== verification/Api.thy ===== *)
theory Api
  imports Authorize
begin

text \<open>
  The routes of the HTTP server (\<^verbatim>\<open>internal/httpapi/server.go\<close>, \<^verbatim>\<open>Handler\<close>), and what holds for all of them together:
  nothing happens without the scope a route asks for, a reader changes nothing, no sequence of requests
  and engine steps breaks the database invariant, and the list of connections does not depend on credential identifiers.

  A request to the multiplexer is represented by the route it matches, with its decoded body where the handler reads one.
\<close>

section \<open>Definitions\<close>

datatype route =
    GetHealthz | GetReadyz | GetProviders | GetSiteInfo | GetConnections | GetSyncRuns | GetReportDatasets | GetReportRows
  | PostSyncRuns "create_run_body option" | PutCredential "set_credential_body option" | PutProperty "string option"
  | GetProperties | PostTest | DeleteConnection | PostOAuthStart "oauth_start_body option" | PostOAuthComplete "oauth_complete_body option"

text \<open>What a deployment supplies to the handlers from outside.\<close>

record api_deps =
  ad_authenticate :: "request \<Rightarrow> go_error + subject"
  ad_rand :: "nat \<Rightarrow> nat \<Rightarrow> nat list option"
  ad_sha256 :: "string \<Rightarrow> nat list"
  ad_auth_code_url :: "oauth_app \<Rightarrow> string \<Rightarrow> (string \<times> string) list \<Rightarrow> string"
  ad_exchange :: "oauth_app \<Rightarrow> string \<Rightarrow> string \<Rightarrow> string \<Rightarrow> go_error + string"
  ad_marshal :: "oauth_material \<Rightarrow> string"

definition healthz :: "'s runtime \<Rightarrow> request \<Rightarrow> ('s world, response) state" where
  "healthz rt r = State_Monad.return \<lparr>rsp_status = 200, rsp_body = JNull\<rparr>"

definition readyz :: "'s runtime \<Rightarrow> request \<Rightarrow> ('s world, response) state" where
  "readyz rt r =
     do { ping \<leftarrow> db_query rt (\<lambda>env _. e_fault env 0);
          State_Monad.return (case ping of
              Some _ \<Rightarrow> \<lparr>rsp_status = 503, rsp_body = JStr ''store unavailable''\<rparr>
            | None \<Rightarrow> \<lparr>rsp_status = 200, rsp_body = JNull\<rparr>) }"

fun Handler :: "api_deps \<Rightarrow> 's runtime \<Rightarrow> server \<Rightarrow> route \<Rightarrow> request \<Rightarrow> ('s world, response) state" where
  "Handler ad rt s GetHealthz r = healthz rt r"
| "Handler ad rt s GetReadyz r = readyz rt r"
| "Handler ad rt s GetProviders r = authorized (ad_authenticate ad) ScopeRead (listProviders s) r"
| "Handler ad rt s GetSiteInfo r = authorized (ad_authenticate ad) ScopeRead (getSite s) r"
| "Handler ad rt s GetConnections r = authorized (ad_authenticate ad) ScopeRead (listConnections rt s) r"
| "Handler ad rt s GetSyncRuns r = authorized (ad_authenticate ad) ScopeRead (listSyncRuns rt s) r"
| "Handler ad rt s GetReportDatasets r = authorized (ad_authenticate ad) ScopeRead (listReportDatasets rt s) r"
| "Handler ad rt s GetReportRows r = authorized (ad_authenticate ad) ScopeRead (listReportRows rt s) r"
| "Handler ad rt s (PostSyncRuns b) r = authorized (ad_authenticate ad) ScopeSync (createSyncRun rt s b) r"
| "Handler ad rt s (PutCredential b) r = authorized (ad_authenticate ad) ScopeConnectionsManage (setCredential rt s b) r"
| "Handler ad rt s (PutProperty b) r = authorized (ad_authenticate ad) ScopeConnectionsManage (setProperty rt s b) r"
| "Handler ad rt s GetProperties r = authorized (ad_authenticate ad) ScopeConnectionsManage (listProperties rt s) r"
| "Handler ad rt s PostTest r = authorized (ad_authenticate ad) ScopeConnectionsManage (testConnection rt s) r"
| "Handler ad rt s DeleteConnection r = authorized (ad_authenticate ad) ScopeConnectionsManage (revokeConnection rt s) r"
| "Handler ad rt s (PostOAuthStart b) r = authorized (ad_authenticate ad) ScopeConnectionsManage
     (oauthStart (ad_rand ad) (ad_sha256 ad) (ad_auth_code_url ad) rt s b) r"
| "Handler ad rt s (PostOAuthComplete b) r = authorized (ad_authenticate ad) ScopeConnectionsManage
     (oauthComplete (ad_exchange ad) (ad_marshal ad) rt s b) r"

text \<open>The scope that the documentation of the API asks for, by route.\<close>

fun required_scope :: "route \<Rightarrow> string option" where
  "required_scope GetHealthz = None"
| "required_scope GetReadyz = None"
| "required_scope (PostSyncRuns b) = Some ScopeSync"
| "required_scope (PutCredential b) = Some ScopeConnectionsManage"
| "required_scope (PutProperty b) = Some ScopeConnectionsManage"
| "required_scope GetProperties = Some ScopeConnectionsManage"
| "required_scope PostTest = Some ScopeConnectionsManage"
| "required_scope DeleteConnection = Some ScopeConnectionsManage"
| "required_scope (PostOAuthStart b) = Some ScopeConnectionsManage"
| "required_scope (PostOAuthComplete b) = Some ScopeConnectionsManage"
| "required_scope _ = Some ScopeRead"

section \<open>Authorization\<close>

lemma Handler_guarded:
  assumes "required_scope q = Some sc"
  obtains h where "Handler ad rt s q r = authorized (ad_authenticate ad) sc h r"
  using assms by (cases q) auto

text \<open>
  C22: every route of the API is guarded. A request that is not authenticated gets 401, one whose subject lacks the scope of the
  route gets 403, and neither reads nor changes anything.
\<close>

theorem api_guarded:
  assumes "required_scope q = Some sc"
    and "case ad_authenticate ad r of Inl e \<Rightarrow> True | Inr sub \<Rightarrow> \<not> HasScope sub sc"
  shows "run_state (Handler ad rt s q r) w =
    (case ad_authenticate ad r of
       Inl e \<Rightarrow> writeError 401 ''authentication required''
     | Inr sub \<Rightarrow> writeError 403 (''missing scope '' @ sc), w)"
proof -
  obtain h where h: "Handler ad rt s q r = authorized (ad_authenticate ad) sc h r" by (rule Handler_guarded [OF assms(1)])
  show ?thesis
  proof (cases "ad_authenticate ad r")
    case (Inl e)
    then show ?thesis by (simp add: h authorized_def State_Monad.return_def)
  next
    case (Inr sub)
    then show ?thesis using assms(2) by (simp add: h authorized_def State_Monad.return_def)
  qed
qed

text \<open>Programs that only look.\<close>

definition silent :: "('s world, 'a) state \<Rightarrow> bool" where
  "silent m \<longleftrightarrow> (\<forall>w. wp m (\<lambda>_ v. \<exists>n. v = w\<lparr>w_tick := n\<rparr>) w)"

lemma world_tick: "\<exists>n. w = w\<lparr>w_tick := n\<rparr>"
  by (rule exI [of _ "w_tick w"]) simp

lemma silent_return [intro]: "silent (State_Monad.return a)"
  unfolding silent_def wp_return by (rule allI) (rule world_tick)

lemma silent_bind [intro]:
  assumes "silent m" "\<And>a. silent (f a)"
  shows "silent (State_Monad.bind m f)"
  unfolding silent_def wp_bind
proof (intro allI)
  fix w show "wp m (\<lambda>a. wp (f a) (\<lambda>_ v. \<exists>n. v = w\<lparr>w_tick := n\<rparr>)) w"
  proof (rule wp_mono)
    show "wp m (\<lambda>_ v. \<exists>n. v = w\<lparr>w_tick := n\<rparr>) w" using assms(1) by (simp add: silent_def)
    fix a t assume "\<exists>n. t = w\<lparr>w_tick := n\<rparr>"
    then obtain n where t: "t = w\<lparr>w_tick := n\<rparr>" by blast
    have "wp (f a) (\<lambda>_ v. \<exists>n. v = t\<lparr>w_tick := n\<rparr>) t" using assms(2) unfolding silent_def by blast
    then show "wp (f a) (\<lambda>_ v. \<exists>n. v = w\<lparr>w_tick := n\<rparr>) t" by (rule wp_mono) (simp add: t)
  qed
qed

lemma silent_sum [intro]: "(\<And>a. silent (f a)) \<Longrightarrow> (\<And>b. silent (g b)) \<Longrightarrow> silent (case x of Inl a \<Rightarrow> f a | Inr b \<Rightarrow> g b)"
  by (cases x) auto

lemma silent_prod [intro]: "(\<And>a b. silent (f a b)) \<Longrightarrow> silent (case x of (a, b) \<Rightarrow> f a b)"
  by (cases x) auto

lemma silent_if [intro]: "silent m \<Longrightarrow> silent n \<Longrightarrow> silent (if b then m else n)"
  by simp

lemma silent_query: "undisturbed rt \<Longrightarrow> silent (db_query rt q)" "silent (ask rt p)"
  by (auto simp: silent_def wp_simps)

lemma read_silent:
  assumes "undisturbed rt" "required_scope q = Some ScopeRead \<or> required_scope q = None" "ad_authenticate ad r = Inr sub \<or> required_scope q = None"
  shows "silent (Handler ad rt s q r)"
proof -
  have "silent (listProviders s r sub)" "silent (getSite s r sub)" "silent (listConnections rt s r sub)" "silent (listSyncRuns rt s r sub)"
      "silent (listReportDatasets rt s r sub)" "silent (listReportRows rt s r sub)" "silent (healthz rt r)" "silent (readyz rt r)" for sub
    unfolding listProviders_def getSite_def listConnections_def listSyncRuns_def listReportDatasets_def listReportRows_def healthz_def readyz_def Let_def
    by (intro silent_return silent_bind silent_sum silent_prod silent_if silent_query assms(1))+
  then show ?thesis
    using assms(2,3) by (cases q) (auto simp: authorized_def ScopeRead_def ScopeSync_def ScopeConnectionsManage_def)
qed

text \<open>
  C23: a subject without the scopes to sync and to manage connections changes nothing: after any of its requests the database,
  the secret store and the set of started runs are what they were.
\<close>

theorem reader_changes_nothing:
  assumes rt: "undisturbed rt" and sub: "ad_authenticate ad r = Inr sub" "\<not> HasScope sub ScopeSync" "\<not> HasScope sub ScopeConnectionsManage"
    and run: "run_state (Handler ad rt s q r) w = (rsp, w')"
  shows "w_db w' = w_db w \<and> w_sec w' = w_sec w \<and> w_spawned w' = w_spawned w"
proof (cases "required_scope q = Some ScopeRead \<or> required_scope q = None")
  case True
  then have "silent (Handler ad rt s q r)" using read_silent [OF rt] sub(1) by blast
  then have "\<exists>n. w' = w\<lparr>w_tick := n\<rparr>" using wp_run [OF _ run] unfolding silent_def by blast
  then show ?thesis by auto
next
  case False
  then obtain sc where sc: "required_scope q = Some sc" "sc = ScopeSync \<or> sc = ScopeConnectionsManage"
    by (cases q) auto
  then have no: "\<not> HasScope sub sc" using sub(2,3) by blast
  obtain h where h: "Handler ad rt s q r = authorized (ad_authenticate ad) sc h r" by (rule Handler_guarded [OF sc(1)])
  have "w' = w" using run sub(1) no by (simp add: h authorized_def State_Monad.return_def)
  then show ?thesis by simp
qed

section \<open>The invariant of the whole system\<close>

datatype sys_action = SysApi route request | SysEngine eng_action

fun run_system :: "api_deps \<Rightarrow> 's runtime \<Rightarrow> server \<Rightarrow> sys_action list \<Rightarrow> ('s world, unit) state" where
  "run_system ad rt s [] = State_Monad.return ()"
| "run_system ad rt s (SysApi q r # as) = do { _ \<leftarrow> Handler ad rt s q r; run_system ad rt s as }"
| "run_system ad rt s (SysEngine a # as) = do { _ \<leftarrow> run_action rt (srv_engine s) a; run_system ad rt s as }"

lemmas keeps_intros = keeps_return keeps_bind keeps_if keeps_option keeps_sum keeps_prod keeps_db_query keeps_db_exec keeps_sec_query
  keeps_sec_exec keeps_ask keeps_spawn op_reachable

lemma keeps_audit: "keeps db_good (audit rt sub a t x)"
  unfolding audit_def by (intro keeps_intros)

lemma keeps_finishCredentialUpdate: "keeps db_good (finishCredentialUpdate rt s sub p prev ref extra)"
proof -
  have R: "keeps db_good (reject rt s p ref rsp)" "keeps db_good (reject_audited rt s sub p ref rsp)" for rsp
    unfolding reject_def reject_audited_def sec_Revoke_def by (intro keeps_intros keeps_audit)+
  have "keeps db_good (swapCredential rt s sub p prev ref props msg extra)" for props msg
    unfolding swapCredential_def sec_Revoke_def
    by (intro keeps_intros keeps_audit R) (auto split: bool.split intro!: keeps_intros keeps_audit R)
  then show ?thesis
    unfolding finishCredentialUpdate_def discoverProperties_def sec_Open_def by (intro keeps_intros R)
qed

lemma keeps_handlers:
  "keeps db_good (listConnections rt s r sub)" "keeps db_good (listSyncRuns rt s r sub)" "keeps db_good (listReportDatasets rt s r sub)"
  "keeps db_good (listReportRows rt s r sub)" "keeps db_good (createSyncRun rt s b r sub)" "keeps db_good (setCredential rt s b2 r sub)"
  "keeps db_good (setProperty rt s b3 r sub)" "keeps db_good (listProperties rt s r sub)" "keeps db_good (testConnection rt s r sub)"
  "keeps db_good (revokeConnection rt s r sub)" "keeps db_good (oauthStart rand sha url rt s b4 r sub)"
  "keeps db_good (oauthComplete ex ma rt s b5 r sub)"
  unfolding listConnections_def listSyncRuns_def listReportDatasets_def listReportRows_def createSyncRun_def setCredential_def setProperty_def
    listProperties_def testConnection_def revokeConnection_def clearConnection_def oauthStart_def oauthComplete_def get_connection_def
    sec_Open_def sec_Put_def sec_Revoke_def randomToken_def discoverProperties_def Let_def
  by (((intro keeps_intros keeps_audit keeps_finishCredentialUpdate keeps_Create)[1], (assumption+)?)+)

lemma keeps_Handler: "keeps db_good (Handler ad rt s q r)"
  by (cases q) (auto simp: authorized_def healthz_def readyz_def listProviders_def getSite_def intro!: keeps_intros keeps_handlers)

lemma keeps_run_system: "keeps db_good (run_system ad rt s as)"
  by (induction ad rt s as rule: run_system.induct) (auto intro!: keeps_return keeps_bind keeps_Handler keeps_run_action)


section \<open>Credentials are not shown\<close>

definition rename_refs :: "(string \<Rightarrow> string) \<Rightarrow> db \<Rightarrow> db" where
  "rename_refs f d = d\<lparr>t_connections := map (\<lambda>c. c\<lparr>cn_credential_ref := f (cn_credential_ref c)\<rparr>) (t_connections d)\<rparr>"

lemma connectionToJSON_rename:
  assumes "\<And>i. f i = [] \<longleftrightarrow> i = []"
  shows "connectionToJSON now (scanConnection (c\<lparr>cn_credential_ref := f (cn_credential_ref c)\<rparr>)) = connectionToJSON now (scanConnection c)"
  using assms by (simp add: connectionToJSON_def connectionState_def scanConnection_def)

lemma sort_key_map: "sort_key k (map g xs) = map g (sort_key (k \<circ> g) xs)"
proof -
  have ins: "insort_key k (g x) (map g ys) = map g (insort_key (k \<circ> g) x ys)" for x ys by (induction ys) auto
  show ?thesis by (induction xs) (auto simp: ins [unfolded comp_def] comp_def)
qed

text \<open>
  The list of connections tells of a credential whether there is one and of what type, and nothing about its identifier:
  replacing the identifiers of all connections by any others leaves the response as it is.
\<close>

theorem connections_hide_credentials:
  assumes rt: "undisturbed rt" and f: "\<And>i. f i = [] \<longleftrightarrow> i = []"
  shows "fst (run_state (listConnections rt s r sub) (w\<lparr>w_db := rename_refs f (w_db w)\<rparr>)) = fst (run_state (listConnections rt s r sub) w)"
proof -
  let ?g = "\<lambda>c. c\<lparr>cn_credential_ref := f (cn_credential_ref c)\<rparr>" and ?env = "o_db (rt_sched rt) (w_tick w)" and ?i = "site_ID (srv_site s)"
  have "filter (\<lambda>c. cn_site_id c = ?i) (map ?g cs) = map ?g (filter (\<lambda>c. cn_site_id c = ?i) cs)" for cs :: "conn_row list"
    by (simp add: filter_map comp_def)
  then have "ListConnections ?env ?i (rename_refs f (w_db w)) =
      map_sum id (map (scanConnection \<circ> ?g)) (case e_fault ?env 0 of Some x \<Rightarrow> Inl (fault_error x)
        | None \<Rightarrow> Inr (sort_key cn_provider (filter (\<lambda>c. cn_site_id c = ?i) (t_connections (w_db w)))))"
    by (simp add: ListConnections_def rename_refs_def sort_key_map comp_def split: option.split)
  moreover have "ListConnections ?env ?i (w_db w) =
      map_sum id (map scanConnection) (case e_fault ?env 0 of Some x \<Rightarrow> Inl (fault_error x)
        | None \<Rightarrow> Inr (sort_key cn_provider (filter (\<lambda>c. cn_site_id c = ?i) (t_connections (w_db w)))))"
    by (simp add: ListConnections_def split: option.split)
  moreover have "wp (listConnections rt s r sub) (\<lambda>a _. a = fst (run_state (listConnections rt s r sub) w)) v" if v: "w_tick v = w_tick w"
      "ListConnections ?env ?i (w_db v) = map_sum id (map h) x" "ListConnections ?env ?i (w_db w) = map_sum id (map scanConnection) x"
      "\<And>now c. connectionToJSON now (h c) = connectionToJSON now (scanConnection c)" for v h x
  proof -
    have "wp (listConnections rt s r sub) (\<lambda>a _. a = (case x of Inl _ \<Rightarrow> writeError 500 ''list connections''
        | Inr cs \<Rightarrow> writeJSON 200 (JObj [(''connections'', JArr (map (\<lambda>c. connectionToJSON (o_clock (rt_sched rt) (Suc (w_tick w))) (scanConnection c)) cs))]))) u"
      if "w_tick u = w_tick w" "ListConnections ?env ?i (w_db u) = map_sum id (map k) x"
        "\<And>now c. connectionToJSON now (k c) = connectionToJSON now (scanConnection c)" for u k
      using rt that by (auto simp: listConnections_def wp_simps comp_def split: sum.split)
    from this [OF refl v(3) refl] this [OF v(1,2,4)] show ?thesis by (auto simp: wp_def split: prod.splits)
  qed
  ultimately have "wp (listConnections rt s r sub) (\<lambda>a _. a = fst (run_state (listConnections rt s r sub) w)) (w\<lparr>w_db := rename_refs f (w_db w)\<rparr>)"
    using connectionToJSON_rename [OF f] by auto
  then show ?thesis by (auto simp: wp_def split: prod.splits)
qed

section \<open>Instances\<close>

definition demo_deps :: api_deps where
  "demo_deps = \<lparr>ad_authenticate = \<lambda>r. Inr (demo_sub\<lparr>sub_Scopes := [ScopeRead]\<rparr>), ad_rand = \<lambda>_ _. None, ad_sha256 = \<lambda>_. [],
     ad_auth_code_url = \<lambda>_ _ _. [], ad_exchange = \<lambda>_ _ _ _. Inl NoRows, ad_marshal = om_RefreshToken\<rparr>"

lemma demo_deps_scopes: "HasScope (demo_sub\<lparr>sub_Scopes := [ScopeRead]\<rparr>) sc \<longleftrightarrow> sc = ScopeRead"
  by (auto simp: HasScope_def)

lemma demo_scopes_differ: "ScopeSync \<noteq> ScopeRead" "ScopeConnectionsManage \<noteq> ScopeRead"
  by (simp_all add: ScopeRead_def ScopeSync_def ScopeConnectionsManage_def)

theorem api_guarded_witness:
  "run_state (Handler demo_deps demo_rt demo_srv DeleteConnection demo_req) demo_sec = (writeError 403 (''missing scope '' @ ScopeConnectionsManage), demo_sec)"
  using api_guarded [of DeleteConnection ScopeConnectionsManage demo_deps demo_req demo_rt demo_srv demo_sec]
  by (simp add: demo_deps_def demo_deps_scopes demo_scopes_differ del: Handler.simps)

theorem reader_changes_nothing_witness:
  "w_sec (snd (run_state (Handler demo_deps demo_rt demo_srv DeleteConnection demo_req) demo_sec)) = w_sec demo_sec"
  using reader_changes_nothing [OF demo_rt_ok(1), of demo_deps demo_req "demo_sub\<lparr>sub_Scopes := [ScopeRead]\<rparr>"]
  by (metis (no_types, lifting) api_deps.select_convs(1) demo_deps_def demo_deps_scopes demo_scopes_differ prod.collapse)


theorem connections_hide_credentials_witness:
  "fst (run_state (listConnections demo_rt demo_srv demo_req demo_sub) (demo_sec\<lparr>w_db := rename_refs (map (\<lambda>_. CHR ''z'')) (w_db demo_sec)\<rparr>))
     = fst (run_state (listConnections demo_rt demo_srv demo_req demo_sub) demo_sec)"
  by (rule connections_hide_credentials [OF demo_rt_ok(1)]) simp

end
