(* ===== verification/Float64.thy ===== *)
theory Float64
  imports Core
begin

text \<open>
  IEEE 754 double precision, as far as the sources compute with it: rounding of a rational number to the nearest double
  (ties to even), conversion from integers, multiplication, \<^verbatim>\<open>math.Round\<close> and the conversion to \<^verbatim>\<open>int64\<close>. A double is its
  bit pattern, a \<open>64 word\<close>. Converting a double that is no \<^verbatim>\<open>int64\<close> gives the smallest \<^verbatim>\<open>int64\<close>, as on amd64.
\<close>

section \<open>Definitions\<close>

text \<open>A finite double stands for \<open>(-1)^s * m * 2^e\<close>.\<close>

datatype fval = FNaN | FInf bool | FFin bool int int

definition f_decode :: "float64 \<Rightarrow> fval" where
  "f_decode w =
     (let s = (uint w div 2 ^ 63 = 1); e = uint w div 2 ^ 52 mod 2 ^ 11; m = uint w mod 2 ^ 52 in
      if e = 2047 then (if m = 0 then FInf s else FNaN)
      else if e = 0 then FFin s m (- 1074)
      else FFin s (2 ^ 52 + m) (e - 1075))"

definition f_bits :: "bool \<Rightarrow> int \<Rightarrow> int \<Rightarrow> float64" where
  "f_bits s e m = word_of_int ((if s then 2 ^ 63 else 0) + e * 2 ^ 52 + m)"

definition f_nan :: float64 where
  "f_nan = f_bits False 2047 (2 ^ 51 + 1)"

definition f_inf :: "bool \<Rightarrow> float64" where
  "f_inf s = f_bits s 2047 0"

text \<open>The number of binary digits.\<close>

function bit_len :: "int \<Rightarrow> int" where
  "bit_len n = (if n \<le> 0 then 0 else 1 + bit_len (n div 2))"
  by pat_completeness auto
termination by (relation "measure nat") auto

declare bit_len.simps [simp del]

text \<open>\<open>n / d\<close> as an integer, rounded to the nearest, ties to even.\<close>

definition div_even :: "int \<Rightarrow> int \<Rightarrow> int" where
  "div_even n d = (let q = n div d; r = n mod d in if 2 * r > d \<or> 2 * r = d \<and> odd q then q + 1 else q)"

text \<open>\<open>scale n d q\<close> is the fraction \<open>(n / d) / 2^q\<close>.\<close>

definition scale :: "int \<Rightarrow> int \<Rightarrow> int \<Rightarrow> int \<times> int" where
  "scale n d q = (if q \<ge> 0 then (n, d * 2 ^ nat q) else (n * 2 ^ nat (- q), d))"

text \<open>
  The exponent of the last place of \<open>n / d\<close>: the quotient by \<open>2^q\<close> lies between \<open>2^52\<close> and \<open>2^53\<close>, or \<open>q\<close> is the smallest
  exponent.
\<close>

definition last_place :: "int \<Rightarrow> int \<Rightarrow> int" where
  "last_place n d =
     (let q = bit_len n - bit_len d - 53; (a, b) = scale n d q in
      max (- 1074) (if a < 2 ^ 53 * b then q else q + 1))"

definition f_round :: "bool \<Rightarrow> int \<Rightarrow> int \<Rightarrow> float64" where
  "f_round s n d =
     (if n = 0 then f_bits s 0 0
      else let q = last_place n d; (a, b) = scale n d q; m = div_even a b in
        if m = 2 ^ 53 then (if q + 1 > 971 then f_inf s else f_bits s (q + 1 + 1075) 0)
        else if m < 2 ^ 52 then f_bits s 0 m
        else if q > 971 then f_inf s
        else f_bits s (q + 1075) (m - 2 ^ 52))"

definition f_of_int :: "int \<Rightarrow> float64" where
  "f_of_int i = f_round (i < 0) \<bar>i\<bar> 1"

definition f_mul :: "float64 \<Rightarrow> float64 \<Rightarrow> float64" where
  "f_mul x y =
     (case f_decode x of
        FNaN \<Rightarrow> f_nan
      | FInf s \<Rightarrow>
          (case f_decode y of
             FNaN \<Rightarrow> f_nan
           | FInf t \<Rightarrow> f_inf (s \<noteq> t)
           | FFin t n f \<Rightarrow> if n = 0 then f_nan else f_inf (s \<noteq> t))
      | FFin s m e \<Rightarrow>
          (case f_decode y of
             FNaN \<Rightarrow> f_nan
           | FInf t \<Rightarrow> if m = 0 then f_nan else f_inf (s \<noteq> t)
           | FFin t n f \<Rightarrow> (case scale (m * n) 1 (- (e + f)) of (a, b) \<Rightarrow> f_round (s \<noteq> t) a b)))"

text \<open>\<^verbatim>\<open>int64(math.Round(x))\<close>: the nearest integer, ties away from zero.\<close>

definition f_round_int64 :: "float64 \<Rightarrow> int" where
  "f_round_int64 x =
     (case f_decode x of
        FFin s m e \<Rightarrow>
          (let a = (if e \<ge> 0 then m * 2 ^ nat e else (2 * m + 2 ^ nat (- e)) div (2 * 2 ^ nat (- e)));
               v = (if s then - a else a) in
           if min_int64 \<le> v \<and> v \<le> max_int64 then v else min_int64)
      | _ \<Rightarrow> min_int64)"

section \<open>Whole numbers\<close>

lemma bit_len_bounds:
  "0 < n \<Longrightarrow> 0 < bit_len n \<and> 2 ^ nat (bit_len n - 1) \<le> n \<and> n < 2 ^ nat (bit_len n)"
proof (induction n rule: bit_len.induct)
  case (1 n)
  show ?case
  proof (cases "n = 1")
    case True
    then show ?thesis by (simp add: bit_len.simps [of 1] bit_len.simps [of 0])
  next
    case False
    with 1 have IH: "0 < bit_len (n div 2)" "2 ^ nat (bit_len (n div 2) - 1) \<le> n div 2" "n div 2 < 2 ^ nat (bit_len (n div 2))" by auto
    define l where "l = nat (bit_len (n div 2) - 1)"
    have l: "bit_len (n div 2) = int l + 1" using IH(1) by (simp add: l_def)
    have n: "bit_len n = int l + 2" using 1 l by (simp add: bit_len.simps [of n])
    have "2 ^ l \<le> n div 2" "n div 2 < 2 ^ Suc l" using IH(2,3) by (simp_all add: l nat_add_distrib)
    then show ?thesis by (simp add: n nat_add_distrib) linarith
  qed
qed

lemma bit_len_le:
  assumes "0 < n" "n < 2 ^ k"
  shows "bit_len n \<le> int k"
proof (rule ccontr)
  assume "\<not> ?thesis"
  then have "k \<le> nat (bit_len n - 1)" by simp
  then have "(2 :: int) ^ k \<le> 2 ^ nat (bit_len n - 1)" by (simp add: power_increasing)
  with bit_len_bounds [OF assms(1)] assms(2) show False by simp
qed

lemma bit_len_1: "bit_len 1 = 1"
  by (simp add: bit_len.simps [of 1] bit_len.simps [of 0])

text \<open>The double of a whole number below \<open>2^53\<close> holds that number exactly.\<close>

lemma f_round_whole:
  assumes n: "0 < n" "n < 2 ^ 53"
  obtains k where "k \<le> 52" "f_round s n 1 = f_bits s (1075 - int k) (n * 2 ^ k - 2 ^ 52)" "2 ^ 52 \<le> n * 2 ^ k" "n * 2 ^ k < 2 ^ 53"
proof -
  define k where "k = nat (53 - bit_len n)"
  have b: "0 < bit_len n" "2 ^ nat (bit_len n - 1) \<le> n" "n < 2 ^ nat (bit_len n)" using bit_len_bounds [OF n(1)] by auto
  have "bit_len n \<le> 53" using bit_len_le [OF n(1), of 53] n(2) by simp
  then have L: "bit_len n = 53 - int k" "k \<le> 52" using b(1) by (auto simp: k_def)
  have e: "nat (bit_len n - 1) = 52 - k" "nat (bit_len n) = 53 - k" using L by auto
  have p: "(2 :: int) ^ (52 - k) * 2 ^ k = 2 ^ 52" "(2 :: int) ^ (53 - k) * 2 ^ k = 2 ^ 53" using L(2) by (simp_all flip: power_add)
  have "2 ^ (52 - k) * 2 ^ k \<le> n * 2 ^ k" "n * 2 ^ k < 2 ^ (53 - k) * 2 ^ k"
    using b(2,3) unfolding e by (auto intro: mult_right_mono mult_strict_right_mono)
  then have lo: "2 ^ 52 \<le> n * 2 ^ k" and hi: "n * 2 ^ k < 2 ^ 53" unfolding p by auto
  have q: "last_place n 1 = - int k"
  proof -
    have "scale n 1 (bit_len n - bit_len 1 - 53) = (n * 2 ^ Suc k, 1)" using L by (simp add: scale_def bit_len_1 nat_add_distrib)
    moreover have "\<not> n * 2 ^ Suc k < 2 ^ 53" using lo by simp
    ultimately show ?thesis using L by (simp add: last_place_def bit_len_1)
  qed
  have sc: "scale n 1 (- int k) = (n * 2 ^ k, 1)" by (simp add: scale_def)
  have "f_round s n 1 = f_bits s (1075 - int k) (n * 2 ^ k - 2 ^ 52)"
    using lo hi n(1) L(2) by (simp add: f_round_def q sc div_even_def)
  then show thesis using that L(2) lo hi by blast
qed

lemma f_decode_bits:
  assumes "0 < e" "e < 2047" "0 \<le> m" "m < 2 ^ 52"
  shows "f_decode (f_bits s e m) = FFin s (2 ^ 52 + m) (e - 1075)"
proof -
  let ?v = "(if s then 2 ^ 63 else 0) + e * 2 ^ 52 + m"
  have "0 \<le> ?v" "?v < 2 ^ 64" using assms by auto
  then have u: "uint (f_bits s e m) = ?v" unfolding f_bits_def by (intro word_of_int_inverse [OF refl]) simp_all
  let ?S = "if s then 1 else 0 :: int"
  have v: "?v = (?S * 2 ^ 11 + e) * 2 ^ 52 + m" by simp
  have q: "?v div 2 ^ 52 = ?S * 2 ^ 11 + e" unfolding v using div_mult_self3 [of "2 ^ 52 :: int" "?S * 2 ^ 11 + e" m] div_pos_pos_trivial [OF assms(3,4)] by simp
  have "?v div 2 ^ 63 = ?v div 2 ^ 52 div 2 ^ 11" by (simp add: div_mult2_eq [symmetric])
  then have F1: "?v div 2 ^ 63 = ?S" unfolding q using assms(1,2) by simp
  have F2: "?v div 2 ^ 52 mod 2 ^ 11 = e" unfolding q using assms(1,2) by simp
  have F3: "?v mod 2 ^ 52 = m"
    unfolding v using mod_mult_self3 [of "?S * 2 ^ 11 + e" "2 ^ 52 :: int" m] mod_pos_pos_trivial [OF assms(3,4)] by simp
  show ?thesis unfolding f_decode_def Let_def u F1 F2 F3 using assms(1,2) by simp
qed

lemma round_half: "(2 * (n * 2 ^ k) + 2 ^ k) div (2 * 2 ^ k) = (n :: int)"
proof -
  have "2 * (n * 2 ^ k) + 2 ^ k = 2 ^ k + n * (2 * 2 ^ k)" by (simp add: algebra_simps)
  moreover have "(2 ^ k + n * (2 * 2 ^ k)) div (2 * 2 ^ k) = n + 2 ^ k div (2 * 2 ^ k)" by (rule div_mult_self1) simp
  moreover have "(2 :: int) ^ k div (2 * 2 ^ k) = 0" by (rule div_pos_pos_trivial) simp_all
  ultimately show ?thesis by (metis add.right_neutral)
qed

lemma f_round_int64_whole:
  assumes d: "f_decode x = FFin (i < 0) (\<bar>i\<bar> * 2 ^ k) (- int k)" and i: "min_int64 \<le> i" "i \<le> max_int64"
  shows "f_round_int64 x = i"
proof -
  have "(if - int k \<ge> 0 then \<bar>i\<bar> * 2 ^ k * 2 ^ nat (- int k)
      else (2 * (\<bar>i\<bar> * 2 ^ k) + 2 ^ nat (- (- int k))) div (2 * 2 ^ nat (- (- int k)))) = \<bar>i\<bar>"
    using round_half [of "\<bar>i\<bar>" k] by (cases "k = 0") simp_all
  moreover have "(if i < 0 then - \<bar>i\<bar> else \<bar>i\<bar>) = i" by simp
  ultimately show ?thesis unfolding f_round_int64_def d fval.case Let_def using i by simp
qed

lemma f_round_int64_of_int:
  assumes "\<bar>i\<bar> < 2 ^ 53"
  shows "f_round_int64 (f_of_int i) = i"
proof (cases "i = 0")
  case True
  have "f_decode (f_of_int i) = FFin (i < 0) (\<bar>i\<bar> * 2 ^ 1074) (- int 1074)"
    by (simp add: True f_of_int_def f_round_def f_bits_def f_decode_def)
  then show ?thesis by (rule f_round_int64_whole) (simp_all add: True)
next
  case False
  then have n: "0 < \<bar>i\<bar>" by simp
  obtain k where k: "k \<le> 52" "f_round (i < 0) \<bar>i\<bar> 1 = f_bits (i < 0) (1075 - int k) (\<bar>i\<bar> * 2 ^ k - 2 ^ 52)"
      "2 ^ 52 \<le> \<bar>i\<bar> * 2 ^ k" "\<bar>i\<bar> * 2 ^ k < 2 ^ 53"
    using f_round_whole [OF n assms] by metis
  have "f_decode (f_of_int i) = FFin (i < 0) (\<bar>i\<bar> * 2 ^ k) (- int k)"
    using k f_decode_bits [of "1075 - int k" "\<bar>i\<bar> * 2 ^ k - 2 ^ 52" "i < 0"] by (simp add: f_of_int_def)
  then show ?thesis by (rule f_round_int64_whole) (use assms in auto)
qed

end
