(* ===== verification/JsonDecode.thy ===== *)
theory JsonDecode
  imports Float64
begin

text \<open>
  What the sources use of \<^verbatim>\<open>encoding/json\<close> to read a response: storing a parsed JSON value into a Go variable. A decoder takes
  the JSON value and the present content of the variable and returns the new content and whether there was no type error.
  As in Go, \<^verbatim>\<open>null\<close> leaves a variable alone (and empties a slice), a type error is remembered while decoding goes on,
  object keys are matched to fields ignoring case and a later key overrides an earlier one.

  In a \<open>jval\<close> that was read, \<open>JInt\<close> stands for a number written as an integer and \<open>JFloat\<close> for one written with a fraction
  or an exponent: the double nearest to it, infinite if it is out of range.
\<close>

section \<open>Definitions\<close>

type_synonym 'a decoder = "jval \<Rightarrow> 'a \<Rightarrow> 'a \<times> bool"

definition dec_string :: "string decoder" where
  "dec_string v old = (case v of JNull \<Rightarrow> (old, True) | JStr s \<Rightarrow> (s, True) | _ \<Rightarrow> (old, False))"

definition dec_int64 :: "int decoder" where
  "dec_int64 v old =
     (case v of
        JNull \<Rightarrow> (old, True)
      | JInt i \<Rightarrow> if min_int64 \<le> i \<and> i \<le> max_int64 then (i, True) else (old, False)
      | _ \<Rightarrow> (old, False))"

definition dec_float64 :: "float64 decoder" where
  "dec_float64 v old =
     (case v of
        JNull \<Rightarrow> (old, True)
      | JInt i \<Rightarrow> if float_finite (f_of_int i) then (f_of_int i, True) else (old, False)
      | JFloat f \<Rightarrow> if float_finite f then (f, True) else (old, False)
      | _ \<Rightarrow> (old, False))"

text \<open>A field of a struct: its JSON name and how it is stored.\<close>

type_synonym 'a field = "string \<times> 'a decoder"

definition field :: "string \<Rightarrow> 'b decoder \<Rightarrow> ('a \<Rightarrow> 'b) \<Rightarrow> ('b \<Rightarrow> 'a \<Rightarrow> 'a) \<Rightarrow> 'a field" where
  "field name d get put = (name, \<lambda>v a. case d v (get a) of (b, ok) \<Rightarrow> (put b a, ok))"

definition dec_member :: "'a field list \<Rightarrow> string \<times> jval \<Rightarrow> 'a \<times> bool \<Rightarrow> 'a \<times> bool" where
  "dec_member fs kv acc =
     (case find (\<lambda>f. equal_fold (fst f) (fst kv)) fs of
        None \<Rightarrow> acc
      | Some f \<Rightarrow> (case snd f (snd kv) (fst acc) of (a, ok) \<Rightarrow> (a, snd acc \<and> ok)))"

definition dec_struct :: "'a field list \<Rightarrow> 'a decoder" where
  "dec_struct fs v old =
     (case v of
        JNull \<Rightarrow> (old, True)
      | JObj kvs \<Rightarrow> fold (dec_member fs) kvs (old, True)
      | _ \<Rightarrow> (old, False))"

text \<open>
  A slice variable: its elements and the elements of the backing array beyond its length. Decoding stores the array's elements
  into the ones that are there, also those beyond the length, and into fresh ones after them.
\<close>

type_synonym 'a slice = "'a list \<times> 'a list"

definition nil_slice :: "'a slice" where
  "nil_slice = ([], [])"

fun dec_elems :: "'a decoder \<Rightarrow> 'a \<Rightarrow> jval list \<Rightarrow> 'a list \<Rightarrow> ('a list \<times> bool) \<times> 'a list" where
  "dec_elems d zero [] olds = (([], True), olds)"
| "dec_elems d zero (v # vs) olds =
     (case d v (case olds of [] \<Rightarrow> zero | old # _ \<Rightarrow> old) of (a, ok) \<Rightarrow>
      case dec_elems d zero vs (tl olds) of ((as, oks), rest) \<Rightarrow> ((a # as, ok \<and> oks), rest))"

definition dec_slice :: "'a decoder \<Rightarrow> 'a \<Rightarrow> 'a slice decoder" where
  "dec_slice d zero v old =
     (case v of
        JNull \<Rightarrow> (nil_slice, True)
      | JArr vs \<Rightarrow>
          if vs = [] then (nil_slice, True)
          else (case dec_elems d zero vs (fst old @ snd old) of ((as, ok), rest) \<Rightarrow> ((as, rest), ok))
      | _ \<Rightarrow> (old, False))"

section \<open>Lemmas\<close>

lemma dec_elems_fresh: "dec_elems d zero vs [] = ((map (\<lambda>v. fst (d v zero)) vs, list_all (\<lambda>v. snd (d v zero)) vs), [])"
  by (induction vs) (simp_all split: prod.splits)

text \<open>Decoding into a nil slice decodes every element from the zero value.\<close>

lemma dec_slice_fresh:
  "dec_slice d zero (JArr vs) nil_slice = ((map (\<lambda>v. fst (d v zero)) vs, []), list_all (\<lambda>v. snd (d v zero)) vs)"
  by (cases vs) (simp_all add: dec_slice_def nil_slice_def dec_elems_fresh split: prod.splits)

lemma dec_elems_length: "length (fst (fst (dec_elems d zero vs olds))) = length vs"
proof (induction vs arbitrary: olds)
  case (Cons v vs)
  show ?case using Cons [of "tl olds"] by (auto split: prod.splits)
qed simp

end
