(* ===== verification/Outbound.thy ===== *)
theory Outbound
  imports Core
begin

text \<open>
  Calls to external services, as the providers make them. A provider runs in the state monad over the list of the events so
  far, latest first: the calls it made and the pauses between them. The service is a function of that history and of the
  call, so it may answer the same call differently every time; a pause may be cut short by the end of the context.
\<close>

section \<open>Definitions\<close>

datatype 'q event = Call 'q | Pause int

type_synonym ('q, 'a) io = "('q event list, 'a) state"

definition call :: "('q event list \<Rightarrow> 'q \<Rightarrow> 'a) \<Rightarrow> 'q \<Rightarrow> ('q, 'a) io" where
  "call service q = State (\<lambda>h. (service h q, Call q # h))"

text \<open>How a context ends, and the errors of the HTTP client: the end of the context, or anything else.\<close>

datatype ctx_end = CtxDeadline | CtxCanceled

fun ctx_error :: "ctx_end \<Rightarrow> go_error" where
  "ctx_error CtxDeadline = DeadlineExceeded"
| "ctx_error CtxCanceled = Canceled"

datatype net_error = NetCtx ctx_end | NetOther string

text \<open>\<^verbatim>\<open>http.Client.Do\<close> wraps every error in a \<^verbatim>\<open>*url.Error\<close>, whose text contains the method and the URL.\<close>

definition do_error :: "string \<Rightarrow> net_error \<Rightarrow> go_error" where
  "do_error context e = Wrapped context (case e of NetCtx c \<Rightarrow> ctx_error c | NetOther m \<Rightarrow> Msg m)"

text \<open>
  The errors of Google's client libraries: a response with an error status, a token that could not be fetched (with the status
  of the token endpoint, if there was a response), or an error of the HTTP client.
\<close>

datatype api_error = ApiStatus int | ApiToken "int option" | ApiNet net_error

fun api_err :: "string \<Rightarrow> api_error \<Rightarrow> go_error" where
  "api_err context (ApiStatus c) = GoogleErr c"
| "api_err context (ApiToken c) = Wrapped context (RetrieveErr c)"
| "api_err context (ApiNet e) = do_error context e"

text \<open>
  \<^verbatim>\<open>select { case <-ctx.Done(): return ctx.Err() case <-time.After(d): }\<close>: waits for \<open>d\<close> seconds; the result is the error of
  the context if it ended first.
\<close>

definition pause :: "('q event list \<Rightarrow> ctx_end option) \<Rightarrow> int \<Rightarrow> ('q, go_error option) io" where
  "pause ended d = State (\<lambda>h. (map_option ctx_error (ended h), Pause d # h))"

definition is_call :: "'q event \<Rightarrow> bool" where
  "is_call e = (case e of Call _ \<Rightarrow> True | Pause _ \<Rightarrow> False)"

definition calls :: "'q event list \<Rightarrow> nat" where
  "calls h = length (filter is_call h)"

subsection \<open>The retry loop of the Google providers\<close>

text \<open>\<^verbatim>\<open>errors.As(err, &apiErr)\<close> for \<^verbatim>\<open>*googleapi.Error\<close>, \<^verbatim>\<open>*oauth2.RetrieveError\<close> and the HTTP error of the Bing provider.\<close>

fun as_google_error :: "go_error \<Rightarrow> int option" where
  "as_google_error (GoogleErr c) = Some c"
| "as_google_error (Wrapped _ e) = as_google_error e"
| "as_google_error _ = None"

fun as_retrieve_error :: "go_error \<Rightarrow> int option option" where
  "as_retrieve_error (RetrieveErr c) = Some c"
| "as_retrieve_error (Wrapped _ e) = as_retrieve_error e"
| "as_retrieve_error _ = None"

fun as_http_error :: "go_error \<Rightarrow> int option" where
  "as_http_error (HttpErr c) = Some c"
| "as_http_error (Wrapped _ e) = as_http_error e"
| "as_http_error _ = None"

definition retryable :: "go_error \<Rightarrow> bool" where
  "retryable e =
     (case as_google_error e of
        Some c \<Rightarrow> c = 429 \<or> c \<ge> 500
      | None \<Rightarrow> is_deadline e \<or> is_canceled e)"

text \<open>\<open>retry_loop n attempt f\<close> is the loop with \<open>n\<close> attempts left; the last argument is the error of the last attempt.\<close>

fun retry_loop ::
  "('q event list \<Rightarrow> ctx_end option) \<Rightarrow> ('q, go_error + 'a) io \<Rightarrow> nat \<Rightarrow> nat \<Rightarrow> go_error \<Rightarrow> ('q, go_error + 'a) io" where
  "retry_loop ended f 0 attempt err = State_Monad.return (Inl err)"
| "retry_loop ended f (Suc n) attempt err =
     do { r \<leftarrow> f;
          case r of
            Inr a \<Rightarrow> State_Monad.return (Inr a)
          | Inl e \<Rightarrow>
              if \<not> retryable e then State_Monad.return (Inl e)
              else do { d \<leftarrow> pause ended (2 ^ attempt);
                        case d of
                          Some c \<Rightarrow> State_Monad.return (Inl c)
                        | None \<Rightarrow> retry_loop ended f n (Suc attempt) e } }"

definition retry :: "('q event list \<Rightarrow> ctx_end option) \<Rightarrow> ('q, go_error + 'a) io \<Rightarrow> ('q, go_error + 'a) io" where
  "retry ended f = retry_loop ended f 3 0 (Msg [])"

definition google_classify :: "go_error \<Rightarrow> go_error" where
  "google_classify e =
     (case as_sync_error e of
        Some _ \<Rightarrow> e
      | None \<Rightarrow>
          (let rest =
             (case as_retrieve_error e of
                Some c \<Rightarrow>
                  if c = Some 400 \<or> c = Some 401
                  then SyncErr (SyncErrorOf ErrUnauthorized ''Google OAuth authorization expired or was revoked'')
                  else SyncErr (SyncErrorOf ErrTransient ''Google OAuth token refresh failed'')
              | None \<Rightarrow>
                  if is_deadline e \<or> is_canceled e
                  then SyncErr (SyncErrorOf ErrTransient ''Google API request timed out'')
                  else SyncErr (SyncErrorOf ErrInternal ''Google API request failed'')) in
           case as_google_error e of
             Some c \<Rightarrow>
               if c = 401 \<or> c = 403 then SyncErr (SyncErrorOf ErrUnauthorized ''Google property authorization failed'')
               else if c = 429 then SyncErr (SyncErrorOf ErrRateLimited ''Google API quota exceeded'')
               else if c \<ge> 500 then SyncErr (SyncErrorOf ErrTransient ''Google API is temporarily unavailable'')
               else rest
           | None \<Rightarrow> rest))"

section \<open>Lemmas\<close>

lemma wp_call [wp_simps]: "wp (call service q) Q h = Q (service h q) (Call q # h)"
  by (simp add: call_def wp_simps)

lemma wp_pause [wp_simps]: "wp (pause ended d) Q h = Q (map_option ctx_error (ended h)) (Pause d # h)"
  by (simp add: pause_def wp_simps)

lemma wp_case_sum [wp_simps]: "wp (case r of Inl a \<Rightarrow> f a | Inr b \<Rightarrow> g b) Q h = (case r of Inl a \<Rightarrow> wp (f a) Q h | Inr b \<Rightarrow> wp (g b) Q h)"
  by (cases r) simp_all

lemma wp_case_option [wp_simps]: "wp (case r of None \<Rightarrow> f | Some b \<Rightarrow> g b) Q h = (case r of None \<Rightarrow> wp f Q h | Some b \<Rightarrow> wp (g b) Q h)"
  by (cases r) simp_all

lemma calls_simps [simp]: "calls [] = 0" "calls (Call q # h) = Suc (calls h)" "calls (Pause d # h) = calls h"
  by (simp_all add: calls_def is_call_def)

lemma ctx_error_kinds [simp]:
  "as_sync_error (ctx_error c) = None" "as_http_error (ctx_error c) = None" "as_google_error (ctx_error c) = None"
  "as_retrieve_error (ctx_error c) = None" "is_deadline (ctx_error c) \<or> is_canceled (ctx_error c)"
  by (cases c; simp)+

lemma do_error_kinds [simp]:
  "as_sync_error (do_error u e) = None" "as_http_error (do_error u e) = None" "as_google_error (do_error u e) = None"
  "as_retrieve_error (do_error u e) = None"
  by (cases e; simp add: do_error_def)+

lemma api_err_no_sync_error [simp]: "as_sync_error (api_err u e) = None"
  by (cases e) simp_all

text \<open>What holds of the result of every attempt, and of the errors of the context, holds of the result of the loop.\<close>

lemma retry_loop_result:
  assumes f: "\<And>h. wp f (\<lambda>r h'. case r of Inl e \<Rightarrow> E e | Inr a \<Rightarrow> V a) h" and ctx: "\<And>c. E (ctx_error c)" and err: "E err"
  shows "wp (retry_loop ended f n attempt err) (\<lambda>r h'. case r of Inl e \<Rightarrow> E e | Inr a \<Rightarrow> V a) h"
  using err
proof (induction n arbitrary: attempt err h)
  case 0
  then show ?case by (simp add: wp_simps)
next
  case (Suc n)
  show ?case unfolding retry_loop.simps wp_bind
    by (rule wp_mono [OF f]) (auto simp: wp_simps Suc.IH ctx split: sum.splits option.splits)
qed

end
