(* ===== verification/ProviderContract.thy ===== *)
theory ProviderContract
  imports EngineProps Connections Outbound
begin

text \<open>
  What the engine and the API rely on of a provider, as a locale: every error a provider returns is a classified error with a
  text from a fixed family, and its synchronization writes only to datasets of its own. The client lemmas follow
  from these laws alone: what the engine records and what the API shows of a provider's failure, and which report rows a
  synchronization can touch. The three providers of the repository are interpretations.
\<close>

section \<open>Definitions\<close>

text \<open>All results a synchronization can end with, and all batches it can write, whatever the sink answers.\<close>

primrec prog_ends :: "(sync_result \<Rightarrow> go_error option \<Rightarrow> bool) \<Rightarrow> sync_prog \<Rightarrow> bool" where
  "prog_ends P (SyncDone r e) = P r e"
| "prog_ends P (SinkWrite dataset rows k) = (\<forall>e. prog_ends P (k e))"
| "prog_ends P (SinkCheckpoint cursor k) = (\<forall>e. prog_ends P (k e))"

primrec prog_writes :: "(string \<Rightarrow> report_row list \<Rightarrow> bool) \<Rightarrow> sync_prog \<Rightarrow> bool" where
  "prog_writes P (SyncDone r e) = True"
| "prog_writes P (SinkWrite dataset rows k) = (P dataset rows \<and> (\<forall>e. prog_writes P (k e)))"
| "prog_writes P (SinkCheckpoint cursor k) = (\<forall>e. prog_writes P (k e))"

text \<open>A classified error whose code and text belong to the family \<open>F\<close>.\<close>

definition public_error :: "(error_code \<Rightarrow> string \<Rightarrow> bool) \<Rightarrow> go_error \<Rightarrow> bool" where
  "public_error F e = (case e of SyncErr se \<Rightarrow> F (se_code se) (se_message se) | _ \<Rightarrow> False)"

definition public_end :: "(error_code \<Rightarrow> string \<Rightarrow> bool) \<Rightarrow> sync_result \<Rightarrow> go_error option \<Rightarrow> bool" where
  "public_end F r e = (case e of None \<Rightarrow> True | Some x \<Rightarrow> public_error F x)"

text \<open>The rows of the report table that belong to other sites or other datasets.\<close>

definition foreign_row :: "string \<Rightarrow> string set \<Rightarrow> rep_row \<Rightarrow> bool" where
  "foreign_row siteID D r = (rp_site_id r \<noteq> siteID \<or> rp_dataset r \<notin> D)"

definition foreign_rows :: "string \<Rightarrow> string set \<Rightarrow> db \<Rightarrow> rep_row list" where
  "foreign_rows siteID D d = filter (foreign_row siteID D) (t_reports d)"

text \<open>
  \<^verbatim>\<open>if len(rows) > 0 { if err := sink.Write(...); err != nil { return SyncResult{}, ... } }\<close>, the step that ends every
  synchronization.
\<close>

definition store_rows :: "string \<Rightarrow> report_row list \<Rightarrow> string \<Rightarrow> sync_prog \<Rightarrow> sync_prog" where
  "store_rows dataset rows msg k =
     (if rows = [] then k
      else SinkWrite dataset rows (\<lambda>err. case err of
             None \<Rightarrow> k
           | Some _ \<Rightarrow> SyncDone no_result (Some (SyncErr (SyncErrorOf ErrInternal msg)))))"

definition sync_fail :: "go_error \<Rightarrow> sync_prog" where
  "sync_fail e = SyncDone no_result (Some e)"

text \<open>What a synchronization does against a sink that accepts everything: the batches it writes and its result.\<close>

primrec accepted :: "sync_prog \<Rightarrow> (string \<times> report_row list) list \<times> sync_result \<times> go_error option" where
  "accepted (SyncDone r e) = ([], r, e)"
| "accepted (SinkWrite dataset rows k) = (case accepted (k None) of (ws, r) \<Rightarrow> ((dataset, rows) # ws, r))"
| "accepted (SinkCheckpoint cursor k) = accepted (k None)"

section \<open>Lemmas\<close>

lemma accepted_store_rows [simp]:
  "accepted (store_rows ds rows msg k) = (case accepted k of (ws, r) \<Rightarrow> ((if rows = [] then ws else (ds, rows) # ws), r))"
  by (simp add: store_rows_def)

lemma public_error_SyncErr [simp]: "public_error F (SyncErr (SyncErrorOf c m)) = F c m"
  by (simp add: public_error_def)

lemma public_errorE:
  assumes "public_error F e"
  obtains se where "e = SyncErr se" "F (se_code se) (se_message se)"
  using assms by (cases e) (simp_all add: public_error_def)

lemma public_end_simps [simp]: "public_end F r None" "public_end F r (Some e) = public_error F e"
  by (simp_all add: public_end_def)

lemma prog_store_rows [simp]:
  "prog_ends P (store_rows ds rows msg k) \<longleftrightarrow>
     prog_ends P k \<and> (rows \<noteq> [] \<longrightarrow> P no_result (Some (SyncErr (SyncErrorOf ErrInternal msg))))"
  "prog_writes W (store_rows ds rows msg k) \<longleftrightarrow> prog_writes W k \<and> (rows \<noteq> [] \<longrightarrow> W ds rows)"
  by (auto simp: store_rows_def split: option.splits)

lemma prog_sync_fail [simp]: "prog_ends P (sync_fail e) = P no_result (Some e)" "prog_writes W (sync_fail e)"
  by (simp_all add: sync_fail_def)

lemma upsert_row_foreign:
  assumes "ds \<in> D"
  shows "filter (foreign_row i D) (upsert_row i ds k data now rows) = filter (foreign_row i D) rows"
proof -
  have "filter (foreign_row i D) (update_where (rep_is i ds k) (\<lambda>r. r\<lparr>rp_data := data, rp_updated_at := now\<rparr>) rows)
      = filter (foreign_row i D) rows"
    using assms by (induction rows) (auto simp: rep_is_def foreign_row_def)
  then show ?thesis using assms by (auto simp: upsert_row_def foreign_row_def)
qed

lemma upsert_loop_foreign:
  "upsert_loop env k i ds now rows d = Inr d' \<Longrightarrow> ds \<in> D \<Longrightarrow> foreign_rows i D d' = foreign_rows i D d"
proof (induction env k i ds now rows d rule: upsert_loop.induct)
  case (1 env k siteID dataset now d)
  then show ?case by (simp split: option.splits)
next
  case (2 env k siteID dataset now row rows d)
  then show ?case by (simp add: foreign_rows_def upsert_row_foreign split: option.splits if_splits)
qed

lemma UpsertReportRows_foreign:
  "ds \<in> D \<Longrightarrow> foreign_rows i D (snd (UpsertReportRows env i ds rows d)) = foreign_rows i D d"
  by (auto simp: UpsertReportRows_def dest: upsert_loop_foreign split: option.split sum.split)

lemma SetRunCursor_foreign: "foreign_rows i D (snd (SetRunCursor env r c d)) = foreign_rows i D d"
  by (simp add: SetRunCursor_def foreign_rows_def update_runs_def split: option.split)

lemma run_sync_contract:
  assumes rt: "undisturbed rt" and ends: "prog_ends P prog" and writes: "prog_writes (\<lambda>ds rows. ds \<in> D) prog"
  shows "wp (run_sync rt i r prog) (\<lambda>(res, e) w'. P res e \<and> foreign_rows i D (w_db w') = foreign_rows i D (w_db w)) w"
  using ends writes
proof (induction prog arbitrary: w)
  case (SyncDone res e)
  then show ?case by (simp add: wp_simps)
next
  case (SinkWrite ds rows k)
  obtain e d' where u: "UpsertReportRows (o_db (rt_sched rt) (w_tick w)) i ds rows (w_db w) = (e, d')" by force
  have "foreign_rows i D d' = foreign_rows i D (w_db w)"
    using UpsertReportRows_foreign [of ds D i] SinkWrite.prems u by (metis prog_writes.simps(2) snd_conv)
  then show ?case
    using SinkWrite.IH [of "k e" "w\<lparr>w_db := d', w_tick := Suc (w_tick w)\<rparr>"] SinkWrite.prems rt u
    by (simp add: sink_Write_def wp_simps)
next
  case (SinkCheckpoint cur k)
  obtain e d' where u: "SetRunCursor (o_db (rt_sched rt) (w_tick w)) r cur (w_db w) = (e, d')" by force
  have "foreign_rows i D d' = foreign_rows i D (w_db w)" using SetRunCursor_foreign u by (metis snd_conv)
  then show ?case
    using SinkCheckpoint.IH [of "k e" "w\<lparr>w_db := d', w_tick := Suc (w_tick w)\<rparr>"] SinkCheckpoint.prems rt u
    by (simp add: sink_Checkpoint_def wp_simps)
qed

section \<open>The contract\<close>

locale provider_contract =
  fixes p :: provider and F :: "error_code \<Rightarrow> string \<Rightarrow> bool" and D :: "string set"
  assumes discover_public: "DiscoverProperties p cred = Inl e \<Longrightarrow> public_error F e"
    and test_public: "TestProperty p s pr cred = Some e \<Longrightarrow> public_error F e"
    and revoke_public: "RevokeCredential p cred = Some e \<Longrightarrow> public_error F e"
    and sync_public: "prog_ends (public_end F) (SyncRange p rq cred)"
    and sync_datasets: "prog_writes (\<lambda>ds rows. ds \<in> D) (SyncRange p rq cred)"
begin

lemma shown_as_is:
  assumes "DiscoverProperties p cred = Inl e \<or> TestProperty p s pr cred = Some e \<or> RevokeCredential p cred = Some e"
  shows "publicError e = e \<and> (\<exists>se. e = SyncErr se \<and> F (se_code se) (se_message se))"
proof -
  have "public_error F e" using assms discover_public test_public revoke_public by blast
  then show ?thesis by (elim public_errorE) (simp add: publicError_def)
qed

lemma sync_confined:
  assumes "undisturbed rt"
  shows "wp (run_sync rt i r (SyncRange p rq cred))
    (\<lambda>(res, e) w'. public_end F res e \<and> foreign_rows i D (w_db w') = foreign_rows i D (w_db w)) w"
  by (rule run_sync_contract [OF assms sync_public sync_datasets])

end

section \<open>The errors of the Google providers\<close>

text \<open>The texts of \<open>google_classify\<close>.\<close>

definition google_texts :: "(error_code \<times> string) list" where
  "google_texts =
     [(ErrUnauthorized, ''Google property authorization failed''), (ErrRateLimited, ''Google API quota exceeded''),
      (ErrTransient, ''Google API is temporarily unavailable''),
      (ErrUnauthorized, ''Google OAuth authorization expired or was revoked''), (ErrTransient, ''Google OAuth token refresh failed''),
      (ErrTransient, ''Google API request timed out''), (ErrInternal, ''Google API request failed'')]"

lemma google_classify_public:
  assumes "as_sync_error e = None" and "\<And>c m. (c, m) \<in> set google_texts \<Longrightarrow> F c m"
  shows "public_error F (google_classify e)"
  using assms(1) by (auto simp: google_classify_def Let_def google_texts_def split: option.split intro!: assms(2))

definition plain_result :: "go_error + 'a \<Rightarrow> 'h \<Rightarrow> bool" where
  "plain_result r h = (case r of Inl e \<Rightarrow> as_sync_error e = None | Inr _ \<Rightarrow> True)"

lemma plain_result_simps [simp]: "plain_result (Inl e) h \<longleftrightarrow> as_sync_error e = None" "plain_result (Inr a) h"
  by (simp_all add: plain_result_def)

lemma retry_plain:
  assumes "\<And>h. wp f plain_result h"
  shows "wp (retry ended f) plain_result h"
proof -
  have "wp (retry ended f) (\<lambda>r h'. case r of Inl e \<Rightarrow> as_sync_error e = None | Inr a \<Rightarrow> True) h"
    unfolding retry_def by (rule retry_loop_result) (use assms in \<open>simp_all add: plain_result_def [abs_def]\<close>)
  then show ?thesis by (simp add: plain_result_def [abs_def])
qed

lemma wp_fst: "wp m Q s \<Longrightarrow> Q (fst (run_state m s)) (snd (run_state m s))"
  by (simp add: wp_def split: prod.splits)

lemma map_sum_plain [simp]: "plain_result (map_sum (api_err u) id r) h"
  by (cases r) simp_all

lemma wp_plain_bind:
  fixes f :: "go_error + 'b \<Rightarrow> ('s, 'c) state"
  assumes "wp m plain_result h" and "\<And>e h. as_sync_error e = None \<Longrightarrow> wp (f (Inl e)) Q h" and "\<And>a h. wp (f (Inr a)) Q h"
  shows "wp (State_Monad.bind m f) Q h"
  unfolding wp_bind
proof (rule wp_mono [OF assms(1)])
  fix r :: "go_error + 'b" and h' :: 's
  assume "plain_result r h'"
  then show "wp (f r) Q h'" using assms(2,3) by (cases r) simp_all
qed

lemma map_sum_Inl [simp]: "map_sum id f r = Inl e \<longleftrightarrow> r = Inl e"
  by (cases r) simp_all

definition returns :: "'a \<Rightarrow> 'a \<Rightarrow> 'h \<Rightarrow> bool" where
  "returns a r h \<longleftrightarrow> r = a"

lemma wp_returns_bind:
  assumes "wp m (returns a) h" "\<And>h'. wp (f a) Q h'"
  shows "wp (State_Monad.bind m f) Q h"
  unfolding wp_bind by (rule wp_mono [OF assms(1)]) (use assms(2) in \<open>simp add: returns_def\<close>)

end
