(* ===== verification/Bing.thy ===== *)
theory Bing
  imports JsonDecode ProviderContract GoURL
begin

text \<open>
  The Bing Webmaster provider (\<^verbatim>\<open>providers/bing/bing.go\<close>). The network is a parameter: a function of the events so far and of
  the URL requested, which answers with an error of the HTTP client or a status and the first JSON value of the body
  (\<open>None\<close> if the first \<^verbatim>\<open>maxResponseBytes\<close> bytes do not start with one).
\<close>

section \<open>Definitions\<close>

datatype http_answer = DoError net_error | Response int "jval option"

record bing =
  bp_endpoint :: string
  bp_do :: "string event list \<Rightarrow> string \<Rightarrow> http_answer"
  bp_ended :: "string event list \<Rightarrow> ctx_end option"

definition bing_endpoint :: string where
  "bing_endpoint = ''https://ssl.bing.com/webmaster/api.svc/json/''"

definition datasetSearchDaily :: string where "datasetSearchDaily = ''bing/search_daily''"
definition datasetSearchDetails :: string where "datasetSearchDetails = ''bing/search_details''"
definition datasetCrawlDaily :: string where "datasetCrawlDaily = ''bing/crawl_daily''"
definition datasetSitemaps :: string where "datasetSitemaps = ''bing/sitemaps''"

definition bing_Descriptor :: descriptor where
  "bing_Descriptor =
     \<lparr>d_Name = ''bing-webmaster'', d_DisplayName = ''Bing Webmaster Tools'', d_CredentialTypes = [''api_key''],
      d_Capabilities =
        [\<lparr>cs_Capability = CapSearchPerformance, cs_Dimensions = [''date'', ''query'', ''page''],
          cs_Metrics = [''clicks'', ''impressions'', ''position''], cs_MaxRangeDays = 180, cs_FreshnessLagDays = 1,
          cs_SupportsCursor = False,
          cs_QuotaHint = ''Bing serves fixed trailing windows; requested ranges are filtered client-side''\<rparr>,
         \<lparr>cs_Capability = CapCrawlStats, cs_Dimensions = [],
          cs_Metrics = [''crawled_pages'', ''in_index'', ''crawl_errors'', ''blocked_by_robots'', ''http_2xx'', ''http_4xx'', ''http_5xx''],
          cs_MaxRangeDays = 180, cs_FreshnessLagDays = 1, cs_SupportsCursor = False, cs_QuotaHint = []\<rparr>,
         \<lparr>cs_Capability = CapSitemaps, cs_Dimensions = [''url'', ''type'', ''status''], cs_Metrics = [],
          cs_MaxRangeDays = 0, cs_FreshnessLagDays = 0, cs_SupportsCursor = False, cs_QuotaHint = []\<rparr>],
      d_SetupURL = ''https://www.bing.com/webmasters/settings/apiaccess'',
      d_DocsURL = ''https://learn.microsoft.com/bing-webmaster-tools/'',
      d_SetupLinks =
        [\<lparr>sl_Kind = ''console'', sl_Label = ''Bing Webmaster Tools'', sl_URL = ''https://www.bing.com/webmasters/home'',
          sl_Description = ''Add or verify the site and review indexing data.''\<rparr>,
         \<lparr>sl_Kind = ''credentials'', sl_Label = ''Bing API access'', sl_URL = ''https://www.bing.com/webmasters/settings/apiaccess'',
          sl_Description = ''Create the API key pasted into this Console.''\<rparr>]\<rparr>"

subsection \<open>Responses\<close>

record bing_site =
  bs_URL :: string

record traffic =
  tr_Clicks :: int
  tr_Date :: string
  tr_Impressions :: int
  tr_Query :: string
  tr_AvgImpressionPosition :: float64

record crawl =
  cw_Date :: string
  cw_CrawledPages :: int
  cw_InIndex :: int
  cw_CrawlErrors :: int
  cw_BlockedByRobotsTxt :: int
  cw_Code2xx :: int
  cw_Code4xx :: int
  cw_Code5xx :: int
  cw_ContainsMalware :: int

record feed =
  fd_LastCrawled :: string
  fd_Status :: string
  fd_Submitted :: string
  fd_Type :: string
  fd_URL :: string
  fd_URLCount :: int

definition no_site :: bing_site where "no_site = \<lparr>bs_URL = []\<rparr>"

definition no_traffic :: traffic where
  "no_traffic = \<lparr>tr_Clicks = 0, tr_Date = [], tr_Impressions = 0, tr_Query = [], tr_AvgImpressionPosition = 0\<rparr>"

definition no_crawl :: crawl where
  "no_crawl = \<lparr>cw_Date = [], cw_CrawledPages = 0, cw_InIndex = 0, cw_CrawlErrors = 0, cw_BlockedByRobotsTxt = 0, cw_Code2xx = 0,
     cw_Code4xx = 0, cw_Code5xx = 0, cw_ContainsMalware = 0\<rparr>"

definition no_feed :: feed where
  "no_feed = \<lparr>fd_LastCrawled = [], fd_Status = [], fd_Submitted = [], fd_Type = [], fd_URL = [], fd_URLCount = 0\<rparr>"

definition dec_site :: "bing_site decoder" where
  "dec_site = dec_struct [field ''Url'' dec_string bs_URL (\<lambda>x. bs_URL_update (\<lambda>_. x))]"

definition dec_traffic :: "traffic decoder" where
  "dec_traffic = dec_struct
     [field ''Clicks'' dec_int64 tr_Clicks (\<lambda>x. tr_Clicks_update (\<lambda>_. x)),
      field ''Date'' dec_string tr_Date (\<lambda>x. tr_Date_update (\<lambda>_. x)),
      field ''Impressions'' dec_int64 tr_Impressions (\<lambda>x. tr_Impressions_update (\<lambda>_. x)),
      field ''Query'' dec_string tr_Query (\<lambda>x. tr_Query_update (\<lambda>_. x)),
      field ''AvgImpressionPosition'' dec_float64 tr_AvgImpressionPosition (\<lambda>x. tr_AvgImpressionPosition_update (\<lambda>_. x))]"

definition dec_crawl :: "crawl decoder" where
  "dec_crawl = dec_struct
     [field ''Date'' dec_string cw_Date (\<lambda>x. cw_Date_update (\<lambda>_. x)),
      field ''CrawledPages'' dec_int64 cw_CrawledPages (\<lambda>x. cw_CrawledPages_update (\<lambda>_. x)),
      field ''InIndex'' dec_int64 cw_InIndex (\<lambda>x. cw_InIndex_update (\<lambda>_. x)),
      field ''CrawlErrors'' dec_int64 cw_CrawlErrors (\<lambda>x. cw_CrawlErrors_update (\<lambda>_. x)),
      field ''BlockedByRobotsTxt'' dec_int64 cw_BlockedByRobotsTxt (\<lambda>x. cw_BlockedByRobotsTxt_update (\<lambda>_. x)),
      field ''Code2xx'' dec_int64 cw_Code2xx (\<lambda>x. cw_Code2xx_update (\<lambda>_. x)),
      field ''Code4xx'' dec_int64 cw_Code4xx (\<lambda>x. cw_Code4xx_update (\<lambda>_. x)),
      field ''Code5xx'' dec_int64 cw_Code5xx (\<lambda>x. cw_Code5xx_update (\<lambda>_. x)),
      field ''ContainsMalware'' dec_int64 cw_ContainsMalware (\<lambda>x. cw_ContainsMalware_update (\<lambda>_. x))]"

definition dec_feed :: "feed decoder" where
  "dec_feed = dec_struct
     [field ''LastCrawled'' dec_string fd_LastCrawled (\<lambda>x. fd_LastCrawled_update (\<lambda>_. x)),
      field ''Status'' dec_string fd_Status (\<lambda>x. fd_Status_update (\<lambda>_. x)),
      field ''Submitted'' dec_string fd_Submitted (\<lambda>x. fd_Submitted_update (\<lambda>_. x)),
      field ''Type'' dec_string fd_Type (\<lambda>x. fd_Type_update (\<lambda>_. x)),
      field ''Url'' dec_string fd_URL (\<lambda>x. fd_URL_update (\<lambda>_. x)),
      field ''UrlCount'' dec_int64 fd_URLCount (\<lambda>x. fd_URLCount_update (\<lambda>_. x))]"

subsection \<open>Requests\<close>

text \<open>
  The envelope \<^verbatim>\<open>{"d": ...}\<close>: a \<^verbatim>\<open>json.RawMessage\<close> takes any value, also \<^verbatim>\<open>null\<close>; without the key it stays empty, which is no
  JSON text.
\<close>

definition dec_raw :: "jval option decoder" where
  "dec_raw v old = (Some v, True)"

definition dec_envelope :: "jval option decoder" where
  "dec_envelope = dec_struct [field ''d'' dec_raw id (\<lambda>x _. x)]"

text \<open>The error values of decoding never leave the package; their text does not matter.\<close>

definition decode_error :: go_error where
  "decode_error = Msg ''json''"

definition read_body :: "'a decoder \<Rightarrow> jval option \<Rightarrow> 'a \<Rightarrow> 'a \<times> go_error option" where
  "read_body d body target =
     (case body of
        None \<Rightarrow> (target, Some decode_error)
      | Some v \<Rightarrow>
          (case dec_envelope v None of (data, ok) \<Rightarrow>
             if \<not> ok then (target, Some decode_error)
             else (case data of
                     None \<Rightarrow> (target, Some decode_error)
                   | Some v' \<Rightarrow> (case d v' target of (t, ok') \<Rightarrow> (t, if ok' then None else Some decode_error)))))"

definition read_answer :: "string \<Rightarrow> 'a decoder \<Rightarrow> http_answer \<Rightarrow> 'a \<Rightarrow> 'a \<times> go_error option" where
  "read_answer u d ans target =
     (case ans of
        DoError e \<Rightarrow> (target, Some (do_error (''Get '' @ quoted u) e))
      | Response status body \<Rightarrow>
          if status < 200 \<or> status \<ge> 300 then (target, Some (HttpErr status)) else read_body d body target)"

definition final_error :: "go_error \<Rightarrow> bool" where
  "final_error e = (case as_http_error e of Some c \<Rightarrow> c \<noteq> 429 \<and> c < 500 | None \<Rightarrow> False)"

fun get_loop :: "bing \<Rightarrow> 'a decoder \<Rightarrow> string \<Rightarrow> nat \<Rightarrow> nat \<Rightarrow> 'a \<Rightarrow> go_error option \<Rightarrow> (string, go_error + 'a) io" where
  "get_loop p d u 0 attempt target err =
     State_Monad.return (case err of None \<Rightarrow> Inr target | Some e \<Rightarrow> Inl e)"
| "get_loop p d u (Suc n) attempt target err =
     (case Parse u of
        None \<Rightarrow> State_Monad.return (Inl (Msg ''parse''))
      | Some _ \<Rightarrow>
          do { ans \<leftarrow> call (bp_do p) u;
               case read_answer u d ans target of (t, err') \<Rightarrow>
                 (case err' of
                    None \<Rightarrow> State_Monad.return (Inr t)
                  | Some e \<Rightarrow>
                      if final_error e then State_Monad.return (Inl e)
                      else do { ended \<leftarrow> pause (bp_ended p) (2 ^ attempt);
                                case ended of
                                  Some c \<Rightarrow> State_Monad.return (Inl c)
                                | None \<Rightarrow> get_loop p d u n (Suc attempt) t (Some e) }) })"

definition request_url :: "bing \<Rightarrow> string \<Rightarrow> string \<Rightarrow> string \<Rightarrow> string" where
  "request_url p apiKey meth siteURL =
     bp_endpoint p @ meth @ ''?'' @ Encode ((''apikey'', apiKey) # (if siteURL \<noteq> [] then [(''siteUrl'', siteURL)] else []))"

definition bing_get :: "bing \<Rightarrow> secret_material \<Rightarrow> string \<Rightarrow> string \<Rightarrow> 'a decoder \<Rightarrow> 'a \<Rightarrow> (string, go_error + 'a) io" where
  "bing_get p cred meth siteURL d target =
     (let apiKey = trim_space (sm_Bytes cred) in
      if apiKey = [] then State_Monad.return (Inl (SyncErr (SyncErrorOf ErrUnauthorized ''Bing API key is empty'')))
      else get_loop p d (request_url p apiKey meth siteURL) 3 0 target None)"

definition get_list ::
  "bing \<Rightarrow> secret_material \<Rightarrow> string \<Rightarrow> string \<Rightarrow> 'a decoder \<Rightarrow> 'a \<Rightarrow> (string, go_error + 'a list) io" where
  "get_list p cred meth siteURL d zero =
     do { r \<leftarrow> bing_get p cred meth siteURL (dec_slice d zero) nil_slice;
          State_Monad.return (case r of Inl e \<Rightarrow> Inl e | Inr xs \<Rightarrow> Inr (fst xs)) }"

definition bing_classify :: "go_error \<Rightarrow> go_error" where
  "bing_classify e =
     (case as_sync_error e of
        Some _ \<Rightarrow> e
      | None \<Rightarrow>
          (let rest =
             (if is_deadline e \<or> is_canceled e then SyncErr (SyncErrorOf ErrTransient ''Bing API request timed out'')
              else SyncErr (SyncErrorOf ErrInternal ''Bing API response could not be read'')) in
           case as_http_error e of
             Some c \<Rightarrow>
               if c = 401 \<or> c = 403 then SyncErr (SyncErrorOf ErrUnauthorized ''Bing property authorization failed'')
               else if c = 429 then SyncErr (SyncErrorOf ErrRateLimited ''Bing API quota exceeded'')
               else if c \<ge> 500 then SyncErr (SyncErrorOf ErrTransient ''Bing API is temporarily unavailable'')
               else rest
           | None \<Rightarrow> rest))"

subsection \<open>Dates\<close>

text \<open>The pattern \<^verbatim>\<open>^/Date\((-?\d+)\<close>: the text of the number, \<open>None\<close> without a match.\<close>

definition date_match :: "string \<Rightarrow> string option" where
  "date_match raw =
     (if has_prefix raw ''/Date('' then
        (let s = drop 6 raw;
             sign = (if has_prefix s ''-'' then ''-'' else []);
             digits = takeWhile is_digit (drop (length sign) s) in
         if digits = [] then None else Some (sign @ digits))
      else None)"

definition unix_milli :: "int \<Rightarrow> gotime" where
  "unix_milli ms = ms * 1000000"

definition parseDate :: "string \<Rightarrow> gotime option" where
  "parseDate raw =
     (case date_match raw of
        None \<Rightarrow> None
      | Some digits \<Rightarrow> (case atoi digits of (ms, err) \<Rightarrow> if err then None else Some (truncate_day (unix_milli ms))))"

definition in_range :: "sync_request \<Rightarrow> gotime \<Rightarrow> bool" where
  "in_range rq date = (\<not> (date < rq_StartDate rq \<or> rq_EndDate rq < date))"

subsection \<open>Synchronization\<close>

fun daily_loop :: "sync_request \<Rightarrow> traffic list \<Rightarrow> report_row list \<Rightarrow> gotime \<Rightarrow> report_row list \<times> gotime" where
  "daily_loop rq [] rows through = (rows, through)"
| "daily_loop rq (item # items) rows through =
     (case parseDate (tr_Date item) of
        None \<Rightarrow> daily_loop rq items rows through
      | Some date \<Rightarrow>
          if \<not> in_range rq date then daily_loop rq items rows through
          else (let day = format_date date in
                daily_loop rq items
                  (rows @ [[(''_key'', JStr day), (''date'', JStr day), (''clicks'', JInt (tr_Clicks item)), (''impressions'', JInt (tr_Impressions item))]])
                  (if date > through then date else through)))"

fun appendDetails :: "sync_request \<Rightarrow> string \<Rightarrow> traffic list \<Rightarrow> report_row list \<Rightarrow> report_row list" where
  "appendDetails rq dimension [] rows = rows"
| "appendDetails rq dimension (item # items) rows =
     (case parseDate (tr_Date item) of
        None \<Rightarrow> appendDetails rq dimension items rows
      | Some date \<Rightarrow>
          if \<not> in_range rq date \<or> tr_Query item = [] then appendDetails rq dimension items rows
          else (let day = format_date date in
                appendDetails rq dimension items
                  (rows @ [[(''_key'', JStr (day @ ''|'' @ dimension @ ''|'' @ tr_Query item)), (''date'', JStr day), (dimension, JStr (tr_Query item)),
                            (''clicks'', JInt (tr_Clicks item)), (''impressions'', JInt (tr_Impressions item)),
                            (''position_sum'', JFloat (f_mul (tr_AvgImpressionPosition item) (f_of_int (tr_Impressions item))))]])))"

definition syncSearch :: "bing \<Rightarrow> secret_material \<Rightarrow> string \<Rightarrow> sync_request \<Rightarrow> (string, sync_prog) io" where
  "syncSearch p cred prop rq =
     do { r1 \<leftarrow> get_list p cred ''GetRankAndTrafficStats'' prop dec_traffic no_traffic;
          case r1 of Inl e \<Rightarrow> State_Monad.return (sync_fail (bing_classify e)) | Inr daily \<Rightarrow>
     do { r2 \<leftarrow> get_list p cred ''GetQueryStats'' prop dec_traffic no_traffic;
          case r2 of Inl e \<Rightarrow> State_Monad.return (sync_fail (bing_classify e)) | Inr queries \<Rightarrow>
     do { r3 \<leftarrow> get_list p cred ''GetPageStats'' prop dec_traffic no_traffic;
          case r3 of Inl e \<Rightarrow> State_Monad.return (sync_fail (bing_classify e)) | Inr pages \<Rightarrow>
            State_Monad.return
              (case daily_loop rq daily [] zero_time of (dailyRows, through) \<Rightarrow>
               (let detailRows = appendDetails rq ''page'' pages (appendDetails rq ''query'' queries []) in
                store_rows datasetSearchDaily dailyRows ''store Bing search snapshot''
                  (store_rows datasetSearchDetails detailRows ''store Bing search details''
                    (SyncDone \<lparr>rs_Rows = int (length dailyRows + length detailRows), rs_Cursor = [], rs_DataThroughDate = through\<rparr> None)))) }}}"

fun crawl_loop :: "sync_request \<Rightarrow> crawl list \<Rightarrow> report_row list \<Rightarrow> gotime \<Rightarrow> report_row list \<times> gotime" where
  "crawl_loop rq [] rows through = (rows, through)"
| "crawl_loop rq (item # items) rows through =
     (case parseDate (cw_Date item) of
        None \<Rightarrow> crawl_loop rq items rows through
      | Some date \<Rightarrow>
          if \<not> in_range rq date then crawl_loop rq items rows through
          else (let day = format_date date in
                crawl_loop rq items
                  (rows @ [[(''_key'', JStr day), (''date'', JStr day),
                            (''crawled_pages'', JInt (cw_CrawledPages item)), (''in_index'', JInt (cw_InIndex item)),
                            (''crawl_errors'', JInt (cw_CrawlErrors item)), (''blocked_by_robots'', JInt (cw_BlockedByRobotsTxt item)),
                            (''http_2xx'', JInt (cw_Code2xx item)), (''http_4xx'', JInt (cw_Code4xx item)), (''http_5xx'', JInt (cw_Code5xx item)),
                            (''contains_malware'', JInt (cw_ContainsMalware item))]])
                  (if date > through then date else through)))"

definition syncCrawl :: "bing \<Rightarrow> secret_material \<Rightarrow> string \<Rightarrow> sync_request \<Rightarrow> (string, sync_prog) io" where
  "syncCrawl p cred prop rq =
     do { r \<leftarrow> get_list p cred ''GetCrawlStats'' prop dec_crawl no_crawl;
          case r of
            Inl e \<Rightarrow> State_Monad.return (sync_fail (bing_classify e))
          | Inr crawls \<Rightarrow>
              State_Monad.return
                (case crawl_loop rq crawls [] zero_time of (rows, through) \<Rightarrow>
                 store_rows datasetCrawlDaily rows ''store Bing crawl snapshot''
                   (SyncDone \<lparr>rs_Rows = int (length rows), rs_Cursor = [], rs_DataThroughDate = through\<rparr> None)) }"

definition feed_row :: "feed \<Rightarrow> report_row" where
  "feed_row item =
     [(''_key'', JStr (fd_URL item)), (''url'', JStr (fd_URL item)), (''type'', JStr (fd_Type item)),
      (''status'', JStr (fd_Status item)), (''url_count'', JInt (fd_URLCount item)),
      (''pending'', JBool (\<not> equal_fold (fd_Status item) ''Success''))] @
     (case parseDate (fd_Submitted item) of None \<Rightarrow> [] | Some t \<Rightarrow> [(''last_submitted_at'', JStr (format_date t))]) @
     (case parseDate (fd_LastCrawled item) of None \<Rightarrow> [] | Some t \<Rightarrow> [(''last_downloaded_at'', JStr (format_date t))])"

definition syncSitemaps :: "bing \<Rightarrow> secret_material \<Rightarrow> string \<Rightarrow> sync_request \<Rightarrow> (string, sync_prog) io" where
  "syncSitemaps p cred prop rq =
     do { r \<leftarrow> get_list p cred ''GetFeeds'' prop dec_feed no_feed;
          case r of
            Inl e \<Rightarrow> State_Monad.return (sync_fail (bing_classify e))
          | Inr feeds \<Rightarrow>
              State_Monad.return
                (let rows = map feed_row feeds in
                 store_rows datasetSitemaps rows ''store Bing sitemap snapshot''
                   (SyncDone \<lparr>rs_Rows = int (length rows), rs_Cursor = [], rs_DataThroughDate = rq_EndDate rq\<rparr> None)) }"

definition bing_Sync :: "bing \<Rightarrow> sync_request \<Rightarrow> secret_material \<Rightarrow> (string, sync_prog) io" where
  "bing_Sync p rq cred =
     (let prop = (if pr_Reference (rq_Property rq) = [] then site_PublicURL (rq_Site rq) else pr_Reference (rq_Property rq)) in
      if rq_Capability rq = CapSearchPerformance then syncSearch p cred prop rq
      else if rq_Capability rq = CapCrawlStats then syncCrawl p cred prop rq
      else if rq_Capability rq = CapSitemaps then syncSitemaps p cred prop rq
      else State_Monad.return (sync_fail (SyncErr (SyncErrorOf ErrUnsupported (''bing-webmaster does not support '' @ quoted (rq_Capability rq))))))"

definition bing_DiscoverProperties :: "bing \<Rightarrow> secret_material \<Rightarrow> (string, go_error + property list) io" where
  "bing_DiscoverProperties p cred =
     do { r \<leftarrow> get_list p cred ''GetUserSites'' [] dec_site no_site;
          State_Monad.return
            (case r of
               Inl e \<Rightarrow> Inl (bing_classify e)
             | Inr sites \<Rightarrow> Inr (map (\<lambda>s. (property_ref (bs_URL s))\<lparr>pr_DisplayName := bs_URL s\<rparr>) sites)) }"

definition bing_Test :: "bing \<Rightarrow> property \<Rightarrow> secret_material \<Rightarrow> (string, go_error option) io" where
  "bing_Test p prop cred =
     do { r \<leftarrow> get_list p cred ''GetRankAndTrafficStats'' (pr_Reference prop) dec_traffic no_traffic;
          State_Monad.return (case r of Inl e \<Rightarrow> Some (bing_classify e) | Inr _ \<Rightarrow> None) }"

text \<open>The provider as the registry holds it: every method starts its own exchange with the network.\<close>

definition bing_provider :: "bing \<Rightarrow> provider" where
  "bing_provider p =
     \<lparr>Descriptor = bing_Descriptor,
      DiscoverProperties = \<lambda>cred. fst (run_state (bing_DiscoverProperties p cred) []),
      TestProperty = \<lambda>_ prop cred. fst (run_state (bing_Test p prop cred) []),
      SyncRange = \<lambda>rq cred. fst (run_state (bing_Sync p rq cred) []),
      RevokeCredential = \<lambda>_. None\<rparr>"

end
