(* ===== verification/BingProps.thy ===== *)
theory BingProps
  imports Bing
begin

text \<open>
  Properties of the Bing provider: how often a request is made, which errors leave the package, that it keeps the contract of a
  provider, and which rows it stores.
\<close>

section \<open>Requests\<close>

text \<open>The events of \<open>n\<close> failed attempts, latest first.\<close>

fun attempts :: "string \<Rightarrow> nat \<Rightarrow> string event list" where
  "attempts u 0 = []"
| "attempts u (Suc n) = Pause (2 ^ n) # Call u # attempts u n"

text \<open>Answers after which the request is repeated: no answer, a quota or server error, or a body that cannot be read.\<close>

fun transient :: "http_answer \<Rightarrow> bool" where
  "transient (DoError _) = True"
| "transient (Response c _) = (c = 429 \<or> c \<ge> 500 \<or> 200 \<le> c \<and> c < 300)"

fun success :: "http_answer \<Rightarrow> bool" where
  "success (DoError _) = False"
| "success (Response c body) = (200 \<le> c \<and> c < 300 \<and> body \<noteq> None)"

definition get_trace :: "bing \<Rightarrow> string \<Rightarrow> string event list \<Rightarrow> nat \<Rightarrow> nat \<Rightarrow> (go_error + 'a) \<Rightarrow> string event list \<Rightarrow> bool" where
  "get_trace p u h a n r h' \<longleftrightarrow>
     (\<exists>m\<le>n. (\<forall>k. a \<le> k \<and> Suc k < m \<longrightarrow> transient (bp_do p (attempts u k @ h) u))
        \<and> (case r of
             Inl _ \<Rightarrow> h' = attempts u m @ h \<or> h' = tl (attempts u m) @ h
           | Inr _ \<Rightarrow> 0 < m \<and> h' = tl (attempts u m) @ h \<and> success (bp_do p (attempts u (m - 1) @ h) u)))"

lemma read_answer_cases:
  "read_answer u d ans t = (t', None) \<Longrightarrow> success ans"
  "read_answer u d ans t = (t', Some e) \<Longrightarrow> \<not> final_error e \<Longrightarrow> transient ans"
  "read_answer u d ans t = (t', Some e) \<Longrightarrow> as_sync_error e = None"
  by (cases ans; auto simp: read_answer_def read_body_def decode_error_def final_error_def split: if_splits option.splits prod.splits)+

lemma get_loop_trace:
  "(n = 0 \<longrightarrow> err \<noteq> None) \<Longrightarrow> wp (get_loop p d u n a t err) (get_trace p u h a (a + n)) (attempts u a @ h)"
proof (induction n arbitrary: a t err)
  case 0
  then show ?case by (auto simp: wp_simps get_trace_def intro: exI [of _ a])
next
  case (Suc n)
  let ?ans = "bp_do p (attempts u a @ h) u"
  obtain t' err' where ra: "read_answer u d ?ans t = (t', err')" by force
  have one: "get_trace p u h a (a + Suc n) r (Call u # attempts u a @ h)"
    if "r = Inl e \<or> r = Inr x \<and> success ?ans" for r :: "go_error + 'a" and e x
    unfolding get_trace_def using that by (intro exI [of _ "Suc a"]) auto
  have two: "get_trace p u h a (a + Suc n) (Inl e) (attempts u (Suc a) @ h)" for e
    unfolding get_trace_def by (intro exI [of _ "Suc a"]) auto
  have zero: "get_trace p u h a (a + Suc n) (Inl e) (attempts u a @ h)" for e
    unfolding get_trace_def by (intro exI [of _ a]) auto
  have more: "get_trace p u h a (a + Suc n) r h'" if "get_trace p u h (Suc a) (Suc a + n) r h'" "transient ?ans"
    for r :: "go_error + 'a" and h'
  proof -
    have "a \<le> k \<longleftrightarrow> k = a \<or> Suc a \<le> k" for k by auto
    then show ?thesis using that unfolding get_trace_def by auto
  qed
  show ?case
  proof (cases "Parse u")
    case None
    then show ?thesis using zero by (simp add: wp_simps)
  next
    case (Some v)
    have "wp (get_loop p d u n (Suc a) t' (Some e)) (get_trace p u h a (a + Suc n)) (attempts u (Suc a) @ h)"
      if "err' = Some e" "\<not> final_error e" for e
      by (rule wp_mono [OF Suc.IH]) (use more read_answer_cases(2) [OF ra [unfolded that]] that in auto)
    moreover have "success ?ans" if "err' = None" using read_answer_cases(1) [OF ra [unfolded that]] .
    ultimately show ?thesis
      using Some ra one two by (auto simp: wp_simps split: option.split)
  qed
qed


section \<open>Errors\<close>

definition bing_texts :: "(error_code \<times> string) list" where
  "bing_texts =
     [(ErrUnauthorized, ''Bing API key is empty''), (ErrUnauthorized, ''Bing property authorization failed''),
      (ErrRateLimited, ''Bing API quota exceeded''), (ErrTransient, ''Bing API is temporarily unavailable''),
      (ErrTransient, ''Bing API request timed out''), (ErrInternal, ''Bing API response could not be read''),
      (ErrInternal, ''store Bing search snapshot''), (ErrInternal, ''store Bing search details''),
      (ErrInternal, ''store Bing crawl snapshot''), (ErrInternal, ''store Bing sitemap snapshot'')]"

definition bing_public :: "error_code \<Rightarrow> string \<Rightarrow> bool" where
  "bing_public c m \<longleftrightarrow> (c, m) \<in> set bing_texts \<or> c = ErrUnsupported \<and> has_prefix m ''bing-webmaster does not support ''"

lemma bing_classify_public:
  "as_sync_error e = None \<or> public_error bing_public e \<Longrightarrow> public_error bing_public (bing_classify e)"
  by (cases e) (auto simp: bing_classify_def bing_public_def bing_texts_def Let_def public_error_def split: option.split)

definition get_result :: "go_error + 'a \<Rightarrow> 'b \<Rightarrow> bool" where
  "get_result r h = (case r of Inl e \<Rightarrow> as_sync_error e = None \<or> public_error bing_public e | Inr _ \<Rightarrow> True)"

lemma get_result_simps [simp]:
  "get_result (Inl e) h \<longleftrightarrow> as_sync_error e = None \<or> public_error bing_public e" "get_result (Inr a) h"
  by (simp_all add: get_result_def)

lemma get_loop_result:
  "(\<forall>e. err = Some e \<longrightarrow> as_sync_error e = None) \<Longrightarrow> wp (get_loop p d u n a t err) get_result h"
proof (induction n arbitrary: a t err h)
  case 0
  then show ?case by (auto simp: wp_simps split: option.split)
next
  case (Suc n a t err h)
  obtain t' err' where ra: "read_answer u d (bp_do p h u) t = (t', err')" by force
  have "wp (get_loop p d u n (Suc a) t' (Some e)) get_result (Pause (2 ^ a) # Call u # h)" if "err' = Some e" for e
    by (rule Suc.IH) (use read_answer_cases(3) [OF ra [unfolded that]] in simp)
  moreover have "as_sync_error e = None" if "err' = Some e" for e using read_answer_cases(3) [OF ra [unfolded that]] .
  ultimately show ?case
    using ra by (auto simp: wp_simps split: option.split)
qed

lemma get_list_result: "wp (get_list p cred meth siteURL d zero) get_result h"
proof -
  have "wp (bing_get p cred meth siteURL (dec_slice d zero) nil_slice) get_result h"
    by (auto simp: bing_get_def Let_def wp_simps bing_public_def bing_texts_def intro!: get_loop_result)
  then show ?thesis
    unfolding get_list_def wp_bind by (rule wp_mono) (auto simp: wp_simps split: sum.splits)
qed

lemma get_list_wp:
  assumes "\<And>e h. public_error bing_public (bing_classify e) \<Longrightarrow> wp (f (Inl e)) Q h" and "\<And>xs h. wp (f (Inr xs)) Q h"
  shows "wp (State_Monad.bind (get_list p cred meth siteURL d zero) f) Q h"
  unfolding wp_bind
proof (rule wp_mono [OF get_list_result])
  fix r :: "go_error + 'b list" and h' :: "string event list"
  assume "get_result r h'"
  then show "wp (f r) Q h'"
    using assms bing_classify_public by (cases r) auto
qed

definition bing_datasets :: "string set" where
  "bing_datasets = {datasetSearchDaily, datasetSearchDetails, datasetCrawlDaily, datasetSitemaps}"

definition bing_sync_ok :: "sync_prog \<Rightarrow> 'h \<Rightarrow> bool" where
  "bing_sync_ok prog h \<longleftrightarrow> prog_ends (public_end bing_public) prog \<and> prog_writes (\<lambda>ds rows. ds \<in> bing_datasets) prog"

lemma bing_Sync_ok: "wp (bing_Sync p rq cred) bing_sync_ok h"
proof -
  note ok = bing_sync_ok_def bing_public_def bing_texts_def bing_datasets_def
  have "wp (syncSearch p cred q rq) bing_sync_ok h" for q h
    unfolding syncSearch_def by (intro get_list_wp) (auto simp: wp_return ok Let_def split: prod.split intro!: get_list_wp)
  moreover have "wp (syncCrawl p cred q rq) bing_sync_ok h" for q h
    unfolding syncCrawl_def by (intro get_list_wp) (auto simp: wp_simps ok split: prod.split)
  moreover have "wp (syncSitemaps p cred q rq) bing_sync_ok h" for q h
    unfolding syncSitemaps_def by (intro get_list_wp) (auto simp: wp_simps ok Let_def)
  ultimately show ?thesis by (auto simp: bing_Sync_def Let_def wp_simps ok has_prefix_def)
qed

definition bing_call_ok :: "(go_error + 'a) \<Rightarrow> 'h \<Rightarrow> bool" where
  "bing_call_ok r h = (case r of Inl e \<Rightarrow> public_error bing_public e | Inr _ \<Rightarrow> True)"

lemma bing_Discover_ok: "wp (bing_DiscoverProperties p cred) bing_call_ok h"
  unfolding bing_DiscoverProperties_def by (intro get_list_wp) (auto simp: wp_return bing_call_ok_def)

definition bing_test_ok :: "go_error option \<Rightarrow> 'h \<Rightarrow> bool" where
  "bing_test_ok r h = (case r of Some e \<Rightarrow> public_error bing_public e | None \<Rightarrow> True)"

lemma bing_Test_ok: "wp (bing_Test p q cred) bing_test_ok h"
  unfolding bing_Test_def by (intro get_list_wp) (auto simp: wp_return bing_test_ok_def)

interpretation bing: provider_contract "bing_provider p" bing_public bing_datasets for p
proof
  show "public_error bing_public e" if "DiscoverProperties (bing_provider p) cred = Inl e" for cred e
    using wp_fst [OF bing_Discover_ok [of p cred "[]"]] that by (simp add: bing_provider_def bing_call_ok_def)
  show "public_error bing_public e" if "TestProperty (bing_provider p) s q cred = Some e" for s q cred e
    using wp_fst [OF bing_Test_ok [of p q cred "[]"]] that by (simp add: bing_provider_def bing_test_ok_def)
  show "public_error bing_public e" if "RevokeCredential (bing_provider p) cred = Some e" for cred e
    using that by (simp add: bing_provider_def)
  show "prog_ends (public_end bing_public) (SyncRange (bing_provider p) rq cred)"
    "prog_writes (\<lambda>ds rows. ds \<in> bing_datasets) (SyncRange (bing_provider p) rq cred)" for rq cred
    using wp_fst [OF bing_Sync_ok [of p rq cred "[]"]] by (simp_all add: bing_provider_def bing_sync_ok_def)
qed

section \<open>Rows\<close>

text \<open>The items with a readable date in the requested range, with their dates.\<close>

definition dated :: "('i \<Rightarrow> string) \<Rightarrow> sync_request \<Rightarrow> 'i list \<Rightarrow> (gotime \<times> 'i) list" where
  "dated date rq items =
     concat (map (\<lambda>i. case parseDate (date i) of None \<Rightarrow> [] | Some t \<Rightarrow> if rq_StartDate rq \<le> t \<and> t \<le> rq_EndDate rq then [(t, i)] else []) items)"

fun daily_row :: "gotime \<times> traffic \<Rightarrow> report_row" where
  "daily_row (t, i) = [(''_key'', JStr (format_date t)), (''date'', JStr (format_date t)), (''clicks'', JInt (tr_Clicks i)), (''impressions'', JInt (tr_Impressions i))]"

fun detail_row :: "string \<Rightarrow> gotime \<times> traffic \<Rightarrow> report_row" where
  "detail_row dim (t, i) =
     [(''_key'', JStr (format_date t @ ''|'' @ dim @ ''|'' @ tr_Query i)), (''date'', JStr (format_date t)), (dim, JStr (tr_Query i)),
      (''clicks'', JInt (tr_Clicks i)), (''impressions'', JInt (tr_Impressions i)),
      (''position_sum'', JFloat (f_mul (tr_AvgImpressionPosition i) (f_of_int (tr_Impressions i))))]"

lemma dated_Nil [simp]: "dated date rq [] = []"
  by (simp add: dated_def)

lemma dated_Cons:
  "dated date rq (i # is) =
     (case parseDate (date i) of None \<Rightarrow> [] | Some t \<Rightarrow> if rq_StartDate rq \<le> t \<and> t \<le> rq_EndDate rq then [(t, i)] else []) @ dated date rq is"
  by (simp add: dated_def)

lemma in_range_iff: "in_range rq t \<longleftrightarrow> rq_StartDate rq \<le> t \<and> t \<le> rq_EndDate rq"
  by (auto simp: in_range_def)

lemma daily_loop_dated:
  "daily_loop rq items rows through =
     (rows @ map daily_row (dated tr_Date rq items), fold max (map fst (dated tr_Date rq items)) through)"
  by (induction items arbitrary: rows through) (auto simp: dated_Cons in_range_iff Let_def max_def split: option.split)

lemma appendDetails_dated:
  "appendDetails rq dim items rows = rows @ map (detail_row dim) (filter (\<lambda>(t, i). tr_Query i \<noteq> []) (dated tr_Date rq items))"
  by (induction items arbitrary: rows) (auto simp: dated_Cons in_range_iff Let_def split: option.split)

lemma fold_max_Max: "fold max ts (t :: int) = Max (insert t (set ts))"
  using Max.set_eq_fold [of t ts] by simp

lemma dated_range: "(t, i) \<in> set (dated date rq items) \<Longrightarrow> rq_StartDate rq \<le> t \<and> t \<le> rq_EndDate rq \<and> t = truncate_day t \<and> i \<in> set items"
  by (auto simp: dated_def parseDate_def truncate_day_def split: option.splits if_splits prod.splits)

text \<open>
  C26: what a synchronization of the search performance stores when the three requests succeed and the sink accepts:
  for every reported day in the requested range one daily row, for every reported query and page with a name and a date in the
  range one detail row, in the order of the report, and nothing else. The result counts the rows written, and the date
  through which data is available is the latest day of the daily rows; it lies in the requested range.
\<close>

theorem bing_search_exact:
  assumes daily: "run_state (get_list p cred ''GetRankAndTrafficStats'' q dec_traffic no_traffic) [] = (Inr daily, h1)"
    and queries: "run_state (get_list p cred ''GetQueryStats'' q dec_traffic no_traffic) h1 = (Inr queries, h2)"
    and pages: "run_state (get_list p cred ''GetPageStats'' q dec_traffic no_traffic) h2 = (Inr pages, h3)"
    and cap: "rq_Capability rq = CapSearchPerformance"
    and q: "q = (if pr_Reference (rq_Property rq) = [] then site_PublicURL (rq_Site rq) else pr_Reference (rq_Property rq))"
  defines "days \<equiv> dated tr_Date rq daily"
    and "details \<equiv> map (detail_row ''query'') (filter (\<lambda>(t, i). tr_Query i \<noteq> []) (dated tr_Date rq queries))
                  @ map (detail_row ''page'') (filter (\<lambda>(t, i). tr_Query i \<noteq> []) (dated tr_Date rq pages))"
  shows "accepted (SyncRange (bing_provider p) rq cred) =
      (filter (\<lambda>(ds, rows). rows \<noteq> []) [(datasetSearchDaily, map daily_row days), (datasetSearchDetails, details)],
       \<lparr>rs_Rows = int (length days + length details), rs_Cursor = [], rs_DataThroughDate = Max (insert zero_time (fst ` set days))\<rparr>, None)
    \<and> (\<forall>(t, i) \<in> set days. rq_StartDate rq \<le> t \<and> t \<le> rq_EndDate rq \<and> i \<in> set daily)
    \<and> (days \<noteq> [] \<and> zero_time \<le> rq_StartDate rq \<longrightarrow>
         rq_StartDate rq \<le> Max (insert zero_time (fst ` set days)) \<and> Max (insert zero_time (fst ` set days)) \<le> rq_EndDate rq)"
proof (intro conjI impI)
  show "accepted (SyncRange (bing_provider p) rq cred) =
      (filter (\<lambda>(ds, rows). rows \<noteq> []) [(datasetSearchDaily, map daily_row days), (datasetSearchDetails, details)],
       \<lparr>rs_Rows = int (length days + length details), rs_Cursor = [], rs_DataThroughDate = Max (insert zero_time (fst ` set days))\<rparr>, None)"
    by (simp add: bing_provider_def bing_Sync_def syncSearch_def cap q [symmetric] daily queries pages daily_loop_dated
        appendDetails_dated fold_max_Max days_def details_def Let_def)
  show range: "\<forall>(t, i) \<in> set days. rq_StartDate rq \<le> t \<and> t \<le> rq_EndDate rq \<and> i \<in> set daily"
    using dated_range by (fastforce simp: days_def)
  assume ne: "days \<noteq> [] \<and> zero_time \<le> rq_StartDate rq"
  then obtain t i where ti: "(t, i) \<in> set days" by (cases days) auto
  then have "t \<in> fst ` set days" by force
  then have "t \<le> Max (insert zero_time (fst ` set days))" by simp
  with range ti show "rq_StartDate rq \<le> Max (insert zero_time (fst ` set days))" by fastforce
  show "Max (insert zero_time (fst ` set days)) \<le> rq_EndDate rq"
    using range ti ne by (auto simp: Max_le_iff)
qed

section \<open>Witnesses\<close>

text \<open>A service that is overloaded at first and then reports one day, whatever is asked.\<close>

definition demo_report :: jval where
  "demo_report = JObj [(''d'', JArr [JObj [(''Date'', JStr ''/Date(86400000)/''), (''Clicks'', JInt 3), (''Impressions'', JInt 5), (''Query'', JStr ''q'')]])]"

definition demo_bing :: bing where
  "demo_bing = \<lparr>bp_endpoint = ''http://b/'', bp_do = \<lambda>h u. if h = [] then Response 503 None else Response 200 (Some demo_report), bp_ended = \<lambda>_. None\<rparr>"

definition demo_key :: secret_material where
  "demo_key = \<lparr>sm_Type = ''api_key'', sm_Bytes = ''k''\<rparr>"

definition demo_traffic :: traffic where
  "demo_traffic = \<lparr>tr_Clicks = 3, tr_Date = ''/Date(86400000)/'', tr_Impressions = 5, tr_Query = ''q'', tr_AvgImpressionPosition = 0\<rparr>"

lemma demo_key_trim [simp]: "trim_space (sm_Bytes demo_key) = ''k''"
  by (simp add: demo_key_def trim_space_ascii ascii_print_def)

lemma demo_parse:
  "Parse (request_url demo_bing ''k'' ''GetRankAndTrafficStats'' ''s'') \<noteq> None"
  "Parse (request_url demo_bing ''k'' ''GetQueryStats'' ''s'') \<noteq> None"
  "Parse (request_url demo_bing ''k'' ''GetPageStats'' ''s'') \<noteq> None"
  by code_simp+

lemma demo_dec: "dec_slice dec_traffic no_traffic (JArr [JObj [(''Date'', JStr ''/Date(86400000)/''), (''Clicks'', JInt 3), (''Impressions'', JInt 5), (''Query'', JStr ''q'')]]) nil_slice = (([demo_traffic], []), True)"
  by code_simp

lemma demo_envelope: "dec_envelope demo_report None = (Some (JArr [JObj [(''Date'', JStr ''/Date(86400000)/''), (''Clicks'', JInt 3), (''Impressions'', JInt 5), (''Query'', JStr ''q'')]]), True)"
  by code_simp

lemma demo_read: "read_answer u (dec_slice dec_traffic no_traffic) (Response 200 (Some demo_report)) nil_slice = (([demo_traffic], []), None)"
  by (simp add: read_answer_def read_body_def demo_envelope demo_dec)

lemma demo_retry:
  "read_answer u (dec_slice dec_traffic no_traffic) (Response 503 None) nil_slice = (nil_slice, Some (HttpErr 503))" "\<not> final_error (HttpErr 503)"
  by (simp_all add: read_answer_def final_error_def)

lemma demo_bing_sel [simp]:
  "bp_do demo_bing h u = (if h = [] then Response 503 None else Response 200 (Some demo_report))" "bp_ended demo_bing h = None"
  by (simp_all add: demo_bing_def)

lemma demo_get:
  assumes "Parse (request_url demo_bing ''k'' meth ''s'') \<noteq> None"
  shows "run_state (bing_get demo_bing demo_key meth ''s'' (dec_slice dec_traffic no_traffic) nil_slice) h =
    (Inr ([demo_traffic], []), tl (attempts (request_url demo_bing ''k'' meth ''s'') (if h = [] then 2 else 1)) @ h)"
  using assms by (auto simp: bing_get_def Let_def numeral_3_eq_3 numeral_2_eq_2 call_def pause_def demo_read demo_retry)


lemma demo_list:
  assumes "Parse (request_url demo_bing ''k'' meth ''s'') \<noteq> None"
  shows "run_state (get_list demo_bing demo_key meth ''s'' dec_traffic no_traffic) h =
    (Inr [demo_traffic], tl (attempts (request_url demo_bing ''k'' meth ''s'') (if h = [] then 2 else 1)) @ h)"
  by (simp add: get_list_def demo_get [OF assms])

definition demo_bing_rq :: sync_request where
  "demo_bing_rq = \<lparr>rq_Site = \<lparr>site_ID = ''i'', site_PublicURL = ''s'', site_SitemapURL = [], site_Timezone = []\<rparr>, rq_Property = property_ref [],
     rq_Capability = CapSearchPerformance, rq_StartDate = 0, rq_EndDate = of_day 3, rq_Cursor = []\<rparr>"

lemma demo_date: "parseDate ''/Date(86400000)/'' = Some (of_day 1)"
  by (simp add: parseDate_def date_match_def has_prefix_def is_digit_def atoi_def digits_val_def digit_val_def truncate_day_def day_of_def
      unix_milli_def Let_def)

lemma demo_dated: "dated tr_Date demo_bing_rq [demo_traffic] = [(of_day 1, demo_traffic)]"
  by (simp add: dated_def demo_traffic_def demo_date demo_bing_rq_def of_day_def)

theorem bing_search_exact_witness:
  "rs_DataThroughDate (fst (snd (accepted (SyncRange (bing_provider demo_bing) demo_bing_rq demo_key)))) = of_day 1
   \<and> rs_Rows (fst (snd (accepted (SyncRange (bing_provider demo_bing) demo_bing_rq demo_key)))) = 3"
proof -
  have rq: "rq_Capability demo_bing_rq = CapSearchPerformance"
    "''s'' = (if pr_Reference (rq_Property demo_bing_rq) = [] then site_PublicURL (rq_Site demo_bing_rq) else pr_Reference (rq_Property demo_bing_rq))"
    by (simp_all add: demo_bing_rq_def)
  have "tr_Query demo_traffic \<noteq> []" by (simp add: demo_traffic_def)
  moreover have "Max {zero_time, of_day 1} = of_day 1" by (simp add: zero_time_def of_day_def)
  ultimately show ?thesis
    using bing_search_exact [OF demo_list [OF demo_parse(1)] demo_list [OF demo_parse(2)] demo_list [OF demo_parse(3)] rq]
    by (simp add: demo_dated)
qed

end
