(* ===== verification/SearchConsole.thy ===== *)
theory SearchConsole
  imports Float64 ProviderContract GoURL
begin

text \<open>
  The Google Search Console provider (\<^verbatim>\<open>providers/searchconsole/searchconsole.go\<close>). Google's client library is a parameter, the
  interface \<^verbatim>\<open>service\<close> of the source: its methods are functions of the events so far, of the credential the service was built
  with and of their arguments. So are the HTTP client (the sitemap's locations are given as \<^verbatim>\<open>encoding/xml\<close> decodes the first
  \<^verbatim>\<open>maxSitemapBytes\<close> bytes, \<open>None\<close> if it fails) and the clock.
\<close>

section \<open>Definitions\<close>

subsection \<open>The service\<close>

record api_data_row =
  ar_Keys :: "string list"
  ar_Clicks :: float64
  ar_Impressions :: float64
  ar_Position :: float64

record search_query =
  sq_StartDate :: string
  sq_EndDate :: string
  sq_Dimensions :: "string list"
  sq_DataState :: string
  sq_Type :: string
  sq_RowLimit :: int
  sq_StartRow :: int

record sitemap_content =
  sc_Type :: string
  sc_Submitted :: int
  sc_Indexed :: int

record wmx_sitemap =
  ws_Path :: string
  ws_Type :: string
  ws_IsPending :: bool
  ws_Warnings :: int
  ws_Errors :: int
  ws_LastSubmitted :: string
  ws_LastDownloaded :: string
  ws_Contents :: "sitemap_content list"

record index_status =
  is_Verdict :: string
  is_CoverageState :: string
  is_IndexingState :: string
  is_PageFetchState :: string
  is_RobotsTxtState :: string
  is_LastCrawlTime :: string
  is_GoogleCanonical :: string
  is_UserCanonical :: string
  is_CrawledAs :: string
  is_Sitemap :: "string list option"

text \<open>The part of an inspection result that is used: the status, if there is one, and the link to the result.\<close>

type_synonym inspection = "(index_status option \<times> string) option"

datatype sc_call =
    CallQuery string search_query
  | CallListSites
  | CallListSitemaps string
  | CallInspectURL string string
  | CallSitemap string
  | CallRevoke string string

type_synonym sc_events = "sc_call event list"

record search_console =
  gp_unmarshal :: "string \<Rightarrow> oauth_material option"
  gp_JWTConfigFromJSON :: "string \<Rightarrow> bool"
  gp_NewService :: "secret_material \<Rightarrow> bool"
  gp_Query :: "sc_events \<Rightarrow> secret_material \<Rightarrow> string \<Rightarrow> search_query \<Rightarrow> api_error + api_data_row list"
  gp_ListSites :: "sc_events \<Rightarrow> secret_material \<Rightarrow> api_error + string list"
  gp_ListSitemaps :: "sc_events \<Rightarrow> secret_material \<Rightarrow> string \<Rightarrow> api_error + wmx_sitemap list"
  gp_InspectURL :: "sc_events \<Rightarrow> secret_material \<Rightarrow> string \<Rightarrow> string \<Rightarrow> api_error + inspection"
  gp_get :: "sc_events \<Rightarrow> string \<Rightarrow> net_error + int \<times> string list option"
  gp_post :: "sc_events \<Rightarrow> string \<Rightarrow> string \<Rightarrow> net_error + int"
  gp_now :: "sc_events \<Rightarrow> gotime"
  gp_ended :: "sc_events \<Rightarrow> ctx_end option"
  gp_inspectionBatch :: int

definition pageSize :: int where "pageSize = 25000"
definition detailCap :: int where "detailCap = 50000"
definition revokeURL :: string where "revokeURL = ''https://oauth2.googleapis.com/revoke''"

definition scSearchDaily :: string where "scSearchDaily = ''searchconsole/search_daily''"
definition scSearchDetails :: string where "scSearchDetails = ''searchconsole/search_details''"
definition scSitemaps :: string where "scSitemaps = ''searchconsole/sitemaps''"
definition scURLInspection :: string where "scURLInspection = ''searchconsole/url_inspection''"

definition sc_Descriptor :: descriptor where
  "sc_Descriptor =
     \<lparr>d_Name = ''google-search-console'', d_DisplayName = ''Google Search Console'',
      d_CredentialTypes = [''oauth2'', ''service_account_json''],
      d_Capabilities =
        [\<lparr>cs_Capability = CapSearchPerformance, cs_Dimensions = [''date'', ''query'', ''page'', ''country'', ''device''],
          cs_Metrics = [''clicks'', ''impressions'', ''position''], cs_MaxRangeDays = 366, cs_FreshnessLagDays = 3,
          cs_SupportsCursor = False,
          cs_QuotaHint = ''Search analytics queries are rate limited per property; details paginate at 25k rows''\<rparr>,
         \<lparr>cs_Capability = CapSitemaps, cs_Dimensions = [''url'', ''type'', ''pending''], cs_Metrics = [''warnings'', ''errors'', ''submitted''],
          cs_MaxRangeDays = 0, cs_FreshnessLagDays = 0, cs_SupportsCursor = False, cs_QuotaHint = []\<rparr>,
         \<lparr>cs_Capability = CapURLInspection, cs_Dimensions = [''url'', ''verdict'', ''coverage_state'', ''indexing_state''], cs_Metrics = [],
          cs_MaxRangeDays = 1, cs_FreshnessLagDays = 0, cs_SupportsCursor = True,
          cs_QuotaHint = ''URL Inspection has a limited daily property quota; the default batch is 20 URLs''\<rparr>],
      d_SetupURL = ''https://search.google.com/search-console'',
      d_DocsURL = ''https://developers.google.com/webmaster-tools'',
      d_SetupLinks =
        [\<lparr>sl_Kind = ''console'', sl_Label = ''Search Console'', sl_URL = ''https://search.google.com/search-console'',
          sl_Description = ''Verify the site and review indexing data.''\<rparr>,
         \<lparr>sl_Kind = ''enable_api'', sl_Label = ''Enable Search Console API'',
          sl_URL = ''https://console.cloud.google.com/apis/library/searchconsole.googleapis.com'',
          sl_Description = ''Enable the API in the Google Cloud project that owns the OAuth client.''\<rparr>,
         \<lparr>sl_Kind = ''credentials'', sl_Label = ''Google Cloud credentials'', sl_URL = ''https://console.cloud.google.com/apis/credentials'',
          sl_Description = ''Create an OAuth web client or a service-account key.''\<rparr>,
         \<lparr>sl_Kind = ''permissions'', sl_Label = ''Users and permissions'', sl_URL = ''https://search.google.com/search-console/users'',
          sl_Description = ''Grant the OAuth user or service account access to the property.''\<rparr>,
         \<lparr>sl_Kind = ''sitemaps'', sl_Label = ''Sitemaps'', sl_URL = ''https://search.google.com/search-console/sitemaps'',
          sl_Description = ''Submit and inspect the public sitemap.''\<rparr>]\<rparr>"

text \<open>The service is built from the credential; \<open>None\<close> is success.\<close>

definition newGoogleService :: "search_console \<Rightarrow> secret_material \<Rightarrow> go_error option" where
  "newGoogleService g cred =
     (let ready = (if gp_NewService g cred then None
                   else Some (SyncErr (SyncErrorOf ErrInternal ''initialize Search Console client''))) in
      if sm_Type cred = ''service_account_json'' then
        (if gp_JWTConfigFromJSON g (sm_Bytes cred) then ready
         else Some (SyncErr (SyncErrorOf ErrUnauthorized ''invalid Google service-account credential'')))
      else if sm_Type cred = ''oauth2'' then
        (case ParseOAuthMaterial (gp_unmarshal g) (sm_Bytes cred) of
           Inl _ \<Rightarrow> Some (SyncErr (SyncErrorOf ErrUnauthorized ''invalid OAuth credential''))
         | Inr _ \<Rightarrow> ready)
      else Some (SyncErr (SyncErrorOf ErrUnauthorized ''an OAuth or service-account credential is required'')))"

text \<open>A call of the client library, with its errors as Go errors.\<close>

definition api_call :: "(sc_events \<Rightarrow> api_error + 'a) \<Rightarrow> sc_call \<Rightarrow> (sc_call, go_error + 'a) io" where
  "api_call f c = call (\<lambda>h _. map_sum (api_err ''google'') id (f h)) c"

definition sc_Query :: "search_console \<Rightarrow> secret_material \<Rightarrow> string \<Rightarrow> search_query \<Rightarrow> (sc_call, go_error + api_data_row list) io" where
  "sc_Query g cred q request = api_call (\<lambda>h. gp_Query g h cred q request) (CallQuery q request)"

definition sc_now :: "search_console \<Rightarrow> (sc_call, gotime) io" where
  "sc_now g = State (\<lambda>h. (gp_now g h, h))"

subsection \<open>Fetching reports\<close>

definition fetch :: "search_console \<Rightarrow> secret_material \<Rightarrow> string \<Rightarrow> gotime \<Rightarrow> gotime \<Rightarrow> string list \<Rightarrow> int
    \<Rightarrow> (sc_call, go_error + api_data_row list) io" where
  "fetch g cred q start end dimensions startRow =
     retry (gp_ended g) (sc_Query g cred q
       \<lparr>sq_StartDate = format_date start, sq_EndDate = format_date end, sq_Dimensions = dimensions, sq_DataState = ''final'',
        sq_Type = ''web'', sq_RowLimit = pageSize, sq_StartRow = startRow\<rparr>)"

definition detail_dimensions :: "string list" where
  "detail_dimensions = [''date'', ''query'', ''page'', ''country'', ''device'']"

text \<open>The pages of one day: the rows, and whether a page that is not full was reached.\<close>

function fetch_day :: "search_console \<Rightarrow> secret_material \<Rightarrow> string \<Rightarrow> gotime \<Rightarrow> int \<Rightarrow> api_data_row list
    \<Rightarrow> (sc_call, go_error + api_data_row list \<times> bool) io" where
  "fetch_day g cred q date offset rows =
     (if offset < detailCap then
        do { r \<leftarrow> fetch g cred q date date detail_dimensions offset;
             case r of
               Inl e \<Rightarrow> State_Monad.return (Inl e)
             | Inr page \<Rightarrow>
                 if int (length page) < pageSize then State_Monad.return (Inr (rows @ page, True))
                 else fetch_day g cred q date (offset + pageSize) (rows @ page) }
      else State_Monad.return (Inr (rows, False)))"
  by pat_completeness auto
termination by (relation "measure (\<lambda>(g, cred, q, date, offset, rows). nat (detailCap - offset))") (auto simp: pageSize_def)

declare fetch_day.simps [simp del]

function details_loop :: "search_console \<Rightarrow> secret_material \<Rightarrow> string \<Rightarrow> gotime \<Rightarrow> gotime \<Rightarrow> api_data_row list \<Rightarrow> bool
    \<Rightarrow> (sc_call, go_error + api_data_row list \<times> bool) io" where
  "details_loop g cred q date end rows partial =
     (if date \<le> end then
        do { r \<leftarrow> fetch_day g cred q date 0 rows;
             case r of
               Inl e \<Rightarrow> State_Monad.return (Inl e)
             | Inr (rows', dayComplete) \<Rightarrow> details_loop g cred q (add_days date 1) end rows' (partial \<or> \<not> dayComplete) }
      else State_Monad.return (Inr (rows, partial)))"
  by pat_completeness auto
termination by (relation "measure (\<lambda>(g, cred, q, date, end, rows, partial). nat (end + 1 - date))") (auto simp: add_days_def)

declare details_loop.simps [simp del]

definition fetchDetails :: "search_console \<Rightarrow> secret_material \<Rightarrow> string \<Rightarrow> gotime \<Rightarrow> gotime
    \<Rightarrow> (sc_call, go_error + api_data_row list \<times> bool) io" where
  "fetchDetails g cred q start end = details_loop g cred q start end [] False"

subsection \<open>Search performance\<close>

definition position_sum :: "api_data_row \<Rightarrow> jval" where
  "position_sum row = JFloat (f_mul (ar_Position row) (f_of_int (f_round_int64 (ar_Impressions row))))"

fun sc_daily_rows :: "api_data_row list \<Rightarrow> go_error + report_row list" where
  "sc_daily_rows [] = Inr []"
| "sc_daily_rows (row # rest) =
     (case ar_Keys row of
        [] \<Rightarrow> sc_daily_rows rest
      | day # _ \<Rightarrow>
          if parse_date day = None
          then Inl (SyncErr (SyncErrorOf ErrInternal ''Search Console returned an invalid date''))
          else map_sum id ((#)
            [(''_key'', JStr day), (''date'', JStr day), (''clicks'', JInt (f_round_int64 (ar_Clicks row))),
             (''impressions'', JInt (f_round_int64 (ar_Impressions row))), (''position_sum'', position_sum row)]) (sc_daily_rows rest))"

fun sc_detail_rows :: "api_data_row list \<Rightarrow> go_error + report_row list" where
  "sc_detail_rows [] = Inr []"
| "sc_detail_rows (row # rest) =
     (case ar_Keys row of
        day # query # page # country # device # _ \<Rightarrow>
          if parse_date day = None
          then Inl (SyncErr (SyncErrorOf ErrInternal ''Search Console returned an invalid detail date''))
          else map_sum id ((#)
            [(''_key'', JStr (join ''|'' [day, query, page, to_lower country, to_lower device])), (''date'', JStr day),
             (''query'', JStr query), (''page'', JStr page), (''country'', JStr (to_lower country)), (''device'', JStr (to_lower device)),
             (''clicks'', JInt (f_round_int64 (ar_Clicks row))), (''impressions'', JInt (f_round_int64 (ar_Impressions row))),
             (''position_sum'', position_sum row)]) (sc_detail_rows rest)
      | _ \<Rightarrow> sc_detail_rows rest)"

definition store_performance :: "sync_request \<Rightarrow> api_data_row list \<Rightarrow> api_data_row list \<Rightarrow> bool \<Rightarrow> sync_prog" where
  "store_performance rq daily details partial =
     (case sc_daily_rows daily of
        Inl e \<Rightarrow> sync_fail e
      | Inr dailyRows \<Rightarrow>
          (case sc_detail_rows details of
             Inl e \<Rightarrow> sync_fail e
           | Inr detailRows \<Rightarrow>
               store_rows scSearchDaily dailyRows ''store Search Console snapshot''
                 (store_rows scSearchDetails detailRows ''store Search Console details''
                   (SyncDone \<lparr>rs_Rows = int (length dailyRows + length detailRows), rs_Cursor = [], rs_DataThroughDate = rq_EndDate rq\<rparr>
                     (if partial then Some (SyncErr (SyncErrorOf ErrPartial ''some days exceeded the Search Console detail row cap''))
                      else None)))))"

definition syncPerformance :: "search_console \<Rightarrow> secret_material \<Rightarrow> string \<Rightarrow> sync_request \<Rightarrow> (sc_call, sync_prog) io" where
  "syncPerformance g cred q rq =
     do { r1 \<leftarrow> fetch g cred q (rq_StartDate rq) (rq_EndDate rq) [''date''] 0;
          case r1 of Inl e \<Rightarrow> State_Monad.return (sync_fail (google_classify e)) | Inr daily \<Rightarrow>
     do { r2 \<leftarrow> fetchDetails g cred q (rq_StartDate rq) (rq_EndDate rq);
          case r2 of Inl e \<Rightarrow> State_Monad.return (sync_fail (google_classify e)) | Inr (details, partial) \<Rightarrow>
            State_Monad.return (store_performance rq daily details partial) }}"

subsection \<open>Sitemaps\<close>

definition sitemap_row :: "wmx_sitemap \<Rightarrow> report_row" where
  "sitemap_row s =
     [(''_key'', JStr (ws_Path s)), (''url'', JStr (ws_Path s)), (''type'', JStr (ws_Type s)), (''pending'', JBool (ws_IsPending s)),
      (''warnings'', JInt (ws_Warnings s)), (''errors'', JInt (ws_Errors s)), (''last_submitted'', JStr (ws_LastSubmitted s)),
      (''last_downloaded'', JStr (ws_LastDownloaded s)),
      (''contents'', JArr (map (\<lambda>c. JObj [(''type'', JStr (sc_Type c)), (''submitted'', JInt (sc_Submitted c)), (''indexed'', JInt (sc_Indexed c))])
         (ws_Contents s)))]"

definition sc_syncSitemaps :: "search_console \<Rightarrow> secret_material \<Rightarrow> string \<Rightarrow> (sc_call, sync_prog) io" where
  "sc_syncSitemaps g cred q =
     do { r \<leftarrow> api_call (\<lambda>h. gp_ListSitemaps g h cred q) (CallListSitemaps q);
          case r of
            Inl e \<Rightarrow> State_Monad.return (sync_fail (google_classify e))
          | Inr sitemaps \<Rightarrow>
              do { now \<leftarrow> sc_now g;
                   State_Monad.return
                     (store_rows scSitemaps (map sitemap_row sitemaps) ''store Search Console sitemaps''
                       (SyncDone \<lparr>rs_Rows = int (length sitemaps), rs_Cursor = [], rs_DataThroughDate = truncate_day now\<rparr> None)) } }"

subsection \<open>URL inspection\<close>

text \<open>The loop over the locations of the sitemap; \<open>seen\<close> and \<open>out\<close> hold the same URLs.\<close>

fun same_origin_loop :: "url \<Rightarrow> string list \<Rightarrow> string list \<Rightarrow> string list" where
  "same_origin_loop publicURL [] out = out"
| "same_origin_loop publicURL (location # rest) out =
     (case Parse (trim_space location) of
        None \<Rightarrow> same_origin_loop publicURL rest out
      | Some parsed \<Rightarrow>
          if u_Scheme parsed = [] \<or> \<not> equal_fold (Hostname parsed) (Hostname publicURL) then same_origin_loop publicURL rest out
          else (let normalized = String (parsed\<lparr>u_RawQuery := [], u_Fragment := []\<rparr>) in
                same_origin_loop publicURL rest (if normalized \<in> set out then out else out @ [normalized])))"

definition sitemap_locations :: "url \<Rightarrow> net_error + int \<times> string list option \<Rightarrow> go_error + string list" where
  "sitemap_locations publicURL answer =
     (case answer of
        Inl _ \<Rightarrow> Inl (SyncErr (SyncErrorOf ErrTransient ''fetch sitemap failed''))
      | Inr (status, document) \<Rightarrow>
          if status \<noteq> 200 then Inl (SyncErr (SyncErrorOf ErrTransient (''sitemap returned HTTP '' @ itoa status)))
          else (case document of
                  None \<Rightarrow> Inl (SyncErr (SyncErrorOf ErrInternal ''sitemap is not valid XML''))
                | Some locations \<Rightarrow>
                    (let out = same_origin_loop publicURL locations [] in
                     if out = [] then Inl (SyncErr (SyncErrorOf ErrNoData ''sitemap contains no same-origin URLs''))
                     else Inr out)))"

text \<open>
  The request is made for the text of the parsed URL. \<^verbatim>\<open>http.NewRequestWithContext\<close> parses that text once more and the source ignores
  its error; a text that does not parse again is outside the model.
\<close>

definition sitemapURLs :: "search_console \<Rightarrow> site \<Rightarrow> (sc_call, go_error + string list) io" where
  "sitemapURLs g s =
     (case Parse (site_SitemapURL s) of
        None \<Rightarrow> State_Monad.return (Inl (SyncErr (SyncErrorOf ErrNotConfigured ''sitemap URL must be absolute'')))
      | Some sitemapURL \<Rightarrow>
          if u_Scheme sitemapURL = [] \<or> u_Host sitemapURL = []
          then State_Monad.return (Inl (SyncErr (SyncErrorOf ErrNotConfigured ''sitemap URL must be absolute'')))
          else (case Parse (site_PublicURL s) of
                  None \<Rightarrow> State_Monad.return (Inl (SyncErr (SyncErrorOf ErrNotConfigured ''sitemap URL must use the public site origin'')))
                | Some publicURL \<Rightarrow>
                    if \<not> equal_fold (Hostname sitemapURL) (Hostname publicURL)
                       \<or> (u_Scheme sitemapURL \<noteq> ''https'' \<and> u_Scheme sitemapURL \<noteq> ''http'')
                    then State_Monad.return (Inl (SyncErr (SyncErrorOf ErrNotConfigured ''sitemap URL must use the public site origin'')))
                    else do { answer \<leftarrow> call (\<lambda>h _. gp_get g h (String sitemapURL)) (CallSitemap (String sitemapURL));
                              State_Monad.return (sitemap_locations publicURL answer) }))"

text \<open>\<^verbatim>\<open>json.Marshal\<close> of a slice of strings (in UTF-8, as they were decoded from JSON); \<open>None\<close> is the nil slice.\<close>

definition hex4 :: "nat \<Rightarrow> string" where
  "hex4 n = ''00'' @ [lower_char (hex_upper (n div 16)), lower_char (hex_upper (n mod 16))]"

definition json_char :: "char \<Rightarrow> string" where
  "json_char c =
     (if c = CHR 0x22 \<or> c = CHR 0x5C then [CHR 0x5C, c]
      else if byte c = 8 then [CHR 0x5C, CHR ''b''] else if byte c = 12 then [CHR 0x5C, CHR ''f'']
      else if byte c = 10 then [CHR 0x5C, CHR ''n''] else if byte c = 13 then [CHR 0x5C, CHR ''r'']
      else if byte c = 9 then [CHR 0x5C, CHR ''t'']
      else if byte c < 32 \<or> c = CHR ''<'' \<or> c = CHR ''>'' \<or> c = CHR ''&'' then [CHR 0x5C, CHR ''u''] @ hex4 (byte c)
      else [c])"

fun json_chars :: "string \<Rightarrow> string" where
  "json_chars [] = []"
| "json_chars (c # s) =
     (if take 3 (c # s) = [CHR 0xE2, CHR 0x80, CHR 0xA8] then CHR 0x5C # ''u2028'' @ json_chars (drop 2 s)
      else if take 3 (c # s) = [CHR 0xE2, CHR 0x80, CHR 0xA9] then CHR 0x5C # ''u2029'' @ json_chars (drop 2 s)
      else json_char c @ json_chars s)"

definition marshal_strings :: "string list option \<Rightarrow> string" where
  "marshal_strings ss =
     (case ss of
        None \<Rightarrow> ''null''
      | Some xs \<Rightarrow> ''['' @ join '','' (map (\<lambda>s. CHR 0x22 # json_chars s @ [CHR 0x22]) xs) @ '']'')"

definition inspection_row :: "string \<Rightarrow> index_status \<Rightarrow> string \<Rightarrow> report_row" where
  "inspection_row inspectionURL st link =
     [(''_key'', JStr inspectionURL), (''url'', JStr inspectionURL), (''verdict'', JStr (is_Verdict st)),
      (''coverage_state'', JStr (is_CoverageState st)), (''indexing_state'', JStr (is_IndexingState st)),
      (''page_fetch_state'', JStr (is_PageFetchState st)), (''robots_txt_state'', JStr (is_RobotsTxtState st)),
      (''last_crawl_time'', JStr (is_LastCrawlTime st)), (''google_canonical'', JStr (is_GoogleCanonical st)),
      (''user_canonical'', JStr (is_UserCanonical st)), (''crawled_as'', JStr (is_CrawledAs st)),
      (''known_sitemaps'', JStr (marshal_strings (is_Sitemap st))), (''inspection_result_link'', JStr link)]"

text \<open>The loop over the batch: the rows so far, and the error of the inspection that failed, if one did.\<close>

fun inspect_loop :: "search_console \<Rightarrow> secret_material \<Rightarrow> string \<Rightarrow> string list \<Rightarrow> report_row list
    \<Rightarrow> (sc_call, report_row list \<times> go_error option) io" where
  "inspect_loop g cred q [] rows = State_Monad.return (rows, None)"
| "inspect_loop g cred q (inspectionURL # rest) rows =
     do { r \<leftarrow> api_call (\<lambda>h. gp_InspectURL g h cred q inspectionURL) (CallInspectURL q inspectionURL);
          case r of
            Inl e \<Rightarrow> State_Monad.return (rows, Some e)
          | Inr (Some (Some st, link)) \<Rightarrow> inspect_loop g cred q rest (rows @ [inspection_row inspectionURL st link])
          | Inr _ \<Rightarrow> inspect_loop g cred q rest rows }"

definition inspection_failed :: "int \<Rightarrow> report_row list \<Rightarrow> go_error \<Rightarrow> sync_prog" where
  "inspection_failed offset rows e =
     (let cursor = itoa (offset + int (length rows));
          result = SyncDone \<lparr>rs_Rows = int (length rows), rs_Cursor = cursor, rs_DataThroughDate = zero_time\<rparr> (Some (google_classify e)) in
      if rows = [] then result
      else SinkWrite scURLInspection rows (\<lambda>_. SinkCheckpoint cursor (\<lambda>_. result)))"

definition store_inspection :: "int \<Rightarrow> int \<Rightarrow> report_row list \<Rightarrow> gotime \<Rightarrow> sync_prog" where
  "store_inspection end n rows now =
     store_rows scURLInspection rows ''store URL inspection snapshot''
       (if end < n
        then SinkCheckpoint (itoa end) (\<lambda>err. case err of
               Some _ \<Rightarrow> sync_fail (SyncErr (SyncErrorOf ErrInternal ''store URL inspection cursor''))
             | None \<Rightarrow> SyncDone \<lparr>rs_Rows = int (length rows), rs_Cursor = itoa end, rs_DataThroughDate = zero_time\<rparr>
                 (Some (SyncErr (SyncErrorOf ErrPartial ''URL inspection batch completed; more URLs remain''))))
        else SyncDone \<lparr>rs_Rows = int (length rows), rs_Cursor = [], rs_DataThroughDate = truncate_day now\<rparr> None)"

definition inspection_offset :: "string \<Rightarrow> int \<Rightarrow> int option" where
  "inspection_offset cursor n =
     (if cursor = [] then Some 0
      else (case atoi cursor of (offset, err) \<Rightarrow> if err \<or> offset < 0 \<or> offset > n then None else Some offset))"

definition syncURLInspection :: "search_console \<Rightarrow> secret_material \<Rightarrow> string \<Rightarrow> sync_request \<Rightarrow> (sc_call, sync_prog) io" where
  "syncURLInspection g cred q rq =
     do { r \<leftarrow> sitemapURLs g (rq_Site rq);
          case r of
            Inl e \<Rightarrow> State_Monad.return (sync_fail e)
          | Inr urls \<Rightarrow>
              (case inspection_offset (rq_Cursor rq) (int (length urls)) of
                 None \<Rightarrow> State_Monad.return (sync_fail (SyncErr (SyncErrorOf ErrInternal ''URL inspection cursor is invalid'')))
               | Some offset \<Rightarrow>
                   (let end = min (offset + gp_inspectionBatch g) (int (length urls)) in
                    do { (rows, err) \<leftarrow> inspect_loop g cred q (take (nat (end - offset)) (drop (nat offset) urls)) [];
                         case err of
                           Some e \<Rightarrow> State_Monad.return (inspection_failed offset rows e)
                         | None \<Rightarrow> do { now \<leftarrow> sc_now g;
                                       State_Monad.return (store_inspection end (int (length urls)) rows now) } })) }"

subsection \<open>The provider\<close>

definition sc_Sync :: "search_console \<Rightarrow> sync_request \<Rightarrow> secret_material \<Rightarrow> (sc_call, sync_prog) io" where
  "sc_Sync g rq cred =
     (case newGoogleService g cred of
        Some e \<Rightarrow> State_Monad.return (sync_fail e)
      | None \<Rightarrow>
          (let q = pr_Reference (rq_Property rq) in
           if q = [] then State_Monad.return (sync_fail (SyncErr (SyncErrorOf ErrNotConfigured ''no Search Console property selected'')))
           else if rq_Capability rq = CapSearchPerformance then syncPerformance g cred q rq
           else if rq_Capability rq = CapSitemaps then sc_syncSitemaps g cred q
           else if rq_Capability rq = CapURLInspection then syncURLInspection g cred q rq
           else State_Monad.return (sync_fail (SyncErr (SyncErrorOf ErrUnsupported
                  (''google-search-console does not support '' @ quoted (rq_Capability rq)))))))"

definition sc_DiscoverProperties :: "search_console \<Rightarrow> secret_material \<Rightarrow> (sc_call, go_error + property list) io" where
  "sc_DiscoverProperties g cred =
     (case newGoogleService g cred of
        Some e \<Rightarrow> State_Monad.return (Inl e)
      | None \<Rightarrow>
          do { r \<leftarrow> api_call (\<lambda>h. gp_ListSites g h cred) CallListSites;
               State_Monad.return
                 (case r of
                    Inl e \<Rightarrow> Inl (google_classify e)
                  | Inr sites \<Rightarrow> Inr (map (\<lambda>s. (property_ref s)\<lparr>pr_DisplayName := s\<rparr>) sites)) })"

definition sc_Test :: "search_console \<Rightarrow> property \<Rightarrow> secret_material \<Rightarrow> (sc_call, go_error option) io" where
  "sc_Test g q cred =
     (case newGoogleService g cred of
        Some e \<Rightarrow> State_Monad.return (Some e)
      | None \<Rightarrow>
          do { now \<leftarrow> sc_now g;
               r \<leftarrow> sc_Query g cred (pr_Reference q)
                      (let day = format_date (add_days now (- 4)) in
                       \<lparr>sq_StartDate = day, sq_EndDate = day, sq_Dimensions = [], sq_DataState = [], sq_Type = [], sq_RowLimit = 1, sq_StartRow = 0\<rparr>);
               State_Monad.return (case r of Inl e \<Rightarrow> Some (google_classify e) | Inr _ \<Rightarrow> None) })"

definition sc_Revoke :: "search_console \<Rightarrow> secret_material \<Rightarrow> (sc_call, go_error option) io" where
  "sc_Revoke g cred =
     (if sm_Type cred \<noteq> ''oauth2'' then State_Monad.return None
      else (case ParseOAuthMaterial (gp_unmarshal g) (sm_Bytes cred) of
              Inl _ \<Rightarrow> State_Monad.return (Some (SyncErr (SyncErrorOf ErrUnauthorized ''Google OAuth credential is invalid'')))
            | Inr oauth \<Rightarrow>
                (let body = Encode [(''token'', om_RefreshToken oauth)] in
                 if Parse revokeURL = None then State_Monad.return (Some (Msg ''parse''))
                 else do { r \<leftarrow> call (\<lambda>h _. gp_post g h revokeURL body) (CallRevoke revokeURL body);
                           State_Monad.return
                             (case r of
                                Inl _ \<Rightarrow> Some (SyncErr (SyncErrorOf ErrTransient ''Google token revocation failed''))
                              | Inr status \<Rightarrow>
                                  if status < 200 \<or> status \<ge> 300
                                  then Some (SyncErr (SyncErrorOf ErrTransient ''Google token revocation failed'')) else None) })))"

definition sc_provider :: "search_console \<Rightarrow> provider" where
  "sc_provider g =
     \<lparr>Descriptor = sc_Descriptor,
      DiscoverProperties = \<lambda>cred. fst (run_state (sc_DiscoverProperties g cred) []),
      TestProperty = \<lambda>_ q cred. fst (run_state (sc_Test g q cred) []),
      SyncRange = \<lambda>rq cred. fst (run_state (sc_Sync g rq cred) []),
      RevokeCredential = \<lambda>cred. fst (run_state (sc_Revoke g cred) [])\<rparr>"

end
