(* ===== verification/SearchConsoleProps.thy ===== *)
theory SearchConsoleProps
  imports SearchConsole
begin

text \<open>
  Properties of the Search Console provider: that it keeps the contract of a provider, that it fetches every detail row up to the
  cap of the service, that it inspects URLs of the own site only, and that a sequence of resumed inspections covers the whole sitemap.
\<close>

section \<open>Errors\<close>

definition sc_texts :: "(error_code \<times> string) list" where
  "sc_texts = google_texts @
     [(ErrUnauthorized, ''invalid Google service-account credential''), (ErrUnauthorized, ''invalid OAuth credential''),
      (ErrUnauthorized, ''an OAuth or service-account credential is required''), (ErrUnauthorized, ''Google OAuth credential is invalid''),
      (ErrInternal, ''initialize Search Console client''), (ErrTransient, ''Google token revocation failed''),
      (ErrNotConfigured, ''no Search Console property selected''), (ErrInternal, ''Search Console returned an invalid date''),
      (ErrInternal, ''Search Console returned an invalid detail date''), (ErrInternal, ''store Search Console snapshot''),
      (ErrInternal, ''store Search Console details''), (ErrPartial, ''some days exceeded the Search Console detail row cap''),
      (ErrInternal, ''store Search Console sitemaps''), (ErrNotConfigured, ''sitemap URL must be absolute''),
      (ErrNotConfigured, ''sitemap URL must use the public site origin''), (ErrTransient, ''fetch sitemap failed''),
      (ErrInternal, ''sitemap is not valid XML''), (ErrNoData, ''sitemap contains no same-origin URLs''),
      (ErrInternal, ''URL inspection cursor is invalid''), (ErrInternal, ''store URL inspection snapshot''),
      (ErrInternal, ''store URL inspection cursor''), (ErrPartial, ''URL inspection batch completed; more URLs remain'')]"

definition sc_public :: "error_code \<Rightarrow> string \<Rightarrow> bool" where
  "sc_public c m \<longleftrightarrow> (c, m) \<in> set sc_texts
     \<or> c = ErrUnsupported \<and> has_prefix m ''google-search-console does not support ''
     \<or> c = ErrTransient \<and> has_prefix m ''sitemap returned HTTP ''"

definition sc_datasets :: "string set" where
  "sc_datasets = {scSearchDaily, scSearchDetails, scSitemaps, scURLInspection}"

lemma sc_publicI: "(c, m) \<in> set sc_texts \<Longrightarrow> sc_public c m"
  by (simp add: sc_public_def)

lemma sc_classify_public: "as_sync_error e = None \<Longrightarrow> public_error sc_public (google_classify e)"
  by (rule google_classify_public) (auto simp: sc_public_def sc_texts_def)

lemma newGoogleService_public: "newGoogleService g cred = Some e \<Longrightarrow> public_error sc_public e"
  by (auto simp: newGoogleService_def Let_def sc_public_def sc_texts_def split: if_splits sum.splits)

lemma wp_sc_now [wp_simps]: "wp (sc_now g) Q h = Q (gp_now g h) h"
  by (simp add: sc_now_def wp_simps)

lemma wp_api_call [wp_simps]: "wp (api_call f c) Q h = Q (map_sum (api_err ''google'') id (f h)) (Call c # h)"
  by (simp add: api_call_def wp_simps)

lemma fetch_plain: "wp (fetch g cred q s e dims start) plain_result h"
  unfolding fetch_def by (rule retry_plain) (simp add: sc_Query_def wp_simps)

lemma fetch_day_plain: "wp (fetch_day g cred q date offset rows) plain_result h"
proof (induction g cred q date offset rows arbitrary: h rule: fetch_day.induct)
  case (1 g cred q date offset rows h)
  show ?case
    by (subst fetch_day.simps) (auto simp: wp_return intro!: wp_plain_bind [OF fetch_plain] "1.IH")
qed

lemma details_loop_plain: "wp (details_loop g cred q date end rows partial) plain_result h"
proof (induction g cred q date "end" rows partial arbitrary: h rule: details_loop.induct)
  case (1 g cred q date "end" rows partial h)
  show ?case
    by (subst details_loop.simps) (auto simp: wp_return intro!: wp_plain_bind [OF fetch_day_plain] "1.IH" split: prod.split)
qed

definition sc_sync_ok :: "sync_prog \<Rightarrow> 'h \<Rightarrow> bool" where
  "sc_sync_ok prog h \<longleftrightarrow> prog_ends (public_end sc_public) prog \<and> prog_writes (\<lambda>ds rows. ds \<in> sc_datasets) prog"

lemma sc_sync_ok_fail [simp]: "sc_sync_ok (sync_fail e) h \<longleftrightarrow> public_error sc_public e"
  by (simp add: sc_sync_ok_def)

lemma sc_daily_rows_public: "sc_daily_rows rows = Inl e \<Longrightarrow> public_error sc_public e"
  by (induction rows) (auto simp: sc_public_def sc_texts_def split: list.splits if_splits)

lemma sc_detail_rows_public: "sc_detail_rows rows = Inl e \<Longrightarrow> public_error sc_public e"
  by (induction rows rule: sc_detail_rows.induct) (auto simp: sc_public_def sc_texts_def split: list.splits if_splits)

lemma store_performance_ok: "sc_sync_ok (store_performance rq daily details partial) h"
  using sc_daily_rows_public [of daily] sc_detail_rows_public [of details]
  by (auto simp: store_performance_def sc_sync_ok_def sc_public_def sc_texts_def sc_datasets_def split: sum.split)

lemma syncPerformance_ok: "wp (syncPerformance g cred q rq) sc_sync_ok h"
  unfolding syncPerformance_def fetchDetails_def
  by (intro wp_plain_bind [OF fetch_plain])
     (auto simp: wp_return sc_classify_public store_performance_ok intro!: wp_plain_bind [OF details_loop_plain] split: prod.split)

lemma sc_syncSitemaps_ok: "wp (sc_syncSitemaps g cred q) sc_sync_ok h"
proof -
  have "wp (api_call (\<lambda>h. gp_ListSitemaps g h cred q) (CallListSitemaps q)) plain_result h" by (simp add: wp_api_call)
  then show ?thesis
    unfolding sc_syncSitemaps_def
    by (rule wp_plain_bind)
       (auto simp: wp_simps sc_classify_public sc_sync_ok_def sc_public_def sc_texts_def sc_datasets_def)
qed

lemma sitemap_locations_public: "sitemap_locations u ans = Inl e \<Longrightarrow> public_error sc_public e"
  by (auto simp: sitemap_locations_def sc_public_def sc_texts_def has_prefix_def Let_def split: sum.splits if_splits option.splits)

definition sc_call_ok :: "(go_error + 'a) \<Rightarrow> 'h \<Rightarrow> bool" where
  "sc_call_ok r h = (case r of Inl e \<Rightarrow> public_error sc_public e | Inr _ \<Rightarrow> True)"

lemma sc_call_ok_simps [simp]: "sc_call_ok (Inl e) h \<longleftrightarrow> public_error sc_public e" "sc_call_ok (Inr a) h"
  by (simp_all add: sc_call_ok_def)

lemma sitemapURLs_ok: "wp (sitemapURLs g s) sc_call_ok h"
proof -
  have "sc_call_ok (sitemap_locations u ans) h'" for u ans h'
    using sitemap_locations_public [of u ans] by (cases "sitemap_locations u ans") auto
  then show ?thesis
    by (auto simp: sitemapURLs_def wp_simps sc_public_def sc_texts_def split: option.split)
qed

definition inspect_ok :: "report_row list \<times> go_error option \<Rightarrow> 'h \<Rightarrow> bool" where
  "inspect_ok r h = (case snd r of Some e \<Rightarrow> as_sync_error e = None | None \<Rightarrow> True)"

lemma inspect_loop_plain: "wp (inspect_loop g cred q urls rows) inspect_ok h"
proof (induction urls arbitrary: rows h)
  case Nil
  then show ?case by (simp add: wp_simps inspect_ok_def)
next
  case (Cons u urls rows h)
  show ?case
    using Cons by (cases "gp_InspectURL g h cred q u") (auto simp: wp_simps inspect_ok_def [of "(_, Some _)"] split: option.split)
qed

lemma inspection_failed_ok: "as_sync_error e = None \<Longrightarrow> sc_sync_ok (inspection_failed offset rows e) h"
  by (simp add: inspection_failed_def sc_sync_ok_def Let_def sc_classify_public sc_datasets_def)

lemma store_inspection_ok: "sc_sync_ok (store_inspection end n rows now) h"
  by (auto simp: store_inspection_def sc_sync_ok_def sc_public_def sc_texts_def sc_datasets_def split: option.split)

lemma syncURLInspection_ok: "wp (syncURLInspection g cred q rq) sc_sync_ok h"
  unfolding syncURLInspection_def wp_bind
proof (rule wp_mono [OF sitemapURLs_ok])
  fix r :: "go_error + string list" and h' :: sc_events
  assume "sc_call_ok r h'"
  moreover have "wp (inspect_loop g cred q us []) (\<lambda>r. wp (case r of (rows, Some e) \<Rightarrow> State_Monad.return (inspection_failed offset rows e)
       | (rows, None) \<Rightarrow> State_Monad.bind (sc_now g) (\<lambda>now. State_Monad.return (store_inspection end n rows now))) sc_sync_ok) h'"
    for us offset "end" n
    by (rule wp_mono [OF inspect_loop_plain])
       (auto simp: inspect_ok_def wp_simps inspection_failed_ok store_inspection_ok split: option.splits prod.splits)
  ultimately show "wp (case r of Inl e \<Rightarrow> State_Monad.return (sync_fail e)
         | Inr urls \<Rightarrow> case inspection_offset (rq_Cursor rq) (int (length urls)) of
             None \<Rightarrow> State_Monad.return (sync_fail (SyncErr (SyncErrorOf ErrInternal ''URL inspection cursor is invalid'')))
           | Some offset \<Rightarrow> let end = min (offset + gp_inspectionBatch g) (int (length urls)) in
               State_Monad.bind (inspect_loop g cred q (take (nat (end - offset)) (drop (nat offset) urls)) [])
                 (\<lambda>(rows, err). case err of Some e \<Rightarrow> State_Monad.return (inspection_failed offset rows e)
                   | None \<Rightarrow> State_Monad.bind (sc_now g) (\<lambda>now. State_Monad.return (store_inspection end (int (length urls)) rows now))))
        sc_sync_ok h'"
    by (cases r) (auto simp: wp_return wp_bind Let_def sc_public_def sc_texts_def case_prod_beta split: option.split)
qed

lemma sc_Sync_ok: "wp (sc_Sync g rq cred) sc_sync_ok h"
  using newGoogleService_public [of g cred] syncPerformance_ok sc_syncSitemaps_ok syncURLInspection_ok
  by (auto simp: sc_Sync_def Let_def wp_return sc_public_def sc_texts_def has_prefix_def split: option.split)

lemma sc_Discover_ok: "wp (sc_DiscoverProperties g cred) sc_call_ok h"
  using newGoogleService_public [of g cred] sc_classify_public
  by (cases "gp_ListSites g h cred") (auto simp: sc_DiscoverProperties_def wp_simps split: option.split)

definition sc_test_ok :: "go_error option \<Rightarrow> 'h \<Rightarrow> bool" where
  "sc_test_ok r h = (case r of Some e \<Rightarrow> public_error sc_public e | None \<Rightarrow> True)"

lemma sc_test_ok_simps [simp]: "sc_test_ok (Some e) h \<longleftrightarrow> public_error sc_public e" "sc_test_ok None h"
  by (simp_all add: sc_test_ok_def)

lemma sc_Test_ok: "wp (sc_Test g q cred) sc_test_ok h"
proof -
  have "sc_test_ok (case map_sum (api_err ''google'') id r of Inl e \<Rightarrow> Some (google_classify e) | Inr _ \<Rightarrow> None) h'" for r h'
    using sc_classify_public by (cases r) auto
  then show ?thesis
    using newGoogleService_public [of g cred] by (auto simp: sc_Test_def sc_Query_def wp_simps split: option.split)
qed

lemma revokeURL_parses: "Parse revokeURL \<noteq> None"
  by code_simp

lemma sc_Revoke_ok: "wp (sc_Revoke g cred) sc_test_ok h"
  using revokeURL_parses
  by (auto simp: sc_Revoke_def Let_def wp_simps sc_public_def sc_texts_def split: sum.split)

interpretation gsc: provider_contract "sc_provider g" sc_public sc_datasets for g
proof
  show "public_error sc_public e" if "DiscoverProperties (sc_provider g) cred = Inl e" for cred e
    using wp_fst [OF sc_Discover_ok [of g cred "[]"]] that by (simp add: sc_provider_def)
  show "public_error sc_public e" if "TestProperty (sc_provider g) s q cred = Some e" for s q cred e
    using wp_fst [OF sc_Test_ok [of g q cred "[]"]] that by (simp add: sc_provider_def)
  show "public_error sc_public e" if "RevokeCredential (sc_provider g) cred = Some e" for cred e
    using wp_fst [OF sc_Revoke_ok [of g cred "[]"]] that by (simp add: sc_provider_def)
  show "prog_ends (public_end sc_public) (SyncRange (sc_provider g) rq cred)"
    "prog_writes (\<lambda>ds rows. ds \<in> sc_datasets) (SyncRange (sc_provider g) rq cred)" for rq cred
    using wp_fst [OF sc_Sync_ok [of g rq cred "[]"]] by (simp_all add: sc_provider_def sc_sync_ok_def)
qed

section \<open>Detail rows\<close>

text \<open>
  The documented paging of the service: for one day and all detail dimensions it returns the rows of its table from
  \<^verbatim>\<open>startRow\<close> on, at most \<^verbatim>\<open>rowLimit\<close> of them.
\<close>

definition serves :: "search_console \<Rightarrow> secret_material \<Rightarrow> string \<Rightarrow> (gotime \<Rightarrow> api_data_row list) \<Rightarrow> bool" where
  "serves g cred q T \<longleftrightarrow>
     (\<forall>h date start. 0 \<le> start \<longrightarrow>
        gp_Query g h cred q \<lparr>sq_StartDate = format_date date, sq_EndDate = format_date date, sq_Dimensions = detail_dimensions,
          sq_DataState = ''final'', sq_Type = ''web'', sq_RowLimit = pageSize, sq_StartRow = start\<rparr>
        = Inr (take (nat pageSize) (drop (nat start) (T date))))"

definition days_between :: "gotime \<Rightarrow> gotime \<Rightarrow> gotime list" where
  "days_between s e = map (\<lambda>k. add_days s k) [0..(e - s) div day_ns]"

lemma fetch_serves:
  assumes "serves g cred q T" "0 \<le> start"
  shows "wp (fetch g cred q d d detail_dimensions start) (returns (Inr (take (nat pageSize) (drop (nat start) (T d))))) h"
  using assms by (simp add: serves_def fetch_def retry_def numeral_3_eq_3 sc_Query_def wp_simps returns_def)

lemma fetch_day_serves:
  assumes T: "serves g cred q T"
  shows "wp (fetch_day g cred q d 0 rows) (returns (Inr (rows @ take (nat detailCap) (T d), int (length (T d)) < detailCap))) h"
proof -
  let ?p1 = "take 25000 (T d)" and ?p2 = "take 25000 (drop 25000 (T d))"
  have page: "wp (fetch g cred q d d detail_dimensions 0) (returns (Inr ?p1)) h"
    "wp (fetch g cred q d d detail_dimensions 25000) (returns (Inr ?p2)) h" for h
    using fetch_serves [OF T, of 0 d h] fetch_serves [OF T, of 25000 d h] by (simp_all add: pageSize_def)
  have two: "wp (fetch_day g cred q d 25000 (rows @ ?p1)) (returns (Inr (rows @ take 50000 (T d), length (T d) < 50000))) h"
    if "25000 \<le> length (T d)" for h
  proof -
    have all: "?p1 @ ?p2 = take 50000 (T d)" using take_add [of 25000 25000 "T d"] by simp
    show ?thesis
      using that all
      by (subst fetch_day.simps)
         (auto simp: pageSize_def detailCap_def wp_return returns_def fetch_day.simps [of _ _ _ _ 50000] intro!: wp_returns_bind [OF page(2)])
  qed
  show ?thesis
    using two by (subst fetch_day.simps) (auto simp: pageSize_def detailCap_def wp_return returns_def intro!: wp_returns_bind [OF page(1)])
qed

lemma days_between_step:
  "s \<le> e \<Longrightarrow> days_between s e = s # days_between (add_days s 1) e" "e < s \<Longrightarrow> days_between s e = []"
proof -
  have shift: "map (\<lambda>k. add_days s k) [1..n] = map (\<lambda>k. add_days (add_days s 1) k) [0..n - 1]" for n
  proof -
    have "[1..n] = map (\<lambda>k. k + 1) [0..n - 1]"
      by (rule nth_equalityI) auto
    then show ?thesis by (simp add: add_days_def algebra_simps)
  qed
  assume "s \<le> e"
  then have n: "0 \<le> (e - s) div day_ns" "(e - add_days s 1) div day_ns = (e - s) div day_ns - 1"
    by (auto simp: add_days_def pos_imp_zdiv_nonneg_iff div_pos_neg_trivial)
  show "days_between s e = s # days_between (add_days s 1) e"
    using n shift [of "(e - s) div day_ns"] by (simp add: days_between_def upto_rec1 add_days_def [of s 0])
next
  assume "e < s"
  then have "(e - s) div day_ns < 0" by (simp add: neg_imp_zdiv_neg_iff)
  then show "days_between s e = []" by (simp add: days_between_def)
qed

lemma details_loop_serves:
  assumes T: "serves g cred q T"
  shows "wp (details_loop g cred q s e rows partial)
    (returns (Inr (rows @ concat (map (\<lambda>d. take (nat detailCap) (T d)) (days_between s e)),
       partial \<or> (\<exists>d \<in> set (days_between s e). detailCap \<le> int (length (T d)))))) h"
  using T
proof (induction g cred q s e rows partial arbitrary: h rule: details_loop.induct)
  case (1 g cred q s e rows partial h)
  show ?case
  proof (cases "s \<le> e")
    case True
    have "wp (details_loop g cred q (add_days s 1) e (rows @ take (nat detailCap) (T s)) (partial \<or> \<not> int (length (T s)) < detailCap))
      (returns (Inr (rows @ concat (map (\<lambda>d. take (nat detailCap) (T d)) (days_between s e)),
         partial \<or> (\<exists>d \<in> set (days_between s e). detailCap \<le> int (length (T d)))))) h'" for h'
      using "1.IH" [OF True "1.prems", of "rows @ take (nat detailCap) (T s)" "int (length (T s)) < detailCap" h'] True
      by (simp add: days_between_step not_less disj_assoc)
    then show ?thesis
      using True by (subst details_loop.simps) (auto intro!: wp_returns_bind [OF fetch_day_serves [OF "1.prems"]])
  next
    case False
    then show ?thesis by (simp add: details_loop.simps days_between_step wp_return returns_def)
  qed
qed

text \<open>
  C28: against a service that pages its tables as documented, fetching the details of a range of days returns, for every day from
  the first to the last, the rows of that day's table in order, up to the cap of the service, nothing twice and nothing missing;
  the result is flagged as partial exactly if some day has as many rows as the cap.
\<close>

theorem sc_details_exact:
  assumes "serves g cred q T"
  shows "fst (run_state (fetchDetails g cred q s e) h) =
    Inr (concat (map (\<lambda>d. take 50000 (T d)) (days_between s e)), \<exists>d \<in> set (days_between s e). 50000 \<le> length (T d))"
  using wp_fst [OF details_loop_serves [OF assms, of s e "[]" False h]] by (simp add: returns_def fetchDetails_def detailCap_def)

section \<open>The sitemap\<close>

text \<open>A URL taken from a location of the sitemap: absolute, on the host of the public site, without query and fragment.\<close>

definition own_url :: "url \<Rightarrow> string list \<Rightarrow> string \<Rightarrow> bool" where
  "own_url publicURL locations u \<longleftrightarrow>
     (\<exists>l \<in> set locations. \<exists>parsed. Parse (trim_space l) = Some parsed \<and> u_Scheme parsed \<noteq> []
        \<and> equal_fold (Hostname parsed) (Hostname publicURL) \<and> u = String (parsed\<lparr>u_RawQuery := [], u_Fragment := []\<rparr>))"

lemma same_origin_loop_inv:
  "distinct out \<Longrightarrow> distinct (same_origin_loop p ls out)
     \<and> set (same_origin_loop p ls out) = set out \<union> {u. own_url p ls u}"
proof (induction p ls out rule: same_origin_loop.induct)
  case (1 p out)
  then show ?case by (simp add: own_url_def)
next
  case (2 p l ls out)
  have step: "own_url p (l # ls) u \<longleftrightarrow> own_url p ls u \<or> own_url p [l] u" for u
    by (auto simp: own_url_def)
  show ?case
  proof (cases "Parse (trim_space l)")
    case None
    then have "\<not> own_url p [l] u" for u by (simp add: own_url_def)
    then show ?thesis using 2 None by (simp add: step)
  next
    case (Some parsed)
    then have one: "own_url p [l] u \<longleftrightarrow> u_Scheme parsed \<noteq> [] \<and> equal_fold (Hostname parsed) (Hostname p)
        \<and> u = String (parsed\<lparr>u_RawQuery := [], u_Fragment := []\<rparr>)" for u
      by (simp add: own_url_def)
    show ?thesis using 2 Some by (auto simp: step one Let_def)
  qed
qed

text \<open>
  URL inspection stays on the own site. The sitemap is requested at most once, only if its URL is absolute, uses
  HTTP or HTTPS and names the host of the public site. The URLs that are inspected are exactly the
  locations of that sitemap on the same host, each stripped of its query and fragment, each once.
\<close>

theorem sc_sitemap_same_origin:
  assumes run: "run_state (sitemapURLs g s) h = (Inr urls, h')"
  shows "\<exists>sm p locations. Parse (site_SitemapURL s) = Some sm \<and> Parse (site_PublicURL s) = Some p
    \<and> u_Scheme sm \<in> {''https'', ''http''} \<and> equal_fold (Hostname sm) (Hostname p)
    \<and> h' = Call (CallSitemap (String sm)) # h \<and> gp_get g h (String sm) = Inr (200, Some locations)
    \<and> urls \<noteq> [] \<and> distinct urls \<and> set urls = {u. own_url p locations u}"
proof -
  from run obtain sm p where u: "Parse (site_SitemapURL s) = Some sm" "Parse (site_PublicURL s) = Some p"
      "u_Scheme sm \<in> {''https'', ''http''}" "equal_fold (Hostname sm) (Hostname p)"
      "h' = Call (CallSitemap (String sm)) # h" "sitemap_locations p (gp_get g h (String sm)) = Inr urls"
    by (auto simp: sitemapURLs_def call_def split: option.splits if_splits)
  from u(6) obtain locations where l: "gp_get g h (String sm) = Inr (200, Some locations)"
      "urls = same_origin_loop p locations []" "urls \<noteq> []"
    by (auto simp: sitemap_locations_def Let_def split: sum.splits prod.splits option.splits if_splits)
  have "distinct urls \<and> set urls = {u. own_url p locations u}"
    using same_origin_loop_inv [of "[]" p locations] l(2) by simp
  with u(1-5) l(1,3) show ?thesis by blast
qed

section \<open>Witnesses\<close>

definition demo_row :: api_data_row where
  "demo_row = \<lparr>ar_Keys = [''2024-01-01'', ''q'', ''/'', ''DEU'', ''MOBILE''], ar_Clicks = 0, ar_Impressions = 0, ar_Position = 0\<rparr>"

definition demo_status :: index_status where
  "demo_status = \<lparr>is_Verdict = ''PASS'', is_CoverageState = [], is_IndexingState = [], is_PageFetchState = [], is_RobotsTxtState = [],
     is_LastCrawlTime = [], is_GoogleCanonical = [], is_UserCanonical = [], is_CrawledAs = [], is_Sitemap = None\<rparr>"

text \<open>A service with one row per day and a sitemap of three pages, one of them foreign and one listed twice.\<close>

definition demo_gsc :: search_console where
  "demo_gsc = \<lparr>gp_unmarshal = \<lambda>_. None, gp_JWTConfigFromJSON = \<lambda>_. True, gp_NewService = \<lambda>_. True,
     gp_Query = \<lambda>h cred q r. Inr (take (nat (sq_RowLimit r)) (drop (nat (sq_StartRow r)) [demo_row])),
     gp_ListSites = \<lambda>_ _. Inr [], gp_ListSitemaps = \<lambda>_ _ _. Inr [], gp_InspectURL = \<lambda>_ _ _ _. Inr (Some (Some demo_status, [])),
     gp_get = \<lambda>_ _. Inr (200, Some [''http://a/x'', ''http://b/'', ''http://a/x?u=1'', ''http://a/y'']), gp_post = \<lambda>_ _ _. Inr 200,
     gp_now = \<lambda>_. 0, gp_ended = \<lambda>_. None, gp_inspectionBatch = 1\<rparr>"

definition demo_gsc_cred :: secret_material where
  "demo_gsc_cred = \<lparr>sm_Type = ''service_account_json'', sm_Bytes = []\<rparr>"

definition demo_gsc_rq :: sync_request where
  "demo_gsc_rq = \<lparr>rq_Site = \<lparr>site_ID = ''i'', site_PublicURL = ''http://a'', site_SitemapURL = ''http://a/s'', site_Timezone = []\<rparr>,
     rq_Property = property_ref ''p'', rq_Capability = CapURLInspection, rq_StartDate = 0, rq_EndDate = 0, rq_Cursor = []\<rparr>"

lemma demo_gsc_serves: "serves demo_gsc cred q (\<lambda>_. [demo_row])"
  by (simp add: serves_def demo_gsc_def)

theorem sc_details_exact_witness:
  "fst (run_state (fetchDetails demo_gsc demo_gsc_cred ''p'' 0 (of_day 1)) []) = Inr ([demo_row, demo_row], False)"
proof -
  have "days_between 0 (of_day 1) = [0, of_day 1]" by (simp add: days_between_def of_day_def add_days_def upto_rec1)
  then show ?thesis using sc_details_exact [OF demo_gsc_serves, of demo_gsc_cred "''p''" 0 "of_day 1" "[]"] by simp
qed

definition demo_view :: "url \<Rightarrow> string \<times> bool \<times> string" where
  "demo_view u = (u_Scheme u, equal_fold (Hostname u) ''a'', String (u\<lparr>u_RawQuery := [], u_Fragment := []\<rparr>))"

lemma demo_views:
  "map_option demo_view (Parse ''http://a'') = Some (''http'', True, ''http://a'')"
  "map_option demo_view (Parse ''http://a/x'') = Some (''http'', True, ''http://a/x'')"
  "map_option demo_view (Parse ''http://a/x?u=1'') = Some (''http'', True, ''http://a/x'')"
  "map_option demo_view (Parse ''http://a/y'') = Some (''http'', True, ''http://a/y'')"
  "map_option demo_view (Parse ''http://b/'') = Some (''http'', False, ''http://b/'')"
  "map_option u_Host (Parse ''http://a/s'') = Some ''a''" "map_option demo_view (Parse ''http://a/s'') = Some (''http'', True, ''http://a/s'')"
  "map_option Hostname (Parse ''http://a'') = Some ''a''"
  by code_simp+

lemma demo_sitemap:
  "fst (run_state (sitemapURLs demo_gsc (rq_Site demo_gsc_rq)) h) = Inr [''http://a/x'', ''http://a/y'']"
proof -
  obtain p where p: "Parse ''http://a'' = Some p" "Hostname p = ''a''" using demo_views(8) by auto
  obtain s where s: "Parse ''http://a/s'' = Some s" "u_Scheme s = ''http''" "u_Host s = ''a''" "equal_fold (Hostname s) ''a''"
    using demo_views(6,7) by (auto simp: demo_view_def)
  show ?thesis
    using demo_views(2-5)
    by (auto simp: sitemapURLs_def demo_gsc_rq_def demo_gsc_def p s call_def sitemap_locations_def trim_space_ascii ascii_print_def demo_view_def Let_def)
qed

theorem sc_sitemap_same_origin_witness:
  "\<exists>sm p locations. Parse ''http://a/s'' = Some sm \<and> Parse ''http://a'' = Some p
     \<and> gp_get demo_gsc [] (String sm) = Inr (200, Some locations) \<and> {''http://a/x'', ''http://a/y''} = {u. own_url p locations u}"
proof -
  obtain h where "run_state (sitemapURLs demo_gsc (rq_Site demo_gsc_rq)) [] = (Inr [''http://a/x'', ''http://a/y''], h)"
    using demo_sitemap [of "[]"] by (metis prod.collapse)
  from sc_sitemap_same_origin [OF this] show ?thesis by (auto simp: demo_gsc_rq_def)
qed

end
