(* ===== verification/Inspection.thy ===== *)
theory Inspection
  imports SearchConsoleProps
begin

text \<open>
  Repeated URL inspections: every run inspects one batch of the sitemap and ends as partial with a cursor from which the next
  run continues (the engine hands the cursor of a partial run to the next one). The theory follows such a sequence of runs to its end.
\<close>

section \<open>Definitions\<close>

text \<open>
  Runs that resume one another: the batches written, \<open>None\<close> if a run fails or the fuel is used up. The environment may
  change from run to run.
\<close>

fun inspection_runs :: "(nat \<Rightarrow> search_console) \<Rightarrow> sync_request \<Rightarrow> secret_material \<Rightarrow> nat \<Rightarrow> string
    \<Rightarrow> (string \<times> report_row list) list option" where
  "inspection_runs G rq cred 0 cursor = None"
| "inspection_runs G rq cred (Suc n) cursor =
     (case accepted (SyncRange (sc_provider (G n)) (rq\<lparr>rq_Cursor := cursor\<rparr>) cred) of (ws, res, err) \<Rightarrow>
        (case err of
           None \<Rightarrow> Some ws
         | Some e \<Rightarrow>
             if fst (classify e) = ErrPartial then map_option ((@) ws) (inspection_runs G rq cred n (rs_Cursor res)) else None))"

text \<open>Every inspection is answered with a status.\<close>

definition inspects :: "search_console \<Rightarrow> secret_material \<Rightarrow> string \<Rightarrow> bool" where
  "inspects g cred q \<longleftrightarrow> (\<forall>h u. \<exists>st link. gp_InspectURL g h cred q u = Inr (Some (Some st, link)))"

definition written :: "(string \<times> report_row list) list \<Rightarrow> string list" where
  "written ws = concat (map (\<lambda>(ds, rows). map row_key_of rows) ws)"

section \<open>Lemmas\<close>

lemma row_key_inspection [simp]: "row_key_of (inspection_row u st link) = u"
  by (simp add: row_key_of_def inspection_row_def)

definition inspected :: "string list \<Rightarrow> report_row list \<times> go_error option \<Rightarrow> 'h \<Rightarrow> bool" where
  "inspected us r h \<longleftrightarrow> snd r = None \<and> map row_key_of (fst r) = us"

lemma inspect_loop_all:
  assumes "inspects g cred q"
  shows "wp (inspect_loop g cred q us rows) (inspected (map row_key_of rows @ us)) h"
proof (induction us arbitrary: rows h)
  case Nil
  then show ?case by (simp add: wp_simps inspected_def)
next
  case (Cons u us rows h)
  obtain st link where "gp_InspectURL g h cred q u = Inr (Some (Some st, link))" using assms unfolding inspects_def by blast
  then show ?case using Cons [of "rows @ [inspection_row u st link]"] by (simp add: wp_simps)
qed

lemma accepted_store_inspection:
  "accepted (store_inspection e n rows now) =
     ((if rows = [] then [] else [(scURLInspection, rows)]),
      (if e < n
       then (\<lparr>rs_Rows = int (length rows), rs_Cursor = itoa e, rs_DataThroughDate = zero_time\<rparr>,
             Some (SyncErr (SyncErrorOf ErrPartial ''URL inspection batch completed; more URLs remain'')))
       else (\<lparr>rs_Rows = int (length rows), rs_Cursor = [], rs_DataThroughDate = truncate_day now\<rparr>, None)))"
  by (simp add: store_inspection_def)

text \<open>One run: it writes the rows of the URLs from the offset on, one batch of them.\<close>

lemma one_inspection:
  assumes q: "pr_Reference (rq_Property rq) = q" "q \<noteq> []" and cap: "rq_Capability rq = CapURLInspection"
    and svc: "newGoogleService g cred = None" and ins: "inspects g cred q"
    and urls: "fst (run_state (sitemapURLs g (rq_Site rq)) []) = Inr urls"
    and off: "inspection_offset (rq_Cursor rq) (int (length urls)) = Some (int k)"
    and b: "gp_inspectionBatch g = int b"
  shows "\<exists>rows now. SyncRange (sc_provider g) rq cred = store_inspection (int (min (k + b) (length urls))) (int (length urls)) rows now
    \<and> map row_key_of rows = take b (drop k urls)"
proof -
  obtain h where h: "run_state (sitemapURLs g (rq_Site rq)) [] = (Inr urls, h)" using urls by (metis prod.collapse)
  let ?us = "take (nat (int (min (k + b) (length urls)) - int k)) (drop k urls)"
  obtain rows err h' where r: "run_state (inspect_loop g cred q ?us []) h = ((rows, err), h')" by (metis surj_pair)
  have us: "?us = take b (drop k urls)" by (cases "k + b \<le> length urls") (auto simp: min_def nat_diff_distrib)
  have "inspected ?us (rows, err) h'" using wp_run [OF inspect_loop_all [OF ins] r] by simp
  then have rows: "err = None" "map row_key_of rows = take b (drop k urls)" by (auto simp: inspected_def us)
  have m: "min (int k + int b) (int (length urls)) = int (min (k + b) (length urls))" by simp
  have "SyncRange (sc_provider g) rq cred = store_inspection (int (min (k + b) (length urls))) (int (length urls)) rows (gp_now g h')"
    using r rows(1) q by (simp add: sc_provider_def sc_Sync_def svc cap CapURLInspection_def CapSearchPerformance_def CapSitemaps_def
        syncURLInspection_def h off b m Let_def sc_now_def del: of_nat_min)
  with rows(2) show ?thesis by blast
qed

lemma classify_partial: "fst (classify (SyncErr (SyncErrorOf c m))) = c"
  by (simp add: classify_def)

lemma offset_itoa: "0 \<le> i \<Longrightarrow> i \<le> n \<Longrightarrow> n \<le> max_int64 \<Longrightarrow> inspection_offset (itoa i) n = Some i"
  using atoi_itoa [of i] by (auto simp: inspection_offset_def itoa_def)

lemma written_simps [simp]: "written [] = []" "written ((ds, rows) # ws) = map row_key_of rows @ written ws"
  by (simp_all add: written_def)

text \<open>
  C29: resumed inspections cover the sitemap. If every run can build the service, finds the same URLs in the sitemap and has every
  inspection answered, then the runs that resume one another come to an end, after at most as many runs as there are URLs: each one but the
  last ends as partial. Together they store one row for every URL of the sitemap, each once and in order, in batches of at most
  the configured size.
\<close>

theorem inspection_covers:
  assumes q: "pr_Reference (rq_Property rq) \<noteq> []" and cap: "rq_Capability rq = CapURLInspection"
    and svc: "\<And>n. newGoogleService (G n) cred = None" and ins: "\<And>n. inspects (G n) cred (pr_Reference (rq_Property rq))"
    and urls: "\<And>n. fst (run_state (sitemapURLs (G n) (rq_Site rq)) []) = Inr urls"
    and b: "0 < b" "\<And>n. gp_inspectionBatch (G n) = int b" and len: "int (length urls) \<le> max_int64" and k: "k < length urls"
    and off: "inspection_offset cursor (int (length urls)) = Some (int k)" and fuel: "length urls - k \<le> fuel"
  shows "\<exists>ws. inspection_runs G rq cred fuel cursor = Some ws \<and> written ws = drop k urls
    \<and> (\<forall>(ds, rows) \<in> set ws. ds = scURLInspection \<and> rows \<noteq> [] \<and> length rows \<le> b)"
  using k off fuel
proof (induction fuel arbitrary: k cursor)
  case 0
  then show ?case by simp
next
  case (Suc n k cursor)
  let ?e = "min (k + b) (length urls)"
  obtain rows now where r: "SyncRange (sc_provider (G n)) (rq\<lparr>rq_Cursor := cursor\<rparr>) cred = store_inspection (int ?e) (int (length urls)) rows now"
      "map row_key_of rows = take b (drop k urls)"
    using one_inspection [of "rq\<lparr>rq_Cursor := cursor\<rparr>" _ "G n" cred urls k b] q cap svc ins urls b(2) Suc.prems(2) by auto
  have len_rows: "length rows \<le> b" using r(2) by (metis length_map length_take min.cobounded2)
  have ne: "rows \<noteq> []" using r(2) b(1) Suc.prems(1) by auto
  have acc: "accepted (SyncRange (sc_provider (G n)) (rq\<lparr>rq_Cursor := cursor\<rparr>) cred) = ([(scURLInspection, rows)], snd (accepted (store_inspection (int ?e) (int (length urls)) rows now)))"
    using ne by (simp add: r(1) accepted_store_inspection)
  show ?case
  proof (cases "?e < length urls")
    case True
    then have e: "?e = k + b" by simp
    have "inspection_offset (itoa (int (k + b))) (int (length urls)) = Some (int (k + b))"
      by (rule offset_itoa) (use True len in simp_all)
    moreover have "k + b < length urls" "length urls - (k + b) \<le> n" using True Suc.prems(3) b(1) by linarith+
    ultimately obtain ws where ws: "inspection_runs G rq cred n (itoa (int (k + b))) = Some ws" "written ws = drop (k + b) urls"
        "\<forall>(ds, rows) \<in> set ws. ds = scURLInspection \<and> rows \<noteq> [] \<and> length rows \<le> b"
      using Suc.IH by blast
    have "take b (drop k urls) @ drop (k + b) urls = drop k urls" by (metis add.commute append_take_drop_id drop_drop)
    then show ?thesis
      using True ws ne len_rows r(2) e by (simp add: acc accepted_store_inspection classify_partial)
  next
    case False
    then have "take b (drop k urls) = drop k urls" by simp
    then show ?thesis using False ne len_rows r(2) by (simp add: acc accepted_store_inspection)
  qed
qed

section \<open>Witness\<close>

theorem inspection_covers_witness:
  "\<exists>ws. inspection_runs (\<lambda>_. demo_gsc) demo_gsc_rq demo_gsc_cred 2 [] = Some ws \<and> written ws = [''http://a/x'', ''http://a/y'']"
proof -
  have "newGoogleService demo_gsc demo_gsc_cred = None" by (simp add: newGoogleService_def demo_gsc_def demo_gsc_cred_def)
  moreover have "inspects demo_gsc demo_gsc_cred (pr_Reference (rq_Property demo_gsc_rq))" by (simp add: inspects_def demo_gsc_def)
  moreover have "pr_Reference (rq_Property demo_gsc_rq) \<noteq> []" "rq_Capability demo_gsc_rq = CapURLInspection" by (simp_all add: demo_gsc_rq_def)
  moreover have "gp_inspectionBatch demo_gsc = int 1" by (simp add: demo_gsc_def)
  moreover have "inspection_offset [] n = Some (int 0)" for n by (simp add: inspection_offset_def)
  ultimately show ?thesis
    using inspection_covers [of demo_gsc_rq "\<lambda>_. demo_gsc" demo_gsc_cred "[''http://a/x'', ''http://a/y'']" 1 0 "[]" 2] demo_sitemap [of "[]"] by auto
qed

end
