(* ===== verification/ParseFloat.thy ===== *)
theory ParseFloat
  imports Float64 GoURL
begin

text \<open>
  \<^verbatim>\<open>strconv.ParseFloat(s, 64)\<close>: decimal and hexadecimal floating-point literals with underscores between digits, infinities and NaN.
  The value is the double nearest to the number written, infinite if it is out of range, and zero with the error flag if
  the text is not a number.
\<close>

section \<open>Definitions\<close>

definition dec_digit :: "char \<Rightarrow> nat option" where
  "dec_digit c = (if is_digit c then Some (digit_val c) else None)"

text \<open>The mantissa: its digits as a number, how many of them follow the point, whether there is one, and the rest of the text.\<close>

fun mantissa :: "(char \<Rightarrow> nat option) \<Rightarrow> int \<Rightarrow> bool \<Rightarrow> bool \<Rightarrow> int \<Rightarrow> nat \<Rightarrow> string \<Rightarrow> int \<times> nat \<times> bool \<times> string" where
  "mantissa digit base sawdot sawdigits v frac [] = (v, frac, sawdigits, [])"
| "mantissa digit base sawdot sawdigits v frac (c # s) =
     (if c = CHR ''_'' then mantissa digit base sawdot sawdigits v frac s
      else if c = CHR ''.'' then (if sawdot then (v, frac, sawdigits, c # s) else mantissa digit base True sawdigits v frac s)
      else (case digit c of
              Some d \<Rightarrow> mantissa digit base sawdot True (v * base + int d) (if sawdot then Suc frac else frac) s
            | None \<Rightarrow> (v, frac, sawdigits, c # s)))"

text \<open>The digits of the exponent; it stops growing beyond 10000.\<close>

fun exponent_digits :: "int \<Rightarrow> string \<Rightarrow> int \<times> string" where
  "exponent_digits e [] = (e, [])"
| "exponent_digits e (c # s) =
     (if c = CHR ''_'' then exponent_digits e s
      else if is_digit c then exponent_digits (if e < 10000 then e * 10 + int (digit_val c) else e) s
      else (e, c # s))"

text \<open>The sign and digits of an exponent; \<open>None\<close> if there is no digit.\<close>

definition exponent :: "string \<Rightarrow> (int \<times> string) option" where
  "exponent s =
     (let neg = has_prefix s ''-''; s' = (if has_prefix s ''-'' \<or> has_prefix s ''+'' then tl s else s) in
      if s' \<noteq> [] \<and> is_digit (hd s')
      then (case exponent_digits 0 s' of (e, r) \<Rightarrow> Some (if neg then - e else e, r)) else None)"

text \<open>Underscores separate digits; the prefix of a hexadecimal number counts as a digit.\<close>

datatype last_seen = SawStart | SawDigit | SawUnderscore | SawOther

fun underscore_scan :: "bool \<Rightarrow> last_seen \<Rightarrow> string \<Rightarrow> bool" where
  "underscore_scan hex saw [] = (saw \<noteq> SawUnderscore)"
| "underscore_scan hex saw (c # s) =
     (if is_digit c \<or> hex \<and> unhex c \<noteq> None then underscore_scan hex SawDigit s
      else if c = CHR ''_'' then (if saw = SawDigit then underscore_scan hex SawUnderscore s else False)
      else if saw = SawUnderscore then False
      else underscore_scan hex SawOther s)"

definition unsign :: "string \<Rightarrow> string" where
  "unsign s = (if has_prefix s ''-'' \<or> has_prefix s ''+'' then tl s else s)"

definition base_prefix :: "string \<Rightarrow> char list \<Rightarrow> bool" where
  "base_prefix s cs = (2 \<le> length s \<and> s ! 0 = CHR ''0'' \<and> lower_char (s ! 1) \<in> set cs)"

definition underscoreOK :: "string \<Rightarrow> bool" where
  "underscoreOK s =
     (let t = unsign s in
      if base_prefix t ''box'' then underscore_scan (lower_char (t ! 1) = CHR ''x'') SawDigit (drop 2 t)
      else underscore_scan False SawStart t)"

text \<open>The double nearest to \<open>v * b^k\<close>.\<close>

definition f_scaled :: "bool \<Rightarrow> int \<Rightarrow> int \<Rightarrow> int \<Rightarrow> float64" where
  "f_scaled neg v b k = (if k \<ge> 0 then f_round neg (v * b ^ nat k) 1 else f_round neg v (b ^ nat (- k)))"

definition read_float :: "string \<Rightarrow> float64 option" where
  "read_float s =
     (let neg = has_prefix s ''-''; t = unsign s;
          hex = (2 < length t \<and> base_prefix t ''x'') in
      case (if hex then mantissa unhex 16 False False 0 0 (drop 2 t) else mantissa dec_digit 10 False False 0 0 t) of
        (v, frac, sawdigits, rest) \<Rightarrow>
          if \<not> sawdigits then None
          else (case (if rest \<noteq> [] \<and> lower_char (hd rest) = (if hex then CHR ''p'' else CHR ''e'')
                      then exponent (tl rest) else if hex then None else Some (0, rest)) of
                  Some (e, []) \<Rightarrow>
                    if contains_char s (CHR ''_'') \<and> \<not> underscoreOK s then None
                    else Some (if hex then f_scaled neg v 2 (e - 4 * int frac) else f_scaled neg v 10 (e - int frac))
                | _ \<Rightarrow> None))"

definition special_float :: "string \<Rightarrow> float64 option" where
  "special_float s =
     (if to_lower s = ''nan'' then Some f_nan
      else if to_lower (unsign s) = ''inf'' \<or> to_lower (unsign s) = ''infinity'' then Some (f_inf (has_prefix s ''-''))
      else None)"

text \<open>The value and the error flag (a syntax error; a value out of range is an error too, with an infinity as its value).\<close>

definition ParseFloat :: "string \<Rightarrow> float64 \<times> bool" where
  "ParseFloat s =
     (case special_float s of
        Some f \<Rightarrow> (f, False)
      | None \<Rightarrow> (case read_float s of Some f \<Rightarrow> (f, \<not> float_finite f) | None \<Rightarrow> (0, True)))"

section \<open>Whole numbers\<close>

lemma digit_chars:
  "is_digit c \<Longrightarrow> c \<noteq> CHR ''_'' \<and> c \<noteq> CHR ''.'' \<and> c \<noteq> CHR ''-'' \<and> c \<noteq> CHR ''+'' \<and> lower_char c = c \<and> c \<noteq> CHR ''x'' \<and> c \<noteq> CHR ''n'' \<and> c \<noteq> CHR ''i''"
  by (auto simp: is_digit_def lower_char_def)

lemma mantissa_digits:
  "list_all is_digit ds \<Longrightarrow> mantissa dec_digit 10 False sd (int v) 0 ds =
     (int (foldl (\<lambda>a c. 10 * a + digit_val c) v ds), 0, sd \<or> ds \<noteq> [], [])"
proof (induction ds arbitrary: v sd)
  case (Cons c ds)
  then show ?case using Cons.IH [of True "10 * v + digit_val c"] digit_chars [of c] by (simp add: dec_digit_def mult.commute)
qed simp

lemma read_float_dec: "read_float (dec n) = Some (f_round False (int n) 1)"
proof -
  obtain c ds where ds: "dec n = c # ds" by (cases "dec n") auto
  have dig: "list_all is_digit (dec n)" by (rule dec_digits)
  then have c: "is_digit c" "list_all is_digit ds" by (simp_all add: ds)
  have sign: "\<not> has_prefix (dec n) ''-''" "unsign (dec n) = dec n"
    using digit_chars [OF c(1)] by (auto simp: ds unsign_def has_prefix_def)
  have hex: "\<not> base_prefix (dec n) ''x''"
    using c(2) digit_chars by (cases ds) (auto simp: base_prefix_def ds)
  have no_us: "\<not> contains_char (dec n) (CHR ''_'')"
    using dig digit_chars by (auto simp: contains_char_def list_all_iff)
  have "mantissa dec_digit 10 False False 0 0 (dec n) = (int n, 0, True, [])"
    using mantissa_digits [OF dig, of False 0] digits_val_dec [of n] by (simp add: digits_val_def ds)
  then show ?thesis
    by (simp add: read_float_def Let_def sign hex no_us f_scaled_def)
qed

lemma ParseFloat_dec: "fst (ParseFloat (dec n)) = f_round False (int n) 1"
proof -
  obtain c ds where ds: "dec n = c # ds" by (cases "dec n") auto
  have c: "is_digit c" using dec_digits [of n] by (simp add: ds)
  have "special_float (dec n) = None"
    using digit_chars [OF c] by (auto simp: special_float_def ds unsign_def has_prefix_def to_lower_def)
  then show ?thesis by (simp add: ParseFloat_def read_float_dec)
qed

end
