(* ===== verification/GA4.thy ===== *)
theory GA4
  imports ParseFloat ProviderContract
begin

text \<open>
  The Google Analytics 4 provider (\<^verbatim>\<open>providers/ga4/ga4.go\<close>). As for the Search Console, Google's client library, the HTTP
  client and the clock are parameters that may depend on the events so far. The paging loop of the source has no bound
  of its own: it ends when the service says so or when a call fails because the deadline of the context has passed.
  \<open>ga_pages\<close> is the number of pages that can be fetched before that deadline.
\<close>

section \<open>Definitions\<close>

subsection \<open>The service\<close>

record ga_row =
  gr_DimensionValues :: "string list"
  gr_MetricValues :: "string list"

text \<open>Of the sampling metadata only the number of entries matters.\<close>

record ga_metadata =
  gm_SubjectToThresholding :: bool
  gm_DataLossFromOtherRow :: bool
  gm_SamplingMetadatas :: nat
  gm_EmptyReason :: string

record ga_request =
  rr_StartDate :: string
  rr_EndDate :: string
  rr_Dimensions :: "string list"
  rr_Metrics :: "string list"
  rr_EventFilter :: "string list option"
  rr_Limit :: int
  rr_Offset :: int
  rr_ReturnPropertyQuota :: bool

record ga_response =
  rp_Rows :: "ga_row list"
  rp_RowCount :: int
  rp_Metadata :: "ga_metadata option"

record ga_property =
  gq_Property :: string
  gq_DisplayName :: string

record ga_account =
  ga_DisplayName :: string
  ga_PropertySummaries :: "ga_property list"

datatype ga_call =
    CallRunReport string ga_request
  | CallAccountSummaries
  | CallGaRevoke string string

type_synonym ga_events = "ga_call event list"

record analytics =
  ga_conversionEvents :: "string list"
  ga_unmarshal :: "string \<Rightarrow> oauth_material option"
  ga_JWTConfigFromJSON :: "string \<Rightarrow> bool"
  ga_NewDataService :: "secret_material \<Rightarrow> bool"
  ga_NewAdminService :: "secret_material \<Rightarrow> bool"
  ga_RunReport :: "ga_events \<Rightarrow> secret_material \<Rightarrow> string \<Rightarrow> ga_request \<Rightarrow> api_error + ga_response"
  ga_AccountSummaries :: "ga_events \<Rightarrow> secret_material \<Rightarrow> api_error + ga_account list"
  ga_post :: "ga_events \<Rightarrow> string \<Rightarrow> string \<Rightarrow> net_error + int"
  ga_now :: "ga_events \<Rightarrow> gotime"
  ga_ended :: "ga_events \<Rightarrow> ctx_end option"
  ga_pages :: nat

definition gaPageSize :: int where "gaPageSize = 100000"

definition datasetAcquisitionDaily :: string where "datasetAcquisitionDaily = ''ga4/acquisition_daily''"
definition datasetConversionDaily :: string where "datasetConversionDaily = ''ga4/conversion_daily''"
definition datasetQuality :: string where "datasetQuality = ''ga4/quality''"

definition acquisitionDimensions :: "string list" where
  "acquisitionDimensions = [''date'', ''sessionDefaultChannelGroup'', ''sessionSource'', ''sessionMedium'', ''landingPage'', ''deviceCategory'']"

definition trafficMetrics :: "string list" where
  "trafficMetrics = [''sessions'', ''engagedSessions'', ''activeUsers'', ''newUsers'', ''userEngagementDuration'']"

definition WithConversionEvents :: "string list \<Rightarrow> analytics \<Rightarrow> analytics" where
  "WithConversionEvents events g =
     g\<lparr>ga_conversionEvents := ga_conversionEvents g @ filter (\<lambda>e. e \<noteq> []) (map trim_space events)\<rparr>"

definition ga_Descriptor :: "analytics \<Rightarrow> descriptor" where
  "ga_Descriptor g =
     \<lparr>d_Name = ''google-analytics'', d_DisplayName = ''Google Analytics 4'',
      d_CredentialTypes = [''oauth2'', ''service_account_json''],
      d_Capabilities =
        [\<lparr>cs_Capability = CapAcquisition,
          cs_Dimensions = [''date'', ''channel_group'', ''source'', ''medium'', ''landing_page'', ''device''],
          cs_Metrics = [''sessions'', ''engaged_sessions'', ''active_users'', ''new_users'', ''engagement_seconds''],
          cs_MaxRangeDays = 366, cs_FreshnessLagDays = 1, cs_SupportsCursor = False,
          cs_QuotaHint = ''GA4 Data API property quota; thresholding and sampling are surfaced in the quality dataset''\<rparr>]
        @ (if ga_conversionEvents g = [] then []
           else [\<lparr>cs_Capability = CapConversion,
                  cs_Dimensions = [''date'', ''channel_group'', ''source'', ''medium'', ''landing_page'', ''device'', ''event''],
                  cs_Metrics = [''event_count''], cs_MaxRangeDays = 366, cs_FreshnessLagDays = 1, cs_SupportsCursor = False, cs_QuotaHint = []\<rparr>]),
      d_SetupURL = ''https://analytics.google.com/analytics/web/'',
      d_DocsURL = ''https://developers.google.com/analytics/devguides/reporting/data/v1'',
      d_SetupLinks =
        [\<lparr>sl_Kind = ''web_property'', sl_Label = ''Create a website GA4 property'', sl_URL = ''https://support.google.com/analytics/answer/9304153'',
          sl_Description = ''Create or select a dedicated website property and add a Web data stream; do not use a Firebase or Android app property.''\<rparr>,
         \<lparr>sl_Kind = ''permissions'', sl_Label = ''Google Analytics Admin'', sl_URL = ''https://analytics.google.com/analytics/web/#/a/admin'',
          sl_Description = ''Grant the OAuth user or service account read access.''\<rparr>,
         \<lparr>sl_Kind = ''credentials'', sl_Label = ''Google Cloud credentials'', sl_URL = ''https://console.cloud.google.com/apis/credentials'',
          sl_Description = ''Create the OAuth web client used by this deployment.''\<rparr>]\<rparr>"

definition ga_newGoogleService :: "analytics \<Rightarrow> secret_material \<Rightarrow> go_error option" where
  "ga_newGoogleService g cred =
     (let ready = (if \<not> ga_NewDataService g cred then Some (SyncErr (SyncErrorOf ErrInternal ''initialize Google Analytics client''))
                   else if \<not> ga_NewAdminService g cred then Some (SyncErr (SyncErrorOf ErrInternal ''initialize Google Analytics Admin client''))
                   else None) in
      if sm_Type cred = ''service_account_json'' then
        (if ga_JWTConfigFromJSON g (sm_Bytes cred) then ready
         else Some (SyncErr (SyncErrorOf ErrUnauthorized ''invalid Google service-account credential'')))
      else if sm_Type cred = ''oauth2'' then
        (case ParseOAuthMaterial (ga_unmarshal g) (sm_Bytes cred) of
           Inl _ \<Rightarrow> Some (SyncErr (SyncErrorOf ErrUnauthorized ''invalid OAuth credential''))
         | Inr _ \<Rightarrow> ready)
      else Some (SyncErr (SyncErrorOf ErrUnauthorized ''an OAuth or service-account credential is required'')))"

definition ga_api_call :: "(ga_events \<Rightarrow> api_error + 'a) \<Rightarrow> ga_call \<Rightarrow> (ga_call, go_error + 'a) io" where
  "ga_api_call f c = call (\<lambda>h _. map_sum (api_err ''google'') id (f h)) c"

definition RunReport :: "analytics \<Rightarrow> secret_material \<Rightarrow> string \<Rightarrow> ga_request \<Rightarrow> (ga_call, go_error + ga_response) io" where
  "RunReport g cred q request = ga_api_call (\<lambda>h. ga_RunReport g h cred q request) (CallRunReport q request)"

definition ga_clock :: "analytics \<Rightarrow> (ga_call, gotime) io" where
  "ga_clock g = State (\<lambda>h. (ga_now g h, h))"

definition normalizeProperty :: "string \<Rightarrow> string" where
  "normalizeProperty q =
     (let t = trim_space q in if has_prefix t ''properties/'' then t else ''properties/'' @ t)"

subsection \<open>Paged reports\<close>

definition no_metadata :: ga_metadata where
  "no_metadata = \<lparr>gm_SubjectToThresholding = False, gm_DataLossFromOtherRow = False, gm_SamplingMetadatas = 0, gm_EmptyReason = []\<rparr>"

definition mergeMetadata :: "ga_metadata option \<Rightarrow> ga_metadata option \<Rightarrow> ga_metadata" where
  "mergeMetadata a b =
     (let a' = (case a of None \<Rightarrow> no_metadata | Some m \<Rightarrow> m) in
      case b of
        None \<Rightarrow> a'
      | Some m \<Rightarrow>
          \<lparr>gm_SubjectToThresholding = gm_SubjectToThresholding a' \<or> gm_SubjectToThresholding m,
           gm_DataLossFromOtherRow = gm_DataLossFromOtherRow a' \<or> gm_DataLossFromOtherRow m,
           gm_SamplingMetadatas = gm_SamplingMetadatas a' + gm_SamplingMetadatas m,
           gm_EmptyReason = (if gm_EmptyReason a' = [] then gm_EmptyReason m else gm_EmptyReason a')\<rparr>)"

fun report_loop :: "analytics \<Rightarrow> secret_material \<Rightarrow> string \<Rightarrow> ga_request \<Rightarrow> nat \<Rightarrow> int \<Rightarrow> ga_row list \<Rightarrow> ga_metadata option
    \<Rightarrow> (ga_call, go_error + ga_row list \<times> ga_metadata option) io" where
  "report_loop g cred q request 0 offset rows metadata = State_Monad.return (Inl DeadlineExceeded)"
| "report_loop g cred q request (Suc n) offset rows metadata =
     do { r \<leftarrow> retry (ga_ended g) (RunReport g cred q (request\<lparr>rr_Offset := offset\<rparr>));
          case r of
            Inl e \<Rightarrow> State_Monad.return (Inl e)
          | Inr response \<Rightarrow>
              (let rows' = rows @ rp_Rows response; metadata' = Some (mergeMetadata metadata (rp_Metadata response)) in
               if offset + int (length (rp_Rows response)) \<ge> rp_RowCount response \<or> rp_Rows response = []
               then State_Monad.return (Inr (rows', metadata'))
               else report_loop g cred q request n (offset + gaPageSize) rows' metadata') }"

definition report_request :: "gotime \<Rightarrow> gotime \<Rightarrow> string list \<Rightarrow> string list \<Rightarrow> string list option \<Rightarrow> ga_request" where
  "report_request start end dimensions metrics events =
     \<lparr>rr_StartDate = format_date start, rr_EndDate = format_date end, rr_Dimensions = dimensions, rr_Metrics = metrics,
      rr_EventFilter = events, rr_Limit = gaPageSize, rr_Offset = 0, rr_ReturnPropertyQuota = True\<rparr>"

definition runPagedReport :: "analytics \<Rightarrow> secret_material \<Rightarrow> string \<Rightarrow> gotime \<Rightarrow> gotime \<Rightarrow> string list \<Rightarrow> string list \<Rightarrow> string list option
    \<Rightarrow> (ga_call, go_error + ga_row list \<times> ga_metadata option) io" where
  "runPagedReport g cred q start end dimensions metrics events =
     report_loop g cred q (report_request start end dimensions metrics events) (ga_pages g) 0 [] None"

subsection \<open>Rows\<close>

definition rowsWithDimensions :: "ga_row list \<Rightarrow> nat \<Rightarrow> ga_row list" where
  "rowsWithDimensions rows minimum = filter (\<lambda>r. minimum \<le> length (gr_DimensionValues r)) rows"

definition metricFloat :: "ga_row \<Rightarrow> nat \<Rightarrow> float64" where
  "metricFloat row i = (if i \<ge> length (gr_MetricValues row) then 0 else fst (ParseFloat (gr_MetricValues row ! i)))"

definition metricInt :: "ga_row \<Rightarrow> nat \<Rightarrow> int" where
  "metricInt row i = f_round_int64 (metricFloat row i)"

definition safeLandingPage :: "string \<Rightarrow> string" where
  "safeLandingPage raw =
     (let raw1 = (case Parse raw of Some parsed \<Rightarrow> if u_Path parsed \<noteq> [] then u_Path parsed else raw | None \<Rightarrow> raw);
          raw2 = takeWhile (\<lambda>c. c \<noteq> CHR ''#'') (takeWhile (\<lambda>c. c \<noteq> CHR ''?'') raw1) in
      if \<not> has_prefix raw2 ''/'' \<or> length raw2 > 500 then ''/'' else raw2)"

definition dimensionColumns :: "ga_row \<Rightarrow> go_error + report_row \<times> string" where
  "dimensionColumns row =
     (let d = gr_DimensionValues row in
      case parse_compact_date (d ! 0) of
        None \<Rightarrow> Inl (SyncErr (SyncErrorOf ErrInternal ''Google Analytics returned an invalid date''))
      | Some date \<Rightarrow>
          (let landing = safeLandingPage (d ! 4); device = to_lower (d ! 5); day = format_date date in
           Inr ([(''date'', JStr day), (''channel_group'', JStr (d ! 1)), (''source'', JStr (d ! 2)), (''medium'', JStr (d ! 3)),
                 (''landing_page'', JStr landing), (''device'', JStr device)],
                join [CHR 0x00] [day, d ! 1, d ! 2, d ! 3, landing, device])))"

fun acquisition_rows :: "ga_row list \<Rightarrow> go_error + report_row list" where
  "acquisition_rows [] = Inr []"
| "acquisition_rows (row # rest) =
     (case dimensionColumns row of
        Inl e \<Rightarrow> Inl e
      | Inr (base, key) \<Rightarrow>
          map_sum id ((#)
            (base @ [(''_key'', JStr key), (''sessions'', JInt (metricInt row 0)), (''engaged_sessions'', JInt (metricInt row 1)),
             (''active_users'', JInt (metricInt row 2)), (''new_users'', JInt (metricInt row 3)),
             (''engagement_seconds'', JFloat (metricFloat row 4))])) (acquisition_rows rest))"

fun conversion_rows :: "ga_row list \<Rightarrow> go_error + report_row list" where
  "conversion_rows [] = Inr []"
| "conversion_rows (row # rest) =
     (case dimensionColumns row of
        Inl e \<Rightarrow> Inl e
      | Inr (base, key) \<Rightarrow>
          (let event = gr_DimensionValues row ! 6 in
           map_sum id ((#)
             (base @ [(''_key'', JStr (key @ [CHR 0x00] @ event)), (''event'', JStr event), (''event_count'', JInt (metricInt row 0))]))
             (conversion_rows rest)))"

subsection \<open>Synchronization\<close>

definition quality_row :: "gotime \<Rightarrow> ga_metadata option \<Rightarrow> report_row" where
  "quality_row end metadata =
     [(''_key'', JStr (format_date end)), (''data_through_date'', JStr (format_date end))] @
     (case metadata of
        None \<Rightarrow> []
      | Some m \<Rightarrow>
          [(''subject_to_thresholding'', JBool (gm_SubjectToThresholding m)), (''data_loss_other_row'', JBool (gm_DataLossFromOtherRow m)),
           (''sampled'', JBool (gm_SamplingMetadatas m > 0))] @
          (if gm_EmptyReason m \<noteq> [] then [(''empty_reason'', JStr (gm_EmptyReason m))] else []))"

definition writeQuality :: "gotime \<Rightarrow> ga_metadata option \<Rightarrow> sync_prog \<Rightarrow> sync_prog" where
  "writeQuality end metadata k =
     SinkWrite datasetQuality [quality_row end metadata] (\<lambda>err. case err of
       None \<Rightarrow> k
     | Some _ \<Rightarrow> sync_fail (SyncErr (SyncErrorOf ErrInternal ''store GA4 quality metadata'')))"

text \<open>The end of both synchronizations: the rows, the quality row, the result.\<close>

definition store_report :: "string \<Rightarrow> string \<Rightarrow> sync_request \<Rightarrow> ga_metadata option \<Rightarrow> go_error + report_row list \<Rightarrow> sync_prog" where
  "store_report dataset msg rq metadata r =
     (case r of
        Inl e \<Rightarrow> sync_fail e
      | Inr rows \<Rightarrow>
          store_rows dataset rows msg
            (writeQuality (rq_EndDate rq) metadata
              (SyncDone \<lparr>rs_Rows = int (length rows), rs_Cursor = [], rs_DataThroughDate = rq_EndDate rq\<rparr> None)))"

definition syncAcquisition :: "analytics \<Rightarrow> secret_material \<Rightarrow> string \<Rightarrow> sync_request \<Rightarrow> (ga_call, sync_prog) io" where
  "syncAcquisition g cred q rq =
     do { r \<leftarrow> runPagedReport g cred q (rq_StartDate rq) (rq_EndDate rq) acquisitionDimensions trafficMetrics None;
          State_Monad.return
            (case r of
               Inl e \<Rightarrow> sync_fail (google_classify e)
             | Inr (reportRows, metadata) \<Rightarrow>
                 store_report datasetAcquisitionDaily ''store GA4 acquisition snapshot'' rq metadata
                   (acquisition_rows (rowsWithDimensions reportRows 6))) }"

definition syncConversion :: "analytics \<Rightarrow> secret_material \<Rightarrow> string \<Rightarrow> sync_request \<Rightarrow> (ga_call, sync_prog) io" where
  "syncConversion g cred q rq =
     do { r \<leftarrow> runPagedReport g cred q (rq_StartDate rq) (rq_EndDate rq) (acquisitionDimensions @ [''eventName'']) [''eventCount'']
                (Some (ga_conversionEvents g));
          State_Monad.return
            (case r of
               Inl e \<Rightarrow> sync_fail (google_classify e)
             | Inr (reportRows, metadata) \<Rightarrow>
                 store_report datasetConversionDaily ''store GA4 conversion snapshot'' rq metadata
                   (conversion_rows (rowsWithDimensions reportRows 7))) }"

definition ga_Sync :: "analytics \<Rightarrow> sync_request \<Rightarrow> secret_material \<Rightarrow> (ga_call, sync_prog) io" where
  "ga_Sync g rq cred =
     (let q = normalizeProperty (pr_Reference (rq_Property rq)) in
      if q = ''properties/'' then State_Monad.return (sync_fail (SyncErr (SyncErrorOf ErrNotConfigured ''no GA4 property configured'')))
      else (case ga_newGoogleService g cred of
              Some e \<Rightarrow> State_Monad.return (sync_fail e)
            | None \<Rightarrow>
                if rq_Capability rq = CapAcquisition then syncAcquisition g cred q rq
                else if rq_Capability rq = CapConversion then
                  (if ga_conversionEvents g = []
                   then State_Monad.return (sync_fail (SyncErr (SyncErrorOf ErrUnsupported ''no conversion events configured'')))
                   else syncConversion g cred q rq)
                else State_Monad.return (sync_fail (SyncErr (SyncErrorOf ErrUnsupported ''google-analytics does not support this capability'')))))"

subsection \<open>Properties\<close>

definition summary_property :: "string \<Rightarrow> ga_property \<Rightarrow> property option" where
  "summary_property account q =
     (let reference = trim_prefix (trim_space (gq_Property q)) ''properties/'' in
      if reference = [] then None
      else (let name = (if trim_space (gq_DisplayName q) = [] then gq_Property q else trim_space (gq_DisplayName q)) in
            Some ((property_ref reference)\<lparr>pr_DisplayName :=
              name @ (if trim_space account \<noteq> [] then [CHR '' '', CHR 0xE2, CHR 0x80, CHR 0x94, CHR '' ''] @ trim_space account else [])\<rparr>)))"

text \<open>Sorted by display name, then by reference: two stable sorts.\<close>

definition ListProperties :: "analytics \<Rightarrow> secret_material \<Rightarrow> (ga_call, go_error + property list) io" where
  "ListProperties g cred =
     do { r \<leftarrow> ga_api_call (\<lambda>h. ga_AccountSummaries g h cred) CallAccountSummaries;
          State_Monad.return
            (case r of
               Inl e \<Rightarrow> Inl e
             | Inr accounts \<Rightarrow>
                 Inr (sort_key pr_DisplayName (sort_key pr_Reference
                   (concat (map (\<lambda>a. List.map_filter (summary_property (ga_DisplayName a)) (ga_PropertySummaries a)) accounts))))) }"

definition ga_DiscoverProperties :: "analytics \<Rightarrow> secret_material \<Rightarrow> (ga_call, go_error + property list) io" where
  "ga_DiscoverProperties g cred =
     (case ga_newGoogleService g cred of
        Some e \<Rightarrow> State_Monad.return (Inl e)
      | None \<Rightarrow>
          do { r \<leftarrow> ListProperties g cred;
               State_Monad.return (case r of Inl e \<Rightarrow> Inl (google_classify e) | Inr qs \<Rightarrow> Inr qs) })"

definition ga_Test :: "analytics \<Rightarrow> property \<Rightarrow> secret_material \<Rightarrow> (ga_call, go_error option) io" where
  "ga_Test g q cred =
     (case ga_newGoogleService g cred of
        Some e \<Rightarrow> State_Monad.return (Some e)
      | None \<Rightarrow>
          do { now \<leftarrow> ga_clock g;
               r \<leftarrow> RunReport g cred (normalizeProperty (pr_Reference q))
                      (let day = format_date (add_days now (- 1)) in
                       \<lparr>rr_StartDate = day, rr_EndDate = day, rr_Dimensions = [], rr_Metrics = [''sessions''], rr_EventFilter = None,
                        rr_Limit = 1, rr_Offset = 0, rr_ReturnPropertyQuota = False\<rparr>);
               State_Monad.return (case r of Inl e \<Rightarrow> Some (google_classify e) | Inr _ \<Rightarrow> None) })"

definition ga_revokeURL :: string where "ga_revokeURL = ''https://oauth2.googleapis.com/revoke''"

definition ga_Revoke :: "analytics \<Rightarrow> secret_material \<Rightarrow> (ga_call, go_error option) io" where
  "ga_Revoke g cred =
     (if sm_Type cred \<noteq> ''oauth2'' then State_Monad.return None
      else (case ParseOAuthMaterial (ga_unmarshal g) (sm_Bytes cred) of
              Inl _ \<Rightarrow> State_Monad.return (Some (SyncErr (SyncErrorOf ErrUnauthorized ''Google OAuth credential is invalid'')))
            | Inr oauth \<Rightarrow>
                (let body = Encode [(''token'', om_RefreshToken oauth)] in
                 if Parse ga_revokeURL = None then State_Monad.return (Some (Msg ''parse''))
                 else do { r \<leftarrow> call (\<lambda>h _. ga_post g h ga_revokeURL body) (CallGaRevoke ga_revokeURL body);
                           State_Monad.return
                             (case r of
                                Inl _ \<Rightarrow> Some (SyncErr (SyncErrorOf ErrTransient ''Google token revocation failed''))
                              | Inr status \<Rightarrow>
                                  if status < 200 \<or> status \<ge> 300
                                  then Some (SyncErr (SyncErrorOf ErrTransient ''Google token revocation failed'')) else None) })))"

definition ga_provider :: "analytics \<Rightarrow> provider" where
  "ga_provider g =
     \<lparr>Descriptor = ga_Descriptor g,
      DiscoverProperties = \<lambda>cred. fst (run_state (ga_DiscoverProperties g cred) []),
      TestProperty = \<lambda>_ q cred. fst (run_state (ga_Test g q cred) []),
      SyncRange = \<lambda>rq cred. fst (run_state (ga_Sync g rq cred) []),
      RevokeCredential = \<lambda>cred. fst (run_state (ga_Revoke g cred) [])\<rparr>"

end
