(* ===== verification/GA4Props.thy ===== *)
theory GA4Props
  imports GA4
begin

text \<open>
  Properties of the Google Analytics provider: that it keeps the contract of a provider, that paging fetches the whole report and
  merges the quality flags of all pages, and what becomes of landing pages and keys.
\<close>

section \<open>Errors\<close>

definition ga_texts :: "(error_code \<times> string) list" where
  "ga_texts = google_texts @
     [(ErrUnauthorized, ''invalid Google service-account credential''), (ErrUnauthorized, ''invalid OAuth credential''),
      (ErrUnauthorized, ''an OAuth or service-account credential is required''), (ErrUnauthorized, ''Google OAuth credential is invalid''),
      (ErrInternal, ''initialize Google Analytics client''), (ErrInternal, ''initialize Google Analytics Admin client''),
      (ErrTransient, ''Google token revocation failed''), (ErrNotConfigured, ''no GA4 property configured''),
      (ErrUnsupported, ''no conversion events configured''), (ErrUnsupported, ''google-analytics does not support this capability''),
      (ErrInternal, ''Google Analytics returned an invalid date''), (ErrInternal, ''store GA4 acquisition snapshot''),
      (ErrInternal, ''store GA4 conversion snapshot''), (ErrInternal, ''store GA4 quality metadata'')]"

definition ga_public :: "error_code \<Rightarrow> string \<Rightarrow> bool" where
  "ga_public c m \<longleftrightarrow> (c, m) \<in> set ga_texts"

definition ga_datasets :: "string set" where
  "ga_datasets = {datasetAcquisitionDaily, datasetConversionDaily, datasetQuality}"

lemma ga_classify_public: "as_sync_error e = None \<Longrightarrow> public_error ga_public (google_classify e)"
  by (rule google_classify_public) (auto simp: ga_public_def ga_texts_def)

lemma ga_newGoogleService_public: "ga_newGoogleService g cred = Some e \<Longrightarrow> public_error ga_public e"
  by (auto simp: ga_newGoogleService_def Let_def ga_public_def ga_texts_def split: if_splits sum.splits)

lemma wp_ga_clock [wp_simps]: "wp (ga_clock g) Q h = Q (ga_now g h) h"
  by (simp add: ga_clock_def wp_simps)

lemma wp_ga_api_call [wp_simps]: "wp (ga_api_call f c) Q h = Q (map_sum (api_err ''google'') id (f h)) (Call c # h)"
  by (simp add: ga_api_call_def wp_simps)

lemma RunReport_plain: "wp (RunReport g cred q r) plain_result h"
  by (simp add: RunReport_def wp_simps)

lemma report_loop_plain: "wp (report_loop g cred q r n offset rows metadata) plain_result h"
proof (induction n arbitrary: offset rows metadata h)
  case 0
  then show ?case by (simp add: wp_simps)
next
  case (Suc n)
  show ?case
    unfolding report_loop.simps
    by (intro wp_plain_bind [OF retry_plain] RunReport_plain) (auto simp: wp_return Let_def Suc.IH)
qed

definition ga_sync_ok :: "sync_prog \<Rightarrow> 'h \<Rightarrow> bool" where
  "ga_sync_ok prog h \<longleftrightarrow> prog_ends (public_end ga_public) prog \<and> prog_writes (\<lambda>ds rows. ds \<in> ga_datasets) prog"

lemma ga_sync_ok_fail [simp]: "ga_sync_ok (sync_fail e) h \<longleftrightarrow> public_error ga_public e"
  by (simp add: ga_sync_ok_def)

lemma dimensionColumns_public: "dimensionColumns row = Inl e \<Longrightarrow> public_error ga_public e"
  by (auto simp: dimensionColumns_def Let_def ga_public_def ga_texts_def split: option.splits)

lemma acquisition_rows_public: "acquisition_rows rows = Inl e \<Longrightarrow> public_error ga_public e"
  by (induction rows) (auto dest: dimensionColumns_public split: sum.splits prod.splits)

lemma conversion_rows_public: "conversion_rows rows = Inl e \<Longrightarrow> public_error ga_public e"
  by (induction rows) (auto simp: Let_def dest: dimensionColumns_public split: sum.splits prod.splits)

lemma store_report_ok:
  assumes "ds \<in> ga_datasets" "ga_public ErrInternal msg" "\<And>e. r = Inl e \<Longrightarrow> public_error ga_public e"
  shows "ga_sync_ok (store_report ds msg rq metadata r) h"
proof (cases r)
  case (Inl e)
  then show ?thesis using assms(3) by (simp add: store_report_def)
next
  case (Inr rows)
  have "ga_public ErrInternal ''store GA4 quality metadata''" "datasetQuality \<in> ga_datasets"
    by (simp_all add: ga_public_def ga_texts_def ga_datasets_def)
  then show ?thesis
    using assms(1,2) Inr by (auto simp: store_report_def ga_sync_ok_def writeQuality_def split: option.split)
qed

lemma syncAcquisition_ok: "wp (syncAcquisition g cred q rq) ga_sync_ok h"
  unfolding syncAcquisition_def runPagedReport_def
  by (rule wp_plain_bind [OF report_loop_plain])
     (auto simp: wp_return ga_classify_public intro!: store_report_ok split: prod.split
       dest: acquisition_rows_public simp: ga_datasets_def ga_public_def [of ErrInternal] ga_texts_def)

lemma syncConversion_ok: "wp (syncConversion g cred q rq) ga_sync_ok h"
  unfolding syncConversion_def runPagedReport_def
  by (rule wp_plain_bind [OF report_loop_plain])
     (auto simp: wp_return ga_classify_public intro!: store_report_ok split: prod.split
       dest: conversion_rows_public simp: ga_datasets_def ga_public_def [of ErrInternal] ga_texts_def)

lemma ga_Sync_ok: "wp (ga_Sync g rq cred) ga_sync_ok h"
  using ga_newGoogleService_public [of g cred] syncAcquisition_ok syncConversion_ok
  by (auto simp: ga_Sync_def Let_def wp_return ga_public_def ga_texts_def split: option.split)

definition ga_call_ok :: "(go_error + 'a) \<Rightarrow> 'h \<Rightarrow> bool" where
  "ga_call_ok r h = (case r of Inl e \<Rightarrow> public_error ga_public e | Inr _ \<Rightarrow> True)"

lemma ga_Discover_ok: "wp (ga_DiscoverProperties g cred) ga_call_ok h"
  using ga_newGoogleService_public [of g cred] ga_classify_public
  by (cases "ga_AccountSummaries g h cred")
     (auto simp: ga_DiscoverProperties_def ListProperties_def wp_simps ga_call_ok_def split: option.split)

definition ga_test_ok :: "go_error option \<Rightarrow> 'h \<Rightarrow> bool" where
  "ga_test_ok r h = (case r of Some e \<Rightarrow> public_error ga_public e | None \<Rightarrow> True)"

lemma ga_test_ok_simps [simp]: "ga_test_ok (Some e) h \<longleftrightarrow> public_error ga_public e" "ga_test_ok None h"
  by (simp_all add: ga_test_ok_def)

lemma ga_Test_ok: "wp (ga_Test g q cred) ga_test_ok h"
proof -
  have "ga_test_ok (case map_sum (api_err ''google'') id r of Inl e \<Rightarrow> Some (google_classify e) | Inr _ \<Rightarrow> None) h'" for r h'
    using ga_classify_public by (cases r) auto
  then show ?thesis
    using ga_newGoogleService_public [of g cred] by (auto simp: ga_Test_def RunReport_def wp_simps split: option.split)
qed

lemma ga_Revoke_ok: "wp (ga_Revoke g cred) ga_test_ok h"
proof -
  have "Parse ga_revokeURL \<noteq> None" by code_simp
  then show ?thesis by (auto simp: ga_Revoke_def Let_def wp_simps ga_public_def ga_texts_def split: sum.split)
qed

interpretation ga4: provider_contract "ga_provider g" ga_public ga_datasets for g
proof
  show "public_error ga_public e" if "DiscoverProperties (ga_provider g) cred = Inl e" for cred e
    using wp_fst [OF ga_Discover_ok [of g cred "[]"]] that by (simp add: ga_provider_def ga_call_ok_def)
  show "public_error ga_public e" if "TestProperty (ga_provider g) s q cred = Some e" for s q cred e
    using wp_fst [OF ga_Test_ok [of g q cred "[]"]] that by (simp add: ga_provider_def)
  show "public_error ga_public e" if "RevokeCredential (ga_provider g) cred = Some e" for cred e
    using wp_fst [OF ga_Revoke_ok [of g cred "[]"]] that by (simp add: ga_provider_def)
  show "prog_ends (public_end ga_public) (SyncRange (ga_provider g) rq cred)"
    "prog_writes (\<lambda>ds rows. ds \<in> ga_datasets) (SyncRange (ga_provider g) rq cred)" for rq cred
    using wp_fst [OF ga_Sync_ok [of g rq cred "[]"]] by (simp_all add: ga_provider_def ga_sync_ok_def)
qed

section \<open>Paging\<close>

text \<open>
  The documented paging of the service: a report is a table; a request returns its rows from the offset on, at most as many as the
  limit, the size of the table, and metadata.
\<close>

definition reports :: "analytics \<Rightarrow> secret_material \<Rightarrow> string \<Rightarrow> ga_request \<Rightarrow> ga_row list \<Rightarrow> (int \<Rightarrow> ga_metadata option) \<Rightarrow> bool" where
  "reports g cred q r T M \<longleftrightarrow>
     (\<forall>h offset. 0 \<le> offset \<longrightarrow> ga_RunReport g h cred q (r\<lparr>rr_Offset := offset\<rparr>) =
        Inr \<lparr>rp_Rows = take (nat gaPageSize) (drop (nat offset) T), rp_RowCount = int (length T), rp_Metadata = M offset\<rparr>)"

text \<open>The offsets of the pages of a table with \<open>n\<close> rows.\<close>

definition page_offsets :: "nat \<Rightarrow> int list" where
  "page_offsets n = map (\<lambda>k. int k * gaPageSize) [0..<max 1 ((n + 99999) div 100000)]"

definition merge_all :: "ga_metadata option \<Rightarrow> ga_metadata option list \<Rightarrow> ga_metadata option" where
  "merge_all m ms = foldl (\<lambda>a b. Some (mergeMetadata a b)) m ms"

lemma report_loop_reports:
  assumes R: "reports g cred q r T M" and k: "k = 0 \<or> k * 100000 < length T" and n: "length T \<le> (k + n) * 100000" "0 < n"
  shows "wp (report_loop g cred q r n (int k * gaPageSize) (take (k * 100000) T) m)
    (returns (Inr (T, merge_all m (map M (drop k (page_offsets (length T))))))) h"
  using k n
proof (induction n arbitrary: k m h)
  case 0
  then show ?case by simp
next
  case (Suc n k m h)
  let ?N = "max 1 ((length T + 99999) div 100000)"
  let ?page = "take 100000 (drop (k * 100000) T)"
  have lt: "k < ?N" using Suc.prems(1) by (auto simp: max_def)
  have len: "length (page_offsets (length T)) = ?N" by (simp add: page_offsets_def)
  have nth_offs: "page_offsets (length T) ! k = int k * gaPageSize" using lt by (simp add: page_offsets_def del: upt_Suc)
  have offs: "drop k (page_offsets (length T)) = int k * gaPageSize # drop (Suc k) (page_offsets (length T))"
    using lt Cons_nth_drop_Suc [of k "page_offsets (length T)"] len by (simp add: nth_offs)
  have page: "wp (retry (ga_ended g) (RunReport g cred q (r\<lparr>rr_Offset := int k * gaPageSize\<rparr>)))
      (returns (Inr \<lparr>rp_Rows = ?page, rp_RowCount = int (length T), rp_Metadata = M (int k * gaPageSize)\<rparr>)) h" for h
    using R by (simp add: reports_def retry_def numeral_3_eq_3 RunReport_def wp_simps returns_def gaPageSize_def nat_mult_distrib)
  have rows: "take (k * 100000) T @ ?page = take (Suc k * 100000) T" using take_add [of "k * 100000" 100000 T] by (simp add: add.commute)
  have kT: "k * 100000 \<le> length T" using Suc.prems(1) by auto
  show ?case
  proof (cases "length T \<le> Suc k * 100000")
    case True
    have "drop (Suc k) (page_offsets (length T)) = []" using True len by simp
    moreover have "int k * gaPageSize + int (length ?page) \<ge> int (length T)" using True kT by (auto simp: gaPageSize_def min_def)
    ultimately show ?thesis
      using True rows by (auto simp: offs merge_all_def Let_def wp_return returns_def intro!: wp_returns_bind [OF page])
  next
    case False
    then have page_full: "length ?page = 100000" by simp
    then have ne: "?page \<noteq> []" by auto
    have "wp (report_loop g cred q r n (int (Suc k) * gaPageSize) (take (Suc k * 100000) T) (Some (mergeMetadata m (M (int k * gaPageSize)))))
        (returns (Inr (T, merge_all (Some (mergeMetadata m (M (int k * gaPageSize)))) (map M (drop (Suc k) (page_offsets (length T))))))) h'" for h'
      by (rule Suc.IH) (use False Suc.prems(2) in auto)
    moreover have "int k * gaPageSize + gaPageSize = int (Suc k) * gaPageSize" by (simp add: algebra_simps)
    ultimately show ?thesis
      using False page_full ne rows
      by (auto simp: offs merge_all_def Let_def gaPageSize_def add.commute [of "int k * 100000" 100000]
          intro!: wp_returns_bind [OF page [unfolded gaPageSize_def]])
  qed
qed

text \<open>What the merged metadata says: a flag is set if it is set for some page.\<close>

definition flagged :: "(ga_metadata \<Rightarrow> bool) \<Rightarrow> ga_metadata option \<Rightarrow> bool" where
  "flagged f m = (case m of None \<Rightarrow> False | Some x \<Rightarrow> f x)"

lemma merge_all_flags:
  assumes "f \<in> {gm_SubjectToThresholding, gm_DataLossFromOtherRow, \<lambda>x. gm_SamplingMetadatas x > 0}"
  shows "flagged f (merge_all m ms) \<longleftrightarrow> flagged f m \<or> (\<exists>b \<in> set ms. flagged f b)"
proof (induction ms arbitrary: m)
  case Nil
  then show ?case by (simp add: merge_all_def)
next
  case (Cons b ms)
  have "flagged f (Some (mergeMetadata m b)) \<longleftrightarrow> flagged f m \<or> flagged f b"
    using assms by (auto simp: flagged_def mergeMetadata_def no_metadata_def Let_def split: option.splits)
  then show ?case using Cons [of "Some (mergeMetadata m b)"] by (auto simp: merge_all_def)
qed

text \<open>
  C30: against a service that pages its report as documented, and with a deadline that leaves time for all pages, a paged
  report returns every row of the report exactly once and in order. Thresholding, data loss and sampling are recorded exactly if the
  service reported them for at least one of the pages.
\<close>

theorem ga_report_exact:
  assumes R: "reports g cred q (report_request s e dims ms evs) T M" and n: "length T \<le> ga_pages g * 100000" "0 < ga_pages g"
    and f: "f \<in> {gm_SubjectToThresholding, gm_DataLossFromOtherRow, \<lambda>x. gm_SamplingMetadatas x > 0}"
  shows "\<exists>meta. fst (run_state (runPagedReport g cred q s e dims ms evs) h) = Inr (T, Some meta)
    \<and> (f meta \<longleftrightarrow> (\<exists>offset \<in> set (page_offsets (length T)). flagged f (M offset)))"
proof -
  let ?m = "merge_all None (map M (page_offsets (length T)))"
  have "fst (run_state (runPagedReport g cred q s e dims ms evs) h) = Inr (T, ?m)"
    using wp_fst [OF report_loop_reports [OF R, of 0 "ga_pages g" None h]] n by (simp add: returns_def runPagedReport_def)
  moreover obtain meta where "?m = Some meta"
  proof -
    have "0 \<in> set (page_offsets (length T))" by (auto simp: page_offsets_def image_iff max_def)
    then obtain x xs where x: "page_offsets (length T) = xs @ [x]" by (metis append_butlast_last_id empty_iff list.set(1))
    show ?thesis by (rule that [of "mergeMetadata (merge_all None (map M xs)) (M x)"]) (simp add: x merge_all_def)
  qed
  ultimately show ?thesis
    using merge_all_flags [OF f, of None "map M (page_offsets (length T))"] by (auto simp: flagged_def)
qed

section \<open>Landing pages\<close>

text \<open>
  What is stored of a landing page is a path: it starts with a slash, has no query and no fragment (where personal data tends to
  be) and at most 500 bytes, whatever the service reports.
\<close>

theorem safe_landing_page:
  "has_prefix (safeLandingPage raw) ''/'' \<and> CHR ''?'' \<notin> set (safeLandingPage raw) \<and> CHR ''#'' \<notin> set (safeLandingPage raw)
   \<and> length (safeLandingPage raw) \<le> 500"
  by (auto simp: safeLandingPage_def Let_def has_prefix_def dest: set_takeWhileD)

text \<open>
  Landing pages that are no path are stored as the root path, so the sessions GA4 reports for \<^verbatim>\<open>(not set)\<close> and for the
  root path have the same key; the later row replaces the earlier one.
\<close>

lemma landing_page_collision: "safeLandingPage ''(not set)'' = safeLandingPage ''/''"
  by code_simp

text \<open>
  C31: counts are stored exactly. A metric that the service reports as a whole number below \<open>2^53\<close> goes through the text, a
  double and rounding, and comes out as the same number.
\<close>

theorem metric_count_exact:
  assumes i: "i < length (gr_MetricValues row)" "gr_MetricValues row ! i = dec n" and n: "n < 2 ^ 53"
  shows "metricInt row i = int n"
proof -
  have "\<bar>int n\<bar> < 2 ^ 53" using n by simp
  then show ?thesis
    using f_round_int64_of_int [of "int n"] i by (simp add: metricInt_def metricFloat_def ParseFloat_dec f_of_int_def)
qed

section \<open>Witnesses\<close>

theorem metric_count_exact_witness: "metricInt \<lparr>gr_DimensionValues = [], gr_MetricValues = [''9007199254740991'']\<rparr> 0 = 9007199254740991"
proof -
  have "dec 9007199254740991 = ''9007199254740991''" by (simp add: dec.simps digit_char_def) code_simp
  then show ?thesis
    using metric_count_exact [of 0 "\<lparr>gr_DimensionValues = [], gr_MetricValues = [''9007199254740991'']\<rparr>" 9007199254740991] by simp
qed

definition demo_ga_row :: ga_row where
  "demo_ga_row = \<lparr>gr_DimensionValues = [''20240101'', ''a'', ''b'', ''c'', ''/'', ''d''], gr_MetricValues = [''1'']\<rparr>"

definition demo_ga :: analytics where
  "demo_ga = \<lparr>ga_conversionEvents = [], ga_unmarshal = \<lambda>_. None, ga_JWTConfigFromJSON = \<lambda>_. True, ga_NewDataService = \<lambda>_. True,
     ga_NewAdminService = \<lambda>_. True,
     ga_RunReport = \<lambda>h cred q r. Inr \<lparr>rp_Rows = take (nat (rr_Limit r)) (drop (nat (rr_Offset r)) [demo_ga_row]), rp_RowCount = 1,
       rp_Metadata = Some (no_metadata\<lparr>gm_SubjectToThresholding := True\<rparr>)\<rparr>,
     ga_AccountSummaries = \<lambda>_ _. Inr [], ga_post = \<lambda>_ _ _. Inr 200, ga_now = \<lambda>_. 0, ga_ended = \<lambda>_. None, ga_pages = 1\<rparr>"

theorem ga_report_exact_witness:
  "\<exists>meta. fst (run_state (runPagedReport demo_ga \<lparr>sm_Type = ''t'', sm_Bytes = []\<rparr> ''p'' 0 0 acquisitionDimensions trafficMetrics None) []) = Inr ([demo_ga_row], Some meta)
     \<and> gm_SubjectToThresholding meta"
proof -
  have R: "reports demo_ga cred q (report_request 0 0 acquisitionDimensions trafficMetrics None) [demo_ga_row] (\<lambda>_. Some (no_metadata\<lparr>gm_SubjectToThresholding := True\<rparr>))" for cred q
    by (simp add: reports_def demo_ga_def report_request_def)
  show ?thesis
    using ga_report_exact [OF R, of gm_SubjectToThresholding "\<lparr>sm_Type = ''t'', sm_Bytes = []\<rparr>" "''p''" "[]"]
    by (auto simp: demo_ga_def page_offsets_def flagged_def)
qed

end
