(* ===== verification/Providers.thy ===== *)
theory Providers
  imports BingProps Inspection GA4Props
begin

text \<open>
  The three providers together: each is an interpretation of the contract that the engine and the API rely on, so what follows from
  the contract holds for all of them.
\<close>

section \<open>Definitions\<close>

text \<open>A provider of the repository, with the texts of its errors and the datasets it owns.\<close>

definition built_in :: "provider \<Rightarrow> (error_code \<Rightarrow> string \<Rightarrow> bool) \<Rightarrow> string set \<Rightarrow> bool" where
  "built_in pr F D \<longleftrightarrow>
     (\<exists>p. pr = bing_provider p \<and> F = bing_public \<and> D = bing_datasets)
     \<or> (\<exists>g. pr = sc_provider g \<and> F = sc_public \<and> D = sc_datasets)
     \<or> (\<exists>g. pr = ga_provider g \<and> F = ga_public \<and> D = ga_datasets)"

lemma built_in_contract: "built_in pr F D \<Longrightarrow> provider_contract pr F D"
  unfolding built_in_def using bing.provider_contract_axioms gsc.provider_contract_axioms ga4.provider_contract_axioms by blast

lemma classify_public_error: "public_error F e \<Longrightarrow> \<exists>c m. F c m \<and> classify e = (c, take 500 m)"
proof (elim public_errorE)
  fix se assume "e = SyncErr se" "F (se_code se) (se_message se)"
  moreover have "Engine.truncate m = take 500 m" for m by (simp add: Engine.truncate_def)
  ultimately show ?thesis by (auto simp: classify_def)
qed

section \<open>Properties\<close>

text \<open>
  C25: a synchronization by any of the three providers, under every answer of the network and of the database, changes
  no report row of another site or of a dataset the provider does not own; and what becomes of its failure, in the run and on
  the connection, is a code and a text of the fixed family of the provider, cut to 500 bytes: never a response
  body, a URL with a key or a token.
\<close>

theorem providers_confined:
  assumes pr: "built_in pr F D" and rt: "undisturbed rt"
    and run: "run_state (run_sync rt i r (SyncRange pr rq cred)) w = ((res, e), w')"
  shows "foreign_rows i D (w_db w') = foreign_rows i D (w_db w)
    \<and> (e = None \<or> (\<exists>c m. F c m \<and> run_outcome e = (if c = ErrPartial then SyncPartial else SyncFailed, c, take 500 m)))"
proof -
  from wp_run [OF provider_contract.sync_confined [OF built_in_contract [OF pr] rt] run]
  have ok: "public_end F res e" "foreign_rows i D (w_db w') = foreign_rows i D (w_db w)" by auto
  show ?thesis
  proof (cases e)
    case None
    then show ?thesis using ok(2) by simp
  next
    case (Some x)
    then obtain c m where "F c m" "classify x = (c, take 500 m)" using ok(1) classify_public_error [of F x] by auto
    then show ?thesis using ok(2) Some by (auto simp: run_outcome_def)
  qed
qed

text \<open>
  The errors the API shows of a provider (when it lists properties, tests or revokes a credential) are the provider's own
  classified errors, and their texts are of the fixed family of the provider.
\<close>

theorem provider_errors_shown:
  assumes pr: "built_in pr F D"
    and e: "DiscoverProperties pr cred = Inl e \<or> TestProperty pr s q cred = Some e \<or> RevokeCredential pr cred = Some e"
  shows "publicError e = e \<and> (\<exists>se. e = SyncErr se \<and> F (se_code se) (se_message se))"
  by (rule provider_contract.shown_as_is [OF built_in_contract [OF pr] e])

section \<open>Witnesses\<close>

lemma demo_built_in: "built_in (bing_provider demo_bing) bing_public bing_datasets"
  by (auto simp: built_in_def)

definition no_key :: secret_material where
  "no_key = \<lparr>sm_Type = ''api_key'', sm_Bytes = []\<rparr>"

lemma no_key_discover:
  "DiscoverProperties (bing_provider demo_bing) no_key = Inl (SyncErr (SyncErrorOf ErrUnauthorized ''Bing API key is empty''))"
  by (simp add: bing_provider_def bing_DiscoverProperties_def get_list_def bing_get_def no_key_def bing_classify_def)

theorem provider_errors_shown_witness:
  "publicError (SyncErr (SyncErrorOf ErrUnauthorized ''Bing API key is empty'')) = SyncErr (SyncErrorOf ErrUnauthorized ''Bing API key is empty'')"
  using provider_errors_shown [OF demo_built_in disjI1 [OF no_key_discover]] by simp

lemma no_key_sync:
  "SyncRange (bing_provider demo_bing) demo_bing_rq no_key = SyncDone no_result (Some (SyncErr (SyncErrorOf ErrUnauthorized ''Bing API key is empty'')))"
  by (simp add: bing_provider_def bing_Sync_def syncSearch_def get_list_def bing_get_def no_key_def bing_classify_def demo_bing_rq_def sync_fail_def)

theorem providers_confined_witness:
  "\<exists>c m. bing_public c m \<and> run_outcome (Some (SyncErr (SyncErrorOf ErrUnauthorized ''Bing API key is empty'')))
     = (if c = ErrPartial then SyncPartial else SyncFailed, c, take 500 m)"
  using providers_confined [OF demo_built_in demo_rt_ok(1), of "''i''" "''r''" demo_bing_rq no_key _ no_result
      "Some (SyncErr (SyncErrorOf ErrUnauthorized ''Bing API key is empty''))"]
  by (simp add: no_key_sync)

end
