(* ===== verification/GoDuration.thy ===== *)
theory GoDuration
  imports Float64
begin

text \<open>
  \<^verbatim>\<open>time.ParseDuration\<close> of the Go library, which \<^verbatim>\<open>cmd/seo-platform/main.go\<close> uses to read its intervals. The sum is a \<^verbatim>\<open>uint64\<close> of
  nanoseconds; fractions go through \<^verbatim>\<open>float64\<close>.
\<close>

section \<open>Definitions\<close>

fun leadingInt :: "int \<Rightarrow> string \<Rightarrow> (int \<times> string) option" where
  "leadingInt x [] = Some (x, [])"
| "leadingInt x (c # s) =
     (if \<not> is_digit c then Some (x, c # s)
      else if x > 2 ^ 63 div 10 then None
      else let x' = x * 10 + int (digit_val c) in if x' > 2 ^ 63 then None else leadingInt x' s)"

text \<open>The digits after the point, the power of ten to divide by, and the rest; digits that no longer fit are skipped.\<close>

fun leadingFraction :: "int \<Rightarrow> int \<Rightarrow> bool \<Rightarrow> string \<Rightarrow> int \<times> int \<times> string" where
  "leadingFraction x sc over [] = (x, sc, [])"
| "leadingFraction x sc over (c # s) =
     (if \<not> is_digit c then (x, sc, c # s)
      else if over then leadingFraction x sc over s
      else if x > (2 ^ 63 - 1) div 10 then leadingFraction x sc True s
      else let y = x * 10 + int (digit_val c) in
        if y > 2 ^ 63 then leadingFraction x sc True s else leadingFraction y (sc * 10) False s)"

definition unitMap :: "string \<Rightarrow> int option" where
  "unitMap u =
     (if u = ''ns'' then Some 1
      else if u = ''us'' \<or> u = [CHR 0xC2, CHR 0xB5, CHR ''s''] \<or> u = [CHR 0xCE, CHR 0xBC, CHR ''s''] then Some 1000
      else if u = ''ms'' then Some 1000000
      else if u = ''s'' then Some second_ns
      else if u = ''m'' then Some minute_ns
      else if u = ''h'' then Some hour_ns
      else None)"

text \<open>\<^verbatim>\<open>uint64(float64(f) * (float64(unit) / scale))\<close>; the product is below \<open>2^63\<close>.\<close>

definition fraction_ns :: "int \<Rightarrow> int \<Rightarrow> int \<Rightarrow> int" where
  "fraction_ns f u sc =
     (case f_decode (f_mul (f_of_int f) (f_round False u sc)) of
        FFin s m e \<Rightarrow> if e \<ge> 0 then m * 2 ^ nat e else m div 2 ^ nat (- e)
      | _ \<Rightarrow> 0)"

definition unit_char :: "char \<Rightarrow> bool" where
  "unit_char c \<longleftrightarrow> c \<noteq> CHR ''.'' \<and> \<not> is_digit c"

text \<open>One number with its unit.\<close>

definition duration_term :: "string \<Rightarrow> (int \<times> string) option" where
  "duration_term s =
     (if \<not> (hd s = CHR ''.'' \<or> is_digit (hd s)) then None else
      case leadingInt 0 s of
        None \<Rightarrow> None
      | Some (v, s1) \<Rightarrow>
          let pre = length s1 \<noteq> length s;
              (f, sc, s2) = (if s1 \<noteq> [] \<and> hd s1 = CHR ''.'' then leadingFraction 0 1 False (tl s1) else (0, 1, s1));
              post = (s1 \<noteq> [] \<and> hd s1 = CHR ''.'' \<and> length s2 \<noteq> length (tl s1));
              u = takeWhile unit_char s2; rest = dropWhile unit_char s2
          in if \<not> pre \<and> \<not> post then None
             else if u = [] then None
             else (case unitMap u of
                 None \<Rightarrow> None
               | Some k \<Rightarrow>
                   if v > 2 ^ 63 div k then None
                   else let w = v * k + (if f > 0 then fraction_ns f k sc else 0)
                     in if f > 0 \<and> w > 2 ^ 63 then None else Some (w, rest)))"

lemma leadingInt_length: "leadingInt x s = Some (v, r) \<Longrightarrow> length r \<le> length s"
  by (induction x s rule: leadingInt.induct) (auto simp: Let_def split: if_splits)

lemma leadingFraction_length: "leadingFraction x sc over s = (f, sc', r) \<Longrightarrow> length r \<le> length s"
  by (induction x sc over s rule: leadingFraction.induct) (fastforce simp: Let_def split: if_splits)+

lemma takeWhile_dropWhile_length: "takeWhile P s \<noteq> [] \<Longrightarrow> length (dropWhile P s) < length s"
  by (metis append_Nil length_dropWhile_le order_neq_le_trans same_append_eq takeWhile_dropWhile_id dropWhile_eq_self_iff
      takeWhile_eq_Nil_iff dropWhile_eq_drop drop_eq_Nil length_append length_greater_0_conv less_add_same_cancel2)

lemma duration_term_shorter:
  assumes "duration_term s = Some (w, r)"
  shows "length r < length s"
proof -
  obtain v s1 where v: "leadingInt 0 s = Some (v, s1)"
    using assms by (auto simp: duration_term_def split: if_splits option.splits)
  define s2 where "s2 = (if s1 \<noteq> [] \<and> hd s1 = CHR ''.'' then snd (snd (leadingFraction 0 1 False (tl s1))) else s1)"
  have s2: "length s2 \<le> length s"
  proof (cases "s1 \<noteq> [] \<and> hd s1 = CHR ''.''")
    case True
    then have "length s2 \<le> length (tl s1)"
      using leadingFraction_length [of 0 1 False "tl s1"] by (simp add: s2_def) (metis prod.collapse)
    then show ?thesis using leadingInt_length [OF v] by simp
  next
    case False
    then have "s2 = s1" unfolding s2_def by (rule if_not_P)
    then show ?thesis using leadingInt_length [OF v] by simp
  qed
  have "takeWhile unit_char s2 \<noteq> []" "r = dropWhile unit_char s2"
    using assms v unfolding duration_term_def s2_def
    by (auto simp: Let_def split: if_splits option.splits prod.splits)
  then show ?thesis using takeWhile_dropWhile_length [of unit_char s2] s2 by simp
qed

function duration_terms :: "int \<Rightarrow> string \<Rightarrow> int option" where
  "duration_terms d s =
     (if s = [] then Some d
      else case duration_term s of
          None \<Rightarrow> None
        | Some (v, rest) \<Rightarrow>
            let d' = (d + v) mod 2 ^ 64 in if d' > 2 ^ 63 then None else duration_terms d' rest)"
  by pat_completeness auto
termination by (relation "measure (length \<circ> snd)") (auto simp: duration_term_shorter)

declare duration_terms.simps [simp del]

definition ParseDuration :: "string \<Rightarrow> int option" where
  "ParseDuration s0 =
     (let neg = (s0 \<noteq> [] \<and> hd s0 = CHR ''-'');
          s = (if s0 \<noteq> [] \<and> (hd s0 = CHR ''-'' \<or> hd s0 = CHR ''+'') then tl s0 else s0)
      in if s = ''0'' then Some 0
         else if s = [] then None
         else (case duration_terms 0 s of
             None \<Rightarrow> None
           | Some d \<Rightarrow> if neg then Some (- d) else if d > 2 ^ 63 - 1 then None else Some d))"

section \<open>Bounds\<close>

lemma duration_terms_bounds: "duration_terms d s = Some d' \<Longrightarrow> 0 \<le> d \<Longrightarrow> d \<le> 2 ^ 63 \<Longrightarrow> 0 \<le> d' \<and> d' \<le> 2 ^ 63"
proof (induction d s rule: duration_terms.induct)
  case (1 d s)
  show ?case
    using "1.IH" "1.prems" by (subst (asm) (2) duration_terms.simps) (auto simp: Let_def not_less split: if_splits option.splits)
qed

lemma ParseDuration_bounds: "ParseDuration s = Some d \<Longrightarrow> min_int64 \<le> d \<and> d \<le> max_int64"
  using duration_terms_bounds [of 0]
  by (fastforce simp: ParseDuration_def Let_def split: if_splits option.splits)

section \<open>Whole numbers of one unit\<close>

lemma leadingInt_digits:
  assumes "list_all is_digit ds" "s = [] \<or> \<not> is_digit (hd s)" "foldl (\<lambda>a c. 10 * a + digit_val c) x ds \<le> 2 ^ 63"
  shows "leadingInt (int x) (ds @ s) = Some (int (foldl (\<lambda>a c. 10 * a + digit_val c) x ds), s)"
  using assms
proof (induction ds arbitrary: x)
  case Nil
  then show ?case by (cases s) auto
next
  case (Cons c ds)
  have grows: "y \<le> foldl (\<lambda>a c. 10 * a + digit_val c) y cs" for y cs
  proof (induction cs arbitrary: y)
    case (Cons d cs)
    from Cons [of "10 * y + digit_val d"] show ?case by simp
  qed simp
  have b: "10 * x + digit_val c \<le> 2 ^ 63" using grows [of "10 * x + digit_val c" ds] Cons.prems(3) by simp
  then have "int (10 * x + digit_val c) \<le> 2 ^ 63" by (metis of_nat_le_iff of_nat_numeral of_nat_power)
  then have "\<not> int x > 2 ^ 63 div 10" "\<not> int x * 10 + int (digit_val c) > 2 ^ 63" by auto
  then show ?case using Cons.IH [of "10 * x + digit_val c"] Cons.prems by (simp add: Let_def mult.commute)
qed

lemma unitMap_cases:
  assumes "unitMap u = Some k"
  shows "u \<noteq> []" "list_all unit_char u" "0 < k"
  using assms by (auto simp: unitMap_def unit_char_def is_digit_def split: if_splits)

text \<open>What \<^verbatim>\<open>24h\<close>, \<^verbatim>\<open>10m\<close> and the like mean.\<close>

lemma ParseDuration_dec:
  assumes u: "unitMap u = Some k" and n: "int n * k \<le> max_int64"
  shows "ParseDuration (dec n @ u) = Some (int n * k)"
proof -
  note U = unitMap_cases [OF u]
  have n63: "int n \<le> 2 ^ 63" using n mult_left_mono [of 1 k "int n"] U(3) by simp
  then have "n \<le> 2 ^ 63" by (metis of_nat_le_iff of_nat_numeral of_nat_power)
  moreover have "u = [] \<or> \<not> is_digit (hd u)" using U(1,2) by (cases u) (auto simp: unit_char_def)
  ultimately have lead: "leadingInt 0 (dec n @ u) = Some (int n, u)"
    using leadingInt_digits [OF dec_digits, of u 0 n] digits_val_dec [of n] by (simp add: digits_val_def)
  obtain c cs where d: "dec n = c # cs" by (cases "dec n") auto
  then have c: "is_digit c" using dec_digits [of n] by simp
  have dot: "\<not> (u \<noteq> [] \<and> hd u = CHR ''.'')" using U(1,2) by (cases u) (auto simp: unit_char_def)
  have un: "takeWhile unit_char u = u" "dropWhile unit_char u = []" using U(2) by (simp_all add: list_all_iff)
  have "int n * k div k \<le> 2 ^ 63 div k" using n U(3) by (intro zdiv_mono1) simp_all
  then have k: "int n \<le> 2 ^ 63 div k" using U(3) by simp
  have "duration_term (dec n @ u) = Some (int n * k, [])"
    using c U(1) dot u k by (simp add: duration_term_def lead un Let_def hd_append d [THEN arg_cong, of hd])
  moreover have "0 \<le> int n * k" "int n * k < 2 ^ 63" using n U(3) by simp_all
  ultimately have "duration_terms 0 (dec n @ u) = Some (int n * k)"
    by (simp add: duration_terms.simps [of 0] duration_terms.simps [of _ "[]"] Let_def d)
  then show ?thesis
    using is_digit_not_sign [OF c] U(1) n by (auto simp: ParseDuration_def Let_def d)
qed

end
