(* ===== verification/Bootstrap.thy ===== *)
theory Bootstrap
  imports FileStore Auth Authorize GoDuration
begin

text \<open>
  First start of the standalone server (\<^verbatim>\<open>cmd/seo-platform/main.go\<close>): the environment variables, the master key of the secret store
  and the administrator's API key, which are created as files and read again by later starts.

  The host is its files and what was printed. A \<open>boot_env\<close> gives the random bytes and says which operations fail. The hash function
  \<^verbatim>\<open>sha256.Sum256\<close> is a parameter; that it yields 32 bytes is the hypothesis \<open>sum_ok\<close>.
\<close>

section \<open>Definitions\<close>

record host =
  h_files :: "string \<rightharpoonup> string"
  h_temp :: "string option"
  h_stdout :: "string list"

datatype secret_step = MkdirAll | TempStep write_step

record boot_env =
  b_getenv :: "string \<Rightarrow> string"
  b_rand :: "nat \<Rightarrow> nat list option"
  b_read_fails :: "string \<Rightarrow> bool"
  b_write_fails :: "string \<Rightarrow> secret_step option"
  b_remove_fails :: "string \<Rightarrow> bool"

subsection \<open>Environment variables\<close>

definition envOr :: "boot_env \<Rightarrow> string \<Rightarrow> string \<Rightarrow> string" where
  "envOr env name fallback = (let v = trim_space (b_getenv env name) in if v \<noteq> [] then v else fallback)"

definition envInt :: "boot_env \<Rightarrow> string \<Rightarrow> int \<Rightarrow> int" where
  "envInt env name fallback =
     (case atoi (trim_space (b_getenv env name)) of (v, err) \<Rightarrow> if \<not> err \<and> v > 0 then v else fallback)"

definition envDuration :: "boot_env \<Rightarrow> string \<Rightarrow> int \<Rightarrow> int" where
  "envDuration env name fallback =
     (case ParseDuration (trim_space (b_getenv env name)) of Some v \<Rightarrow> if v > 0 then v else fallback | None \<Rightarrow> fallback)"

definition isLoopbackURL :: "url \<Rightarrow> bool" where
  "isLoopbackURL parsed \<longleftrightarrow> Hostname parsed = ''localhost'' \<or> Hostname parsed = ''127.0.0.1'' \<or> Hostname parsed = ''::1''"

subsection \<open>Files\<close>

datatype read_result = NotExist | ReadErr go_error | Contents string

definition ReadFile :: "boot_env \<Rightarrow> string \<Rightarrow> host \<Rightarrow> read_result" where
  "ReadFile env filename h =
     (if b_read_fails env filename then ReadErr (Msg ''read'')
      else case h_files h filename of None \<Rightarrow> NotExist | Some raw \<Rightarrow> Contents raw)"

definition Remove :: "boot_env \<Rightarrow> string \<Rightarrow> host \<Rightarrow> go_error option \<times> host" where
  "Remove env filename h =
     (if b_remove_fails env filename \<or> h_files h filename = None then (Some (Msg ''remove''), h)
      else (None, h\<lparr>h_files := (h_files h)(filename := None)\<rparr>))"

text \<open>
  \<^verbatim>\<open>writeSecretFile\<close>, step by step; \<open>secret_trace\<close> lists the states a crash can leave behind. The deferred \<^verbatim>\<open>os.Remove\<close> clears the
  temporary file on every return.
\<close>

fun secret_apply :: "string \<Rightarrow> string \<Rightarrow> secret_step \<Rightarrow> host \<Rightarrow> host" where
  "secret_apply filename data (TempStep CreateTemp) h = h\<lparr>h_temp := Some []\<rparr>"
| "secret_apply filename data (TempStep WriteTemp) h = h\<lparr>h_temp := Some data\<rparr>"
| "secret_apply filename data (TempStep RenameTemp) h =
     h\<lparr>h_files := (case h_temp h of None \<Rightarrow> h_files h | Some c \<Rightarrow> (h_files h)(filename \<mapsto> c)), h_temp := None\<rparr>"
| "secret_apply filename data _ h = h"

definition secret_steps :: "secret_step list" where
  "secret_steps = MkdirAll # map TempStep write_steps"

fun secret_trace :: "string \<Rightarrow> string \<Rightarrow> secret_step option \<Rightarrow> secret_step list \<Rightarrow> host \<Rightarrow> host list" where
  "secret_trace filename data fault [] h = []"
| "secret_trace filename data fault (w # ws) h =
     (if fault = Some w then [] else
      let h' = secret_apply filename data w h in h' # secret_trace filename data fault ws h')"

definition writeSecretFile :: "boot_env \<Rightarrow> string \<Rightarrow> string \<Rightarrow> host \<Rightarrow> go_error option \<times> host" where
  "writeSecretFile env filename data h =
     (map_option (\<lambda>_. Msg ''write'') (b_write_fails env filename),
      (last (h # secret_trace filename data (b_write_fails env filename) secret_steps h))\<lparr>h_temp := None\<rparr>)"

subsection \<open>Keys\<close>

definition hex_lower :: "nat \<Rightarrow> char" where
  "hex_lower n = ''0123456789abcdef'' ! n"

definition hex_encode :: "nat list \<Rightarrow> string" where
  "hex_encode bs = concat (map (\<lambda>b. [hex_lower (b div 16), hex_lower (b mod 16)]) bs)"

definition is_invalid :: "string \<Rightarrow> go_error" where
  "is_invalid filename = Msg (filename @ '' is invalid'')"

definition newline :: string where
  "newline = [CHR 0x0A]"

definition hex_of_size :: "string \<Rightarrow> nat \<Rightarrow> bool" where
  "hex_of_size s n = (case hex_decode s of None \<Rightarrow> False | Some decoded \<Rightarrow> length decoded = n)"

definition loadOrCreateHexSecret :: "boot_env \<Rightarrow> string \<Rightarrow> nat \<Rightarrow> host \<Rightarrow> (go_error + string) \<times> host" where
  "loadOrCreateHexSecret env filename n h =
     (case ReadFile env filename h of
        Contents raw \<Rightarrow>
          let v = trim_space raw in if hex_of_size v n then (Inr v, h) else (Inl (is_invalid filename), h)
      | ReadErr e \<Rightarrow> (Inl e, h)
      | NotExist \<Rightarrow>
          (case b_rand env n of
             None \<Rightarrow> (Inl (Msg ''rand''), h)
           | Some buf \<Rightarrow>
               let v = hex_encode buf in
               (case writeSecretFile env filename (v @ newline) h of
                  (Some e, h') \<Rightarrow> (Inl e, h')
                | (None, h') \<Rightarrow> (Inr v, h'))))"

definition allAdminScopes :: string where
  "allAdminScopes = join '','' [ScopeRead, ScopeSync, ScopeConnectionsManage, ScopeSitesManage, ScopeMembersManage, ScopeAuditRead]"

definition loadOrCreateBootstrapAPIKey ::
  "(string \<Rightarrow> nat list) \<Rightarrow> boot_env \<Rightarrow> string \<Rightarrow> string \<Rightarrow> host \<Rightarrow> (go_error + string) \<times> host" where
  "loadOrCreateBootstrapAPIKey sha env hashFile tokenFile h =
     (case ReadFile env hashFile h of
        Contents raw \<Rightarrow>
          let hash = trim_space raw in
          if \<not> hex_of_size hash 32 then (Inl (is_invalid hashFile), h)
          else (Inr (hash @ ''='' @ allAdminScopes), h)
      | ReadErr e \<Rightarrow> (Inl e, h)
      | NotExist \<Rightarrow>
          (case b_rand env 32 of
             None \<Rightarrow> (Inl (Msg ''rand''), h)
           | Some buf \<Rightarrow>
               let token = base64url buf; hash = hex_encode (sha token) in
               (case writeSecretFile env hashFile (hash @ newline) h of
                  (Some e, h1) \<Rightarrow> (Inl e, h1)
                | (None, h1) \<Rightarrow>
                    (case writeSecretFile env tokenFile (token @ newline) h1 of
                       (Some e, h2) \<Rightarrow> (Inl e, snd (Remove env hashFile h2))
                     | (None, h2) \<Rightarrow> (Inr (hash @ ''='' @ allAdminScopes), h2)))))"

definition printBootstrapToken :: "boot_env \<Rightarrow> string \<Rightarrow> host \<Rightarrow> go_error option \<times> host" where
  "printBootstrapToken env filename h =
     (case ReadFile env filename h of
        NotExist \<Rightarrow> (Some (Msg ''bootstrap API key is no longer available; it is shown only once''), h)
      | ReadErr e \<Rightarrow> (Some e, h)
      | Contents raw \<Rightarrow>
          (case Remove env filename h of
             (Some e, h') \<Rightarrow> (Some (Wrapped ''consume bootstrap API key'' e), h')
           | (None, h') \<Rightarrow> (None, h'\<lparr>h_stdout := h_stdout h' @ [trim_space raw]\<rparr>)))"

section \<open>Writing files\<close>

lemma writeSecretFile_cases:
  "writeSecretFile env filename data h =
     (case b_write_fails env filename of
        None \<Rightarrow> (None, h\<lparr>h_files := (h_files h)(filename \<mapsto> data), h_temp := None\<rparr>)
      | Some _ \<Rightarrow> (Some (Msg ''write''), h\<lparr>h_temp := None\<rparr>))"
proof (cases "b_write_fails env filename")
  case (Some w)
  then show ?thesis
  proof (cases w)
    case (TempStep t)
    with Some show ?thesis by (cases t) (simp_all add: writeSecretFile_def secret_steps_def write_steps_def Let_def)
  qed (simp add: writeSecretFile_def secret_steps_def write_steps_def Let_def)
qed (simp add: writeSecretFile_def secret_steps_def write_steps_def Let_def)

section \<open>Texts\<close>

text \<open>Reading back a line of printable characters.\<close>

lemma rev_last_butlast: "s \<noteq> [] \<Longrightarrow> rev s = last s # rev (butlast s)"
  by (induction s) auto

lemma space_runes_first: "map rev space_runes = [CHR 0x09] # [CHR 0x0A] # drop 2 (map rev space_runes)"
  by code_simp

lemma trim_space_line:
  assumes "s \<noteq> []" "list_all ascii_print s"
  shows "trim_space (s @ newline) = s"
proof -
  obtain c t where s: "s = c # t" "ascii_print c" using assms by (cases s) auto
  have front: "trim_with space_runes (s @ newline) = s @ newline"
    using trim_with_ascii [OF space_runes_ascii s(2)] by (simp add: s(1))
  have "find (\<lambda>r. r \<noteq> [] \<and> has_prefix (CHR 0x0A # rev s) r) (map rev space_runes) = Some [CHR 0x0A]"
    by (subst space_runes_first) (simp add: has_prefix_def)
  then have "trim_with (map rev space_runes) (rev (s @ newline)) = trim_with (map rev space_runes) (rev s)"
    by (subst trim_with.simps) (simp add: newline_def)
  also have "\<dots> = rev s"
    using trim_with_ascii [of "map rev space_runes" "last s" "rev (butlast s)"] space_runes_ascii assms
    by (auto simp: list_all_iff rev_last_butlast)
  finally show ?thesis by (simp add: trim_space_def front)
qed

definition hex_char_ok :: "nat \<Rightarrow> bool" where
  "hex_char_ok n \<longleftrightarrow> hex_val (hex_lower n) = Some n \<and> ascii_print (hex_lower n) \<and> lower_char (hex_lower n) = hex_lower n
     \<and> hex_lower n \<notin> {CHR '';'', CHR ''='', CHR '',''}"

lemma hex_chars: "list_all hex_char_ok [0..<16]"
  by code_simp

lemma hex_char: "n < 16 \<Longrightarrow> hex_char_ok n"
  using hex_chars unfolding list_all_iff set_upt by auto

lemma b64_char_ascii: "n < 64 \<Longrightarrow> ascii_print (b64_char n)"
proof -
  let ?s = "''ABCDEFGHIJKLMNOPQRSTUVWXYZabcdefghijklmnopqrstuvwxyz0123456789-_''"
  have "list_all ascii_print ?s" "length ?s = 64" by (simp_all add: ascii_print_def)
  then show "n < 64 \<Longrightarrow> ascii_print (b64_char n)" unfolding b64_char_def list_all_length by metis
qed

definition bytes_ok :: "nat list \<Rightarrow> bool" where
  "bytes_ok bs \<longleftrightarrow> list_all (\<lambda>b. b < 256) bs"

lemma hex_decode_encode: "bytes_ok bs \<Longrightarrow> hex_decode (hex_encode bs) = Some (map char_of bs)"
proof (induction bs)
  case (Cons b bs)
  then have "hex_char_ok (b div 16)" "hex_char_ok (b mod 16)" by (auto simp: bytes_ok_def intro: hex_char)
  then show ?case using Cons by (simp add: hex_encode_def bytes_ok_def hex_char_ok_def)
qed (simp add: hex_encode_def)

lemma hex_encode_chars:
  assumes "bytes_ok bs" "c \<in> set (hex_encode bs)"
  shows "ascii_print c" "lower_char c = c" "c \<notin> {CHR '';'', CHR ''='', CHR '',''}"
proof -
  obtain b where "b \<in> set bs" "c = hex_lower (b div 16) \<or> c = hex_lower (b mod 16)"
    using assms(2) by (auto simp: hex_encode_def)
  moreover have "b < 256" using calculation assms(1) by (simp add: bytes_ok_def list_all_iff)
  ultimately obtain n where "c = hex_lower n" "hex_char_ok n" using hex_char by fastforce
  then show "ascii_print c" "lower_char c = c" "c \<notin> {CHR '';'', CHR ''='', CHR '',''}" by (simp_all add: hex_char_ok_def)
qed

lemma hex_encode_length: "length (hex_encode bs) = 2 * length bs"
  by (induction bs) (simp_all add: hex_encode_def)

lemma hex_encode_of_size: "bytes_ok bs \<Longrightarrow> hex_of_size (hex_encode bs) (length bs)"
  by (simp add: hex_of_size_def hex_decode_encode)

lemma hex_encode_line: "bytes_ok bs \<Longrightarrow> bs \<noteq> [] \<Longrightarrow> trim_space (hex_encode bs @ newline) = hex_encode bs"
  using hex_encode_chars(1) [of bs] hex_encode_length [of bs]
  by (intro trim_space_line) (auto simp: list_all_iff)

lemma six_bits:
  fixes a b :: nat
  assumes "a < 256" "b < 256"
  shows "a mod 4 * 16 + b div 16 < 64" "a mod 16 * 4 + b div 64 < 64" "a mod 16 * 4 < 64" "a mod 4 * 16 < 64"
proof -
  have "a mod 4 < 4" "a mod 16 < 16" "b div 16 < 16" "b div 64 < 4"
    using assms by (simp_all add: less_mult_imp_div_less)
  then show "a mod 4 * 16 + b div 16 < 64" "a mod 16 * 4 + b div 64 < 64" "a mod 16 * 4 < 64" "a mod 4 * 16 < 64" by linarith+
qed

lemma base64url_ascii: "bytes_ok bs \<Longrightarrow> list_all ascii_print (base64url bs)"
  by (induction bs rule: base64url.induct) (simp_all add: bytes_ok_def b64_char_ascii six_bits less_mult_imp_div_less)

lemma base64url_nonempty: "bs \<noteq> [] \<Longrightarrow> base64url bs \<noteq> []"
  by (cases bs rule: base64url.cases) auto

lemma token_line: "bytes_ok bs \<Longrightarrow> bs \<noteq> [] \<Longrightarrow> trim_space (base64url bs @ newline) = base64url bs"
  by (intro trim_space_line base64url_ascii base64url_nonempty)

section \<open>The key specification\<close>

text \<open>What is known of \<^verbatim>\<open>sha256.Sum256\<close>: 32 bytes.\<close>

definition sum_ok :: "(string \<Rightarrow> nat list) \<Rightarrow> bool" where
  "sum_ok sha \<longleftrightarrow> (\<forall>t. length (sha t) = 32 \<and> bytes_ok (sha t))"

lemma scopes_plain: "list_all plain_text all_scopes"
  by code_simp

lemma bootstrap_entry:
  assumes "sum_ok sha"
  shows "hex_encode (sha t) @ ''='' @ allAdminScopes = api_key_spec [(hex_encode (sha t), all_scopes)]"
    and "api_key_entry_ok (hex_encode (sha t), all_scopes)"
    and "to_lower (hex_encode (sha t)) = hex_encode (sha t)"
proof -
  have b: "bytes_ok (sha t)" "length (sha t) = 32" using assms by (simp_all add: sum_ok_def)
  note C = hex_encode_chars [OF b(1)]
  show "hex_encode (sha t) @ ''='' @ allAdminScopes = api_key_spec [(hex_encode (sha t), all_scopes)]"
    by (simp add: api_key_spec_def api_key_entry_def allAdminScopes_def all_scopes_def)
  have "hex_encode (sha t) \<noteq> []" using b(2) hex_encode_length [of "sha t"] by auto
  then show "api_key_entry_ok (hex_encode (sha t), all_scopes)"
    using C scopes_plain b(2) by (auto simp: api_key_entry_ok_def plain_text_def hex_encode_length list_all_iff all_scopes_def)
  show "to_lower (hex_encode (sha t)) = hex_encode (sha t)"
    unfolding to_lower_def by (rule map_idI) (rule C(2))
qed

section \<open>Properties\<close>

definition rand_ok :: "boot_env \<Rightarrow> bool" where
  "rand_ok env \<longleftrightarrow> (\<forall>n bs. b_rand env n = Some bs \<longrightarrow> length bs = n \<and> bytes_ok bs)"

lemma hex_of_size_iff: "hex_of_size s n \<longleftrightarrow> (\<exists>decoded. hex_decode s = Some decoded \<and> length decoded = n)"
  by (simp add: hex_of_size_def split: option.split)

lemma trim_space_idem: "trim_space (trim_space s) = trim_space s"
proof -
  define t where "t = trim_with space_runes s"
  define u where "u = trim_space s"
  have u: "rev u = trim_with (map rev space_runes) (rev t)" by (simp add: u_def t_def trim_space_def)
  then obtain p where p: "t = u @ rev p" using trim_with_suffix [of "rev t" "map rev space_runes"] by (metis rev_append rev_rev_ident)
  have "find (\<lambda>r. r \<noteq> [] \<and> has_prefix t r) space_runes = None" unfolding t_def by (rule trim_with_stops)
  then have "find (\<lambda>r. r \<noteq> [] \<and> has_prefix u r) space_runes = None" by (auto simp: find_None_iff has_prefix_iff p)
  then have "trim_with space_runes u = u" by (subst trim_with.simps) simp
  moreover have "trim_with (map rev space_runes) (rev u) = rev u" by (simp add: u trim_with_idem)
  ultimately have "trim_space u = u" by (simp add: trim_space_def)
  then show ?thesis by (simp add: u_def)
qed

text \<open>What loading or creating a key leaves in its file.\<close>

lemma loadOrCreateHexSecret_file:
  assumes "loadOrCreateHexSecret env f n h = (Inr v, h')" "rand_ok env" "0 < n"
  shows "\<exists>raw. h_files h' f = Some raw \<and> trim_space raw = v \<and> hex_of_size v n" and "\<And>g. g \<noteq> f \<Longrightarrow> h_files h' g = h_files h g"
proof -
  have "(\<exists>raw. h_files h' f = Some raw \<and> trim_space raw = v \<and> hex_of_size v n) \<and> (\<forall>g. g \<noteq> f \<longrightarrow> h_files h' g = h_files h g)"
  proof (cases "h_files h f")
    case None
    then obtain bs where bs: "b_rand env n = Some bs" "v = hex_encode bs" "b_write_fails env f = None"
      "h_files h' = (h_files h)(f \<mapsto> hex_encode bs @ newline)"
      using assms(1) by (auto simp: loadOrCreateHexSecret_def ReadFile_def writeSecretFile_cases Let_def split: if_splits option.splits)
    have "length bs = n" "bytes_ok bs" using assms(2) bs(1) by (auto simp: rand_ok_def)
    then show ?thesis using hex_encode_line hex_encode_of_size assms(3) bs by auto
  next
    case (Some raw)
    then show ?thesis using assms(1) by (auto simp: loadOrCreateHexSecret_def ReadFile_def Let_def split: if_splits)
  qed
  then show "\<exists>raw. h_files h' f = Some raw \<and> trim_space raw = v \<and> hex_of_size v n" "\<And>g. g \<noteq> f \<Longrightarrow> h_files h' g = h_files h g"
    by blast+
qed

text \<open>
  The master key survives restarts. Whatever key the first start gets, created or found, the secret store opens with it,
  and every later start that finds the file as it was left and can read it gets the same key and writes nothing.
\<close>

theorem master_key_stable:
  assumes "loadOrCreateHexSecret env f 32 h = (Inr key, h')" "rand_ok env"
  shows "(\<exists>st. NewFile None dir key = Inr st \<and> length (f_key st) = 32)
    \<and> (\<forall>env' h''. h_files h'' f = h_files h' f \<longrightarrow> \<not> b_read_fails env' f \<longrightarrow> loadOrCreateHexSecret env' f 32 h'' = (Inr key, h''))"
proof -
  obtain raw where raw: "h_files h' f = Some raw" "trim_space raw = key" "hex_of_size key 32"
    using loadOrCreateHexSecret_file(1) [OF assms] by auto
  obtain decoded where d: "hex_decode key = Some decoded" "length decoded = 32" using raw(3) by (auto simp: hex_of_size_iff)
  have "trim_space key = key" using raw(2) trim_space_idem by metis
  then have "\<exists>st. NewFile None dir key = Inr st \<and> length (f_key st) = 32" using d by (simp add: NewFile_def)
  then show ?thesis using raw by (auto simp: loadOrCreateHexSecret_def ReadFile_def)
qed

lemma bootstrap_created:
  assumes "loadOrCreateBootstrapAPIKey sha env hashFile tokenFile h = (Inr spec, h1)" "h_files h hashFile = None" "hashFile \<noteq> tokenFile"
  obtains bs where "b_rand env 32 = Some bs" "spec = hex_encode (sha (base64url bs)) @ ''='' @ allAdminScopes"
    "h_files h1 = (h_files h)(hashFile \<mapsto> hex_encode (sha (base64url bs)) @ newline, tokenFile \<mapsto> base64url bs @ newline)"
  using assms
  by (auto simp: loadOrCreateBootstrapAPIKey_def ReadFile_def writeSecretFile_cases Let_def split: if_splits option.splits)

text \<open>
  The administrator key of the first start works and is shown once. After a first start that succeeds, \<^verbatim>\<open>admin bootstrap\<close> prints a
  token; the verifier built from the specification of that start, and of every later one, accepts exactly the tokens with its
  hash, with all scopes; a second \<^verbatim>\<open>admin bootstrap\<close> prints nothing and fails.
\<close>

theorem bootstrap_key_works:
  assumes first: "loadOrCreateBootstrapAPIKey sha env hashFile tokenFile h = (Inr spec, h1)" "h_files h hashFile = None" "hashFile \<noteq> tokenFile"
    and sha: "sum_ok sha" and rand: "rand_ok env"
    and show1: "\<not> b_read_fails env1 tokenFile" "\<not> b_remove_fails env1 tokenFile"
  shows "\<exists>token keys h2. token \<noteq> [] \<and> printBootstrapToken env1 tokenFile h1 = (None, h2) \<and> h_stdout h2 = h_stdout h1 @ [token]
    \<and> NewAPIKey spec = Inr keys
    \<and> (\<forall>auth s. APIKey_Authenticate (hex_encode \<circ> sha) keys auth = Inr s \<longleftrightarrow>
         (\<exists>t. auth = ''Bearer '' @ t \<and> t \<noteq> [] \<and> hex_encode (sha t) = hex_encode (sha token)
            \<and> s = \<lparr>sub_ID = ''api-key:'' @ take 8 (hex_encode (sha token)), sub_Issuer = ''api-key'', sub_Roles = [],
                   sub_Scopes = all_scopes, sub_Workspace = []\<rparr>))
    \<and> (\<forall>env'. \<not> b_read_fails env' hashFile \<longrightarrow> loadOrCreateBootstrapAPIKey sha env' hashFile tokenFile h2 = (Inr spec, h2))
    \<and> (\<forall>env'. \<exists>e. printBootstrapToken env' tokenFile h2 = (Some e, h2))"
proof -
  obtain bs where bs: "b_rand env 32 = Some bs" "spec = hex_encode (sha (base64url bs)) @ ''='' @ allAdminScopes"
    "h_files h1 = (h_files h)(hashFile \<mapsto> hex_encode (sha (base64url bs)) @ newline, tokenFile \<mapsto> base64url bs @ newline)"
    using bootstrap_created [OF first] by blast
  define token where "token = base64url bs"
  have "length bs = 32" and ok: "bytes_ok bs" using rand bs(1) by (simp_all add: rand_ok_def)
  then have ne: "bs \<noteq> []" by auto
  have s: "bytes_ok (sha token)" "length (sha token) = 32" using sha by (simp_all add: sum_ok_def)
  then have line: "trim_space (hex_encode (sha token) @ newline) = hex_encode (sha token)" "hex_of_size (hex_encode (sha token)) 32"
    using hex_encode_line [of "sha token"] hex_encode_of_size [of "sha token"] by force+
  note E = bootstrap_entry [OF sha, of token]
  define h2 where "h2 = h1\<lparr>h_files := (h_files h1)(tokenFile := None), h_stdout := h_stdout h1 @ [token]\<rparr>"
  have shown: "printBootstrapToken env1 tokenFile h1 = (None, h2)" 
    using show1 bs(3) token_line [OF ok ne] by (simp add: printBootstrapToken_def ReadFile_def Remove_def h2_def token_def)
  have hash: "h_files h2 hashFile = Some (hex_encode (sha token) @ newline)" "h_files h2 tokenFile = None"
    using bs(3) first(3) by (simp_all add: h2_def token_def)
  obtain keys where keys: "NewAPIKey spec = Inr keys" "map_of keys = [hex_encode (sha token) \<mapsto> all_scopes]"
    using NewAPIKey_spec [of "[(hex_encode (sha token), all_scopes)]"] E bs(2) by (auto simp: token_def)
  show ?thesis
  proof (intro exI [of _ token] exI [of _ keys] exI [of _ h2] conjI allI impI shown keys(1))
    show "h_stdout h2 = h_stdout h1 @ [token]" by (simp add: h2_def)
    show "token \<noteq> []" unfolding token_def by (rule base64url_nonempty [OF ne])
    show "loadOrCreateBootstrapAPIKey sha env' hashFile tokenFile h2 = (Inr spec, h2)" if "\<not> b_read_fails env' hashFile" for env'
      using that hash line bs(2) by (simp add: loadOrCreateBootstrapAPIKey_def ReadFile_def token_def)
    show "\<exists>e. printBootstrapToken env' tokenFile h2 = (Some e, h2)" for env'
      using hash by (simp add: printBootstrapToken_def ReadFile_def)
    show "APIKey_Authenticate (hex_encode \<circ> sha) keys auth = Inr s \<longleftrightarrow>
       (\<exists>t. auth = ''Bearer '' @ t \<and> t \<noteq> [] \<and> hex_encode (sha t) = hex_encode (sha token)
          \<and> s = \<lparr>sub_ID = ''api-key:'' @ take 8 (hex_encode (sha token)), sub_Issuer = ''api-key'', sub_Roles = [],
                 sub_Scopes = all_scopes, sub_Workspace = []\<rparr>)" for auth s
      by (auto simp: APIKey_Authenticate_iff keys(2) split: if_splits)
  qed
qed

text \<open>
  A first start that fails leaves no half of a key behind if the files it wrote can be removed: the next start tries again.
\<close>

lemma bootstrap_failure_clean:
  assumes "loadOrCreateBootstrapAPIKey sha env hashFile tokenFile h = (Inl e, h')" "h_files h hashFile = None" "\<not> b_remove_fails env hashFile"
  shows "h_files h' = h_files h"
  using assms
  by (auto simp: loadOrCreateBootstrapAPIKey_def ReadFile_def writeSecretFile_cases Remove_def Let_def fun_eq_iff
      split: if_splits option.splits)

text \<open>
  But a first start that is killed after it wrote the hash and before it wrote the token leaves a key nobody knows: later starts
  accept the hash file and write no token, and \<^verbatim>\<open>admin bootstrap\<close> says the key was already shown.
\<close>

lemma bootstrap_crash_locks_out:
  assumes "sum_ok sha" "h_files h hashFile = None" "h_files h tokenFile = None" "hashFile \<noteq> tokenFile" "b_write_fails env hashFile = None"
    and killed: "h1 = snd (writeSecretFile env hashFile (hex_encode (sha token) @ newline) h)"
    and later: "\<not> b_read_fails env' hashFile" "\<not> b_read_fails env' tokenFile"
  shows "loadOrCreateBootstrapAPIKey sha env' hashFile tokenFile h1 = (Inr (hex_encode (sha token) @ ''='' @ allAdminScopes), h1)"
    and "printBootstrapToken env' tokenFile h1 = (Some (Msg ''bootstrap API key is no longer available; it is shown only once''), h1)"
proof -
  have s: "bytes_ok (sha token)" "length (sha token) = 32" using assms(1) by (simp_all add: sum_ok_def)
  then have line: "trim_space (hex_encode (sha token) @ newline) = hex_encode (sha token)" "hex_of_size (hex_encode (sha token)) 32"
    using hex_encode_line [of "sha token"] hex_encode_of_size [of "sha token"] by force+
  have h1: "h_files h1 hashFile = Some (hex_encode (sha token) @ newline)" "h_files h1 tokenFile = None"
    using killed assms(3-5) by (simp_all add: writeSecretFile_cases)
  show "loadOrCreateBootstrapAPIKey sha env' hashFile tokenFile h1 = (Inr (hex_encode (sha token) @ ''='' @ allAdminScopes), h1)"
    using h1 line later by (simp add: loadOrCreateBootstrapAPIKey_def ReadFile_def)
  show "printBootstrapToken env' tokenFile h1 = (Some (Msg ''bootstrap API key is no longer available; it is shown only once''), h1)"
    using h1 later by (simp add: printBootstrapToken_def ReadFile_def)
qed

text \<open>Numbers and durations from the environment are positive and fit their types, whatever the variable holds.\<close>

lemma envInt_bounds: "0 < fallback \<Longrightarrow> fallback \<le> max_int64 \<Longrightarrow> 0 < envInt env name fallback \<and> envInt env name fallback \<le> max_int64"
  by (auto simp: envInt_def atoi_def Let_def split: prod.splits if_splits)

lemma envDuration_bounds:
  "0 < fallback \<Longrightarrow> fallback \<le> max_int64 \<Longrightarrow> 0 < envDuration env name fallback \<and> envDuration env name fallback \<le> max_int64"
  using ParseDuration_bounds by (auto simp: envDuration_def split: option.split)

section \<open>Witnesses\<close>

definition demo_boot :: boot_env where
  "demo_boot = \<lparr>b_getenv = \<lambda>_. [], b_rand = \<lambda>n. Some (replicate n 0), b_read_fails = \<lambda>_. False, b_write_fails = \<lambda>_. None, b_remove_fails = \<lambda>_. False\<rparr>"

definition demo_host :: host where
  "demo_host = \<lparr>h_files = Map.empty, h_temp = None, h_stdout = []\<rparr>"

lemma demo_boot_ok: "rand_ok demo_boot" "sum_ok (\<lambda>_. replicate 32 0)"
  by (simp_all add: rand_ok_def demo_boot_def bytes_ok_def sum_ok_def list_all_iff)

theorem master_key_stable_witness:
  "\<exists>key h'. loadOrCreateHexSecret demo_boot ''k'' 32 demo_host = (Inr key, h') \<and> loadOrCreateHexSecret demo_boot ''k'' 32 h' = (Inr key, h')"
proof -
  obtain key h' where run: "loadOrCreateHexSecret demo_boot ''k'' 32 demo_host = (Inr key, h')"
    by (simp add: loadOrCreateHexSecret_def ReadFile_def writeSecretFile_cases demo_boot_def demo_host_def Let_def)
  have "loadOrCreateHexSecret demo_boot ''k'' 32 h' = (Inr key, h')"
    using master_key_stable [OF run demo_boot_ok(1)] by (simp add: demo_boot_def)
  then show ?thesis using run by blast
qed

theorem bootstrap_key_works_witness:
  "\<exists>spec h1 token h2. loadOrCreateBootstrapAPIKey (\<lambda>_. replicate 32 0) demo_boot ''h'' ''t'' demo_host = (Inr spec, h1)
     \<and> printBootstrapToken demo_boot ''t'' h1 = (None, h2) \<and> h_stdout h2 = [token] \<and> token \<noteq> []
     \<and> (\<exists>e. printBootstrapToken demo_boot ''t'' h2 = (Some e, h2))"
proof -
  obtain spec h1 where run: "loadOrCreateBootstrapAPIKey (\<lambda>_. replicate 32 0) demo_boot ''h'' ''t'' demo_host = (Inr spec, h1)" "h_stdout h1 = []"
    by (simp add: loadOrCreateBootstrapAPIKey_def ReadFile_def writeSecretFile_cases demo_boot_def demo_host_def Let_def)
  have "h_files demo_host ''h'' = None" "''h'' \<noteq> ''t''" "\<not> b_read_fails demo_boot ''t''" "\<not> b_remove_fails demo_boot ''t''"
    by (simp_all add: demo_host_def demo_boot_def)
  from bootstrap_key_works [OF run(1) this(1,2) demo_boot_ok(2,1) this(3,4)] run show ?thesis by auto
qed

end
