(* ===== verification/Migrate.thy ===== *)
theory Migrate
  imports Store
begin

text \<open>
  Opening the store: \<^verbatim>\<open>Open\<close> and \<^verbatim>\<open>migrate\<close> of \<^verbatim>\<open>internal/store/store.go\<close> over the files \<^verbatim>\<open>migrations/migrations.go\<close> embeds.

  The schema is any type and the SQL engine any function \<open>exec\<close> that runs a script on it or fails; the embedded files are
  the list \<open>entries\<close> of their names and the function \<open>script\<close> that gives their texts. A \<open>mig_env\<close> says which step fails, what
  \<^verbatim>\<open>time.Now\<close> yields, and which migrations other processes commit between the check for a name and the
  transaction that applies it. A transaction that fails leaves no trace; a commit that reports an error may have taken
  effect or not.
\<close>

section \<open>Definitions\<close>

record 'd mig_db =
  m_migrations :: "(string \<times> string) list option"
  m_schema :: 'd

datatype mig_fault = QueryFails | ReadFileFails | BeginFails | ScriptFails | InsertFails | CommitFails bool

record mig_env =
  g_open :: "go_error option"
  g_create :: "go_error option"
  g_readdir :: "go_error option"
  g_fault :: "string \<Rightarrow> mig_fault option"
  g_now :: "string \<Rightarrow> gotime"
  g_others :: "string \<Rightarrow> (string \<times> string) list"

definition rows_of :: "'d mig_db \<Rightarrow> (string \<times> string) list" where
  "rows_of s = (case m_migrations s of None \<Rightarrow> [] | Some rows \<Rightarrow> rows)"

definition recorded :: "'d mig_db \<Rightarrow> string list" where
  "recorded s = map fst (rows_of s)"

text \<open>The transaction that runs a script and records its name; \<^verbatim>\<open>name\<close> is the primary key.\<close>

definition migration_tx ::
  "(string \<Rightarrow> 'd \<Rightarrow> go_error + 'd) \<Rightarrow> (string \<Rightarrow> string) \<Rightarrow> mig_fault option \<Rightarrow> string \<times> string \<Rightarrow> 'd mig_db \<Rightarrow> go_error option \<times> 'd mig_db" where
  "migration_tx exec script fault row s =
     (let raw = script (fst row) in
      case exec raw (m_schema s) of
        Inl e \<Rightarrow> (Some (Wrapped (''migration '' @ fst row) e), s)
      | Inr d \<Rightarrow>
          if fault = Some ScriptFails then (Some (Wrapped (''migration '' @ fst row) (Msg ''database error'')), s)
          else if fault = Some InsertFails then (Some (Msg ''database error''), s)
          else if fst row \<in> set (recorded s) then (Some UniqueViolation, s)
          else let s' = \<lparr>m_migrations = Some (rows_of s @ [row]), m_schema = d\<rparr> in
            (case fault of
               Some (CommitFails effective) \<Rightarrow> (Some (Msg ''database error''), if effective then s' else s)
             | _ \<Rightarrow> (None, s')))"

definition other_processes :: "(string \<Rightarrow> 'd \<Rightarrow> go_error + 'd) \<Rightarrow> (string \<Rightarrow> string) \<Rightarrow> (string \<times> string) list \<Rightarrow> 'd mig_db \<Rightarrow> 'd mig_db" where
  "other_processes exec script rows s = fold (\<lambda>row. snd \<circ> migration_tx exec script None row) rows s"

fun migrate_loop ::
  "(string \<Rightarrow> 'd \<Rightarrow> go_error + 'd) \<Rightarrow> (string \<Rightarrow> string) \<Rightarrow> mig_env \<Rightarrow> string list \<Rightarrow> 'd mig_db \<Rightarrow> go_error option \<times> 'd mig_db" where
  "migrate_loop exec script g [] s = (None, s)"
| "migrate_loop exec script g (name # names) s =
     (if g_fault g name = Some QueryFails then (Some (Msg ''database error''), s)
      else if name \<in> set (recorded s) then migrate_loop exec script g names s
      else if g_fault g name = Some ReadFileFails then (Some (Msg ''read file''), s)
      else let s1 = other_processes exec script (g_others g name) s in
        if g_fault g name = Some BeginFails then (Some (Msg ''database error''), s1)
        else (case migration_tx exec script (g_fault g name) (name, format_time (g_now g name)) s1 of
            (Some e, s2) \<Rightarrow> (Some e, s2)
          | (None, s2) \<Rightarrow> migrate_loop exec script g names s2))"

definition migration_names :: "string list \<Rightarrow> string list" where
  "migration_names entries = sort (filter (\<lambda>e. has_suffix e ''.sql'') entries)"

definition migrate ::
  "(string \<Rightarrow> 'd \<Rightarrow> go_error + 'd) \<Rightarrow> (string \<Rightarrow> string) \<Rightarrow> string list \<Rightarrow> mig_env \<Rightarrow> 'd mig_db \<Rightarrow> go_error option \<times> 'd mig_db" where
  "migrate exec script entries g s =
     (case g_create g of
        Some e \<Rightarrow> (Some e, s)
      | None \<Rightarrow>
          let s0 = s\<lparr>m_migrations := Some (rows_of s)\<rparr> in
          case g_readdir g of
            Some e \<Rightarrow> (Some e, s0)
          | None \<Rightarrow> migrate_loop exec script g (migration_names entries) s0)"

text \<open>The handle of the opened database carries no state of its own.\<close>

definition Open ::
  "(string \<Rightarrow> 'd \<Rightarrow> go_error + 'd) \<Rightarrow> (string \<Rightarrow> string) \<Rightarrow> string list \<Rightarrow> mig_env \<Rightarrow> 'd mig_db \<Rightarrow> go_error option \<times> 'd mig_db" where
  "Open exec script entries g s =
     (case g_open g of
        Some e \<Rightarrow> (Some e, s)
      | None \<Rightarrow> migrate exec script entries g s)"

text \<open>A history of starts of possibly different versions of the program.\<close>

definition opens ::
  "(string \<Rightarrow> 'd \<Rightarrow> go_error + 'd) \<Rightarrow> (string \<Rightarrow> string) \<Rightarrow> (string list \<times> mig_env) list \<Rightarrow> 'd mig_db \<Rightarrow> 'd mig_db" where
  "opens exec script history s = fold (\<lambda>(entries, g). snd \<circ> Open exec script entries g) history s"

definition fresh_file :: "'d \<Rightarrow> 'd mig_db" where
  "fresh_file d = \<lparr>m_migrations = None, m_schema = d\<rparr>"

text \<open>Running scripts one after the other: what the schema should be.\<close>

fun run_scripts :: "(string \<Rightarrow> 'd \<Rightarrow> go_error + 'd) \<Rightarrow> string list \<Rightarrow> 'd \<Rightarrow> 'd option" where
  "run_scripts exec [] d = Some d"
| "run_scripts exec (raw # raws) d = (case exec raw d of Inl _ \<Rightarrow> None | Inr d' \<Rightarrow> run_scripts exec raws d')"

section \<open>The invariant\<close>

text \<open>Every recorded migration ran exactly once, in the order of the records, and nothing else ran.\<close>

definition ran_once :: "(string \<Rightarrow> 'd \<Rightarrow> go_error + 'd) \<Rightarrow> (string \<Rightarrow> string) \<Rightarrow> 'd \<Rightarrow> 'd mig_db \<Rightarrow> bool" where
  "ran_once exec script d0 s \<longleftrightarrow> distinct (recorded s) \<and> run_scripts exec (map script (recorded s)) d0 = Some (m_schema s)"

lemma run_scripts_snoc:
  "run_scripts exec (raws @ [raw]) d =
     Option.bind (run_scripts exec raws d) (\<lambda>d'. case exec raw d' of Inl _ \<Rightarrow> None | Inr d'' \<Rightarrow> Some d'')"
  by (induction raws arbitrary: d) (auto split: sum.split)

lemma run_scripts_append:
  "run_scripts exec (xs @ ys) d = Option.bind (run_scripts exec xs d) (run_scripts exec ys)"
  by (induction xs arbitrary: d) (auto split: sum.split)

lemma recorded_Some [simp]: "recorded (s\<lparr>m_migrations := Some rows\<rparr>) = map fst rows"
  "recorded \<lparr>m_migrations = Some rows, m_schema = d\<rparr> = map fst rows"
  "recorded (fresh_file d) = []" "m_schema (fresh_file d) = d"
  by (simp_all add: recorded_def rows_of_def fresh_file_def)

lemma recorded_rows: "map fst (rows_of s) = recorded s"
  by (simp add: recorded_def)

text \<open>The transaction appends the record of a new name together with the effect of its script, or does nothing.\<close>

lemma migration_tx_effect:
  "snd (migration_tx exec script fault row s) = s \<and> fst (migration_tx exec script fault row s) \<noteq> None
   \<or> (\<exists>d. exec (script (fst row)) (m_schema s) = Inr d \<and> fst row \<notin> set (recorded s)
        \<and> snd (migration_tx exec script fault row s) = \<lparr>m_migrations = Some (rows_of s @ [row]), m_schema = d\<rparr>)"
  by (auto simp: migration_tx_def Let_def split: sum.splits option.splits mig_fault.splits)

lemma migration_tx_once:
  assumes "ran_once exec script d0 s"
  shows "ran_once exec script d0 (snd (migration_tx exec script fault row s))"
  using migration_tx_effect [of exec script fault row s] assms
  by (auto simp: ran_once_def recorded_rows run_scripts_snoc)

lemma migration_tx_recorded:
  "recorded (snd (migration_tx exec script fault row s)) = recorded s
     \<and> fst (migration_tx exec script fault row s) \<noteq> None
   \<or> recorded (snd (migration_tx exec script fault row s)) = recorded s @ [fst row]"
  using migration_tx_effect [of exec script fault row s] by (auto simp: recorded_rows)

lemma other_processes_once:
  "ran_once exec script d0 s \<Longrightarrow> ran_once exec script d0 (other_processes exec script rows s)"
  unfolding other_processes_def by (induction rows arbitrary: s) (simp_all add: migration_tx_once)

lemma other_processes_grows: "set (recorded s) \<subseteq> set (recorded (other_processes exec script rows s))"
  unfolding other_processes_def
proof (induction rows arbitrary: s)
  case (Cons row rows)
  show ?case
    using Cons [of "snd (migration_tx exec script None row s)"] migration_tx_recorded [of exec script None row s] by auto
qed simp

text \<open>What one round of the loop can do.\<close>

lemma migrate_loop_round:
  fixes exec script g name s
  defines "s1 \<equiv> other_processes exec script (g_others g name) s"
  defines "tx \<equiv> migration_tx exec script (g_fault g name) (name, format_time (g_now g name)) s1"
  assumes "migrate_loop exec script g (name # names) s = (r, s')"
  obtains (stop) "r \<noteq> None" "s' = s \<or> s' = s1 \<or> s' = snd tx"
  | (skip) "name \<in> set (recorded s)" "migrate_loop exec script g names s = (r, s')"
  | (applied) "fst tx = None" "migrate_loop exec script g names (snd tx) = (r, s')"
  using assms(3) unfolding migrate_loop.simps Let_def s1_def [symmetric] tx_def [symmetric]
  by (cases tx; cases "fst tx") (auto split: if_splits)

lemma migrate_loop_once:
  "ran_once exec script d0 s \<Longrightarrow> migrate_loop exec script g names s = (r, s') \<Longrightarrow> ran_once exec script d0 s'"
proof (induction names arbitrary: s)
  case (Cons name names)
  note s1 = other_processes_once [OF Cons.prems(1)]
  from Cons.prems(2) show ?case
    by (cases rule: migrate_loop_round) (use Cons.IH Cons.prems(1) s1 migration_tx_once [OF s1] in blast)+
qed simp

text \<open>The loop never removes a record, and when it ends without an error every name is recorded.\<close>

lemma migrate_loop_grows:
  "migrate_loop exec script g names s = (r, s') \<Longrightarrow>
     set (recorded s) \<subseteq> set (recorded s') \<and> (r = None \<longrightarrow> set names \<subseteq> set (recorded s'))"
proof (induction names arbitrary: s)
  case (Cons name names)
  let ?s1 = "other_processes exec script (g_others g name) s"
  let ?tx = "migration_tx exec script (g_fault g name) (name, format_time (g_now g name)) ?s1"
  note s1 = other_processes_grows [of s exec script "g_others g name"]
    and tx = migration_tx_recorded [of exec script "g_fault g name" "(name, format_time (g_now g name))" ?s1]
  from Cons.prems show ?case
  proof (cases rule: migrate_loop_round)
    case stop
    then show ?thesis using s1 tx by auto
  next
    case skip
    then show ?thesis using Cons.IH [of s] by auto
  next
    case applied
    then show ?thesis using Cons.IH [of "snd ?tx"] s1 tx by auto
  qed
qed simp

lemma Open_once:
  assumes "ran_once exec script d0 s"
  shows "ran_once exec script d0 (snd (Open exec script entries g s))"
proof -
  have "ran_once exec script d0 (s\<lparr>m_migrations := Some (rows_of s)\<rparr>)"
    using assms by (simp add: ran_once_def recorded_rows)
  then show ?thesis
    using assms migrate_loop_once [OF _ prod.collapse [symmetric], of exec script d0]
    by (auto simp: Open_def migrate_def Let_def split: option.split)
qed

lemma opens_once: "ran_once exec script d0 (opens exec script history (fresh_file d0))"
proof -
  have "ran_once exec script d0 (opens exec script history s)" if "ran_once exec script d0 s" for s
    using that unfolding opens_def by (induction history arbitrary: s) (auto simp: Open_once)
  then show ?thesis by (simp add: ran_once_def)
qed

lemma set_migration_names [simp]: "set (migration_names entries) = {e \<in> set entries. has_suffix e ''.sql''}"
  by (simp add: migration_names_def)

lemma Open_ok_complete:
  assumes "Open exec script entries g s = (None, s')"
  shows "{e \<in> set entries. has_suffix e ''.sql''} \<subseteq> set (recorded s')"
  using assms migrate_loop_grows [of exec script g "migration_names entries" _ None s']
  by (auto simp: Open_def migrate_def Let_def split: option.splits)

section \<open>Without other processes the files are applied in the order of their names\<close>

definition alone :: "mig_env \<Rightarrow> bool" where
  "alone g \<longleftrightarrow> (\<forall>name. g_others g name = [])"

definition no_faults :: "mig_env \<Rightarrow> bool" where
  "no_faults g \<longleftrightarrow> g_open g = None \<and> g_create g = None \<and> g_readdir g = None \<and> (\<forall>name. g_fault g name = None)"

lemma alone_others [simp]: "alone g \<Longrightarrow> other_processes exec script (g_others g name) s = s"
  by (simp add: alone_def other_processes_def)

text \<open>Names that are recorded are skipped.\<close>

lemma migrate_loop_skip:
  "set past \<subseteq> set (recorded s) \<Longrightarrow> migrate_loop exec script g (past @ names) s = (r, s') \<Longrightarrow>
     r \<noteq> None \<and> s' = s \<and> \<not> no_faults g \<or> migrate_loop exec script g names s = (r, s')"
  by (induction past) (auto simp: no_faults_def split: if_splits)

lemma migrate_loop_prefix:
  assumes "alone g" "distinct (recorded s @ names)" "migrate_loop exec script g names s = (r, s')"
  shows "(\<exists>k. recorded s' = recorded s @ take k names) \<and> (r = None \<longrightarrow> recorded s' = recorded s @ names)"
  using assms(2,3)
proof (induction names arbitrary: s)
  case (Cons name names)
  let ?tx = "migration_tx exec script (g_fault g name) (name, format_time (g_now g name)) s"
  note tx = migration_tx_recorded [of exec script "g_fault g name" "(name, format_time (g_now g name))" s]
  from Cons.prems(2) show ?case
  proof (cases rule: migrate_loop_round)
    case stop
    then have "recorded s' = recorded s \<or> recorded s' = recorded s @ [name]" using tx assms(1) by auto
    then show ?thesis using stop(1) by (auto intro: exI [of _ 0] exI [of _ "Suc 0"])
  next
    case skip
    then show ?thesis using Cons.prems(1) by simp
  next
    case applied
    then have step: "recorded (snd ?tx) = recorded s @ [name]"
      and rest: "migrate_loop exec script g names (snd ?tx) = (r, s')" using tx assms(1) by auto
    have "distinct (recorded (snd ?tx) @ names)" using Cons.prems(1) step by simp
    from Cons.IH [OF this rest]
    obtain k where "recorded s' = (recorded s @ [name]) @ take k names" "r = None \<longrightarrow> recorded s' = (recorded s @ [name]) @ names"
      unfolding step by blast
    then show ?thesis by (auto intro: exI [of _ "Suc k"])
  qed
qed simp

lemma migrate_loop_succeeds:
  assumes "alone g" "no_faults g" "distinct (recorded s @ names)" "run_scripts exec (map script names) (m_schema s) \<noteq> None"
  shows "fst (migrate_loop exec script g names s) = None"
  using assms(3,4)
proof (induction names arbitrary: s)
  case (Cons name names)
  obtain d where d: "exec (script name) (m_schema s) = Inr d" "run_scripts exec (map script names) d \<noteq> None"
    using Cons.prems(2) by (auto split: sum.splits)
  let ?s = "\<lparr>m_migrations = Some (rows_of s @ [(name, format_time (g_now g name))]), m_schema = d\<rparr>"
  have "migration_tx exec script None (name, format_time (g_now g name)) s = (None, ?s)"
    using d(1) Cons.prems(1) by (simp add: migration_tx_def)
  then show ?case
    using Cons.IH [of ?s] Cons.prems d(2) assms(1,2) by (simp add: no_faults_def recorded_rows)
qed simp

lemma distinct_migration_names: "distinct entries \<Longrightarrow> distinct (migration_names entries)"
  by (simp add: migration_names_def)

text \<open>The records are a prefix of the sorted names: kept by every open of the same files, whatever fails.\<close>

definition in_order :: "string list \<Rightarrow> 'd mig_db \<Rightarrow> bool" where
  "in_order entries s \<longleftrightarrow> (\<exists>k. recorded s = take k (migration_names entries))"

lemma Open_cases:
  assumes "Open exec script entries g s = (r, s')"
  shows "(s' = s \<or> s' = s\<lparr>m_migrations := Some (rows_of s)\<rparr>) \<and> r \<noteq> None \<and> \<not> no_faults g
    \<or> migrate_loop exec script g (migration_names entries) (s\<lparr>m_migrations := Some (rows_of s)\<rparr>) = (r, s')"
  using assms
  unfolding Open_def migrate_def Let_def no_faults_def
  by (cases r; cases "g_open g"; cases "g_create g"; cases "g_readdir g") simp_all

lemma Open_in_order:
  assumes "Open exec script entries g s = (r, s')" "alone g" "distinct entries" "in_order entries s"
  shows "in_order entries s'" and "r = None \<Longrightarrow> recorded s' = migration_names entries"
    and "ran_once exec script d0 s \<Longrightarrow> no_faults g \<Longrightarrow>
      run_scripts exec (map script (migration_names entries)) d0 \<noteq> None \<Longrightarrow> r = None"
proof -
  let ?names = "migration_names entries" and ?s0 = "s\<lparr>m_migrations := Some (rows_of s)\<rparr>"
  obtain k where k: "recorded ?s0 = take k ?names" "recorded s = take k ?names"
    using assms(4) by (auto simp: in_order_def recorded_rows)
  consider (none) "s' = s \<or> s' = ?s0" "r \<noteq> None" "\<not> no_faults g"
    | (loop) "migrate_loop exec script g (take k ?names @ drop k ?names) ?s0 = (r, s')"
    using Open_cases [OF assms(1)] unfolding append_take_drop_id by blast
  then have *: "(\<exists>j. recorded s' = take j ?names) \<and> (r = None \<longrightarrow> recorded s' = ?names)
    \<and> (ran_once exec script d0 s \<longrightarrow> no_faults g \<longrightarrow> run_scripts exec (map script ?names) d0 \<noteq> None \<longrightarrow> r = None)"
  proof cases
    case none
    then show ?thesis using k by auto
  next
    case loop
    from migrate_loop_skip [OF _ loop] k(1)
    consider (stop) "r \<noteq> None" "s' = ?s0" "\<not> no_faults g"
      | (run) "migrate_loop exec script g (drop k ?names) ?s0 = (r, s')" by (auto simp del: recorded_Some)
    then show ?thesis
    proof cases
      case stop
      then show ?thesis using k by auto
    next
      case run
      have dist: "distinct (recorded ?s0 @ drop k ?names)"
        using distinct_migration_names [OF assms(3)] by (simp add: k(1) del: recorded_Some)
      obtain j where j: "recorded s' = take k ?names @ take j (drop k ?names)" "r = None \<longrightarrow> recorded s' = ?names"
        using migrate_loop_prefix [OF assms(2) dist run] by (auto simp: k(1) simp del: recorded_Some)
      then have "recorded s' = take (k + j) ?names" by (simp add: take_add)
      moreover have "r = None" if "ran_once exec script d0 s" "no_faults g" "run_scripts exec (map script ?names) d0 \<noteq> None"
      proof -
        have "run_scripts exec (map script (drop k ?names)) (m_schema s) \<noteq> None"
          using that(1,3) run_scripts_append [of exec "map script (take k ?names)" "map script (drop k ?names)" d0]
          by (simp add: ran_once_def k(2) flip: map_append)
        then show ?thesis
          using migrate_loop_succeeds [OF assms(2) that(2) dist, of exec script] run by simp
      qed
      ultimately show ?thesis using j(2) by blast
    qed
  qed
  then show "in_order entries s'" "r = None \<Longrightarrow> recorded s' = ?names" by (auto simp: in_order_def)
  show "ran_once exec script d0 s \<Longrightarrow> no_faults g \<Longrightarrow> run_scripts exec (map script ?names) d0 \<noteq> None \<Longrightarrow> r = None"
    using * by blast
qed

lemma opens_in_order:
  assumes "distinct entries" "\<forall>(es, g) \<in> set history. es = entries \<and> alone g"
  shows "in_order entries (opens exec script history (fresh_file d0))"
proof -
  have "in_order entries (opens exec script history s)" if "in_order entries s" for s :: "'a mig_db"
    using that assms(2) unfolding opens_def
  proof (induction history arbitrary: s)
    case (Cons h history)
    obtain g where h: "h = (entries, g)" "alone g" using Cons.prems(2) by (cases h) auto
    have "in_order entries (snd (Open exec script entries g s))"
      using Open_in_order(1) [OF _ h(2) assms(1) Cons.prems(1)] by (metis prod.collapse)
    then show ?case using Cons h by simp
  qed simp
  then show ?thesis by (simp add: in_order_def)
qed

section \<open>Properties\<close>

text \<open>
  C34: migrations run exactly once. Whatever starts of the program, of whatever versions, came before, with whatever
  failures and with other processes migrating the same file at the same time: after a start the schema is what running the scripts of
  the recorded names once each, in the order of the records, gives, and a start that succeeds has recorded every embedded
  file. When one version starts alone again and again, the records are a prefix of the sorted file names after any failure, all of
  them after a success, and a start without faults succeeds if the scripts do: a failed start never blocks a later one.
\<close>

theorem migrations_exactly_once:
  assumes "Open exec script entries g (opens exec script history (fresh_file d0)) = (r, s)"
  shows "distinct (recorded s) \<and> run_scripts exec (map script (recorded s)) d0 = Some (m_schema s)
    \<and> (r = None \<longrightarrow> {e \<in> set entries. has_suffix e ''.sql''} \<subseteq> set (recorded s))
    \<and> (distinct entries \<and> (\<forall>(es, g) \<in> set ((entries, g) # history). es = entries \<and> alone g) \<longrightarrow>
        (\<exists>k. recorded s = take k (migration_names entries)) \<and> (r = None \<longrightarrow> recorded s = migration_names entries)
        \<and> (no_faults g \<and> run_scripts exec (map script (migration_names entries)) d0 \<noteq> None \<longrightarrow> r = None))"
proof (intro conjI impI, goal_cases)
  case 1
  then show ?case using Open_once [OF opens_once, of exec script d0 entries g history] assms by (simp add: ran_once_def)
next
  case 2
  then show ?case using Open_once [OF opens_once, of exec script d0 entries g history] assms by (simp add: ran_once_def)
next
  case 3
  then show ?case using Open_ok_complete assms by blast
next
  case 4
  then show ?case using Open_in_order(1) [OF assms _ _ opens_in_order] by (auto simp: in_order_def)
next
  case 5
  then show ?case using Open_in_order(2) [OF assms _ _ opens_in_order] by auto
next
  case 6
  then show ?case using Open_in_order(3) [OF assms _ _ opens_in_order opens_once] by auto
qed

text \<open>
  A first start in which the second of two files is applied but its commit reports an error, and a start after it: the schema here is the
  list of the scripts that ran.
\<close>

definition demo_mig_env :: "mig_fault option \<Rightarrow> mig_env" where
  "demo_mig_env fault = \<lparr>g_open = None, g_create = None, g_readdir = None,
     g_fault = (\<lambda>name. if name = ''0002_b.sql'' then fault else None), g_now = (\<lambda>_. 0), g_others = (\<lambda>_. [])\<rparr>"

definition demo_entries :: "string list" where
  "demo_entries = [''0002_b.sql'', ''README'', ''0001_a.sql'']"

definition demo_exec :: "string \<Rightarrow> string list \<Rightarrow> go_error + string list" where
  "demo_exec raw d = Inr (d @ [raw])"

lemma demo_migration_names: "migration_names demo_entries = [''0001_a.sql'', ''0002_b.sql'']"
  by code_simp

definition demo_migrated :: "string list mig_db" where
  "demo_migrated = \<lparr>m_migrations = Some [(''0001_a.sql'', format_time 0), (''0002_b.sql'', format_time 0)],
     m_schema = [''0001_a.sql'', ''0002_b.sql'']\<rparr>"

abbreviation demo_start :: "mig_fault option \<Rightarrow> string list mig_db \<Rightarrow> go_error option \<times> string list mig_db" where
  "demo_start fault \<equiv> Open demo_exec id demo_entries (demo_mig_env fault)"

abbreviation demo_past :: "string list mig_db" where
  "demo_past \<equiv> opens demo_exec id [(demo_entries, demo_mig_env (Some (CommitFails True)))] (fresh_file [])"

lemma demo_start_run: "demo_start None demo_past = (None, demo_migrated)"
  by (simp add: Open_def opens_def migrate_def demo_migration_names demo_mig_env_def migration_tx_def demo_exec_def
      other_processes_def recorded_def rows_of_def fresh_file_def demo_migrated_def Let_def image_iff)

theorem migrations_exactly_once_witness:
  "demo_start None demo_past = (None, demo_migrated) \<and> recorded demo_migrated = migration_names demo_entries"
  using migrations_exactly_once [OF demo_start_run] demo_start_run
  by (simp add: alone_def demo_mig_env_def demo_entries_def)

end
