(* ===== verification/Platform.thy ===== *)
theory Platform
  imports Api Migrate
begin

text \<open>
  The embeddable runtime (\<^verbatim>\<open>platform/platform.go\<close>): validation of the configuration and the construction of a runtime. (The import of
  credentials is in \<open>Connections\<close> and \<open>ConnectionFlows\<close>.) A value that may be \<^verbatim>\<open>nil\<close> in the configuration is an option; the database file is the
  state of \<open>Migrate\<close>, its schema and contents together being a \<open>db\<close>.
\<close>

section \<open>Definitions\<close>

record 's platform_config =
  pcfg_Site :: site
  pcfg_StorePath :: string
  pcfg_Secrets :: "'s secret_ops option"
  pcfg_Authenticator :: "(request \<Rightarrow> go_error + subject) option"
  pcfg_Providers :: "provider option list"
  pcfg_OAuthApps :: "(string \<times> oauth_app) list"
  pcfg_OAuthCallbackURL :: string
  pcfg_Sync :: config

definition validateAbsoluteURL :: "string \<Rightarrow> string \<Rightarrow> go_error option" where
  "validateAbsoluteURL name raw =
     (case Parse (trim_space raw) of
        None \<Rightarrow> Some (Msg (name @ '' must be an absolute URL''))
      | Some parsed \<Rightarrow>
          if u_Scheme parsed = [] \<or> u_Host parsed = [] \<or> u_User parsed \<noteq> None
          then Some (Msg (name @ '' must be an absolute URL'')) else None)"

definition validateConfig :: "'s platform_config \<Rightarrow> go_error option" where
  "validateConfig cfg =
     (if trim_space (site_ID (pcfg_Site cfg)) = [] then Some (Msg ''SEO site ID is required'') else
      case validateAbsoluteURL ''SEO site public URL'' (site_PublicURL (pcfg_Site cfg)) of
        Some e \<Rightarrow> Some e
      | None \<Rightarrow>
          if site_SitemapURL (pcfg_Site cfg) = [] then Some (Msg ''SEO sitemap URL is required'') else
          case validateAbsoluteURL ''SEO sitemap URL'' (site_SitemapURL (pcfg_Site cfg)) of
            Some e \<Rightarrow> Some e
          | None \<Rightarrow>
              if pcfg_Secrets cfg = None then Some (Msg ''SEO secret store is required'')
              else if pcfg_Authenticator cfg = None then Some (Msg ''SEO host authenticator is required'')
              else if pcfg_Providers cfg = [] then Some (Msg ''at least one SEO provider is required'')
              else if pcfg_OAuthCallbackURL cfg \<noteq> [] then validateAbsoluteURL ''SEO OAuth callback URL'' (pcfg_OAuthCallbackURL cfg)
              else None)"

text \<open>The loop that registers the providers, and the loop that creates their connections; the latter is also in \<^verbatim>\<open>run\<close> of the executable.\<close>

fun register_providers :: "registry \<Rightarrow> provider option list \<Rightarrow> go_error + registry" where
  "register_providers reg [] = Inr reg"
| "register_providers reg (None # ps) = Inl (Msg ''SEO provider must not be nil'')"
| "register_providers reg (Some p # ps) =
     (case Register reg p of Inl e \<Rightarrow> Inl e | Inr reg' \<Rightarrow> register_providers reg' ps)"

fun ensure_connections :: "string \<Rightarrow> (string \<Rightarrow> db_env) \<Rightarrow> string \<Rightarrow> descriptor list \<Rightarrow> db \<Rightarrow> go_error option \<times> db" where
  "ensure_connections what env siteID [] d = (None, d)"
| "ensure_connections what env siteID (desc # ds) d =
     (case EnsureConnection (env (d_Name desc)) siteID (d_Name desc) d of
        (Some e, d') \<Rightarrow> (Some (Wrapped (what @ d_Name desc) e), d')
      | (None, d') \<Rightarrow> ensure_connections what env siteID ds d')"

record 's platform_runtime =
  prt_registry :: registry
  prt_secrets :: "'s secret_ops"
  prt_site :: site
  prt_engine :: engine
  prt_server :: server
  prt_authenticate :: "request \<Rightarrow> go_error + subject"

text \<open>How the handlers of the server are set up.\<close>

definition embedded_server :: "'s platform_config \<Rightarrow> registry \<Rightarrow> engine \<Rightarrow> server" where
  "embedded_server cfg reg eng =
     (let api = New reg eng (pcfg_Site cfg);
          api = (if pcfg_OAuthCallbackURL cfg \<noteq> [] then WithOAuthCallbackURL (pcfg_OAuthCallbackURL cfg) api else api)
      in if pcfg_OAuthApps cfg \<noteq> [] then WithOAuthApps (map_of (pcfg_OAuthApps cfg)) api else api)"

text \<open>The migrations and the SQL engine as in \<open>Migrate\<close>.\<close>

record start_env =
  se_exec :: "string \<Rightarrow> db \<Rightarrow> go_error + db"
  se_script :: "string \<Rightarrow> string"
  se_entries :: "string list"
  se_open :: mig_env
  se_site :: db_env
  se_connection :: "string \<Rightarrow> db_env"

definition open_store :: "start_env \<Rightarrow> db mig_db \<Rightarrow> go_error option \<times> db mig_db" where
  "open_store env = Open (se_exec env) (se_script env) (se_entries env) (se_open env)"

definition platform_New :: "start_env \<Rightarrow> 's platform_config \<Rightarrow> db mig_db \<Rightarrow> (go_error + 's platform_runtime) \<times> db mig_db" where
  "platform_New env cfg f =
     (case (validateConfig cfg, pcfg_Secrets cfg, pcfg_Authenticator cfg) of
        (None, Some sec, Some auth) \<Rightarrow>
          (case open_store env f of
             (Some e, f1) \<Rightarrow> (Inl (Wrapped ''open SEO store'' e), f1)
           | (None, f1) \<Rightarrow>
               (case EnsureSite (se_site env) (pcfg_Site cfg) (m_schema f1) of
                  (Some e, d) \<Rightarrow> (Inl (Wrapped ''ensure SEO site'' e), f1\<lparr>m_schema := d\<rparr>)
                | (None, d) \<Rightarrow>
                    (case register_providers registry_New (pcfg_Providers cfg) of
                       Inl e \<Rightarrow> (Inl e, f1\<lparr>m_schema := d\<rparr>)
                     | Inr reg \<Rightarrow>
                         (case ensure_connections ''ensure SEO connection '' (se_connection env) (site_ID (pcfg_Site cfg)) (Descriptors reg) d of
                            (Some e, d') \<Rightarrow> (Inl e, f1\<lparr>m_schema := d'\<rparr>)
                          | (None, d') \<Rightarrow>
                              let eng = NewEngine reg (pcfg_Site cfg) (pcfg_Sync cfg) in
                              (Inr \<lparr>prt_registry = reg, prt_secrets = sec, prt_site = pcfg_Site cfg, prt_engine = eng,
                                    prt_server = embedded_server cfg reg eng, prt_authenticate = auth\<rparr>,
                               f1\<lparr>m_schema := d'\<rparr>)))))
      | (Some e, _, _) \<Rightarrow> (Inl e, f)
      | _ \<Rightarrow> (Inl (Msg ''nil pointer''), f))"

text \<open>\<^verbatim>\<open>Runtime.Handler\<close> and \<^verbatim>\<open>Runtime.Start\<close>: the routes with the authenticator of the host, the loop of the engine.\<close>

definition platform_Handler :: "'s platform_runtime \<Rightarrow> api_deps \<Rightarrow> sched \<Rightarrow> route \<Rightarrow> request \<Rightarrow> ('s world, response) state" where
  "platform_Handler p ad sch =
     Handler (ad\<lparr>ad_authenticate := prt_authenticate p\<rparr>) \<lparr>rt_ops = prt_secrets p, rt_sched = sch\<rparr> (prt_server p)"

definition platform_Start :: "'s platform_runtime \<Rightarrow> sched \<Rightarrow> nat \<Rightarrow> ('s world, unit) state" where
  "platform_Start p sch ticks = Run \<lparr>rt_ops = prt_secrets p, rt_sched = sch\<rparr> (prt_engine p) ticks"

section \<open>Opening a database that is up to date\<close>

lemma migrate_loop_noop:
  "set names \<subseteq> set (recorded s) \<Longrightarrow> snd (migrate_loop exec script g names s) = s"
  by (induction names) auto

lemma open_store_noop:
  assumes "set (migration_names (se_entries env)) \<subseteq> set (recorded f)"
  shows "m_schema (snd (open_store env f)) = m_schema f"
proof -
  have "snd (migrate_loop exec script g (migration_names (se_entries env)) (f\<lparr>m_migrations := Some (rows_of f)\<rparr>))
    = f\<lparr>m_migrations := Some (rows_of f)\<rparr>" for exec :: "string \<Rightarrow> db \<Rightarrow> go_error + db" and script g
    using assms by (intro migrate_loop_noop) (simp add: recorded_rows)
  then show ?thesis by (simp add: open_store_def Open_def migrate_def Let_def split: option.split)
qed

section \<open>What starting does to the database\<close>

text \<open>A connection row as it is created: without credential, disabled.\<close>

definition blank_connection :: "string \<Rightarrow> conn_row \<Rightarrow> bool" where
  "blank_connection siteID c \<longleftrightarrow> cn_site_id c = siteID \<and> cn_credential_ref c = [] \<and> cn_enabled c = 0 \<and> cn_property_reference c = []"

text \<open>Everything but the sites is kept; connections may be added.\<close>

definition only_adds :: "string \<Rightarrow> db \<Rightarrow> db \<Rightarrow> bool" where
  "only_adds siteID d d' \<longleftrightarrow> t_runs d' = t_runs d \<and> t_reports d' = t_reports d \<and> t_oauth d' = t_oauth d \<and> t_audit d' = t_audit d
     \<and> (\<exists>new. t_connections d' = t_connections d @ new \<and> list_all (blank_connection siteID) new)"

lemma only_adds_refl [simp]: "only_adds i d d"
  by (simp add: only_adds_def)

lemma only_adds_trans: "only_adds i d d1 \<Longrightarrow> only_adds i d1 d2 \<Longrightarrow> only_adds i d d2"
  by (auto simp: only_adds_def)

lemma EnsureSite_adds: "only_adds i d (snd (EnsureSite env s d))"
  by (simp add: EnsureSite_def only_adds_def split: option.split)

lemma EnsureSite_ok: "EnsureSite env s d = (None, d') \<Longrightarrow> s \<in> set (t_sites d')"
  by (auto simp: EnsureSite_def site_exists_def set_update_where image_iff split: option.splits if_splits)

lemma EnsureConnection_adds: "only_adds i d (snd (EnsureConnection env i p d))"
  by (simp add: EnsureConnection_def only_adds_def new_connection_def blank_connection_def Let_def split: option.split)

lemma EnsureConnection_result:
  assumes "EnsureConnection env i p d = (None, d')"
  shows "\<exists>c \<in> set (t_connections d'). conn_is i p c" and "t_sites d' = t_sites d"
  using assms
  by (auto simp: EnsureConnection_def new_connection_def conn_is_def list_ex_iff Let_def split: option.splits if_splits)

lemma ensure_connections_adds: "only_adds i d (snd (ensure_connections what env i ds d))"
proof (induction ds arbitrary: d)
  case (Cons desc ds)
  obtain r d1 where step: "EnsureConnection (env (d_Name desc)) i (d_Name desc) d = (r, d1)" by fastforce
  then have "only_adds i d d1" using EnsureConnection_adds [of i d "env (d_Name desc)" "d_Name desc"] by simp
  then show ?case
    using Cons [of d1] only_adds_trans by (auto simp: step split: option.split)
qed simp

lemma ensure_connections_reachable: "db_reachable d \<Longrightarrow> db_reachable (snd (ensure_connections what env i ds d))"
proof (induction ds arbitrary: d)
  case (Cons desc ds)
  then show ?case
    using op_reachable(2) [OF Cons.prems, of "env (d_Name desc)" i "d_Name desc"]
    by (auto split: prod.split option.split)
qed simp

lemma ensure_connections_complete:
  assumes "ensure_connections what env i ds d = (None, d')"
  shows "\<forall>desc \<in> set ds. \<exists>c \<in> set (t_connections d'). conn_is i (d_Name desc) c" and "t_sites d' = t_sites d"
proof -
  have "(\<forall>desc \<in> set ds. \<exists>c \<in> set (t_connections d'). conn_is i (d_Name desc) c) \<and> t_sites d' = t_sites d"
    using assms
  proof (induction ds arbitrary: d)
    case (Cons desc ds)
    obtain d1 where step: "EnsureConnection (env (d_Name desc)) i (d_Name desc) d = (None, d1)"
      and rest: "ensure_connections what env i ds d1 = (None, d')"
      using Cons.prems by (auto split: prod.splits option.splits)
    have "set (t_connections d1) \<subseteq> set (t_connections d')"
      using ensure_connections_adds [of i d1 what env ds] rest by (auto simp: only_adds_def)
    then show ?case using EnsureConnection_result [OF step] Cons.IH [OF rest] by auto
  qed simp
  then show "\<forall>desc \<in> set ds. \<exists>c \<in> set (t_connections d'). conn_is i (d_Name desc) c" and "t_sites d' = t_sites d" by blast+
qed

section \<open>The registry of a configuration\<close>

lemma register_providers_all:
  "register_providers reg ps =
     (if None \<in> set ps then (case Register_all reg (map the (takeWhile (\<lambda>p. p \<noteq> None) ps)) of
        Inl e \<Rightarrow> Inl e | Inr _ \<Rightarrow> Inl (Msg ''SEO provider must not be nil''))
      else Register_all reg (map the ps))"
  by (induction reg ps rule: register_providers.induct) (auto split: sum.split)

lemma registered:
  assumes "register_providers registry_New ps = Inr reg"
  shows "Some p \<in> set ps \<Longrightarrow> Get reg (d_Name (Descriptor p)) = Some p"
    and "Descriptors reg = sort_key d_Name (map (\<lambda>p. Descriptor (the p)) ps)"
proof -
  have all: "Register_all registry_New (map the ps) = Inr reg" and "None \<notin> set ps"
    using assms by (auto simp: register_providers_all split: if_splits sum.splits)
  note R = Register_all_correct [of "map the ps", unfolded all, simplified]
  show "Descriptors reg = sort_key d_Name (map (\<lambda>p. Descriptor (the p)) ps)"
    using R by (simp add: comp_def)
  assume "Some p \<in> set ps"
  then have "(d_Name (Descriptor p), p) \<in> set (map (\<lambda>p. (d_Name (Descriptor p), p)) (map the ps))" by force
  then show "Get reg (d_Name (Descriptor p)) = Some p"
    using R by (simp add: comp_def)
qed

section \<open>Properties\<close>

text \<open>A start without faults, with identifiers for the new connections that are not in use.\<close>

definition smooth_start :: "start_env \<Rightarrow> string set \<Rightarrow> db \<Rightarrow> bool" where
  "smooth_start env names d \<longleftrightarrow> no_faults (se_open env) \<and> e_fault (se_site env) 0 = None
     \<and> (\<forall>n \<in> names. e_fault (se_connection env n) 0 = None \<and> e_uuid (se_connection env n) \<notin> cn_id ` set (t_connections d))
     \<and> inj_on (\<lambda>n. e_uuid (se_connection env n)) names"

text \<open>A new file, or one on which this version ran before.\<close>

definition openable :: "start_env \<Rightarrow> db mig_db \<Rightarrow> bool" where
  "openable env f \<longleftrightarrow> set (migration_names (se_entries env)) \<subseteq> set (recorded f)
     \<or> (\<exists>d0. f = fresh_file d0 \<and> alone (se_open env) \<and> distinct (se_entries env)
         \<and> run_scripts (se_exec env) (map (se_script env) (migration_names (se_entries env))) d0 = Some empty_db)"

lemma open_store_migrated:
  assumes "set (migration_names (se_entries env)) \<subseteq> set (recorded f)" "no_faults (se_open env)"
  shows "fst (open_store env f) = None"
proof -
  have "fst (migrate_loop exec script g names s) = None"
    if "set names \<subseteq> set (recorded s)" "no_faults g" for exec :: "string \<Rightarrow> db \<Rightarrow> go_error + db" and script g names s
    using that by (induction names) (auto simp: no_faults_def)
  then show ?thesis
    using assms by (simp add: open_store_def Open_def migrate_def no_faults_def Let_def recorded_rows)
qed

lemma open_store_ok:
  assumes "openable env f" "no_faults (se_open env)" "set (migration_names (se_entries env)) \<subseteq> set (recorded f) \<Longrightarrow> d = m_schema f"
    "\<not> set (migration_names (se_entries env)) \<subseteq> set (recorded f) \<Longrightarrow> d = empty_db"
  shows "fst (open_store env f) = None \<and> m_schema (snd (open_store env f)) = d"
proof (cases "set (migration_names (se_entries env)) \<subseteq> set (recorded f)")
  case True
  then show ?thesis using open_store_migrated open_store_noop assms by simp
next
  case False
  let ?names = "migration_names (se_entries env)"
  obtain d0 where f: "f = fresh_file d0" "alone (se_open env)" "distinct (se_entries env)"
    "run_scripts (se_exec env) (map (se_script env) ?names) d0 = Some empty_db"
    using assms(1) False by (auto simp: openable_def)
  obtain r f' where o: "open_store env f = (r, f')" by fastforce
  have start: "in_order (se_entries env) f" "ran_once (se_exec env) (se_script env) d0 f"
    by (simp_all add: f(1) in_order_def ran_once_def)
  note O = Open_in_order [OF o [unfolded open_store_def] f(2,3) start(1)]
  have "r = None" using O(3) [OF start(2) assms(2)] f(4) by simp
  moreover have "ran_once (se_exec env) (se_script env) d0 f'"
    using Open_once [OF start(2), of "se_entries env" "se_open env"] o by (simp add: open_store_def)
  ultimately show ?thesis using O(2) f(4) assms(4) False o by (simp add: ran_once_def)
qed

lemma EnsureConnection_smooth:
  assumes "e_fault env 0 = None" "e_uuid env \<notin> cn_id ` set (t_connections d)" "site_exists i d"
  shows "fst (EnsureConnection env i p d) = None"
    "cn_id ` set (t_connections (snd (EnsureConnection env i p d))) \<subseteq> insert (e_uuid env) (cn_id ` set (t_connections d))"
    "site_exists i (snd (EnsureConnection env i p d))"
  using assms by (auto simp: EnsureConnection_def Let_def new_connection_def site_exists_def)

lemma ensure_connections_smooth:
  assumes "\<forall>desc \<in> set ds. e_fault (env (d_Name desc)) 0 = None \<and> e_uuid (env (d_Name desc)) \<notin> cn_id ` set (t_connections d)"
    "distinct (map (\<lambda>desc. e_uuid (env (d_Name desc))) ds)" "site_exists i d"
  shows "fst (ensure_connections what env i ds d) = None"
  using assms
proof (induction ds arbitrary: d)
  case (Cons desc ds)
  let ?d = "snd (EnsureConnection (env (d_Name desc)) i (d_Name desc) d)"
  have ok: "e_fault (env (d_Name desc)) 0 = None" "e_uuid (env (d_Name desc)) \<notin> cn_id ` set (t_connections d)"
    using Cons.prems(1) by simp_all
  note S = EnsureConnection_smooth [OF ok Cons.prems(3), of "d_Name desc"]
  have "fst (ensure_connections what env i ds ?d) = None"
  proof (rule Cons.IH [OF _ _ S(3)])
    show "distinct (map (\<lambda>desc. e_uuid (env (d_Name desc))) ds)" using Cons.prems(2) by simp
    show "\<forall>desc \<in> set ds. e_fault (env (d_Name desc)) 0 = None \<and> e_uuid (env (d_Name desc)) \<notin> cn_id ` set (t_connections ?d)"
    proof
      fix desc' assume m: "desc' \<in> set ds"
      then have "e_uuid (env (d_Name desc')) \<noteq> e_uuid (env (d_Name desc))" using Cons.prems(2) by (auto simp: image_iff)
      with m show "e_fault (env (d_Name desc')) 0 = None \<and> e_uuid (env (d_Name desc')) \<notin> cn_id ` set (t_connections ?d)"
        using Cons.prems(1) S(2) by auto
    qed
  qed
  then show ?case using S(1) by (cases "EnsureConnection (env (d_Name desc)) i (d_Name desc) d") simp
qed simp

lemma validateConfig_present:
  "validateConfig cfg = None \<Longrightarrow> \<exists>sec auth. pcfg_Secrets cfg = Some sec \<and> pcfg_Authenticator cfg = Some auth"
  by (auto simp: validateConfig_def split: if_splits option.splits)

text \<open>The ways construction can end, with the database it leaves.\<close>

lemma platform_New_cases:
  assumes "platform_New env cfg f = (r, f')"
  obtains (invalid) "isl r" "f' = f"
  | (unopened) "isl r" "f' = snd (open_store env f)"
  | (site) "isl r" "m_schema f' = snd (EnsureSite (se_site env) (pcfg_Site cfg) (m_schema (snd (open_store env f))))"
  | (connections) reg d where "EnsureSite (se_site env) (pcfg_Site cfg) (m_schema (snd (open_store env f))) = (None, d)"
      "register_providers registry_New (pcfg_Providers cfg) = Inr reg" "isl r"
      "m_schema f' = snd (ensure_connections ''ensure SEO connection '' (se_connection env) (site_ID (pcfg_Site cfg)) (Descriptors reg) d)"
  | (started) reg d sec auth where "EnsureSite (se_site env) (pcfg_Site cfg) (m_schema (snd (open_store env f))) = (None, d)"
      "register_providers registry_New (pcfg_Providers cfg) = Inr reg"
      "ensure_connections ''ensure SEO connection '' (se_connection env) (site_ID (pcfg_Site cfg)) (Descriptors reg) d = (None, m_schema f')"
      "r = Inr \<lparr>prt_registry = reg, prt_secrets = sec, prt_site = pcfg_Site cfg, prt_engine = NewEngine reg (pcfg_Site cfg) (pcfg_Sync cfg),
         prt_server = embedded_server cfg reg (NewEngine reg (pcfg_Site cfg) (pcfg_Sync cfg)), prt_authenticate = auth\<rparr>"
  using assms unfolding platform_New_def
  by (auto simp: Let_def split: option.splits prod.splits sum.splits)

lemma embedded_server_registry: "srv_registry (embedded_server cfg reg eng) = reg"
  by (simp add: embedded_server_def New_def WithOAuthCallbackURL_def WithOAuthApps_def Let_def)

text \<open>
  C35: constructing a runtime on a database in use, whatever fails on the way, keeps every run, report row, pending OAuth
  state and audit event and every connection as it is; it only adds connections without credentials, and leads from a reachable database to a
  reachable one. If it succeeds the configured site is stored, every configured provider is found under its name by the runtime, the
  engine and the handlers alike, and has a connection.
\<close>

theorem restart_keeps_data:
  assumes New: "platform_New env cfg f = (r, f')" and used: "set (migration_names (se_entries env)) \<subseteq> set (recorded f)"
  shows "only_adds (site_ID (pcfg_Site cfg)) (m_schema f) (m_schema f')
    \<and> (db_reachable (m_schema f) \<longrightarrow> db_reachable (m_schema f'))
    \<and> (\<forall>p. r = Inr p \<longrightarrow> pcfg_Site cfg \<in> set (t_sites (m_schema f'))
        \<and> srv_registry (prt_server p) = prt_registry p \<and> eng_registry (prt_engine p) = prt_registry p
        \<and> (\<forall>q. Some q \<in> set (pcfg_Providers cfg) \<longrightarrow> Get (prt_registry p) (d_Name (Descriptor q)) = Some q
            \<and> (\<exists>c \<in> set (t_connections (m_schema f')). conn_is (site_ID (pcfg_Site cfg)) (d_Name (Descriptor q)) c)))"
proof -
  let ?i = "site_ID (pcfg_Site cfg)" and ?d0 = "m_schema (snd (open_store env f))"
  have f: "?d0 = m_schema f" by (rule open_store_noop [OF used])
  have adds: "only_adds ?i (m_schema f) (snd (EnsureSite (se_site env) (pcfg_Site cfg) ?d0))"
    and reach: "db_reachable (m_schema f) \<Longrightarrow> db_reachable (snd (EnsureSite (se_site env) (pcfg_Site cfg) ?d0))"
    unfolding f by (rule EnsureSite_adds) (rule op_reachable(1))
  have conns: "only_adds ?i (m_schema f) (snd (ensure_connections what (se_connection env) ?i ds d))
      \<and> (db_reachable (m_schema f) \<longrightarrow> db_reachable (snd (ensure_connections what (se_connection env) ?i ds d)))"
    if "EnsureSite (se_site env) (pcfg_Site cfg) ?d0 = (None, d)" for what ds d
    using that adds reach only_adds_trans [OF _ ensure_connections_adds] ensure_connections_reachable by simp
  from New show ?thesis
  proof (cases rule: platform_New_cases)
    case (connections reg d)
    then show ?thesis using conns by (auto simp: isl_def)
  next
    case (started reg d sec auth)
    have conn: "\<exists>c \<in> set (t_connections (m_schema f')). conn_is ?i (d_Name (Descriptor q)) c" if "Some q \<in> set (pcfg_Providers cfg)" for q
      using ensure_connections_complete(1) [OF started(3)] registered(2) [OF started(2)] that by force
    have "pcfg_Site cfg \<in> set (t_sites (m_schema f'))"
      using EnsureSite_ok [OF started(1)] ensure_connections_complete(2) [OF started(3)] by simp
    then show ?thesis
      using conns [OF started(1), of "''ensure SEO connection ''" "Descriptors reg"] conn registered(1) [OF started(2)] started(3,4)
      by (simp add: embedded_server_registry NewEngine_def)
  qed (use adds reach f in \<open>auto simp: isl_def\<close>)
qed

text \<open>
  A valid configuration whose providers have different, non-empty names starts: on a new file, which the migrations turn into an
  empty database, and on a file the program ran on before, unless a step of the start itself fails.
\<close>

theorem runtime_starts:
  assumes cfg: "validateConfig cfg = None" and ps: "None \<notin> set (pcfg_Providers cfg)"
    and names: "names = map (\<lambda>p. d_Name (Descriptor (the p))) (pcfg_Providers cfg)" "distinct names" "[] \<notin> set names"
    and db_file: "openable env f" "d = (if set (migration_names (se_entries env)) \<subseteq> set (recorded f) then m_schema f else empty_db)"
    and smooth: "smooth_start env (set names) d"
  shows "\<exists>p f'. platform_New env cfg f = (Inr p, f') \<and> prt_site p = pcfg_Site cfg"
proof -
  obtain sec auth where present: "pcfg_Secrets cfg = Some sec" "pcfg_Authenticator cfg = Some auth"
    using validateConfig_present [OF cfg] by blast
  have "fst (open_store env f) = None \<and> m_schema (snd (open_store env f)) = d"
    using open_store_ok [OF db_file(1), of d] db_file(2) smooth by (simp add: smooth_start_def)
  then obtain f1 where o: "open_store env f = (None, f1)" "m_schema f1 = d" by (metis prod.collapse)
  obtain d1 where e: "EnsureSite (se_site env) (pcfg_Site cfg) d = (None, d1)" "t_connections d1 = t_connections d"
    "site_exists (site_ID (pcfg_Site cfg)) d1"
    using smooth EnsureSite_ok [of "se_site env" "pcfg_Site cfg" d] by (fastforce simp: EnsureSite_def smooth_start_def site_exists_def)
  have "Register_all registry_New (map the (pcfg_Providers cfg)) \<noteq> Inl e" for e
    using Register_all_correct [of "map the (pcfg_Providers cfg)"] names by (auto simp: comp_def image_image)
  then obtain reg where reg: "register_providers registry_New (pcfg_Providers cfg) = Inr reg"
    using ps by (cases "Register_all registry_New (map the (pcfg_Providers cfg))") (auto simp: register_providers_all)
  have "distinct (map d_Name (Descriptors reg))" and mem: "d_Name ` set (Descriptors reg) = set names"
    using registered(2) [OF reg] names(1,2) by (auto simp: distinct_map inj_on_def image_image)
  moreover from this smooth have "distinct (map (\<lambda>n. e_uuid (se_connection env n)) (map d_Name (Descriptors reg)))"
    by (simp add: smooth_start_def distinct_map flip: image_image) (metis comp_inj_on_iff inj_on_imageI)
  ultimately have "fst (ensure_connections ''ensure SEO connection '' (se_connection env) (site_ID (pcfg_Site cfg)) (Descriptors reg) d1) = None"
    using smooth e by (intro ensure_connections_smooth) (auto simp: smooth_start_def comp_def)
  then show ?thesis
    using cfg present o e(1) reg by (auto simp: platform_New_def Let_def split: prod.split)
qed
section \<open>Witnesses\<close>

definition demo_start_env :: start_env where
  "demo_start_env = \<lparr>se_exec = \<lambda>raw d. Inr empty_db, se_script = \<lambda>_. ''CREATE TABLE'', se_entries = [''0001_init.sql''],
     se_open = demo_mig_env None, se_site = demo_db_env ''x'' 0, se_connection = \<lambda>n. demo_db_env n 0\<rparr>"

definition demo_platform :: "memory platform_config" where
  "demo_platform = \<lparr>pcfg_Site = \<lparr>site_ID = ''main'', site_PublicURL = ''s://h'', site_SitemapURL = ''s://h'', site_Timezone = ''UTC''\<rparr>,
     pcfg_StorePath = [], pcfg_Secrets = Some memory_ops, pcfg_Authenticator = Some (\<lambda>_. Inl (Msg ''no'')), pcfg_Providers = [Some demo_provider],
     pcfg_OAuthApps = [], pcfg_OAuthCallbackURL = [], pcfg_Sync = \<lparr>cfg_LookbackDays = 0, cfg_Timeout = 0, cfg_Interval = 0, cfg_Lease = 0\<rparr>\<rparr>"

lemma demo_url: "Parse ''s://h'' = Some (no_url\<lparr>u_Scheme := ''s'', u_Host := ''h''\<rparr>)"
  by code_simp

lemma demo_platform_valid: "validateConfig demo_platform = None"
  by (simp add: validateConfig_def demo_platform_def validateAbsoluteURL_def trim_space_ascii ascii_print_def demo_url no_url_def)

lemma demo_start_names: "migration_names [''0001_init.sql''] = [''0001_init.sql'']"
  by code_simp

lemma demo_openable: "openable demo_start_env (fresh_file empty_db)"
  unfolding openable_def
  by (intro disjI2 exI [of _ empty_db]) (simp add: demo_start_env_def demo_start_names alone_def demo_mig_env_def)

lemma demo_platform_sel:
  "pcfg_Providers demo_platform = [Some demo_provider]" "site_ID (pcfg_Site demo_platform) = ''main''"
  "migration_names (se_entries demo_start_env) = [''0001_init.sql'']"
  by (simp_all add: demo_platform_def demo_start_env_def demo_start_names)

theorem runtime_starts_witness:
  "\<exists>p f'. platform_New demo_start_env demo_platform (fresh_file empty_db) = (Inr p, f') \<and> site_ID (prt_site p) = ''main''"
proof -
  have "smooth_start demo_start_env {d_Name (Descriptor demo_provider)} empty_db"
    by (simp add: smooth_start_def demo_start_env_def no_faults_def demo_mig_env_def demo_db_env_def empty_db_def)
  moreover have "d_Name (Descriptor demo_provider) \<noteq> []" by (simp add: demo_provider_def)
  ultimately have "\<exists>p f'. platform_New demo_start_env demo_platform (fresh_file empty_db) = (Inr p, f') \<and> prt_site p = pcfg_Site demo_platform"
    using runtime_starts [OF demo_platform_valid _ refl _ _ demo_openable refl] by (simp add: demo_platform_sel)
  then show ?thesis using demo_platform_sel(2) by metis
qed

theorem restart_keeps_data_witness:
  "\<exists>r f'. platform_New demo_start_env demo_platform \<lparr>m_migrations = Some [(''0001_init.sql'', [])], m_schema = demo_conn\<rparr> = (r, f')
     \<and> only_adds ''main'' demo_conn (m_schema f') \<and> db_reachable (m_schema f')"
proof -
  let ?f = "\<lparr>m_migrations = Some [(''0001_init.sql'', [])], m_schema = demo_conn\<rparr>"
  obtain r f' where run: "platform_New demo_start_env demo_platform ?f = (r, f')" by fastforce
  have "set (migration_names (se_entries demo_start_env)) \<subseteq> set (recorded ?f)"
    by (simp add: demo_platform_sel)
  from restart_keeps_data [OF run this] run demo_conn_reachable show ?thesis
    by (simp add: demo_platform_sel)
qed

end
