(* ===== verification/Server.thy ===== *)
theory Server
  imports Bootstrap Platform Providers
begin

text \<open>
  The start of the standalone server: \<^verbatim>\<open>run\<close> of \<^verbatim>\<open>cmd/seo-platform/main.go\<close> up to the point where it listens. Its result is either
  the error it returns or what it would serve with; the state is the host (\<open>Bootstrap\<close>) and the database file (\<open>Migrate\<close>).
  The network sides of the three providers, the parsing of IP addresses and the file status of the console are parameters.
\<close>

section \<open>Definitions\<close>

datatype authenticator = ApiKeys api_keys | DevLoopback

record run_env =
  re_boot :: boot_env
  re_start :: start_env
  re_sha :: "string \<Rightarrow> nat list"
  re_dir_fault :: "dir_fault option"
  re_split_host :: "string \<Rightarrow> string option"
  re_ip_loopback :: "string \<Rightarrow> bool"
  re_stat_fails :: "string \<Rightarrow> bool"
  re_bing :: bing
  re_gsc :: search_console
  re_ga4 :: analytics

record run_state_db =
  rs_host :: host
  rs_db :: "db mig_db"

record standalone =
  sa_listen :: string
  sa_site :: site
  sa_secrets :: "file_store option"
  sa_auth :: authenticator
  sa_engine :: engine
  sa_server :: server
  sa_console :: "string option"

definition getenv :: "run_env \<Rightarrow> string \<Rightarrow> string" where
  "getenv env name = b_getenv (re_boot env) name"

text \<open>The checks of the two base URLs; the site of the deployment.\<close>

definition platform_url_ok :: "url \<Rightarrow> bool" where
  "platform_url_ok u =
     (\<not> (u_Scheme u = [] \<or> u_Host u = [] \<or> u_User u \<noteq> None \<or> u_RawQuery u \<noteq> [] \<or> u_Fragment u \<noteq> []
        \<or> u_Scheme u \<noteq> ''https'' \<and> \<not> isLoopbackURL u))"

definition run_urls :: "run_env \<Rightarrow> go_error + site \<times> string" where
  "run_urls env =
     (let publicURL = trim_space (getenv env ''SEO_PUBLIC_URL'') in
      if publicURL = [] then Inl (Msg ''SEO_PUBLIC_URL is required (the site's public base URL)'')
      else if (case Parse publicURL of None \<Rightarrow> True | Some parsed \<Rightarrow> u_Scheme parsed = [] \<or> u_Host parsed = [])
      then Inl (Msg ''SEO_PUBLIC_URL must be an absolute URL'')
      else let platformURL = envOr (re_boot env) ''SEO_BASE_URL'' publicURL in
        if (case Parse platformURL of None \<Rightarrow> True | Some u \<Rightarrow> \<not> platform_url_ok u)
        then Inl (Msg ''SEO_BASE_URL must be an absolute https URL (or loopback URL)'')
        else let sitemap = trim_space (getenv env ''SEO_SITEMAP_URL'');
                 sitemapURL = (if sitemap = [] then trim_right publicURL (CHR ''/'') @ ''/sitemap.xml'' else sitemap)
          in Inr (\<lparr>site_ID = ''default'', site_PublicURL = publicURL, site_SitemapURL = sitemapURL,
                   site_Timezone = envOr (re_boot env) ''SEO_TIMEZONE'' ''UTC''\<rparr>, platformURL))"

definition run_secrets :: "run_env \<Rightarrow> host \<Rightarrow> (go_error + file_store option) \<times> host" where
  "run_secrets env h =
     (let key0 = trim_space (getenv env ''SEO_SECRETS_MASTER_KEY'');
          loaded = (if key0 = [] then loadOrCreateHexSecret (re_boot env) (envOr (re_boot env) ''SEO_SECRETS_KEY_FILE'' ''data/keys/master-key'') 32 h
                    else (Inr key0, h))
      in case loaded of
           (Inl e, h') \<Rightarrow> (Inl (Wrapped ''load secret-store master key'' e), h')
         | (Inr key, h') \<Rightarrow>
             if key \<noteq> [] then
               (case NewFile (re_dir_fault env) (envOr (re_boot env) ''SEO_SECRETS_DIR'' ''data/secrets'') key of
                  Inl e \<Rightarrow> (Inl (Wrapped ''open secret store'' e), h')
                | Inr f \<Rightarrow> (Inr (Some f), h'))
             else (Inr None, h'))"

definition run_auth :: "run_env \<Rightarrow> string \<Rightarrow> host \<Rightarrow> (go_error + authenticator) \<times> host" where
  "run_auth env listen h =
     (if trim_space (getenv env ''SEO_API_KEYS'') \<noteq> [] then
        (case NewAPIKey (getenv env ''SEO_API_KEYS'') of
           Inl e \<Rightarrow> (Inl (Wrapped ''parse SEO_API_KEYS'' e), h)
         | Inr keys \<Rightarrow> (Inr (ApiKeys keys), h))
      else if getenv env ''SEO_DEV_AUTH'' = ''true'' then
        (case re_split_host env listen of
           None \<Rightarrow> (Inl (Msg ''SEO_DEV_AUTH=true requires SEO_LISTEN on a loopback address''), h)
         | Some host \<Rightarrow>
             if re_ip_loopback env host then (Inr DevLoopback, h)
             else (Inl (Msg ''SEO_DEV_AUTH=true requires SEO_LISTEN on a loopback address''), h))
      else
        (case loadOrCreateBootstrapAPIKey (re_sha env) (re_boot env)
            (envOr (re_boot env) ''SEO_API_KEY_HASH_FILE'' ''data/auth/admin-api-key.sha256'')
            (envOr (re_boot env) ''SEO_BOOTSTRAP_TOKEN_FILE'' ''data/bootstrap/admin-api-key'') h of
           (Inl e, h') \<Rightarrow> (Inl (Wrapped ''initialize local API key'' e), h')
         | (Inr spec, h') \<Rightarrow>
             (case NewAPIKey spec of
                Inl e \<Rightarrow> (Inl (Wrapped ''load local API key'' e), h')
              | Inr keys \<Rightarrow> (Inr (ApiKeys keys), h'))))"

definition shipped_providers :: "run_env \<Rightarrow> provider list" where
  "shipped_providers env =
     [bing_provider ((re_bing env)\<lparr>bp_endpoint := bing_endpoint\<rparr>),
      sc_provider ((re_gsc env)\<lparr>gp_inspectionBatch := 20\<rparr>),
      ga_provider (WithConversionEvents (split_on (CHR '','') (getenv env ''SEO_GA4_CONVERSION_EVENTS'')) ((re_ga4 env)\<lparr>ga_conversionEvents := []\<rparr>))]"

definition run_config :: "run_env \<Rightarrow> config" where
  "run_config env =
     \<lparr>cfg_LookbackDays = envInt (re_boot env) ''SEO_SYNC_LOOKBACK_DAYS'' 30,
      cfg_Timeout = envDuration (re_boot env) ''SEO_SYNC_TIMEOUT'' (10 * minute_ns),
      cfg_Interval = envDuration (re_boot env) ''SEO_SYNC_INTERVAL'' (24 * hour_ns), cfg_Lease = 0\<rparr>"

definition google_app :: "string \<Rightarrow> string \<Rightarrow> string list \<Rightarrow> oauth_app" where
  "google_app clientID clientSecret scopes =
     \<lparr>oap_ClientID = clientID, oap_ClientSecret = clientSecret, oap_AuthURL = ''https://accounts.google.com/o/oauth2/v2/auth'',
      oap_TokenURL = ''https://oauth2.googleapis.com/token'', oap_Scopes = scopes\<rparr>"

definition run_oauth :: "run_env \<Rightarrow> server \<Rightarrow> go_error + server" where
  "run_oauth env api =
     (let clientID = trim_space (getenv env ''SEO_GOOGLE_OAUTH_CLIENT_ID'');
          clientSecret = trim_space (getenv env ''SEO_GOOGLE_OAUTH_CLIENT_SECRET'')
      in if clientID = [] then Inr api
         else if clientSecret = []
         then Inl (Msg ''SEO_GOOGLE_OAUTH_CLIENT_ID is set but SEO_GOOGLE_OAUTH_CLIENT_SECRET is empty'')
         else Inr (WithOAuthApps
           [''google-search-console'' \<mapsto> google_app clientID clientSecret [''https://www.googleapis.com/auth/webmasters.readonly''],
            ''google-analytics'' \<mapsto> google_app clientID clientSecret [''https://www.googleapis.com/auth/analytics.readonly'']] api))"

definition run_console :: "run_env \<Rightarrow> go_error + string option" where
  "run_console env =
     (let consoleDir = trim_space (getenv env ''SEO_CONSOLE_DIR'') in
      if consoleDir = [] then Inr None
      else if re_stat_fails env consoleDir
      then Inl (Wrapped (''SEO_CONSOLE_DIR '' @ quoted consoleDir @ '' is not readable'') (Msg ''stat''))
      else Inr (Some consoleDir))"

text \<open>The database part: migrations and the row of the site, then, once keys are loaded, the providers and their rows.\<close>

definition run_open :: "run_env \<Rightarrow> site \<Rightarrow> db mig_db \<Rightarrow> go_error option \<times> db mig_db" where
  "run_open env st f =
     (case open_store (re_start env) f of
        (Some e, f1) \<Rightarrow> (Some (Wrapped ''open store'' e), f1)
      | (None, f1) \<Rightarrow>
          (case EnsureSite (se_site (re_start env)) st (m_schema f1) of
             (Some e, d) \<Rightarrow> (Some (Wrapped ''ensure site'' e), f1\<lparr>m_schema := d\<rparr>)
           | (None, d) \<Rightarrow> (None, f1\<lparr>m_schema := d\<rparr>)))"

definition run_install :: "run_env \<Rightarrow> site \<Rightarrow> db mig_db \<Rightarrow> (go_error + registry) \<times> db mig_db" where
  "run_install env st f =
     (case Register_all registry_New (shipped_providers env) of
        Inl e \<Rightarrow> (Inl e, f)
      | Inr reg \<Rightarrow>
          (case ensure_connections ''ensure connection '' (se_connection (re_start env)) (site_ID st) (Descriptors reg) (m_schema f) of
             (Some e, d) \<Rightarrow> (Inl e, f\<lparr>m_schema := d\<rparr>)
           | (None, d) \<Rightarrow> (Inr reg, f\<lparr>m_schema := d\<rparr>)))"

definition run_main :: "run_env \<Rightarrow> run_state_db \<Rightarrow> (go_error + standalone) \<times> run_state_db" where
  "run_main env s =
     (case run_urls env of
        Inl e \<Rightarrow> (Inl e, s)
      | Inr (st, platformURL) \<Rightarrow>
          (case run_open env st (rs_db s) of
             (Some e, f1) \<Rightarrow> (Inl e, s\<lparr>rs_db := f1\<rparr>)
           | (None, f1) \<Rightarrow>
               (case run_secrets env (rs_host s) of
                  (Inl e, h1) \<Rightarrow> (Inl e, \<lparr>rs_host = h1, rs_db = f1\<rparr>)
                | (Inr secretStore, h1) \<Rightarrow>
                    let listen = envOr (re_boot env) ''SEO_LISTEN'' ''127.0.0.1:8080'' in
                    (case run_auth env listen h1 of
                       (Inl e, h2) \<Rightarrow> (Inl e, \<lparr>rs_host = h2, rs_db = f1\<rparr>)
                     | (Inr auth, h2) \<Rightarrow>
                         (case run_install env st f1 of
                            (Inl e, f2) \<Rightarrow> (Inl e, \<lparr>rs_host = h2, rs_db = f2\<rparr>)
                          | (Inr reg, f2) \<Rightarrow>
                              let eng = NewEngine reg st (run_config env) in
                              (case run_oauth env (WithPlatformURL platformURL (New reg eng st)) of
                                 Inl e \<Rightarrow> (Inl e, \<lparr>rs_host = h2, rs_db = f2\<rparr>)
                               | Inr api \<Rightarrow>
                                   (case run_console env of
                                      Inl e \<Rightarrow> (Inl e, \<lparr>rs_host = h2, rs_db = f2\<rparr>)
                                    | Inr console \<Rightarrow>
                                        (Inr \<lparr>sa_listen = listen, sa_site = st, sa_secrets = secretStore, sa_auth = auth, sa_engine = eng,
                                              sa_server = api, sa_console = console\<rparr>,
                                         \<lparr>rs_host = h2, rs_db = f2\<rparr>))))))))"

text \<open>\<^verbatim>\<open>main\<close>: the command line, and what becomes of the process. (The engine runs in its own goroutine from before the OAuth settings are read.)\<close>

datatype main_outcome = Exits int | Serves standalone

definition main :: "run_env \<Rightarrow> string list \<Rightarrow> run_state_db \<Rightarrow> main_outcome \<times> run_state_db" where
  "main env args s =
     (if length args = 3 \<and> args ! 1 = ''admin'' \<and> args ! 2 = ''bootstrap'' then
        (case printBootstrapToken (re_boot env) (envOr (re_boot env) ''SEO_BOOTSTRAP_TOKEN_FILE'' ''data/bootstrap/admin-api-key'') (rs_host s) of
           (Some e, h) \<Rightarrow> (Exits 1, s\<lparr>rs_host := h\<rparr>)
         | (None, h) \<Rightarrow> (Exits 0, s\<lparr>rs_host := h\<rparr>))
      else (case run_main env s of
          (Inl e, s') \<Rightarrow> (Exits 1, s')
        | (Inr a, s') \<Rightarrow> (Serves a, s')))"

section \<open>The providers of the executable\<close>

definition shipped_names :: "string list" where
  "shipped_names = [''bing-webmaster'', ''google-search-console'', ''google-analytics'']"

lemma shipped_names: "map (\<lambda>p. d_Name (Descriptor p)) (shipped_providers env) = shipped_names"
  by (simp add: shipped_providers_def shipped_names_def bing_provider_def sc_provider_def ga_provider_def bing_Descriptor_def
      sc_Descriptor_def ga_Descriptor_def)

lemma shipped_names_ok: "distinct shipped_names" "[] \<notin> set shipped_names"
  by (simp_all add: shipped_names_def)

definition shipped_registry :: "run_env \<Rightarrow> registry" where
  "shipped_registry env = map (\<lambda>p. (d_Name (Descriptor p), p)) (shipped_providers env)"

lemma Register_shipped: "Register_all registry_New (shipped_providers env) = Inr (shipped_registry env)"
proof (cases "Register_all registry_New (shipped_providers env)")
  case (Inl e)
  then show ?thesis
    using Register_all_snoc [OF reg.new_wf, of "shipped_providers env"] shipped_names [of env] shipped_names_ok
    by (auto simp: registry_New_def comp_def image_image simp flip: set_map)
next
  case (Inr r)
  then show ?thesis
    using Register_all_snoc [OF reg.new_wf, of "shipped_providers env"] by (simp add: registry_New_def shipped_registry_def)
qed

lemma shipped_wf: "registry_wf (shipped_registry env)"
  using Register_all_snoc [OF reg.new_wf, of "shipped_providers env"] unfolding Register_shipped sum.case by (rule conjunct2)

lemma shipped_get: "p \<in> set (shipped_providers env) \<Longrightarrow> Get (shipped_registry env) (d_Name (Descriptor p)) = Some p"
  using shipped_names [of env] shipped_names_ok(1)
  by (auto simp: Get_def shipped_registry_def comp_def intro!: map_of_is_SomeI)

lemma dom_shipped: "dom (Get (shipped_registry env)) = set shipped_names"
proof -
  have "Get (shipped_registry env) = map_of (shipped_registry env)" by (rule ext) (simp add: Get_def)
  then show ?thesis
    unfolding shipped_names [of env, symmetric] by (simp add: dom_map_of_conv_image_fst shipped_registry_def image_image)
qed

lemma Descriptors_shipped: "Descriptors (shipped_registry env) = sort_key d_Name (map Descriptor (shipped_providers env))"
  by (simp add: Descriptors_def shipped_registry_def comp_def)

lemma shipped_descriptor_names: "d_Name ` set (Descriptors (shipped_registry env)) = set shipped_names"
  using shipped_names [of env] by (metis Descriptors_shipped image_image list.set_map set_sort)

section \<open>The parts of the start\<close>

lemma run_open_adds:
  assumes "set (migration_names (se_entries (re_start env))) \<subseteq> set (recorded f)" "run_open env st f = (r, f')"
  shows "only_adds i (m_schema f) (m_schema f') \<and> (db_reachable (m_schema f) \<longrightarrow> db_reachable (m_schema f'))
"
proof -
  note noop = open_store_noop [OF assms(1)]
  obtain ro f1 where o: "open_store (re_start env) f = (ro, f1)" by fastforce
  then have "m_schema f1 = m_schema f" using noop by simp
  then show ?thesis
    using assms(2) EnsureSite_adds [of i "m_schema f" "se_site (re_start env)" st] op_reachable(1) [of "m_schema f" "se_site (re_start env)" st]
    by (auto simp: run_open_def o split: option.splits prod.splits)
qed

lemma run_open_site: "run_open env st f = (None, f') \<Longrightarrow> st \<in> set (t_sites (m_schema f'))"
  using EnsureSite_ok [of "se_site (re_start env)" st] by (auto simp: run_open_def split: option.splits prod.splits)

lemma run_install_adds:
  assumes "run_install env st f = (r, f')"
  shows "only_adds (site_ID st) (m_schema f) (m_schema f') \<and> (db_reachable (m_schema f) \<longrightarrow> db_reachable (m_schema f'))
    \<and> (\<forall>reg. r = Inr reg \<longrightarrow> reg = shipped_registry env \<and> t_sites (m_schema f') = t_sites (m_schema f)
        \<and> (\<forall>n \<in> set shipped_names. \<exists>c \<in> set (t_connections (m_schema f')). conn_is (site_ID st) n c))"
proof -
  let ?ec = "ensure_connections ''ensure connection '' (se_connection (re_start env)) (site_ID st) (Descriptors (shipped_registry env)) (m_schema f)"
  obtain rc d where e: "?ec = (rc, d)" by fastforce
  have "only_adds (site_ID st) (m_schema f) d" "db_reachable (m_schema f) \<Longrightarrow> db_reachable d"
    using ensure_connections_adds [of "site_ID st" "m_schema f" "''ensure connection ''" "se_connection (re_start env)" "Descriptors (shipped_registry env)"]
      ensure_connections_reachable [of "m_schema f" "''ensure connection ''" "se_connection (re_start env)" "site_ID st" "Descriptors (shipped_registry env)"]
    by (simp_all add: e)
  moreover have "t_sites d = t_sites (m_schema f) \<and> (\<forall>n \<in> set shipped_names. \<exists>c \<in> set (t_connections d). conn_is (site_ID st) n c)" if "rc = None"
    using ensure_connections_complete [OF e [unfolded that]] by (simp flip: shipped_descriptor_names [of env])
  ultimately show ?thesis
    using assms by (auto simp: run_install_def Register_shipped e split: option.splits)
qed

lemma run_secrets_ok:
  assumes "run_secrets env h = (Inr sec, h')" "rand_ok (re_boot env)"
  shows "\<exists>f. sec = Some f \<and> length (f_key f) = 32"
proof -
  have "v \<noteq> []" if "loadOrCreateHexSecret (re_boot env) fn 32 h = (Inr v, g)" for fn v g
    using loadOrCreateHexSecret_file(1) [OF that assms(2)] by (auto simp: hex_of_size_def)
  then show ?thesis
    using assms(1) by (auto simp: run_secrets_def Let_def NewFile_def split: if_splits sum.splits prod.splits option.splits dir_fault.splits)
qed

lemma run_auth_dev:
  assumes "run_auth env listen h = (Inr DevLoopback, h')"
  shows "trim_space (getenv env ''SEO_API_KEYS'') = [] \<and> getenv env ''SEO_DEV_AUTH'' = ''true''
    \<and> (\<exists>host. re_split_host env listen = Some host \<and> re_ip_loopback env host)"
  using assms by (auto simp: run_auth_def split: if_splits sum.splits prod.splits option.splits)

lemma run_oauth_server:
  "run_oauth env api = Inr api' \<Longrightarrow> srv_registry api' = srv_registry api \<and> srv_engine api' = srv_engine api \<and> srv_site api' = srv_site api
     \<and> srv_oauthCallbackURL api' = srv_oauthCallbackURL api"
  by (auto simp: run_oauth_def WithOAuthApps_def Let_def split: if_splits)


lemma platform_url_okD: "platform_url_ok u \<Longrightarrow> u_User u = None \<and> (u_Scheme u = ''https'' \<or> isLoopbackURL u)"
  unfolding platform_url_ok_def by blast

lemma run_urls_ok:
  "run_urls env = Inr (st, p) \<Longrightarrow> \<exists>u. Parse p = Some u \<and> platform_url_ok u"
  by (auto simp: run_urls_def Let_def split: if_splits option.splits)

text \<open>What a start that succeeds went through.\<close>

lemma run_main_ok:
  assumes "run_main env s = (Inr a, s')"
  obtains platformURL f1 h1 where "run_urls env = Inr (sa_site a, platformURL)" "run_open env (sa_site a) (rs_db s) = (None, f1)"
    "run_secrets env (rs_host s) = (Inr (sa_secrets a), h1)" "sa_listen a = envOr (re_boot env) ''SEO_LISTEN'' ''127.0.0.1:8080''"
    "run_auth env (sa_listen a) h1 = (Inr (sa_auth a), rs_host s')"
    "run_install env (sa_site a) f1 = (Inr (srv_registry (sa_server a)), rs_db s')"
    "sa_engine a = NewEngine (srv_registry (sa_server a)) (sa_site a) (run_config env)"
    "srv_engine (sa_server a) = sa_engine a" "srv_site (sa_server a) = sa_site a"
    "srv_oauthCallbackURL (sa_server a) = trim_right platformURL (CHR ''/'') @ ''/oauth/callback''"
  using assms unfolding run_main_def
  by (auto simp: Let_def New_def WithPlatformURL_def dest!: run_oauth_server split: sum.splits prod.splits option.splits)

lemma run_main_adds:
  assumes "run_main env s = (r, s')" "set (migration_names (se_entries (re_start env))) \<subseteq> set (recorded (rs_db s))"
  shows "only_adds ''default'' (m_schema (rs_db s)) (m_schema (rs_db s')) \<and> (db_reachable (m_schema (rs_db s)) \<longrightarrow> db_reachable (m_schema (rs_db s')))"
proof (cases "run_urls env")
  case (Inl e)
  then show ?thesis using assms(1) by (simp add: run_main_def)
next
  case (Inr sp)
  obtain st p where sp: "sp = (st, p)" by fastforce
  have i: "site_ID st = ''default''" using Inr by (auto simp: sp run_urls_def Let_def split: if_splits)
  obtain ro f1 where o: "run_open env st (rs_db s) = (ro, f1)" by fastforce
  obtain ri f2 where ii: "run_install env st f1 = (ri, f2)" by fastforce
  note O = run_open_adds [OF assms(2) o, of "''default''"] and I = run_install_adds [OF ii, unfolded i]
  have "rs_db s' = rs_db s \<or> rs_db s' = f1 \<or> rs_db s' = f2"
    using assms(1) by (auto simp: run_main_def Inr sp o ii Let_def split: sum.splits prod.splits option.splits)
  then show ?thesis using O I only_adds_trans by auto
qed

section \<open>The first start\<close>

text \<open>Nothing fails, the random numbers are there, the identifiers are new.\<close>

definition calm_start :: "run_env \<Rightarrow> bool" where
  "calm_start env \<longleftrightarrow> rand_ok (re_boot env) \<and> b_rand (re_boot env) 32 \<noteq> None \<and> sum_ok (re_sha env) \<and> re_dir_fault env = None
     \<and> (\<forall>f. \<not> b_read_fails (re_boot env) f \<and> b_write_fails (re_boot env) f = None \<and> \<not> b_remove_fails (re_boot env) f)
     \<and> smooth_start (re_start env) (set shipped_names) empty_db"

lemma envOr_unset [simp]: "b_getenv env name = [] \<Longrightarrow> envOr env name fallback = fallback"
  by (simp add: envOr_def)

lemma smooth_open:
  assumes "openable (re_start env) f" "\<not> set (migration_names (se_entries (re_start env))) \<subseteq> set (recorded f)"
    "smooth_start (re_start env) (set shipped_names) empty_db"
  obtains f1 where "run_open env st f = (None, f1)" "t_connections (m_schema f1) = []" "site_exists (site_ID st) (m_schema f1)"
proof -
  have "fst (open_store (re_start env) f) = None \<and> m_schema (snd (open_store (re_start env) f)) = empty_db"
    using open_store_ok [OF assms(1)] assms(2,3) by (simp add: smooth_start_def)
  then obtain f0 where o: "open_store (re_start env) f = (None, f0)" "m_schema f0 = empty_db" by (metis prod.collapse)
  have "e_fault (se_site (re_start env)) 0 = None" using assms(3) by (simp add: smooth_start_def)
  then show ?thesis
    by (intro that [of "f0\<lparr>m_schema := empty_db\<lparr>t_sites := [st]\<rparr>\<rparr>"]) (simp_all add: run_open_def o EnsureSite_def empty_db_def site_exists_def)
qed

lemma smooth_install:
  assumes "smooth_start (re_start env) (set shipped_names) empty_db" "t_connections (m_schema f) = []" "site_exists (site_ID st) (m_schema f)"
  obtains f' where "run_install env st f = (Inr (shipped_registry env), f')"
proof -
  let ?e = "se_connection (re_start env)" and ?ds = "Descriptors (shipped_registry env)"
  have names: "distinct (map d_Name ?ds)"
    using reg.descriptors_sorted [OF shipped_wf, of env] strict_sorted_iff [of "map d_Name ?ds"] by (simp add: sorted_wrt_map)
  have inj: "inj_on (\<lambda>n. e_uuid (?e n)) (set (map d_Name ?ds))"
    using assms(1) shipped_descriptor_names [of env] by (simp add: smooth_start_def)
  have "distinct (map (\<lambda>n. e_uuid (?e n)) (map d_Name ?ds))"
    using names inj by (subst distinct_map) blast
  then have "distinct (map (\<lambda>desc. e_uuid (?e (d_Name desc))) ?ds)" by (simp add: comp_def)
  moreover have "\<forall>desc \<in> set ?ds. e_fault (?e (d_Name desc)) 0 = None"
    using assms(1) shipped_descriptor_names [of env] by (auto simp: smooth_start_def)
  ultimately have "fst (ensure_connections ''ensure connection '' ?e (site_ID st) ?ds (m_schema f)) = None"
    using assms(2,3) by (intro ensure_connections_smooth) auto
  then obtain d where "ensure_connections ''ensure connection '' ?e (site_ID st) ?ds (m_schema f) = (None, d)" by (metis prod.collapse)
  then show ?thesis
    by (intro that [of "f\<lparr>m_schema := d\<rparr>"]) (simp add: run_install_def Register_shipped)
qed

lemma calm_secrets:
  assumes "calm_start env" "\<And>name. name \<noteq> ''SEO_PUBLIC_URL'' \<Longrightarrow> b_getenv (re_boot env) name = []" "h_files h ''data/keys/master-key'' = None"
  obtains f h' where "run_secrets env h = (Inr (Some f), h')" "\<forall>g. g \<noteq> ''data/keys/master-key'' \<longrightarrow> h_files h' g = h_files h g"
    "h_stdout h' = h_stdout h"
proof -
  obtain bs where bs: "b_rand (re_boot env) 32 = Some bs" "length bs = 32" "bytes_ok bs"
    using assms(1) by (auto simp: calm_start_def rand_ok_def)
  then have "hex_encode bs \<noteq> []" "trim_space (hex_encode bs) = hex_encode bs"
    using hex_encode_length [of bs] trim_space_idem [of "hex_encode bs @ newline"] hex_encode_line [of bs] by force+
  then show ?thesis
    using assms bs
    by (intro that [of "\<lparr>f_dir = ''data/secrets'', f_key = map char_of bs\<rparr>"
          "h\<lparr>h_files := (h_files h)(''data/keys/master-key'' \<mapsto> hex_encode bs @ newline), h_temp := None\<rparr>"])
      (simp_all add: run_secrets_def getenv_def loadOrCreateHexSecret_def ReadFile_def writeSecretFile_cases NewFile_def hex_decode_encode
        calm_start_def Let_def)
qed

lemma calm_bootstrap:
  assumes "calm_start env" "h_files h hashFile = None"
  obtains spec h' where "loadOrCreateBootstrapAPIKey (re_sha env) (re_boot env) hashFile tokenFile h = (Inr spec, h')" "h_stdout h' = h_stdout h"
  using assms by (auto simp: loadOrCreateBootstrapAPIKey_def ReadFile_def writeSecretFile_cases calm_start_def Let_def)

lemma first_start:
  assumes url: "trim_space (getenv env ''SEO_PUBLIC_URL'') \<noteq> []" "Parse (trim_space (getenv env ''SEO_PUBLIC_URL'')) = Some u" "platform_url_ok u"
    and unset: "\<And>name. name \<noteq> ''SEO_PUBLIC_URL'' \<Longrightarrow> getenv env name = []"
    and calm: "calm_start env"
    and new: "h_files (rs_host s) ''data/keys/master-key'' = None" "h_files (rs_host s) ''data/auth/admin-api-key.sha256'' = None"
      "openable (re_start env) (rs_db s)" "\<not> set (migration_names (se_entries (re_start env))) \<subseteq> set (recorded (rs_db s))"
  shows "\<exists>a s' s'' keys token sub. main env [''seo-platform''] s = (Serves a, s') \<and> sa_auth a = ApiKeys keys
    \<and> main env [''seo-platform'', ''admin'', ''bootstrap''] s' = (Exits 0, s'')
    \<and> h_stdout (rs_host s'') = h_stdout (rs_host s) @ [token]
    \<and> APIKey_Authenticate (hex_encode \<circ> re_sha env) keys (''Bearer '' @ token) = Inr sub \<and> sub_Scopes sub = all_scopes"
proof -
  note bunset = unset [unfolded getenv_def]
  define st where "st = \<lparr>site_ID = ''default'', site_PublicURL = trim_space (getenv env ''SEO_PUBLIC_URL''),
    site_SitemapURL = trim_right (trim_space (getenv env ''SEO_PUBLIC_URL'')) (CHR ''/'') @ ''/sitemap.xml'', site_Timezone = ''UTC''\<rparr>"
  have urls: "run_urls env = Inr (st, trim_space (getenv env ''SEO_PUBLIC_URL''))"
    using url by (simp add: run_urls_def st_def unset bunset platform_url_ok_def Let_def)
  have smooth: "smooth_start (re_start env) (set shipped_names) empty_db" using calm by (simp add: calm_start_def)
  obtain f1 where f1: "run_open env st (rs_db s) = (None, f1)" "t_connections (m_schema f1) = []" "site_exists (site_ID st) (m_schema f1)"
    using smooth_open [OF new(3,4) smooth] by blast
  obtain f2 where f2: "run_install env st f1 = (Inr (shipped_registry env), f2)" by (rule smooth_install [OF smooth f1(2,3)])
  obtain sec h1 where h1: "run_secrets env (rs_host s) = (Inr (Some sec), h1)"
      "\<forall>g. g \<noteq> ''data/keys/master-key'' \<longrightarrow> h_files h1 g = h_files (rs_host s) g" "h_stdout h1 = h_stdout (rs_host s)"
    using calm_secrets [OF calm bunset new(1)] by blast
  have hash: "h_files h1 ''data/auth/admin-api-key.sha256'' = None" using h1(2) new(2) by simp
  obtain spec h2 where h2: "loadOrCreateBootstrapAPIKey (re_sha env) (re_boot env) ''data/auth/admin-api-key.sha256'' ''data/bootstrap/admin-api-key'' h1
      = (Inr spec, h2)" "h_stdout h2 = h_stdout h1"
    by (rule calm_bootstrap [OF calm hash])
  from bootstrap_key_works [OF h2(1) hash _ _ _, of "re_boot env"] calm
  obtain token keys h3 where key: "token \<noteq> []" "printBootstrapToken (re_boot env) ''data/bootstrap/admin-api-key'' h2 = (None, h3)"
    "h_stdout h3 = h_stdout h2 @ [token]" "NewAPIKey spec = Inr keys"
    "\<And>auth s. APIKey_Authenticate (hex_encode \<circ> re_sha env) keys auth = Inr s \<longleftrightarrow>
         (\<exists>t. auth = ''Bearer '' @ t \<and> t \<noteq> [] \<and> hex_encode (re_sha env t) = hex_encode (re_sha env token)
            \<and> s = \<lparr>sub_ID = ''api-key:'' @ take 8 (hex_encode (re_sha env token)), sub_Issuer = ''api-key'', sub_Roles = [],
                   sub_Scopes = all_scopes, sub_Workspace = []\<rparr>)"
    by (auto simp: calm_start_def)
  have auth: "run_auth env ''127.0.0.1:8080'' h1 = (Inr (ApiKeys keys), h2)"
    using h2(1) key(4) by (simp add: run_auth_def unset bunset)
  obtain a s' where run: "run_main env s = (Inr a, s')" "sa_auth a = ApiKeys keys" "rs_host s' = h2"
    using auth by (simp add: run_main_def urls f1(1) h1(1) f2 bunset unset run_oauth_def run_console_def Let_def)
  have "\<exists>sub. APIKey_Authenticate (hex_encode \<circ> re_sha env) keys (''Bearer '' @ token) = Inr sub \<and> sub_Scopes sub = all_scopes"
    unfolding key(5) using key(1) by auto
  moreover have "main env [''seo-platform''] s = (Serves a, s')"
    "main env [''seo-platform'', ''admin'', ''bootstrap''] s' = (Exits 0, s'\<lparr>rs_host := h3\<rparr>)"
    using run key(2) by (simp_all add: main_def bunset)
  moreover have "h_stdout (rs_host (s'\<lparr>rs_host := h3\<rparr>)) = h_stdout (rs_host s) @ [token]" using key(3) h1(3) h2(2) by simp
  ultimately show ?thesis using run(2) by blast
qed


text \<open>
  The lease is not configurable, the timeout is: with a timeout of an hour a run that is still at work counts as crashed after half an hour.
\<close>

lemma lease_shorter_than_timeout:
  assumes "trim_space (getenv env ''SEO_SYNC_TIMEOUT'') = ''1h''"
  shows "cfg_Timeout (withDefaults (run_config env)) = hour_ns" "cfg_Lease (withDefaults (run_config env)) = 30 * minute_ns"
proof -
  have "ParseDuration (dec 1 @ ''h'') = Some (int 1 * hour_ns)" by (rule ParseDuration_dec) (simp_all add: unitMap_def)
  moreover have "dec 1 @ ''h'' = ''1h''" by code_simp
  ultimately have "ParseDuration ''1h'' = Some hour_ns" by simp
  with assms show "cfg_Timeout (withDefaults (run_config env)) = hour_ns" "cfg_Lease (withDefaults (run_config env)) = 30 * minute_ns"
    by (simp_all add: withDefaults_def run_config_def envDuration_def getenv_def)
qed

section \<open>Properties\<close>

text \<open>
  C33: what a started server is, and what starting leaves alone. The site, the engine and the handlers agree on it and on the registry, which has exactly the three shipped providers,
  each with a connection; the secret store has a key of 32 bytes; the times of the engine are positive and the lease is half an hour; the
  development mode, which accepts requests without a key, is on only if it was asked for, no API keys are configured, and the server
  listens on a loopback address; the base URL that OAuth redirects go to is https or a loopback address. On a database in use, every run, report row, OAuth state, audit
  event and connection is kept as it is.
\<close>

theorem standalone_start:
  assumes run: "run_main env s = (Inr a, s')" and rand: "rand_ok (re_boot env)"
  shows "(sa_auth a = DevLoopback \<longrightarrow> trim_space (getenv env ''SEO_API_KEYS'') = [] \<and> getenv env ''SEO_DEV_AUTH'' = ''true''
        \<and> (\<exists>host. re_split_host env (sa_listen a) = Some host \<and> re_ip_loopback env host))
    \<and> (\<exists>f. sa_secrets a = Some f \<and> length (f_key f) = 32)
    \<and> sa_site a \<in> set (t_sites (m_schema (rs_db s'))) \<and> srv_site (sa_server a) = sa_site a \<and> eng_site (sa_engine a) = sa_site a
    \<and> eng_registry (sa_engine a) = srv_registry (sa_server a) \<and> dom (Get (srv_registry (sa_server a))) = set shipped_names
    \<and> (\<forall>n \<in> set shipped_names. \<exists>c \<in> set (t_connections (m_schema (rs_db s'))). conn_is (site_ID (sa_site a)) n c)
    \<and> 0 < cfg_LookbackDays (eng_cfg (sa_engine a)) \<and> 0 < cfg_Timeout (eng_cfg (sa_engine a)) \<and> 0 < cfg_Interval (eng_cfg (sa_engine a))
    \<and> cfg_Lease (eng_cfg (sa_engine a)) = 30 * minute_ns
    \<and> (\<exists>p u. srv_oauthCallbackURL (sa_server a) = trim_right p (CHR ''/'') @ ''/oauth/callback'' \<and> Parse p = Some u \<and> u_User u = None
        \<and> (u_Scheme u = ''https'' \<or> isLoopbackURL u))
    \<and> (set (migration_names (se_entries (re_start env))) \<subseteq> set (recorded (rs_db s)) \<longrightarrow>
        only_adds ''default'' (m_schema (rs_db s)) (m_schema (rs_db s')))"
proof -
  from run obtain p f1 h1 where parts: "run_urls env = Inr (sa_site a, p)" "run_open env (sa_site a) (rs_db s) = (None, f1)"
    "run_secrets env (rs_host s) = (Inr (sa_secrets a), h1)" "sa_listen a = envOr (re_boot env) ''SEO_LISTEN'' ''127.0.0.1:8080''"
    "run_auth env (sa_listen a) h1 = (Inr (sa_auth a), rs_host s')"
    "run_install env (sa_site a) f1 = (Inr (srv_registry (sa_server a)), rs_db s')"
    "sa_engine a = NewEngine (srv_registry (sa_server a)) (sa_site a) (run_config env)"
    "srv_engine (sa_server a) = sa_engine a" "srv_site (sa_server a) = sa_site a"
    "srv_oauthCallbackURL (sa_server a) = trim_right p (CHR ''/'') @ ''/oauth/callback''"
    by (rule run_main_ok)
  note I = run_install_adds [OF parts(6)]
  have site: "sa_site a \<in> set (t_sites (m_schema (rs_db s')))" using run_open_site [OF parts(2)] I by simp
  have dom: "dom (Get (srv_registry (sa_server a))) = set shipped_names"
    using I dom_shipped by simp
  have url: "\<exists>u. Parse p = Some u \<and> u_User u = None \<and> (u_Scheme u = ''https'' \<or> isLoopbackURL u)"
    using run_urls_ok [OF parts(1)] platform_url_okD by blast
  have cfg: "0 < cfg_LookbackDays (eng_cfg (sa_engine a))" "0 < cfg_Timeout (eng_cfg (sa_engine a))" "0 < cfg_Interval (eng_cfg (sa_engine a))"
    "cfg_Lease (eng_cfg (sa_engine a)) = 30 * minute_ns"
    by (simp_all add: parts(7) NewEngine_def withDefaults_def run_config_def envInt_bounds envDuration_bounds)
  have eng: "eng_site (sa_engine a) = sa_site a" "eng_registry (sa_engine a) = srv_registry (sa_server a)"
    by (simp_all add: parts(7) NewEngine_def)
  show ?thesis
  proof (intro conjI impI)
    assume dev: "sa_auth a = DevLoopback"
    show "trim_space (getenv env ''SEO_API_KEYS'') = []" "getenv env ''SEO_DEV_AUTH'' = ''true''"
      "\<exists>host. re_split_host env (sa_listen a) = Some host \<and> re_ip_loopback env host"
      using run_auth_dev [OF parts(5) [unfolded dev]] by simp_all
  next
    show "\<exists>p u. srv_oauthCallbackURL (sa_server a) = trim_right p (CHR ''/'') @ ''/oauth/callback'' \<and> Parse p = Some u \<and> u_User u = None
        \<and> (u_Scheme u = ''https'' \<or> isLoopbackURL u)" using url parts(10) by blast
  next
    assume "set (migration_names (se_entries (re_start env))) \<subseteq> set (recorded (rs_db s))"
    then show "only_adds ''default'' (m_schema (rs_db s)) (m_schema (rs_db s'))" using run_main_adds [OF run] by blast
  qed (use site dom cfg eng I run_secrets_ok [OF parts(3) rand] parts(9) in auto)
qed


text \<open>
  C32: the first start, end to end. With \<^verbatim>\<open>SEO_PUBLIC_URL\<close> set to an absolute https or loopback URL and nothing else configured, on a new
  host and a new database, a start in which no operation fails succeeds; then \<^verbatim>\<open>admin bootstrap\<close> prints a token, and a request
  with this token passes the verifier of the running server with every scope the API knows.
\<close>

theorem first_start_works:
  assumes url: "trim_space (getenv env ''SEO_PUBLIC_URL'') \<noteq> []" "Parse (trim_space (getenv env ''SEO_PUBLIC_URL'')) = Some u" "platform_url_ok u"
    and unset: "\<And>name. name \<noteq> ''SEO_PUBLIC_URL'' \<Longrightarrow> getenv env name = []"
    and calm: "calm_start env"
    and new: "h_files (rs_host s) ''data/keys/master-key'' = None" "h_files (rs_host s) ''data/auth/admin-api-key.sha256'' = None"
      "openable (re_start env) (rs_db s)" "\<not> set (migration_names (se_entries (re_start env))) \<subseteq> set (recorded (rs_db s))"
  shows "\<exists>a s' s'' keys token sub. main env [''seo-platform''] s = (Serves a, s') \<and> sa_auth a = ApiKeys keys
    \<and> main env [''seo-platform'', ''admin'', ''bootstrap''] s' = (Exits 0, s'')
    \<and> h_stdout (rs_host s'') = h_stdout (rs_host s) @ [token]
    \<and> APIKey_Authenticate (hex_encode \<circ> re_sha env) keys (''Bearer '' @ token) = Inr sub \<and> sub_Scopes sub = all_scopes"
  by (rule first_start [OF assms])

section \<open>Witnesses\<close>

definition demo_run_env :: run_env where
  "demo_run_env = \<lparr>re_boot = demo_boot\<lparr>b_getenv := \<lambda>n. if n = ''SEO_PUBLIC_URL'' then ''https://h'' else []\<rparr>, re_start = demo_start_env,
     re_sha = \<lambda>_. replicate 32 0, re_dir_fault = None, re_split_host = \<lambda>_. None, re_ip_loopback = \<lambda>_. False, re_stat_fails = \<lambda>_. True,
     re_bing = demo_bing, re_gsc = demo_gsc, re_ga4 = demo_ga\<rparr>"

definition demo_run_state :: run_state_db where
  "demo_run_state = \<lparr>rs_host = demo_host, rs_db = fresh_file empty_db\<rparr>"

lemma demo_public_url: "Parse ''https://h'' = Some (no_url\<lparr>u_Scheme := ''https'', u_Host := ''h''\<rparr>)"
  by code_simp

lemma demo_run_url:
  "trim_space (getenv demo_run_env ''SEO_PUBLIC_URL'') = ''https://h''" "name \<noteq> ''SEO_PUBLIC_URL'' \<Longrightarrow> getenv demo_run_env name = []"
  "platform_url_ok (no_url\<lparr>u_Scheme := ''https'', u_Host := ''h''\<rparr>)"
  by (simp_all add: getenv_def demo_run_env_def trim_space_ascii ascii_print_def platform_url_ok_def no_url_def)

lemma demo_calm_run: "calm_start demo_run_env" "rand_ok (re_boot demo_run_env)"
proof -
  show r: "rand_ok (re_boot demo_run_env)" using demo_boot_ok(1) by (simp add: demo_run_env_def rand_ok_def)
  have "smooth_start demo_start_env (set shipped_names) empty_db"
    by (simp add: smooth_start_def demo_start_env_def no_faults_def demo_mig_env_def demo_db_env_def empty_db_def)
  then show "calm_start demo_run_env"
    using r demo_boot_ok(2) by (simp add: calm_start_def) (simp add: demo_run_env_def demo_boot_def)
qed

lemma demo_run_new:
  "h_files (rs_host demo_run_state) g = None" "openable (re_start demo_run_env) (rs_db demo_run_state)"
  "\<not> set (migration_names (se_entries (re_start demo_run_env))) \<subseteq> set (recorded (rs_db demo_run_state))"
  using demo_openable demo_platform_sel(3) by (simp_all add: demo_run_state_def demo_host_def demo_run_env_def)

theorem first_start_works_witness:
  "\<exists>a s' s'' token. main demo_run_env [''seo-platform''] demo_run_state = (Serves a, s')
     \<and> main demo_run_env [''seo-platform'', ''admin'', ''bootstrap''] s' = (Exits 0, s'') \<and> h_stdout (rs_host s'') = [token]"
  using first_start_works [OF _ _ demo_run_url(3,2) demo_calm_run(1) demo_run_new(1) demo_run_new(1,2,3)]
  by (simp add: demo_run_url(1) demo_public_url) (auto simp: demo_run_state_def demo_host_def)

theorem standalone_start_witness:
  "\<exists>a s'. run_main demo_run_env demo_run_state = (Inr a, s') \<and> dom (Get (srv_registry (sa_server a))) = set shipped_names
     \<and> cfg_Lease (eng_cfg (sa_engine a)) = 30 * minute_ns"
proof -
  obtain a s' where "main demo_run_env [''seo-platform''] demo_run_state = (Serves a, s')"
    using first_start [OF _ _ demo_run_url(3,2) demo_calm_run(1) demo_run_new(1) demo_run_new(1,2,3)]
    by (simp add: demo_run_url(1) demo_public_url) blast
  then have run: "run_main demo_run_env demo_run_state = (Inr a, s')" by (auto simp: main_def split: prod.splits sum.splits)
  from standalone_start [OF run demo_calm_run(2)] run show ?thesis by blast
qed

end
