(* ===== verification/PlainURL.thy ===== *)
theory PlainURL
  imports GoURL
begin

text \<open>
  What \<^verbatim>\<open>url.Parse\<close> makes of plain absolute URLs: a scheme, a host of letters, digits, dashes and dots, and a path without characters that
  need an escape. Used for the links of the providers and for the requests of the client.
\<close>

definition plain_char :: "char \<Rightarrow> bool" where
  "plain_char c \<longleftrightarrow> is_alpha c \<or> is_digit c \<or> c \<in> set ''-._''"

definition path_char :: "char \<Rightarrow> bool" where
  "path_char c \<longleftrightarrow> plain_char c \<or> c = CHR ''/''"

lemma plain_char_bytes: "plain_char c \<Longrightarrow> 32 \<le> byte c \<and> byte c < 127"
  by (auto simp: plain_char_def is_alpha_def is_digit_def byte_def)

definition special_chars :: string where
  "special_chars = ''%/:@[?#+''"

lemma special_not_plain: "list_all (\<lambda>c. \<not> plain_char c) special_chars"
  by (simp add: special_chars_def plain_char_def is_alpha_def is_digit_def byte_def)

lemma plain_not_special: "list_all plain_char s \<Longrightarrow> c \<in> set special_chars \<Longrightarrow> c \<notin> set s"
  using special_not_plain by (auto simp: list_all_iff)

lemma special_char: "plain_char c \<Longrightarrow> c \<notin> set special_chars"
  using special_not_plain by (auto simp: list_all_iff)

lemma punctuation_not_escaped:
  "list_all (\<lambda>mode. list_all (\<lambda>c. \<not> shouldEscape c mode) ''-._'')
     [EncPath, EncPathSegment, EncHost, EncZone, EncUserPassword, EncQuery, EncFragment]"
  by code_simp

lemma plain_not_escaped: "plain_char c \<Longrightarrow> \<not> shouldEscape c mode"
proof -
  have "\<not> shouldEscape c mode" if "is_alpha c \<or> is_digit c" using that by (simp add: shouldEscape_def)
  moreover have "list_all (\<lambda>c. \<not> shouldEscape c mode) ''-._''"
    using punctuation_not_escaped by (cases mode) (simp_all only: list.pred_inject(2) simp_thms)
  ultimately show "plain_char c \<Longrightarrow> \<not> shouldEscape c mode" unfolding plain_char_def list_all_iff by blast
qed

lemma slash_not_escaped: "\<not> shouldEscape (CHR ''/'') EncPath"
  by (simp add: shouldEscape_def)

lemma path_not_escaped: "path_char c \<Longrightarrow> \<not> shouldEscape c EncPath"
  using plain_not_escaped slash_not_escaped by (auto simp: path_char_def)

lemma unescape_host: "list_all plain_char h \<Longrightarrow> unescape EncHost h = Some h"
proof (induction h)
  case (Cons c h)
  then have "c \<noteq> CHR ''%''" using special_char [of c] by (auto simp: special_chars_def)
  then show ?case using Cons by (simp add: plain_not_escaped)
qed simp

lemma unescape_path: "list_all path_char p \<Longrightarrow> unescape EncPath p = Some p"
proof (induction p)
  case (Cons c p)
  then have "c \<noteq> CHR ''%''" using special_char [of c] by (auto simp: path_char_def special_chars_def)
  then show ?case using Cons by simp
qed simp

lemma escape_path: "list_all path_char p \<Longrightarrow> escape EncPath p = p"
  by (induction p) (auto simp: escape_def escape_char_def path_not_escaped)

lemma parseAuthority_plain:
  assumes "list_all plain_char h"
  shows "parseAuthority h = Some (None, h)"
proof -
  have "CHR ''@'' \<notin> set h" "CHR ''['' \<notin> set h" "CHR '':'' \<notin> set h"
    using plain_not_special [OF assms] by (simp_all add: special_chars_def)
  then show ?thesis by (simp add: parseAuthority_def parseHost_def split_last_def unescape_host [OF assms])
qed

lemma parse_rest_plain:
  assumes "list_all plain_char h" "list_all path_char p" "p = [] \<or> hd p = CHR ''/''" "scheme \<noteq> []"
  shows "parse_rest scheme (''//'' @ h @ p) u = Some (u\<lparr>u_User := None, u_Host := h, u_Path := p, u_RawPath := []\<rparr>)"
proof -
  have slash: "\<forall>c \<in> set h. c \<noteq> CHR ''/''" using plain_not_special [OF assms(1), of "CHR ''/''"] by (auto simp: special_chars_def)
  have "takeWhile (\<lambda>c. c \<noteq> CHR ''/'') (h @ p) = h \<and> dropWhile (\<lambda>c. c \<noteq> CHR ''/'') (h @ p) = p"
    using assms(3) slash by (cases p) (auto simp: takeWhile_append2 dropWhile_append2 takeWhile_eq_all_conv)
  then show ?thesis
    using assms(4) by (simp add: parse_rest_def has_prefix_def parseAuthority_plain [OF assms(1)] setPath_def unescape_path [OF assms(2)]
        escape_path [OF assms(2)] Let_def)
qed

lemma cut_absent: "c \<notin> set s \<Longrightarrow> cut s c = (s, [], False)"
  by (simp add: cut_def)

text \<open>An absolute URL without query, and what may follow it as a fragment.\<close>

lemma parse_url_plain:
  assumes "list_all plain_char h" "list_all path_char p" "p = [] \<or> hd p = CHR ''/''" "sch = ''https'' \<or> sch = ''http''"
  shows "parse_url (sch @ ''://'' @ h @ p) = Some (no_url\<lparr>u_Scheme := sch, u_Host := h, u_Path := p\<rparr>)"
    and "CHR ''#'' \<notin> set (sch @ ''://'' @ h @ p)"
proof -
  let ?rest = "''//'' @ h @ p"
  have path: "c \<notin> set p" if "c \<in> set special_chars" "c \<noteq> CHR ''/''" for c
    using that assms(2) special_char by (auto simp: list_all_iff path_char_def)
  have no: "CHR ''#'' \<notin> set ?rest" "CHR ''?'' \<notin> set ?rest"
    using plain_not_special [OF assms(1)] path by (auto simp: special_chars_def)
  have bytes: "list_all (\<lambda>c. \<not> (byte c < 32 \<or> byte c = 127)) ?rest"
    using assms(1,2) plain_char_bytes by (fastforce simp: list_all_iff path_char_def byte_def)
  have scheme: "get_scheme True [] (sch @ '':'' @ ?rest) = Some (sch, ?rest)" "to_lower sch = sch" "sch \<noteq> []"
    "CHR ''#'' \<notin> set sch" "\<not> contains_ctl sch" "sch \<noteq> ''*''"
    using assms(4) by (auto simp: is_alpha_def is_digit_def byte_def to_lower_def lower_char_def contains_ctl_def)
  have "last ?rest \<noteq> CHR ''?''" using no(2) last_in_set [of ?rest] by (metis append_is_Nil_conv list.distinct(1))
  then have "split_query ?rest = (?rest, False, [])" using cut_absent [OF no(2)] by (simp add: split_query_def)
  moreover have "\<not> contains_ctl (sch @ '':'' @ ?rest)"
    using scheme(5) bytes by (auto simp: contains_ctl_def list_ex_iff list_all_iff byte_def)
  ultimately have "parse_url (sch @ '':'' @ ?rest) = Some (no_url\<lparr>u_Scheme := sch, u_Host := h, u_Path := p\<rparr>)"
    using scheme parse_rest_plain [OF assms(1,2,3) scheme(3)]
    by (cases sch) (simp_all add: parse_url_def Let_def no_url_def)
  then show "parse_url (sch @ ''://'' @ h @ p) = Some (no_url\<lparr>u_Scheme := sch, u_Host := h, u_Path := p\<rparr>)" by simp
  show "CHR ''#'' \<notin> set (sch @ ''://'' @ h @ p)" using no(1) scheme(4) by simp
qed

lemma Parse_plain:
  assumes "list_all plain_char h" "list_all path_char p" "p = [] \<or> hd p = CHR ''/''" "sch = ''https'' \<or> sch = ''http''"
  shows "Parse (sch @ ''://'' @ h @ p) = Some (no_url\<lparr>u_Scheme := sch, u_Host := h, u_Path := p\<rparr>)"
  unfolding Parse_def cut_absent [OF parse_url_plain(2) [OF assms]] by (simp add: parse_url_plain(1) [OF assms, simplified])

lemma unescape_fragment: "list_all path_char f \<Longrightarrow> unescape EncFragment f = Some f"
proof (induction f)
  case (Cons c p)
  then have "c \<noteq> CHR ''%''" using special_char [of c] by (auto simp: path_char_def special_chars_def)
  then show ?case using Cons by simp
qed simp

lemma Parse_plain_fragment:
  assumes "list_all plain_char h" "list_all path_char p" "p = [] \<or> hd p = CHR ''/''" "sch = ''https'' \<or> sch = ''http''"
    "list_all path_char f" "f \<noteq> []"
  shows "\<exists>u. Parse (sch @ ''://'' @ h @ p @ ''#'' @ f) = Some u \<and> u_Scheme u = sch \<and> u_Host u = h"
proof -
  note P = parse_url_plain [OF assms(1-4)]
  have "cut (sch @ ''://'' @ h @ p @ ''#'' @ f) (CHR ''#'') = (sch @ ''://'' @ h @ p, f, True)"
    using cut_found [OF P(2), of f] by simp
  then show ?thesis using P(1) assms(6) unescape_fragment [OF assms(5)] by (simp add: Parse_def setFragment_def)
qed

end
