(* ===== verification/Client.thy ===== *)
theory Client
  imports JsonDecode GoURL Auth
begin

text \<open>
  The client library (\<^verbatim>\<open>sdk/go/seo/client.go\<close>). A call gets, in a \<open>call_env\<close>, what its token source returns and how the network answers
  its request: not at all, or with a status and a body. A body is the JSON value it starts with, \<open>None\<close> if the first four megabytes hold none.
  Requests carry their body as a JSON value: encoding the inputs of this library cannot fail, and strings are taken to be valid UTF-8, which
  \<^verbatim>\<open>json.Marshal\<close> keeps as they are. Decoding follows \<open>JsonDecode\<close>.
\<close>

section \<open>Definitions\<close>

record http_request =
  hq_Method :: string
  hq_URL :: url
  hq_Authorization :: string
  hq_ContentType :: "string option"
  hq_Body :: "jval option"

datatype http_reply = NoReply go_error | Reply int "jval option"

record call_env =
  ce_token :: "go_error + string"
  ce_send :: "http_request \<Rightarrow> http_reply"

record client =
  c_baseURL :: string

text \<open>\<open>has_token\<close>: the token source is not \<^verbatim>\<open>nil\<close>.\<close>

definition client_New :: "string \<Rightarrow> bool \<Rightarrow> go_error + client" where
  "client_New baseURL has_token =
     (case Parse (trim_right baseURL (CHR ''/'')) of
        None \<Rightarrow> Inl (Msg ''seo: base URL must be absolute'')
      | Some parsed \<Rightarrow>
          if u_Scheme parsed = [] \<or> u_Host parsed = [] then Inl (Msg ''seo: base URL must be absolute'')
          else if \<not> has_token then Inl (Msg ''seo: token source is required'')
          else Inr \<lparr>c_baseURL = String parsed\<rparr>)"

datatype client_error =
    APIError int string | CreateRequest | GetToken go_error | EmptyToken | RequestFailed go_error | DecodeResponse

subsection \<open>Decoding\<close>

definition dec_bool :: "bool decoder" where
  "dec_bool v old = (case v of JNull \<Rightarrow> (old, True) | JBool b \<Rightarrow> (b, True) | _ \<Rightarrow> (old, False))"

text \<open>A value of type \<^verbatim>\<open>any\<close>: numbers become \<^verbatim>\<open>float64\<close>, of equal keys the last one counts.\<close>

fun any_value :: "jval \<Rightarrow> jval \<times> bool"
  and any_values :: "jval list \<Rightarrow> jval list \<times> bool"
  and any_members :: "(string \<times> jval) list \<Rightarrow> (string \<times> jval) list \<Rightarrow> (string \<times> jval) list \<times> bool" where
  "any_value (JInt i) = (if float_finite (f_of_int i) then (JFloat (f_of_int i), True) else (JNull, False))"
| "any_value (JFloat f) = (if float_finite f then (JFloat f, True) else (JNull, False))"
| "any_value (JArr vs) = (case any_values vs of (ws, ok) \<Rightarrow> (JArr ws, ok))"
| "any_value (JObj kvs) = (case any_members kvs [] of (m, ok) \<Rightarrow> (JObj m, ok))"
| "any_value v = (v, True)"
| "any_values [] = ([], True)"
| "any_values (v # vs) = (case (any_value v, any_values vs) of ((w, ok), (ws, oks)) \<Rightarrow> (w # ws, ok \<and> oks))"
| "any_members [] m = (m, True)"
| "any_members ((k, v) # kvs) m =
     (case any_value v of (w, ok) \<Rightarrow> case any_members kvs (assoc_put k w m) of (m', oks) \<Rightarrow> (m', ok \<and> oks))"

definition dec_any_map :: "(string \<times> jval) list decoder" where
  "dec_any_map v old = (case v of JNull \<Rightarrow> ([], True) | JObj kvs \<Rightarrow> any_members kvs old | _ \<Rightarrow> (old, False))"

record cl_capability =
  ca_Capability :: string
  ca_Dimensions :: "string slice"
  ca_Metrics :: "string slice"
  ca_MaxRangeDays :: int
  ca_FreshnessLagDays :: int
  ca_SupportsCursor :: bool
  ca_QuotaHint :: string

definition zero_capability :: cl_capability where
  "zero_capability = \<lparr>ca_Capability = [], ca_Dimensions = nil_slice, ca_Metrics = nil_slice, ca_MaxRangeDays = 0, ca_FreshnessLagDays = 0, ca_SupportsCursor = False, ca_QuotaHint = []\<rparr>"

definition dec_cl_capability :: "cl_capability decoder" where
  "dec_cl_capability = dec_struct
     [field ''capability'' dec_string ca_Capability (\<lambda>x r. r\<lparr>ca_Capability := x\<rparr>),
      field ''dimensions'' (dec_slice dec_string []) ca_Dimensions (\<lambda>x r. r\<lparr>ca_Dimensions := x\<rparr>),
      field ''metrics'' (dec_slice dec_string []) ca_Metrics (\<lambda>x r. r\<lparr>ca_Metrics := x\<rparr>),
      field ''max_range_days'' dec_int64 ca_MaxRangeDays (\<lambda>x r. r\<lparr>ca_MaxRangeDays := x\<rparr>),
      field ''freshness_lag_days'' dec_int64 ca_FreshnessLagDays (\<lambda>x r. r\<lparr>ca_FreshnessLagDays := x\<rparr>),
      field ''supports_cursor'' dec_bool ca_SupportsCursor (\<lambda>x r. r\<lparr>ca_SupportsCursor := x\<rparr>),
      field ''quota_hint'' dec_string ca_QuotaHint (\<lambda>x r. r\<lparr>ca_QuotaHint := x\<rparr>)]"

record cl_setup_link =
  ck_Kind :: string
  ck_Label :: string
  ck_URL :: string
  ck_Description :: string

definition zero_setup_link :: cl_setup_link where
  "zero_setup_link = \<lparr>ck_Kind = [], ck_Label = [], ck_URL = [], ck_Description = []\<rparr>"

definition dec_cl_setup_link :: "cl_setup_link decoder" where
  "dec_cl_setup_link = dec_struct
     [field ''kind'' dec_string ck_Kind (\<lambda>x r. r\<lparr>ck_Kind := x\<rparr>),
      field ''label'' dec_string ck_Label (\<lambda>x r. r\<lparr>ck_Label := x\<rparr>),
      field ''url'' dec_string ck_URL (\<lambda>x r. r\<lparr>ck_URL := x\<rparr>),
      field ''description'' dec_string ck_Description (\<lambda>x r. r\<lparr>ck_Description := x\<rparr>)]"

record cl_provider =
  cv_Name :: string
  cv_DisplayName :: string
  cv_CredentialTypes :: "string slice"
  cv_Capabilities :: "cl_capability slice"
  cv_SetupURL :: string
  cv_DocsURL :: string
  cv_OAuthAvailable :: bool
  cv_SetupLinks :: "cl_setup_link slice"

definition zero_provider :: cl_provider where
  "zero_provider = \<lparr>cv_Name = [], cv_DisplayName = [], cv_CredentialTypes = nil_slice, cv_Capabilities = nil_slice, cv_SetupURL = [], cv_DocsURL = [], cv_OAuthAvailable = False, cv_SetupLinks = nil_slice\<rparr>"

definition dec_cl_provider :: "cl_provider decoder" where
  "dec_cl_provider = dec_struct
     [field ''name'' dec_string cv_Name (\<lambda>x r. r\<lparr>cv_Name := x\<rparr>),
      field ''display_name'' dec_string cv_DisplayName (\<lambda>x r. r\<lparr>cv_DisplayName := x\<rparr>),
      field ''credential_types'' (dec_slice dec_string []) cv_CredentialTypes (\<lambda>x r. r\<lparr>cv_CredentialTypes := x\<rparr>),
      field ''capabilities'' (dec_slice dec_cl_capability zero_capability) cv_Capabilities (\<lambda>x r. r\<lparr>cv_Capabilities := x\<rparr>),
      field ''setup_url'' dec_string cv_SetupURL (\<lambda>x r. r\<lparr>cv_SetupURL := x\<rparr>),
      field ''docs_url'' dec_string cv_DocsURL (\<lambda>x r. r\<lparr>cv_DocsURL := x\<rparr>),
      field ''oauth_available'' dec_bool cv_OAuthAvailable (\<lambda>x r. r\<lparr>cv_OAuthAvailable := x\<rparr>),
      field ''setup_links'' (dec_slice dec_cl_setup_link zero_setup_link) cv_SetupLinks (\<lambda>x r. r\<lparr>cv_SetupLinks := x\<rparr>)]"

record cl_site =
  ct_PublicURL :: string
  ct_SitemapURL :: string
  ct_OAuthCallback :: string

definition zero_site :: cl_site where
  "zero_site = \<lparr>ct_PublicURL = [], ct_SitemapURL = [], ct_OAuthCallback = []\<rparr>"

definition dec_cl_site :: "cl_site decoder" where
  "dec_cl_site = dec_struct
     [field ''public_url'' dec_string ct_PublicURL (\<lambda>x r. r\<lparr>ct_PublicURL := x\<rparr>),
      field ''sitemap_url'' dec_string ct_SitemapURL (\<lambda>x r. r\<lparr>ct_SitemapURL := x\<rparr>),
      field ''oauth_callback'' dec_string ct_OAuthCallback (\<lambda>x r. r\<lparr>ct_OAuthCallback := x\<rparr>)]"

record cl_connection =
  cc_Provider :: string
  cc_Configured :: bool
  cc_Enabled :: bool
  cc_CredentialType :: string
  cc_PropertyReference :: string
  cc_State :: string
  cc_LastSuccessAt :: string
  cc_DataThroughDate :: string
  cc_LastErrorCode :: string
  cc_LastErrorMessage :: string

definition zero_connection :: cl_connection where
  "zero_connection = \<lparr>cc_Provider = [], cc_Configured = False, cc_Enabled = False, cc_CredentialType = [], cc_PropertyReference = [], cc_State = [], cc_LastSuccessAt = [], cc_DataThroughDate = [], cc_LastErrorCode = [], cc_LastErrorMessage = []\<rparr>"

definition dec_cl_connection :: "cl_connection decoder" where
  "dec_cl_connection = dec_struct
     [field ''provider'' dec_string cc_Provider (\<lambda>x r. r\<lparr>cc_Provider := x\<rparr>),
      field ''configured'' dec_bool cc_Configured (\<lambda>x r. r\<lparr>cc_Configured := x\<rparr>),
      field ''enabled'' dec_bool cc_Enabled (\<lambda>x r. r\<lparr>cc_Enabled := x\<rparr>),
      field ''credential_type'' dec_string cc_CredentialType (\<lambda>x r. r\<lparr>cc_CredentialType := x\<rparr>),
      field ''property_reference'' dec_string cc_PropertyReference (\<lambda>x r. r\<lparr>cc_PropertyReference := x\<rparr>),
      field ''state'' dec_string cc_State (\<lambda>x r. r\<lparr>cc_State := x\<rparr>),
      field ''last_success_at'' dec_string cc_LastSuccessAt (\<lambda>x r. r\<lparr>cc_LastSuccessAt := x\<rparr>),
      field ''data_through_date'' dec_string cc_DataThroughDate (\<lambda>x r. r\<lparr>cc_DataThroughDate := x\<rparr>),
      field ''last_error_code'' dec_string cc_LastErrorCode (\<lambda>x r. r\<lparr>cc_LastErrorCode := x\<rparr>),
      field ''last_error_message'' dec_string cc_LastErrorMessage (\<lambda>x r. r\<lparr>cc_LastErrorMessage := x\<rparr>)]"

record cl_property =
  cp_Reference :: string
  cp_DisplayName :: string

definition zero_property :: cl_property where
  "zero_property = \<lparr>cp_Reference = [], cp_DisplayName = []\<rparr>"

definition dec_cl_property :: "cl_property decoder" where
  "dec_cl_property = dec_struct
     [field ''reference'' dec_string cp_Reference (\<lambda>x r. r\<lparr>cp_Reference := x\<rparr>),
      field ''display_name'' dec_string cp_DisplayName (\<lambda>x r. r\<lparr>cp_DisplayName := x\<rparr>)]"

record cl_run =
  cu_ID :: string
  cu_Provider :: string
  cu_Capability :: string
  cu_StartDate :: string
  cu_EndDate :: string
  cu_Status :: string
  cu_RowsSynced :: int
  cu_Cursor :: string
  cu_TriggeredBy :: string
  cu_IdempotencyKey :: string
  cu_ErrorCode :: string
  cu_ErrorMessage :: string
  cu_StartedAt :: string
  cu_FinishedAt :: string

definition zero_run :: cl_run where
  "zero_run = \<lparr>cu_ID = [], cu_Provider = [], cu_Capability = [], cu_StartDate = [], cu_EndDate = [], cu_Status = [], cu_RowsSynced = 0, cu_Cursor = [], cu_TriggeredBy = [], cu_IdempotencyKey = [], cu_ErrorCode = [], cu_ErrorMessage = [], cu_StartedAt = [], cu_FinishedAt = []\<rparr>"

definition dec_cl_run :: "cl_run decoder" where
  "dec_cl_run = dec_struct
     [field ''id'' dec_string cu_ID (\<lambda>x r. r\<lparr>cu_ID := x\<rparr>),
      field ''provider'' dec_string cu_Provider (\<lambda>x r. r\<lparr>cu_Provider := x\<rparr>),
      field ''capability'' dec_string cu_Capability (\<lambda>x r. r\<lparr>cu_Capability := x\<rparr>),
      field ''start_date'' dec_string cu_StartDate (\<lambda>x r. r\<lparr>cu_StartDate := x\<rparr>),
      field ''end_date'' dec_string cu_EndDate (\<lambda>x r. r\<lparr>cu_EndDate := x\<rparr>),
      field ''status'' dec_string cu_Status (\<lambda>x r. r\<lparr>cu_Status := x\<rparr>),
      field ''rows_synced'' dec_int64 cu_RowsSynced (\<lambda>x r. r\<lparr>cu_RowsSynced := x\<rparr>),
      field ''cursor'' dec_string cu_Cursor (\<lambda>x r. r\<lparr>cu_Cursor := x\<rparr>),
      field ''triggered_by'' dec_string cu_TriggeredBy (\<lambda>x r. r\<lparr>cu_TriggeredBy := x\<rparr>),
      field ''idempotency_key'' dec_string cu_IdempotencyKey (\<lambda>x r. r\<lparr>cu_IdempotencyKey := x\<rparr>),
      field ''error_code'' dec_string cu_ErrorCode (\<lambda>x r. r\<lparr>cu_ErrorCode := x\<rparr>),
      field ''error_message'' dec_string cu_ErrorMessage (\<lambda>x r. r\<lparr>cu_ErrorMessage := x\<rparr>),
      field ''started_at'' dec_string cu_StartedAt (\<lambda>x r. r\<lparr>cu_StartedAt := x\<rparr>),
      field ''finished_at'' dec_string cu_FinishedAt (\<lambda>x r. r\<lparr>cu_FinishedAt := x\<rparr>)]"

record cl_report_row =
  cw_Dataset :: string
  cw_Key :: string
  cw_Data :: "(string \<times> jval) list"
  cw_UpdatedAt :: string

definition zero_report_row :: cl_report_row where
  "zero_report_row = \<lparr>cw_Dataset = [], cw_Key = [], cw_Data = [], cw_UpdatedAt = []\<rparr>"

definition dec_cl_report_row :: "cl_report_row decoder" where
  "dec_cl_report_row = dec_struct
     [field ''dataset'' dec_string cw_Dataset (\<lambda>x r. r\<lparr>cw_Dataset := x\<rparr>),
      field ''key'' dec_string cw_Key (\<lambda>x r. r\<lparr>cw_Key := x\<rparr>),
      field ''data'' dec_any_map cw_Data (\<lambda>x r. r\<lparr>cw_Data := x\<rparr>),
      field ''updated_at'' dec_string cw_UpdatedAt (\<lambda>x r. r\<lparr>cw_UpdatedAt := x\<rparr>)]"

text \<open>A struct with one field, such as the variable most methods decode into.\<close>

definition dec_only :: "string \<Rightarrow> 'a decoder \<Rightarrow> 'a decoder" where
  "dec_only name d = dec_struct [field name d id (\<lambda>x _. x)]"

definition dec_two :: "string \<Rightarrow> 'a decoder \<Rightarrow> string \<Rightarrow> 'b decoder \<Rightarrow> ('a \<times> 'b) decoder" where
  "dec_two m d n e = dec_struct [field m d fst (\<lambda>x p. (x, snd p)), field n e snd (\<lambda>y p. (fst p, y))]"

subsection \<open>Requests\<close>

text \<open>\<^verbatim>\<open>http.StatusText\<close>.\<close>

definition status_texts :: "(int \<times> string) list" where
  "status_texts =
     [(100, ''Continue''), (101, ''Switching Protocols''), (102, ''Processing''), (103, ''Early Hints''), (200, ''OK''),
      (201, ''Created''), (202, ''Accepted''), (203, ''Non-Authoritative Information''), (204, ''No Content''),
      (205, ''Reset Content''), (206, ''Partial Content''), (207, ''Multi-Status''), (208, ''Already Reported''), (226, ''IM Used''),
      (300, ''Multiple Choices''), (301, ''Moved Permanently''), (302, ''Found''), (303, ''See Other''), (304, ''Not Modified''),
      (305, ''Use Proxy''), (307, ''Temporary Redirect''), (308, ''Permanent Redirect''), (400, ''Bad Request''),
      (401, ''Unauthorized''), (402, ''Payment Required''), (403, ''Forbidden''), (404, ''Not Found''), (405, ''Method Not Allowed''),
      (406, ''Not Acceptable''), (407, ''Proxy Authentication Required''), (408, ''Request Timeout''), (409, ''Conflict''),
      (410, ''Gone''), (411, ''Length Required''), (412, ''Precondition Failed''), (413, ''Request Entity Too Large''),
      (414, ''Request URI Too Long''), (415, ''Unsupported Media Type''), (416, ''Requested Range Not Satisfiable''),
      (417, ''Expectation Failed''), (418, ''I'm a teapot''), (421, ''Misdirected Request''), (422, ''Unprocessable Entity''),
      (423, ''Locked''), (424, ''Failed Dependency''), (425, ''Too Early''), (426, ''Upgrade Required''),
      (428, ''Precondition Required''), (429, ''Too Many Requests''), (431, ''Request Header Fields Too Large''),
      (451, ''Unavailable For Legal Reasons''), (500, ''Internal Server Error''), (501, ''Not Implemented''), (502, ''Bad Gateway''),
      (503, ''Service Unavailable''), (504, ''Gateway Timeout''), (505, ''HTTP Version Not Supported''),
      (506, ''Variant Also Negotiates''), (507, ''Insufficient Storage''), (508, ''Loop Detected''), (510, ''Not Extended''),
      (511, ''Network Authentication Required'')]"

definition StatusText :: "int \<Rightarrow> string" where
  "StatusText code = (case map_of status_texts code of None \<Rightarrow> [] | Some t \<Rightarrow> t)"

definition problem_text :: "int \<Rightarrow> jval option \<Rightarrow> string" where
  "problem_text status body =
     (let problem = (case body of None \<Rightarrow> [] | Some v \<Rightarrow> fst (dec_only ''error'' dec_string v []))
      in if problem = [] then StatusText status else problem)"

text \<open>\<^verbatim>\<open>http.NewRequestWithContext\<close> drops the colon of an empty port.\<close>

definition removeEmptyPort :: "string \<Rightarrow> string" where
  "removeEmptyPort host = (if has_suffix host '':'' then butlast host else host)"

definition new_request :: "string \<Rightarrow> url \<Rightarrow> jval option \<Rightarrow> string \<Rightarrow> http_request" where
  "new_request meth u input token =
     \<lparr>hq_Method = meth, hq_URL = u\<lparr>u_Host := removeEmptyPort (u_Host u)\<rparr>, hq_Authorization = ''Bearer '' @ token,
      hq_ContentType = map_option (\<lambda>_. ''application/json'') input, hq_Body = input\<rparr>"

text \<open>What \<^verbatim>\<open>do\<close> makes of the answer to its request.\<close>

definition receive :: "http_reply \<Rightarrow> 'a decoder option \<Rightarrow> 'a \<Rightarrow> 'a \<times> client_error option" where
  "receive reply output zero =
     (case reply of
        NoReply e \<Rightarrow> (zero, Some (RequestFailed e))
      | Reply status body \<Rightarrow>
          if status < 200 \<or> status \<ge> 300 then (zero, Some (APIError status (problem_text status body)))
          else (case output of
              None \<Rightarrow> (zero, None)
            | Some d \<Rightarrow>
                (case body of
                   None \<Rightarrow> (zero, Some DecodeResponse)
                 | Some v \<Rightarrow> (case d v zero of (out, ok) \<Rightarrow> (out, if ok then None else Some DecodeResponse)))))"

definition client_do ::
  "client \<Rightarrow> call_env \<Rightarrow> string \<Rightarrow> string \<Rightarrow> jval option \<Rightarrow> 'a decoder option \<Rightarrow> 'a \<Rightarrow> 'a \<times> client_error option" where
  "client_do c env meth path input output zero =
     (case Parse (c_baseURL c @ path) of
        None \<Rightarrow> (zero, Some CreateRequest)
      | Some u \<Rightarrow>
          (case ce_token env of
             Inl e \<Rightarrow> (zero, Some (GetToken e))
           | Inr token \<Rightarrow>
               if trim_space token = [] then (zero, Some EmptyToken)
               else receive (ce_send env (new_request meth u input token)) output zero))"

definition connectionPath :: "string \<Rightarrow> string" where
  "connectionPath provider = ''/api/v0/connections/'' @ PathEscape provider"

definition string_map :: "(string \<times> string) list \<Rightarrow> jval option" where
  "string_map kvs = Some (JObj (map (\<lambda>(k, v). (k, JStr v)) kvs))"

subsection \<open>Methods\<close>

abbreviation dec_list :: "string \<Rightarrow> 'a decoder \<Rightarrow> 'a \<Rightarrow> 'a slice decoder option" where
  "dec_list name d zero \<equiv> Some (dec_only name (dec_slice d zero))"

definition elements :: "'a slice \<times> client_error option \<Rightarrow> 'a list \<times> client_error option" where
  "elements r = (fst (fst r), snd r)"

definition client_Providers :: "client \<Rightarrow> call_env \<Rightarrow> cl_provider list \<times> client_error option" where
  "client_Providers c env = elements (client_do c env ''GET'' ''/api/v0/providers'' None (dec_list ''providers'' dec_cl_provider zero_provider) nil_slice)"

definition client_Site :: "client \<Rightarrow> call_env \<Rightarrow> cl_site \<times> client_error option" where
  "client_Site c env = client_do c env ''GET'' ''/api/v0/site'' None (Some dec_cl_site) zero_site"

definition client_Connections :: "client \<Rightarrow> call_env \<Rightarrow> cl_connection list \<times> client_error option" where
  "client_Connections c env =
     elements (client_do c env ''GET'' ''/api/v0/connections'' None (dec_list ''connections'' dec_cl_connection zero_connection) nil_slice)"

definition client_Properties :: "client \<Rightarrow> call_env \<Rightarrow> string \<Rightarrow> cl_property list \<times> client_error option" where
  "client_Properties c env provider =
     elements (client_do c env ''GET'' (connectionPath provider @ ''/properties'') None (dec_list ''properties'' dec_cl_property zero_property) nil_slice)"

definition client_SetCredential :: "client \<Rightarrow> call_env \<Rightarrow> string \<Rightarrow> string \<Rightarrow> string \<Rightarrow> cl_property list \<times> client_error option" where
  "client_SetCredential c env provider credentialType material =
     elements (client_do c env ''PUT'' (connectionPath provider @ ''/credential'')
       (string_map [(''credential_type'', credentialType), (''material'', material)]) (dec_list ''properties'' dec_cl_property zero_property) nil_slice)"

definition client_SetProperty :: "client \<Rightarrow> call_env \<Rightarrow> string \<Rightarrow> string \<Rightarrow> client_error option" where
  "client_SetProperty c env provider reference =
     snd (client_do c env ''PUT'' (connectionPath provider @ ''/property'') (string_map [(''property_reference'', reference)]) None ())"

definition client_TestConnection :: "client \<Rightarrow> call_env \<Rightarrow> string \<Rightarrow> (bool \<times> string) \<times> client_error option" where
  "client_TestConnection c env provider =
     client_do c env ''POST'' (connectionPath provider @ ''/test'') (Some (JObj [])) (Some (dec_two ''ok'' dec_bool ''error'' dec_string)) (False, [])"

definition client_RevokeConnection :: "client \<Rightarrow> call_env \<Rightarrow> string \<Rightarrow> client_error option" where
  "client_RevokeConnection c env provider = snd (client_do c env ''DELETE'' (connectionPath provider) None None ())"

definition client_StartOAuthWithReturn :: "client \<Rightarrow> call_env \<Rightarrow> string \<Rightarrow> string \<Rightarrow> string \<Rightarrow> (string \<times> string) \<times> client_error option" where
  "client_StartOAuthWithReturn c env provider redirectURI returnTo =
     client_do c env ''POST'' (connectionPath provider @ ''/oauth/start'') (string_map [(''redirect_uri'', redirectURI), (''return_to'', returnTo)])
       (Some (dec_two ''authorize_url'' dec_string ''state'' dec_string)) ([], [])"

definition client_StartOAuth :: "client \<Rightarrow> call_env \<Rightarrow> string \<Rightarrow> string \<Rightarrow> (string \<times> string) \<times> client_error option" where
  "client_StartOAuth c env provider redirectURI = client_StartOAuthWithReturn c env provider redirectURI ''/''"

definition client_CompleteOAuthWithReturn ::
  "client \<Rightarrow> call_env \<Rightarrow> string \<Rightarrow> string \<Rightarrow> string \<Rightarrow> (cl_property list \<times> string) \<times> client_error option" where
  "client_CompleteOAuthWithReturn c env provider state code =
     (case client_do c env ''POST'' (connectionPath provider @ ''/oauth/complete'') (string_map [(''state'', state), (''code'', code)])
        (Some (dec_two ''properties'' (dec_slice dec_cl_property zero_property) ''return_to'' dec_string)) (nil_slice, []) of
        ((properties, returnTo), err) \<Rightarrow> ((fst properties, returnTo), err))"

definition client_CompleteOAuth :: "client \<Rightarrow> call_env \<Rightarrow> string \<Rightarrow> string \<Rightarrow> string \<Rightarrow> cl_property list \<times> client_error option" where
  "client_CompleteOAuth c env provider state code =
     (case client_CompleteOAuthWithReturn c env provider state code of ((properties, _), err) \<Rightarrow> (properties, err))"

definition runs_query :: "string \<Rightarrow> int \<Rightarrow> (string \<times> string) list" where
  "runs_query provider limit =
     (if provider \<noteq> [] then [(''provider'', provider)] else []) @ (if limit > 0 then [(''limit'', itoa limit)] else [])"

definition client_SyncRuns :: "client \<Rightarrow> call_env \<Rightarrow> string \<Rightarrow> int \<Rightarrow> cl_run list \<times> client_error option" where
  "client_SyncRuns c env provider limit =
     (let encoded = Encode (runs_query provider limit) in
      elements (client_do c env ''GET'' (''/api/v0/sync-runs'' @ (if encoded \<noteq> [] then ''?'' @ encoded else [])) None
        (dec_list ''sync_runs'' dec_cl_run zero_run) nil_slice))"

record create_sync_run_request =
  csr_Provider :: string
  csr_Capability :: string
  csr_StartDate :: string
  csr_EndDate :: string
  csr_IdempotencyKey :: string

definition omit_empty :: "string \<Rightarrow> string \<Rightarrow> (string \<times> string) list" where
  "omit_empty k v = (if v = [] then [] else [(k, v)])"

definition client_CreateSyncRun :: "client \<Rightarrow> call_env \<Rightarrow> create_sync_run_request \<Rightarrow> (cl_run \<times> bool) \<times> client_error option" where
  "client_CreateSyncRun c env input =
     client_do c env ''POST'' ''/api/v0/sync-runs''
       (string_map ([(''provider'', csr_Provider input), (''capability'', csr_Capability input)] @ omit_empty ''start_date'' (csr_StartDate input)
          @ omit_empty ''end_date'' (csr_EndDate input) @ omit_empty ''idempotency_key'' (csr_IdempotencyKey input)))
       (Some (dec_two ''sync_run'' dec_cl_run ''already_running'' dec_bool)) (zero_run, False)"

definition client_ReportDatasets :: "client \<Rightarrow> call_env \<Rightarrow> string list \<times> client_error option" where
  "client_ReportDatasets c env =
     elements (client_do c env ''GET'' ''/api/v0/report-datasets'' None (dec_list ''datasets'' dec_string []) nil_slice)"

definition rows_query :: "string \<Rightarrow> int \<Rightarrow> string \<Rightarrow> (string \<times> string) list" where
  "rows_query dataset limit cursor =
     [(''dataset'', dataset)] @ (if limit > 0 then [(''limit'', itoa limit)] else []) @ (if cursor \<noteq> [] then [(''cursor'', cursor)] else [])"

definition client_ReportRowsPage :: "client \<Rightarrow> call_env \<Rightarrow> string \<Rightarrow> int \<Rightarrow> string \<Rightarrow> (cl_report_row list \<times> string) \<times> client_error option" where
  "client_ReportRowsPage c env dataset limit cursor =
     (case client_do c env ''GET'' (''/api/v0/report-rows?'' @ Encode (rows_query dataset limit cursor)) None
        (Some (dec_two ''rows'' (dec_slice dec_cl_report_row zero_report_row) ''next_cursor'' dec_string)) (nil_slice, []) of
        ((rows, nxt), err) \<Rightarrow> ((fst rows, nxt), err))"

definition client_ReportRows :: "client \<Rightarrow> call_env \<Rightarrow> string \<Rightarrow> int \<Rightarrow> cl_report_row list \<times> client_error option" where
  "client_ReportRows c env dataset limit =
     (case client_ReportRowsPage c env dataset limit [] of ((rows, _), err) \<Rightarrow> (rows, err))"

end
