(* ===== verification/Routing.thy ===== *)
theory Routing
  imports Api Client PlainURL
begin

text \<open>
  How a request of the client reaches a handler of the server: the multiplexer of \<^verbatim>\<open>net/http\<close> on the patterns of
  \<^verbatim>\<open>internal/httpapi/server.go\<close>, \<^verbatim>\<open>url.ParseQuery\<close>, and the decoding of request bodies.
\<close>

section \<open>Definitions\<close>

text \<open>\<^verbatim>\<open>URL.Query().Get\<close>: pairs that do not decode, are empty or contain a semicolon are skipped.\<close>

definition query_pair :: "string \<Rightarrow> (string \<times> string) list" where
  "query_pair w =
     (if w = [] \<or> contains_char w (CHR '';'') then []
      else case cut w (CHR ''='') of (k, v, _) \<Rightarrow>
        (case (unescape EncQuery k, unescape EncQuery v) of (Some k', Some v') \<Rightarrow> [(k', v')] | _ \<Rightarrow> []))"

definition lookup :: "(string \<times> string) list \<Rightarrow> string \<Rightarrow> string" where
  "lookup kvs k = (case map_of kvs k of None \<Rightarrow> [] | Some v \<Rightarrow> v)"

definition query_get :: "string \<Rightarrow> string \<Rightarrow> string" where
  "query_get raw = lookup (concat (map query_pair (split_on (CHR ''&'') raw)))"

text \<open>Decoding of a request body, \<open>None\<close> if there is none, it is too long or not JSON.\<close>

definition dec_body :: "'a decoder \<Rightarrow> 'a \<Rightarrow> jval option \<Rightarrow> 'a option" where
  "dec_body d zero body = (case body of None \<Rightarrow> None | Some v \<Rightarrow> (case d v zero of (b, ok) \<Rightarrow> if ok then Some b else None))"

definition dec_create_run :: "create_run_body decoder" where
  "dec_create_run = dec_struct
     [field ''provider'' dec_string crb_Provider (\<lambda>x r. r\<lparr>crb_Provider := x\<rparr>),
      field ''capability'' dec_string crb_Capability (\<lambda>x r. r\<lparr>crb_Capability := x\<rparr>),
      field ''start_date'' dec_string crb_StartDate (\<lambda>x r. r\<lparr>crb_StartDate := x\<rparr>),
      field ''end_date'' dec_string crb_EndDate (\<lambda>x r. r\<lparr>crb_EndDate := x\<rparr>),
      field ''idempotency_key'' dec_string crb_IdempotencyKey (\<lambda>x r. r\<lparr>crb_IdempotencyKey := x\<rparr>)]"

definition dec_set_credential :: "set_credential_body decoder" where
  "dec_set_credential = dec_struct
     [field ''credential_type'' dec_string scb_CredentialType (\<lambda>x r. r\<lparr>scb_CredentialType := x\<rparr>),
      field ''material'' dec_string scb_Material (\<lambda>x r. r\<lparr>scb_Material := x\<rparr>)]"

definition dec_oauth_start :: "oauth_start_body decoder" where
  "dec_oauth_start = dec_struct
     [field ''redirect_uri'' dec_string osb_RedirectURI (\<lambda>x r. r\<lparr>osb_RedirectURI := x\<rparr>),
      field ''return_to'' dec_string osb_ReturnTo (\<lambda>x r. r\<lparr>osb_ReturnTo := x\<rparr>)]"

definition dec_oauth_complete :: "oauth_complete_body decoder" where
  "dec_oauth_complete = dec_struct
     [field ''state'' dec_string ocb_State (\<lambda>x r. r\<lparr>ocb_State := x\<rparr>),
      field ''code'' dec_string ocb_Code (\<lambda>x r. r\<lparr>ocb_Code := x\<rparr>)]"

text \<open>The patterns. A wildcard does not match the segment after a final slash, nor one that decodes to a slash. The second component is \<^verbatim>\<open>PathValue("provider")\<close>.\<close>

definition connection_route :: "string \<Rightarrow> string list \<Rightarrow> jval option \<Rightarrow> route option" where
  "connection_route meth rest body =
     (if meth = ''PUT'' \<and> rest = [''credential''] then
        Some (PutCredential (dec_body dec_set_credential \<lparr>scb_CredentialType = [], scb_Material = []\<rparr> body))
      else if meth = ''PUT'' \<and> rest = [''property''] then Some (PutProperty (dec_body (dec_only ''property_reference'' dec_string) [] body))
      else if (meth = ''GET'' \<or> meth = ''HEAD'') \<and> rest = [''properties''] then Some GetProperties
      else if meth = ''POST'' \<and> rest = [''test''] then Some PostTest
      else if meth = ''DELETE'' \<and> rest = [] then Some DeleteConnection
      else if meth = ''POST'' \<and> rest = [''oauth'', ''start''] then
        Some (PostOAuthStart (dec_body dec_oauth_start \<lparr>osb_RedirectURI = [], osb_ReturnTo = []\<rparr> body))
      else if meth = ''POST'' \<and> rest = [''oauth'', ''complete''] then
        Some (PostOAuthComplete (dec_body dec_oauth_complete \<lparr>ocb_State = [], ocb_Code = []\<rparr> body))
      else None)"

definition plain_route :: "string \<Rightarrow> string list \<Rightarrow> jval option \<Rightarrow> route option" where
  "plain_route meth segs body =
     (if meth = ''GET'' \<or> meth = ''HEAD'' then
        map_of [([''healthz''], GetHealthz), ([''readyz''], GetReadyz), ([''api'', ''v0'', ''providers''], GetProviders),
                ([''api'', ''v0'', ''site''], GetSiteInfo), ([''api'', ''v0'', ''connections''], GetConnections),
                ([''api'', ''v0'', ''sync-runs''], GetSyncRuns), ([''api'', ''v0'', ''report-datasets''], GetReportDatasets),
                ([''api'', ''v0'', ''report-rows''], GetReportRows)] segs
      else if meth = ''POST'' \<and> segs = [''api'', ''v0'', ''sync-runs''] then
        Some (PostSyncRuns (dec_body dec_create_run
          \<lparr>crb_Provider = [], crb_Capability = [], crb_StartDate = [], crb_EndDate = [], crb_IdempotencyKey = []\<rparr> body))
      else None)"

definition route_of :: "string \<Rightarrow> string list \<Rightarrow> jval option \<Rightarrow> (route \<times> string) option" where
  "route_of meth segs body =
     (case plain_route meth segs body of
        Some q \<Rightarrow> Some (q, [])
      | None \<Rightarrow>
          (case segs of
             a # b # c # provider # rest \<Rightarrow>
               if [a, b, c] = [''api'', ''v0'', ''connections''] \<and> provider \<noteq> [] \<and> provider \<noteq> ''/'' then map_option (\<lambda>q. (q, provider)) (connection_route meth rest body) else None
           | _ \<Rightarrow> None))"

definition seg_text :: "string \<Rightarrow> string" where
  "seg_text s = (case unescape EncPathSegment s of None \<Rightarrow> s | Some t \<Rightarrow> t)"

text \<open>A path the multiplexer does not rewrite: no empty segment, except after a final slash, and no dots.\<close>

definition clean_path :: "string list \<Rightarrow> bool" where
  "clean_path segs \<longleftrightarrow> segs \<noteq> [] \<and> [] \<notin> set (butlast segs) \<and> ''.'' \<notin> set segs \<and> ''..'' \<notin> set segs"

text \<open>The target of a request line in origin form, as \<^verbatim>\<open>url.ParseRequestURI\<close> reads it.\<close>

definition request_target :: "string \<Rightarrow> url option" where
  "request_target raw =
     (if contains_ctl raw \<or> \<not> has_prefix raw ''/'' then None
      else case split_query raw of (rest, force, query) \<Rightarrow> setPath rest (no_url\<lparr>u_ForceQuery := force, u_RawQuery := query\<rparr>))"

text \<open>
  \<open>None\<close>: the request is refused, or no pattern of the API matches and the console or the multiplexer itself answers.
  \<open>fits\<close>: the body is within the limit of the handler.
\<close>

definition mux :: "bool \<Rightarrow> string \<Rightarrow> url \<Rightarrow> jval option \<Rightarrow> (route \<times> request) option" where
  "mux fits meth u body =
     (let segs = split_on (CHR ''/'') (EscapedPath u) in
      if hd segs \<noteq> [] \<or> \<not> clean_path (tl segs) then None
      else map_option (\<lambda>(q, provider). (q, \<lparr>rq_Query = query_get (u_RawQuery u), rq_Path = provider\<rparr>))
        (route_of meth (map seg_text (tl segs)) (if fits then body else None)))"

definition dispatch :: "bool \<Rightarrow> http_request \<Rightarrow> (route \<times> request) option" where
  "dispatch fits rq =
     (case request_target (RequestURI (hq_URL rq)) of None \<Rightarrow> None | Some u \<Rightarrow> mux fits (hq_Method rq) u (hq_Body rq))"

section \<open>Characters of escaped texts\<close>

definition seg_char :: "char \<Rightarrow> bool" where
  "seg_char c \<longleftrightarrow> is_alpha c \<or> is_digit c \<or> c \<in> set ''-_.~$&+:=@%''"

definition query_char :: "char \<Rightarrow> bool" where
  "query_char c \<longleftrightarrow> is_alpha c \<or> is_digit c \<or> c \<in> set ''-_.~+%''"

lemma not_escaped_segment: "\<not> shouldEscape c EncPathSegment \<Longrightarrow> seg_char c"
  unfolding shouldEscape_def seg_char_def by (auto split: if_splits)

lemma not_escaped_query: "\<not> shouldEscape c EncQuery \<Longrightarrow> query_char c"
  unfolding shouldEscape_def query_char_def by (auto split: if_splits)

lemma seg_char_alnum: "is_alpha c \<or> is_digit c \<Longrightarrow> seg_char c"
  unfolding seg_char_def by blast

lemma query_char_alnum: "is_alpha c \<or> is_digit c \<Longrightarrow> query_char c"
  unfolding query_char_def by blast

lemma seg_char_mark: "seg_char (CHR ''%'')"
  by (simp add: seg_char_def)

lemma query_char_mark: "query_char (CHR ''%'')" "query_char (CHR ''+'')"
  by (simp_all add: query_char_def)

lemma hex_upper_alnum: "n < 16 \<Longrightarrow> is_alpha (hex_upper n) \<or> is_digit (hex_upper n)"
  by (auto simp: hex_upper_def is_alpha_def is_digit_def byte_def)

lemma escape_char_chars:
  assumes "c \<in> set (escape_char mode d)"
  shows "c = CHR ''%'' \<or> c = CHR ''+'' \<and> mode = EncQuery \<or> is_alpha c \<or> is_digit c \<or> \<not> shouldEscape c mode"
proof -
  have "byte d div 16 < 16" using byte_less [of d] by (simp add: div_less_iff_less_mult)
  then show ?thesis
    using assms hex_upper_alnum [of "byte d div 16"] hex_upper_alnum [of "byte d mod 16"] by (auto simp: escape_char_def split: if_splits)
qed

lemma PathEscape_chars: "list_all seg_char (PathEscape s)"
proof -
  have "seg_char c" if "c \<in> set (escape_char EncPathSegment d)" for c d
    using escape_char_chars [OF that] not_escaped_segment seg_char_alnum seg_char_mark by blast
  then show ?thesis unfolding PathEscape_def escape_def list_all_iff set_concat set_map by blast
qed

lemma QueryEscape_chars: "list_all query_char (QueryEscape s)"
proof -
  have "query_char c" if "c \<in> set (escape_char EncQuery d)" for c d
    using escape_char_chars [OF that] not_escaped_query query_char_alnum query_char_mark by blast
  then show ?thesis unfolding QueryEscape_def escape_def list_all_iff set_concat set_map by blast
qed

lemma seg_char_bytes: "seg_char c \<Longrightarrow> 32 < byte c \<and> byte c < 127"
  by (auto simp: seg_char_def is_alpha_def is_digit_def byte_def)

lemma seg_char_not: "\<not> seg_char (CHR ''/'')" "\<not> seg_char (CHR ''?'')" "\<not> seg_char (CHR ''#'')"
  by (simp_all add: seg_char_def is_alpha_def is_digit_def byte_def)

lemma query_char_bytes: "query_char c \<Longrightarrow> 32 < byte c \<and> byte c < 127"
  by (auto simp: query_char_def is_alpha_def is_digit_def byte_def)

lemma query_char_not: "\<not> query_char (CHR ''&'')" "\<not> query_char (CHR ''='')" "\<not> query_char (CHR '';'')" "\<not> query_char (CHR ''?'')"
  "\<not> query_char (CHR ''#'')"
  by (simp_all add: query_char_def is_alpha_def is_digit_def byte_def)

lemma seg_char_valid: "seg_char c \<Longrightarrow> valid_encoded_char EncPath c"
  unfolding seg_char_def valid_encoded_char_def shouldEscape_def by auto

section \<open>Query strings\<close>

lemma query_pair_encoded: "query_pair (QueryEscape k @ ''='' @ QueryEscape v) = [(k, v)]"
proof -
  note chars = QueryEscape_chars [of k, unfolded list_all_iff] QueryEscape_chars [of v, unfolded list_all_iff]
  have "CHR ''='' \<notin> set (QueryEscape k)" "CHR '';'' \<notin> set (QueryEscape k)" "CHR '';'' \<notin> set (QueryEscape v)"
    using chars query_char_not by blast+
  then show ?thesis
    using cut_found [of "CHR ''=''" "QueryEscape k" "QueryEscape v"]
    by (simp add: query_pair_def contains_char_def QueryEscape_def unescape_escape)
qed

lemma pair_no_amp: "CHR ''&'' \<notin> set (QueryEscape k @ ''='' @ QueryEscape v)"
  using QueryEscape_chars [of k] QueryEscape_chars [of v] query_char_not by (auto simp: list_all_iff)

lemma query_get_Encode:
  assumes "distinct (map fst vs)"
  shows "query_get (Encode vs) = lookup vs"
proof (cases "vs = []")
  case False
  let ?ws = "map (\<lambda>(k, v). QueryEscape k @ ''='' @ QueryEscape v) (sort_key fst vs)"
  have "sort_key fst vs \<noteq> []" using False by (metis length_0_conv length_sort)
  then have "split_on (CHR ''&'') (Encode vs) = ?ws"
    unfolding Encode_def using pair_no_amp by (intro split_join) auto
  then have "concat (map query_pair (split_on (CHR ''&'') (Encode vs))) = sort_key fst vs"
    by (simp add: comp_def case_prod_unfold query_pair_encoded [simplified] concat_map_singleton)
  moreover have "map_of (sort_key fst vs) = map_of vs"
    using assms by (intro map_of_inject_set [THEN iffD2]) (simp_all add: distinct_map)
  ultimately show ?thesis by (simp add: query_get_def lookup_def fun_eq_iff)
qed (simp add: query_get_def Encode_def query_pair_def lookup_def fun_eq_iff)

section \<open>URLs of requests\<close>

definition plain_host :: "string \<Rightarrow> bool" where
  "plain_host s = (case cut s (CHR '':'') of (name, port, _) \<Rightarrow> name \<noteq> [] \<and> list_all plain_char name \<and> list_all is_digit port)"

definition target_char :: "char \<Rightarrow> bool" where
  "target_char c \<longleftrightarrow> seg_char c \<or> c = CHR ''/''"

definition pair_char :: "char \<Rightarrow> bool" where
  "pair_char c \<longleftrightarrow> query_char c \<or> c = CHR ''&'' \<or> c = CHR ''=''"

definition query_part :: "string \<Rightarrow> string" where
  "query_part q = (if q = [] then [] else ''?'' @ q)"

lemma digit_plain: "is_digit c \<Longrightarrow> plain_char c"
  by (simp add: plain_char_def)

lemma plain_host_cases:
  assumes "plain_host s"
  obtains "s \<noteq> []" "list_all plain_char s"
  | name port where "s = name @ CHR '':'' # port" "name \<noteq> []" "list_all plain_char name" "list_all is_digit port"
proof (cases "CHR '':'' \<in> set s")
  case True
  then obtain name port where s: "s = name @ CHR '':'' # port" "CHR '':'' \<notin> set name" by (metis split_list_first)
  then show ?thesis using assms cut_found [OF s(2)] that(2) by (auto simp: plain_host_def)
next
  case False
  then show ?thesis using assms that(1) by (simp add: plain_host_def cut_absent)
qed

lemma plain_host_chars: "plain_host s \<Longrightarrow> c \<in> set s \<Longrightarrow> plain_char c \<or> c = CHR '':''"
  by (erule plain_host_cases) (auto simp: list_all_iff digit_plain)

lemma plain_host_not_special:
  assumes "plain_host s" "c \<in> set special_chars" "c \<noteq> CHR '':''"
  shows "c \<notin> set s"
  using plain_host_chars [OF assms(1)] special_char assms(2,3) by blast

lemma host_char: "plain_char c \<or> c = CHR '':'' \<Longrightarrow> \<not> shouldEscape c EncHost \<and> c \<noteq> CHR ''%''"
proof -
  have "\<not> shouldEscape (CHR '':'') EncHost" "\<not> plain_char (CHR ''%'')"
    by (simp_all add: shouldEscape_def plain_char_def is_alpha_def is_digit_def byte_def)
  then show "plain_char c \<or> c = CHR '':'' \<Longrightarrow> \<not> shouldEscape c EncHost \<and> c \<noteq> CHR ''%''" using plain_not_escaped by auto
qed

lemma unescape_host_port: "\<forall>c \<in> set h. plain_char c \<or> c = CHR '':'' \<Longrightarrow> unescape EncHost h = Some h"
  by (induction h) (auto simp: host_char)

lemma escape_host_port: "\<forall>c \<in> set h. plain_char c \<or> c = CHR '':'' \<Longrightarrow> escape EncHost h = h"
  by (induction h) (auto simp: escape_def escape_char_def host_char)

lemma split_last_found: "c \<notin> set b \<Longrightarrow> split_last c (a @ c # b) = Some (a, c # b)"
  by (simp add: split_last_def takeWhile_append dropWhile_append)

lemma parseAuthority_host:
  assumes "plain_host h"
  shows "parseAuthority h = Some (None, h)"
proof -
  have no: "CHR ''@'' \<notin> set h" "CHR ''['' \<notin> set h" using plain_host_not_special [OF assms] by (simp_all add: special_chars_def)
  have port: "case split_last (CHR '':'') h of None \<Rightarrow> True | Some (_, colonPort) \<Rightarrow> validOptionalPort colonPort"
    using assms
  proof (cases rule: plain_host_cases)
    case 1
    then have "CHR '':'' \<notin> set h" using plain_not_special [of h "CHR '':''"] by (simp add: special_chars_def)
    then show ?thesis by (simp add: split_last_def)
  next
    case (2 name port)
    then have "CHR '':'' \<notin> set port" by (auto simp: list_all_iff is_digit_def byte_def)
    from split_last_found [OF this, of name] show ?thesis using 2 by (simp add: validOptionalPort_def)
  qed
  have "unescape EncHost h = Some h" using unescape_host_port plain_host_chars [OF assms] by blast
  then show ?thesis using no port by (auto simp: parseAuthority_def parseHost_def split_last_def split: option.splits)
qed

lemma split_query_part:
  assumes "CHR ''?'' \<notin> set r" "CHR ''?'' \<notin> set q"
  shows "split_query (r @ query_part q) = (r, False, q)"
proof (cases "q = []")
  case True
  have "r = [] \<or> last r \<noteq> CHR ''?''" using assms(1) last_in_set by metis
  then show ?thesis using True cut_absent [OF assms(1)] by (auto simp: split_query_def query_part_def)
next
  case False
  then have "last q \<noteq> CHR ''?''" using assms(2) last_in_set by metis
  then show ?thesis using False cut_found [OF assms(1), of q] by (simp add: split_query_def query_part_def)
qed

lemma parse_url_absolute:
  assumes "sch = ''https'' \<or> sch = ''http''" "\<not> contains_ctl rest"
  shows "parse_url (sch @ '':'' @ rest) =
    (case split_query rest of (r, force, q) \<Rightarrow> parse_rest sch r (no_url\<lparr>u_Scheme := sch, u_ForceQuery := force, u_RawQuery := q\<rparr>))"
proof -
  have "get_scheme True [] (sch @ '':'' @ rest) = Some (sch, rest)" "to_lower sch = sch" "\<not> contains_ctl sch" "sch @ '':'' @ rest \<noteq> ''*''"
    using assms(1) by (auto simp: is_alpha_def is_digit_def byte_def to_lower_def lower_char_def contains_ctl_def)
  moreover from this have "\<not> contains_ctl (sch @ '':'' @ rest)" using assms(2) by (auto simp: contains_ctl_def byte_def)
  ultimately show ?thesis by (simp add: parse_url_def Let_def)
qed

lemma parse_rest_host:
  assumes "plain_host h" "p = [] \<or> hd p = CHR ''/''" "sch \<noteq> []"
  shows "parse_rest sch (''//'' @ h @ p) u = setPath p (u\<lparr>u_User := None, u_Host := h\<rparr>)"
proof -
  have slash: "\<forall>c \<in> set h. c \<noteq> CHR ''/''" using plain_host_not_special [OF assms(1), of "CHR ''/''"] by (auto simp: special_chars_def)
  have "takeWhile (\<lambda>c. c \<noteq> CHR ''/'') (h @ p) = h \<and> dropWhile (\<lambda>c. c \<noteq> CHR ''/'') (h @ p) = p"
    using assms(2) slash by (cases p) (auto simp: takeWhile_append2 dropWhile_append2 takeWhile_eq_all_conv)
  then show ?thesis using assms(3) by (simp add: parse_rest_def has_prefix_def parseAuthority_host [OF assms(1)] Let_def)
qed

text \<open>The characters of a URL of the client.\<close>

definition url_char :: "char \<Rightarrow> bool" where
  "url_char c \<longleftrightarrow> 32 \<le> byte c \<and> byte c < 127 \<and> c \<noteq> CHR ''#'' \<and> c \<noteq> CHR ''?''"

lemma url_char_slash: "url_char (CHR ''/'')" "url_char (CHR '':'')" "url_char (CHR ''&'')" "url_char (CHR ''='')"
  by (simp_all add: url_char_def byte_def)

lemma url_char_host: "plain_char c \<Longrightarrow> url_char c"
  using plain_char_bytes [of c] special_char [of c] by (auto simp: url_char_def special_chars_def)

lemma url_char_target:
  assumes "target_char c"
  shows "url_char c"
proof (cases "c = CHR ''/''")
  case False
  then have s: "seg_char c" using assms unfolding target_char_def by blast
  then have "c \<noteq> CHR ''#''" "c \<noteq> CHR ''?''" using seg_char_not(2,3) by metis+
  then show ?thesis unfolding url_char_def using seg_char_bytes [OF s] by simp
qed (simp add: url_char_slash)

lemma url_char_pair:
  assumes "pair_char c"
  shows "url_char c"
proof (cases "c = CHR ''&'' \<or> c = CHR ''=''")
  case True
  then show ?thesis using url_char_slash(3,4) by (elim disjE) simp_all
next
  case False
  then have s: "query_char c" using assms unfolding pair_char_def by blast
  then have "c \<noteq> CHR ''#''" "c \<noteq> CHR ''?''" using query_char_not(4,5) by metis+
  then show ?thesis unfolding url_char_def using query_char_bytes [OF s] by simp
qed

lemma url_char_byte: "url_char c \<Longrightarrow> \<not> (byte c < 32 \<or> byte c = 127)"
  unfolding url_char_def by linarith

lemma url_char_no_ctl: "list_all url_char s \<Longrightarrow> \<not> contains_ctl s"
  unfolding contains_ctl_def list_ex_iff list_all_iff using url_char_byte by blast

lemma url_char_absent: "list_all url_char s \<Longrightarrow> CHR ''#'' \<notin> set s" "list_all url_char s \<Longrightarrow> CHR ''?'' \<notin> set s"
  unfolding url_char_def list_all_iff by blast+

lemma contains_ctl_append: "contains_ctl (s @ t) \<longleftrightarrow> contains_ctl s \<or> contains_ctl t"
  by (simp add: contains_ctl_def)

lemma url_chars:
  assumes "plain_host h" "list_all target_char p" "list_all pair_char q"
  shows "\<not> contains_ctl (''//'' @ h @ p @ query_part q)" "CHR ''#'' \<notin> set (''//'' @ h @ p @ query_part q)"
    "CHR ''?'' \<notin> set (''//'' @ h @ p)" "CHR ''?'' \<notin> set q"
proof -
  have h: "list_all url_char h" unfolding list_all_iff using plain_host_chars [OF assms(1)] url_char_host url_char_slash(2) by blast
  have p: "list_all url_char p" using assms(2) url_char_target unfolding list_all_iff by blast
  have q: "list_all url_char q" using assms(3) url_char_pair unfolding list_all_iff by blast
  have hp: "list_all url_char (''//'' @ h @ p)" using h p url_char_slash(1) by simp
  show "CHR ''?'' \<notin> set (''//'' @ h @ p)" by (rule url_char_absent(2) [OF hp])
  show "CHR ''?'' \<notin> set q" by (rule url_char_absent(2) [OF q])
  have "CHR ''#'' \<notin> set (query_part q)" using url_char_absent(1) [OF q] by (simp add: query_part_def)
  then show "CHR ''#'' \<notin> set (''//'' @ h @ p @ query_part q)" using url_char_absent(1) [OF hp] by simp
  have "\<not> contains_ctl (query_part q)" using url_char_no_ctl [OF q] by (simp add: query_part_def contains_ctl_def byte_def)
  then show "\<not> contains_ctl (''//'' @ h @ p @ query_part q)"
    using url_char_no_ctl [OF hp] contains_ctl_append [of "''//'' @ h @ p" "query_part q"] by simp
qed

lemma Parse_request:
  assumes "plain_host h" "p = [] \<or> hd p = CHR ''/''" "list_all target_char p" "list_all pair_char q" "sch = ''https'' \<or> sch = ''http''"
  shows "Parse (sch @ ''://'' @ h @ p @ query_part q) = setPath p (no_url\<lparr>u_Scheme := sch, u_RawQuery := q, u_Host := h\<rparr>)"
proof -
  note chars = url_chars [OF assms(1,3,4)]
  have sch: "sch \<noteq> []" "CHR ''#'' \<notin> set sch" using assms(5) by auto
  let ?raw = "sch @ '':'' @ ''//'' @ h @ p @ query_part q"
  have u: "no_url\<lparr>u_Scheme := sch, u_ForceQuery := False, u_RawQuery := q, u_User := None, u_Host := h\<rparr> = no_url\<lparr>u_Scheme := sch, u_RawQuery := q, u_Host := h\<rparr>"
    by (simp add: no_url_def)
  have "parse_url ?raw = setPath p (no_url\<lparr>u_Scheme := sch, u_RawQuery := q, u_Host := h\<rparr>)"
    using parse_url_absolute [OF assms(5) chars(1)] split_query_part [OF chars(3,4)] parse_rest_host [OF assms(1,2) sch(1)] u by simp
  moreover have "cut ?raw (CHR ''#'') = (?raw, [], False)" using chars(2) sch(2) by (intro cut_absent) auto
  ultimately show ?thesis by (simp add: Parse_def split: option.splits)
qed

lemma unescape_segment: "unescape EncPath s = unescape EncPathSegment s"
  by (induction EncPath s rule: unescape.induct) (auto simp: escape_ok_def split: list.splits option.splits)

lemma unescape_PathEscape: "unescape EncPath (PathEscape s @ t) = map_option ((@) s) (unescape EncPath t)"
proof -
  have "unescape EncPathSegment (escape EncPathSegment s @ t) = map_option ((@) s) (unescape EncPathSegment t)"
    by (induction s) (simp_all add: escape_def unescape_escape_char option.map_comp comp_def option.map_ident)
  then show ?thesis by (simp add: PathEscape_def unescape_segment)
qed

subsection \<open>Paths\<close>

definition path_of :: "string list \<Rightarrow> string" where
  "path_of segs = concat (map (\<lambda>s. CHR ''/'' # PathEscape s) segs)"

definition proper_segment :: "string \<Rightarrow> bool" where
  "proper_segment s \<longleftrightarrow> s \<noteq> [] \<and> s \<noteq> ''.'' \<and> s \<noteq> ''..''"

lemma seg_text_PathEscape: "seg_text (PathEscape s) = s"
  by (simp add: seg_text_def PathEscape_def unescape_escape)

lemma split_path_of: "split_on (CHR ''/'') (path_of segs) = [] # map PathEscape segs"
proof (induction segs)
  case (Cons s segs)
  have "split_on (CHR ''/'') (PathEscape s @ path_of segs) = PathEscape s # map PathEscape segs"
  proof (cases segs)
    case Nil
    then show ?thesis by (simp add: path_of_def PathEscape_no_slash)
  next
    case (Cons t ts)
    then show ?thesis
      using Cons.IH split_on_nosep_append [OF PathEscape_no_slash(1), of s "PathEscape t @ path_of ts"] by (simp add: path_of_def)
  qed
  then show ?case by (simp add: path_of_def)
qed (simp add: path_of_def)

lemma PathEscape_proper: "proper_segment s \<Longrightarrow> proper_segment (PathEscape s)"
proof -
  have "PathEscape [] = []" "PathEscape ''.'' = ''.''" "PathEscape ''..'' = ''..''"
    by (simp_all add: PathEscape_def escape_def escape_char_def shouldEscape_def is_alpha_def is_digit_def byte_def)
  then show "proper_segment s \<Longrightarrow> proper_segment (PathEscape s)" unfolding proper_segment_def by (metis seg_text_PathEscape)
qed

lemma clean_path_of:
  assumes "segs \<noteq> []" "list_all proper_segment segs"
  shows "clean_path (map PathEscape segs)"
proof -
  have p: "\<forall>s \<in> set (map PathEscape segs). proper_segment s" using assms(2) PathEscape_proper by (auto simp: list_all_iff)
  then have "[] \<notin> set (butlast (map PathEscape segs))" using in_set_butlastD [of "[]" "map PathEscape segs"] by (metis proper_segment_def)
  then show ?thesis using assms(1) p unfolding clean_path_def proper_segment_def by blast
qed

lemma path_of_chars: "list_all target_char (path_of segs)"
  using PathEscape_chars by (induction segs) (auto simp: path_of_def target_char_def list_all_iff)

lemma unescape_path_of: "unescape EncPath (path_of segs) = Some (concat (map (\<lambda>s. CHR ''/'' # s) segs))"
  by (induction segs) (simp_all add: path_of_def unescape_PathEscape)

lemma Encode_chars: "list_all pair_char (Encode vs)"
proof -
  have "list_all pair_char (join ''&'' ws)" if "list_all (list_all pair_char) ws" for ws
    using that by (induction "''&''" ws rule: join.induct) (auto simp: pair_char_def)
  moreover have "list_all pair_char (QueryEscape k @ ''='' @ QueryEscape v)" for k v
    using QueryEscape_chars [of k] QueryEscape_chars [of v] by (auto simp: pair_char_def list_all_iff)
  ultimately show ?thesis unfolding Encode_def by (simp add: list_all_length case_prod_unfold del: list_all_append)
qed

lemma target_valid: "list_all target_char p \<Longrightarrow> validEncoded EncPath p"
proof -
  have "valid_encoded_char EncPath (CHR ''/'')" by (simp add: valid_encoded_char_def shouldEscape_def)
  then show "list_all target_char p \<Longrightarrow> validEncoded EncPath p"
    unfolding validEncoded_def list_all_iff target_char_def using seg_char_valid by blast
qed

subsection \<open>From the client to the handler\<close>

lemma setPath_path_of:
  assumes "segs \<noteq> []"
  obtains u' where "setPath (path_of segs) u = Some u'" "EscapedPath u' = path_of segs" "u_RawQuery u' = u_RawQuery u"
    "u_Opaque u' = u_Opaque u" "u_ForceQuery u' = u_ForceQuery u"
proof -
  obtain u' where u': "setPath (path_of segs) u = Some u'" using unescape_path_of [of segs] by (simp add: setPath_def)
  have "u_Path u' \<noteq> ''*''" using u' assms unescape_path_of [of segs] by (cases segs) (auto simp: setPath_def)
  then show thesis using that [OF u'] EscapedPath_setPath [OF u'] target_valid [OF path_of_chars] u' by (auto simp: setPath_def split: option.splits)
qed

lemma request_target_path:
  assumes "segs \<noteq> []"
  obtains u where "request_target (path_of segs @ query_part (Encode vs)) = Some u" "EscapedPath u = path_of segs" "u_RawQuery u = Encode vs"
proof -
  have chars: "list_all url_char (path_of segs)" "list_all url_char (Encode vs)"
    using path_of_chars Encode_chars url_char_target url_char_pair unfolding list_all_iff by blast+
  have "\<not> contains_ctl (query_part (Encode vs))" using url_char_no_ctl [OF chars(2)] by (simp add: query_part_def contains_ctl_def byte_def)
  then have ctl: "\<not> contains_ctl (path_of segs @ query_part (Encode vs))" using url_char_no_ctl [OF chars(1)] by (simp add: contains_ctl_append)
  have slash: "has_prefix (path_of segs @ query_part (Encode vs)) ''/''" using assms by (cases segs) (simp_all add: path_of_def has_prefix_def)
  obtain u where "setPath (path_of segs) (no_url\<lparr>u_ForceQuery := False, u_RawQuery := Encode vs\<rparr>) = Some u" "EscapedPath u = path_of segs"
    "u_RawQuery u = Encode vs"
    by (rule setPath_path_of [OF assms, of "no_url\<lparr>u_ForceQuery := False, u_RawQuery := Encode vs\<rparr>"]) auto
  then show thesis
    using that ctl slash split_query_part [OF url_char_absent(2) [OF chars(1)] url_char_absent(2) [OF chars(2)]] by (simp add: request_target_def)
qed

lemma mux_path:
  assumes "segs \<noteq> []" "list_all proper_segment segs" "EscapedPath u = path_of segs" "u_RawQuery u = Encode vs" "distinct (map fst vs)"
  shows "mux fits meth u body =
    map_option (\<lambda>(q, provider). (q, \<lparr>rq_Query = lookup vs, rq_Path = provider\<rparr>)) (route_of meth segs (if fits then body else None))"
  using clean_path_of [OF assms(1,2)] assms(3,4) query_get_Encode [OF assms(5)]
  by (simp add: mux_def split_path_of comp_def seg_text_PathEscape)

lemma RequestURI_host: "RequestURI (u\<lparr>u_Host := h\<rparr>) = RequestURI u"
  by (simp add: RequestURI_def EscapedPath_def query_text_def)

lemma dispatch_path:
  assumes "plain_host h" "sch = ''https'' \<or> sch = ''http''" "segs \<noteq> []" "list_all proper_segment segs" "distinct (map fst vs)"
  obtains u where "Parse (sch @ ''://'' @ h @ path_of segs @ query_part (Encode vs)) = Some u"
    "\<forall>fits meth body token. dispatch fits (new_request meth u body token) =
      map_option (\<lambda>(q, provider). (q, \<lparr>rq_Query = lookup vs, rq_Path = provider\<rparr>)) (route_of meth segs (if fits then body else None))"
proof -
  let ?u = "no_url\<lparr>u_Scheme := sch, u_RawQuery := Encode vs, u_Host := h\<rparr>"
  have hd: "path_of segs = [] \<or> hd (path_of segs) = CHR ''/''" "path_of segs \<noteq> []" using assms(3) by (cases segs; simp add: path_of_def)+
  obtain u where u: "setPath (path_of segs) ?u = Some u" "EscapedPath u = path_of segs" "u_RawQuery u = Encode vs" "u_Opaque u = []" "\<not> u_ForceQuery u"
    by (rule setPath_path_of [OF assms(3), of ?u]) (auto simp: no_url_def)
  then have "RequestURI u = path_of segs @ query_part (Encode vs)" using hd(2) by (simp add: RequestURI_def query_text_def query_part_def)
  then have uri: "RequestURI (hq_URL (new_request meth u body token)) = path_of segs @ query_part (Encode vs)" for meth body token
    by (simp add: new_request_def RequestURI_host)
  obtain v where v: "request_target (path_of segs @ query_part (Encode vs)) = Some v" "EscapedPath v = path_of segs" "u_RawQuery v = Encode vs"
    by (rule request_target_path [OF assms(3)])
  have "dispatch fits (new_request meth u body token) =
      map_option (\<lambda>(q, provider). (q, \<lparr>rq_Query = lookup vs, rq_Path = provider\<rparr>)) (route_of meth segs (if fits then body else None))"
    for fits meth body token
    unfolding dispatch_def uri v(1) using mux_path [OF assms(3,4) v(2,3) assms(5)] by (simp add: new_request_def)
  then show thesis using that u(1) Parse_request [OF assms(1) hd(1) path_of_chars Encode_chars assms(2)] by simp
qed

end
