(* ===== verification/ClientRead.thy ===== *)
theory ClientRead
  imports Routing
begin

text \<open>
  What the client reads in the documents that the handlers write: every field comes back, fields that were omitted because they
  are empty included.
\<close>

section \<open>Field names\<close>

definition name_char :: "char \<Rightarrow> bool" where
  "name_char c \<longleftrightarrow> c = CHR ''_'' \<or> 97 \<le> byte c \<and> byte c \<le> 122"

lemma name_char_plain: "name_char c \<Longrightarrow> lower_char c = c \<and> c \<noteq> CHR 0xC5 \<and> c \<noteq> CHR 0xE2"
  by (auto simp: name_char_def lower_char_def byte_def)

lemma ascii_fold_name: "list_all name_char s \<Longrightarrow> ascii_fold s = s"
  by (induction s rule: ascii_fold.induct) (auto dest: name_char_plain)

lemma to_lower_name: "list_all name_char s \<Longrightarrow> to_lower s = s"
  by (induction s) (auto simp: to_lower_def name_char_plain)

lemma equal_fold_name: "list_all name_char s \<Longrightarrow> list_all name_char t \<Longrightarrow> equal_fold s t \<longleftrightarrow> s = t"
  by (simp add: equal_fold_def ascii_fold_name to_lower_name)

lemma find_field: "list_all (\<lambda>f. list_all name_char (fst f)) fs \<Longrightarrow> list_all name_char k \<Longrightarrow>
    find (\<lambda>f. equal_fold (fst f) k) fs = map_option (Pair k) (map_of fs k)"
  by (induction fs) (auto simp: equal_fold_name)

text \<open>Members whose names are exactly those of the fields.\<close>

definition store :: "'a field list \<Rightarrow> string \<times> jval \<Rightarrow> 'a \<times> bool \<Rightarrow> 'a \<times> bool" where
  "store fs kv acc =
     (case map_of fs (fst kv) of None \<Rightarrow> acc | Some d \<Rightarrow> (case d (snd kv) (fst acc) of (a, ok) \<Rightarrow> (a, snd acc \<and> ok)))"

lemma dec_struct_store:
  assumes "list_all (\<lambda>f. list_all name_char (fst f)) fs" "list_all (\<lambda>kv. list_all name_char (fst kv)) kvs"
  shows "dec_struct fs (JObj kvs) old = fold (store fs) kvs (old, True)"
proof -
  have "dec_member fs kv = store fs kv" if "kv \<in> set kvs" for kv
    using find_field [OF assms(1), of "fst kv"] that assms(2)
    by (auto simp: dec_member_def store_def fun_eq_iff list_all_iff split: option.splits)
  then have "fold (dec_member fs) kvs (old, True) = fold (store fs) kvs (old, True)" by (intro fold_cong) auto
  then show ?thesis by (simp add: dec_struct_def)
qed

text \<open>An omitted member counts as an empty one if storing that would change nothing.\<close>

lemma store_omit_str: "store fs (k, JStr []) acc = acc \<Longrightarrow> fold (store fs) (omit_str k v) acc = store fs (k, JStr v) acc"
  by (simp add: omit_str_def)

lemma store_omit_strs: "store fs (k, JArr []) acc = acc \<Longrightarrow> fold (store fs) (omit_strs k vs) acc = store fs (k, JArr (map JStr vs)) acc"
  by (simp add: omit_strs_def)

lemma store_omit_int: "store fs (k, JInt 0) acc = acc \<Longrightarrow> fold (store fs) (omit_int k i) acc = store fs (k, JInt i) acc"
  by (simp add: omit_int_def)

lemma omit_names [simp]:
  "list_all (\<lambda>kv. list_all name_char (fst kv)) (omit_str k v) \<longleftrightarrow> v = [] \<or> list_all name_char k"
  "list_all (\<lambda>kv. list_all name_char (fst kv)) (omit_strs k vs) \<longleftrightarrow> vs = [] \<or> list_all name_char k"
  "list_all (\<lambda>kv. list_all name_char (fst kv)) (omit_int k i) \<longleftrightarrow> i = 0 \<or> list_all name_char k"
  by (simp_all add: omit_str_def omit_strs_def omit_int_def)

lemma dec_string_str [simp]: "dec_string (JStr s) old = (s, True)"
  by (simp add: dec_string_def)

lemma dec_bool_bool [simp]: "dec_bool (JBool b) old = (b, True)"
  by (simp add: dec_bool_def)

lemma dec_int64_int [simp]: "min_int64 \<le> i \<Longrightarrow> i \<le> max_int64 \<Longrightarrow> dec_int64 (JInt i) old = (i, True)"
  by (simp add: dec_int64_def)

lemmas store_simps = store_omit_str store_omit_strs store_omit_int

section \<open>Documents\<close>

definition run_view :: "sync_run \<Rightarrow> cl_run" where
  "run_view r = \<lparr>cu_ID = sr_ID r, cu_Provider = sr_Provider r, cu_Capability = sr_Capability r, cu_StartDate = format_date (sr_StartDate r),
     cu_EndDate = format_date (sr_EndDate r), cu_Status = sync_status_text (sr_Status r), cu_RowsSynced = sr_RowsSynced r, cu_Cursor = sr_Cursor r,
     cu_TriggeredBy = sr_TriggeredBy r, cu_IdempotencyKey = sr_IdempotencyKey r, cu_ErrorCode = error_code_text (sr_ErrorCode r),
     cu_ErrorMessage = sr_ErrorMessage r, cu_StartedAt = format_time (sr_StartedAt r),
     cu_FinishedAt = (case sr_FinishedAt r of None \<Rightarrow> [] | Some t \<Rightarrow> format_time t)\<rparr>"

lemma read_property: "dec_cl_property (property_json p) zero_property = (\<lparr>cp_Reference = pr_Reference p, cp_DisplayName = pr_DisplayName p\<rparr>, True)"
  unfolding dec_cl_property_def property_json_def zero_property_def
  by (subst dec_struct_store) (simp_all add: field_def name_char_def byte_def store_def)

lemma read_run:
  assumes "min_int64 \<le> sr_RowsSynced r" "sr_RowsSynced r \<le> max_int64"
  shows "dec_cl_run (runToJSON r) zero_run = (run_view r, True)"
  unfolding dec_cl_run_def runToJSON_def zero_run_def run_view_def
  by (subst dec_struct_store) (simp_all add: assms field_def name_char_def byte_def store_def store_simps)

definition connection_view :: "gotime \<Rightarrow> provider_connection \<Rightarrow> cl_connection" where
  "connection_view now c = \<lparr>cc_Provider = pc_Provider c, cc_Configured = (cr_ID (pc_CredentialRef c) \<noteq> []), cc_Enabled = pc_Enabled c,
     cc_CredentialType = cr_Type (pc_CredentialRef c), cc_PropertyReference = pc_PropertyReference c, cc_State = connectionState now c,
     cc_LastSuccessAt = (case pc_LastSuccessAt c of None \<Rightarrow> [] | Some t \<Rightarrow> format_time t),
     cc_DataThroughDate = (case pc_DataThroughDate c of None \<Rightarrow> [] | Some t \<Rightarrow> format_date t),
     cc_LastErrorCode = error_code_text (pc_LastErrorCode c), cc_LastErrorMessage = pc_LastErrorMessage c\<rparr>"

lemma read_connection: "dec_cl_connection (connectionToJSON now c) zero_connection = (connection_view now c, True)"
  unfolding dec_cl_connection_def connectionToJSON_def zero_connection_def connection_view_def
  by (subst dec_struct_store) (simp_all add: field_def name_char_def byte_def store_def store_simps)

text \<open>A slice of a document that was read, and the slice the server had: the zero value stands for both \<^verbatim>\<open>nil\<close> and an absent member.\<close>

lemma read_slice:
  assumes "\<forall>x \<in> set xs. d (f x) zero = (g x, True)"
  shows "dec_slice d zero (JArr (map f xs)) nil_slice = ((map g xs, []), True)"
    and "dec_slice d zero (json_slice (map f xs)) nil_slice = ((map g xs, []), True)"
proof -
  show "dec_slice d zero (JArr (map f xs)) nil_slice = ((map g xs, []), True)" using assms by (simp add: dec_slice_fresh list_all_iff)
  then show "dec_slice d zero (json_slice (map f xs)) nil_slice = ((map g xs, []), True)"
    by (cases xs) (simp_all add: json_slice_def dec_slice_def nil_slice_def)
qed

lemma read_strings [simp]: "dec_slice dec_string [] (JArr (map JStr ss)) nil_slice = ((ss, []), True)"
  using read_slice(1) [of ss dec_string JStr "[]" "\<lambda>s. s"] by simp

definition capability_view :: "capability_spec \<Rightarrow> cl_capability" where
  "capability_view c = \<lparr>ca_Capability = cs_Capability c, ca_Dimensions = (cs_Dimensions c, []), ca_Metrics = (cs_Metrics c, []),
     ca_MaxRangeDays = cs_MaxRangeDays c, ca_FreshnessLagDays = cs_FreshnessLagDays c, ca_SupportsCursor = cs_SupportsCursor c,
     ca_QuotaHint = cs_QuotaHint c\<rparr>"

definition int64 :: "int \<Rightarrow> bool" where
  "int64 i \<longleftrightarrow> min_int64 \<le> i \<and> i \<le> max_int64"

lemma read_capability:
  assumes "int64 (cs_MaxRangeDays c)" "int64 (cs_FreshnessLagDays c)"
  shows "dec_cl_capability (capability_json c) zero_capability = (capability_view c, True)"
proof -
  have e: "dec_slice dec_string [] (JArr []) nil_slice = (nil_slice, True)" "dec_int64 (JInt 0) 0 = (0, True)"
    by (simp_all add: dec_slice_def dec_int64_def)
  show ?thesis
    unfolding dec_cl_capability_def capability_json_def zero_capability_def capability_view_def
    by (subst dec_struct_store)
      (use assms in \<open>simp_all add: int64_def field_def name_char_def byte_def store_def store_simps e\<close>)
qed

definition link_view :: "setup_link \<Rightarrow> cl_setup_link" where
  "link_view l = \<lparr>ck_Kind = sl_Kind l, ck_Label = sl_Label l, ck_URL = sl_URL l, ck_Description = sl_Description l\<rparr>"

lemma read_link: "dec_cl_setup_link (setup_link_json l) zero_setup_link = (link_view l, True)"
  unfolding dec_cl_setup_link_def setup_link_json_def zero_setup_link_def link_view_def
  by (subst dec_struct_store) (simp_all add: field_def name_char_def byte_def store_def store_simps)

definition provider_view :: "server \<Rightarrow> descriptor \<Rightarrow> cl_provider" where
  "provider_view s d = \<lparr>cv_Name = d_Name d, cv_DisplayName = d_DisplayName d, cv_CredentialTypes = (d_CredentialTypes d, []),
     cv_Capabilities = (map capability_view (d_Capabilities d), []), cv_SetupURL = d_SetupURL d, cv_DocsURL = d_DocsURL d,
     cv_OAuthAvailable = (srv_oauthApps s (d_Name d) \<noteq> None), cv_SetupLinks = (map link_view (d_SetupLinks d), [])\<rparr>"

definition sound_limits :: "descriptor \<Rightarrow> bool" where
  "sound_limits d = list_all (\<lambda>c. int64 (cs_MaxRangeDays c) \<and> int64 (cs_FreshnessLagDays c)) (d_Capabilities d)"

lemma read_provider:
  assumes "sound_limits d"
  shows "dec_cl_provider (provider_json s d) zero_provider = (provider_view s d, True)"
proof -
  have caps: "dec_slice dec_cl_capability zero_capability (json_slice (map capability_json (d_Capabilities d))) nil_slice
      = ((map capability_view (d_Capabilities d), []), True)"
    using assms by (intro read_slice(2)) (auto simp: sound_limits_def list_all_iff intro: read_capability)
  have types: "dec_slice dec_string [] (json_slice (map JStr (d_CredentialTypes d))) nil_slice = ((d_CredentialTypes d, []), True)"
    using read_slice(2) [of "d_CredentialTypes d" dec_string JStr "[]" "\<lambda>s. s"] by simp
  have links: "dec_slice dec_cl_setup_link zero_setup_link (JArr (map setup_link_json ls)) nil_slice = ((map link_view ls, []), True)" for ls
    by (intro read_slice(1)) (simp add: read_link)
  show ?thesis
    unfolding dec_cl_provider_def provider_json_def zero_provider_def provider_view_def
    by (subst dec_struct_store)
      (simp_all add: field_def name_char_def byte_def store_def store_simps caps types links, simp add: nil_slice_def)
qed

definition row_view :: "rep_row \<Rightarrow> cl_report_row" where
  "row_view r = \<lparr>cw_Dataset = rp_dataset r, cw_Key = rp_row_key r, cw_Data = fst (any_members (rp_data r) []),
     cw_UpdatedAt = format_time (parse_or_zero parse_time (rp_updated_at r))\<rparr>"

lemma read_row:
  assumes "snd (any_members (rp_data r) [])"
  shows "dec_cl_report_row (report_row_json r) zero_report_row = (row_view r, True)"
proof -
  obtain m where m: "any_members (rp_data r) [] = (m, True)" using assms by (cases "any_members (rp_data r) []") auto
  show ?thesis
    unfolding dec_cl_report_row_def report_row_json_def zero_report_row_def row_view_def
    by (subst dec_struct_store) (simp_all add: field_def name_char_def byte_def store_def dec_any_map_def m)
qed

lemma read_only:
  assumes "list_all name_char k"
  shows "dec_only k d (JObj [(k, v)]) old = d v old"
  unfolding dec_only_def by (subst dec_struct_store) (use assms in \<open>simp_all add: field_def store_def split: prod.splits\<close>)

lemma read_two:
  assumes "list_all name_char m" "list_all name_char n" "m \<noteq> n"
  shows "dec_two m d n e (JObj [(m, v), (n, w)]) (a, b) = ((fst (d v a), fst (e w b)), snd (d v a) \<and> snd (e w b))"
  unfolding dec_two_def
  by (subst dec_struct_store) (use assms in \<open>simp_all add: field_def store_def split: prod.splits\<close>)

end
