(* ===== verification/ClientProps.thy ===== *)
theory ClientProps
  imports ClientRead
begin

text \<open>
  The client library against the server: every method reaches the handler it is meant for, with the arguments it was given, and returns what the
  handler answered.
\<close>

section \<open>Definitions\<close>

text \<open>
  A network on which the API is served by \<open>H\<close>, which gets the authorization header, the route and what the handlers read of the
  request; \<open>other\<close> answers everything that is not a request of the API.
\<close>

definition served :: "(string \<Rightarrow> route \<Rightarrow> request \<Rightarrow> http_reply) \<Rightarrow> (http_request \<Rightarrow> http_reply) \<Rightarrow> string \<Rightarrow> call_env" where
  "served H other token =
     \<lparr>ce_token = Inr token,
      ce_send = (\<lambda>rq. case dispatch True rq of None \<Rightarrow> other rq | Some (q, r) \<Rightarrow> H (hq_Authorization rq) q r)\<rparr>"

section \<open>The base URL\<close>

lemma String_base:
  assumes "plain_host h" "sch \<noteq> []"
  shows "String (no_url\<lparr>u_Scheme := sch, u_RawQuery := [], u_Host := h, u_Path := [], u_RawPath := []\<rparr>) = sch @ ''://'' @ h"
proof -
  have h: "h \<noteq> []" using assms(1) by (auto simp: plain_host_def cut_def)
  have "escape EncHost h = h" using escape_host_port plain_host_chars [OF assms(1)] by blast
  then show ?thesis using h assms(2) by (simp add: String_def authority_text_def query_text_def EscapedPath_def escape_def no_url_def)
qed

lemma client_New_base:
  assumes "plain_host h" "sch = ''https'' \<or> sch = ''http''"
  shows "client_New (sch @ ''://'' @ h @ replicate n (CHR ''/'')) True = Inr \<lparr>c_baseURL = sch @ ''://'' @ h\<rparr>"
proof -
  have h: "h \<noteq> []" "CHR ''/'' \<notin> set h"
    using assms(1) plain_host_not_special [OF assms(1), of "CHR ''/''"] by (auto simp: plain_host_def cut_def special_chars_def)
  obtain g c where g: "h = g @ [c]" "c \<noteq> CHR ''/''" using h by (metis in_set_conv_decomp rev_exhaust)
  have "dropWhile (\<lambda>x. x = CHR ''/'') (replicate n (CHR ''/'') @ ys) = dropWhile (\<lambda>x. x = CHR ''/'') ys" for ys
    by (induction n) simp_all
  then have t: "trim_right (sch @ ''://'' @ h @ replicate n (CHR ''/'')) (CHR ''/'') = sch @ ''://'' @ h"
    using g by (simp add: trim_right_def)
  have s: "sch \<noteq> []" using assms(2) by auto
  have "Parse (sch @ ''://'' @ h) = Some (no_url\<lparr>u_Scheme := sch, u_RawQuery := [], u_Host := h, u_Path := [], u_RawPath := []\<rparr>)"
    using Parse_request [OF assms(1), of "[]" "[]" sch] assms(2) by (simp add: query_part_def setPath_def escape_def)
  then show ?thesis
    unfolding client_New_def t using String_base [OF assms(1) s] s h by simp
qed

section \<open>Calls\<close>

lemma client_call:
  assumes "plain_host h" "sch = ''https'' \<or> sch = ''http''" "trim_space token \<noteq> []" "segs \<noteq> []" "list_all proper_segment segs"
    "distinct (map fst vs)" "route_of meth segs input = Some (q, provider)"
  shows "client_do \<lparr>c_baseURL = sch @ ''://'' @ h\<rparr> (served H other token) meth (path_of segs @ query_part (Encode vs)) input output zero =
    receive (H (''Bearer '' @ token) q \<lparr>rq_Query = lookup vs, rq_Path = provider\<rparr>) output zero"
proof -
  obtain u where u: "Parse (sch @ ''://'' @ h @ path_of segs @ query_part (Encode vs)) = Some u"
    "\<forall>fits meth body token. dispatch fits (new_request meth u body token) =
      map_option (\<lambda>(q, provider). (q, \<lparr>rq_Query = lookup vs, rq_Path = provider\<rparr>)) (route_of meth segs (if fits then body else None))"
    by (rule dispatch_path [OF assms(1,2,4,5,6)])
  have "hq_Authorization (new_request meth u input token) = ''Bearer '' @ token" by (simp add: new_request_def)
  then show ?thesis using u assms(3,7) by (simp add: client_do_def served_def)
qed

lemma PathEscape_plain: "list_all plain_char s \<Longrightarrow> PathEscape s = s"
proof -
  have "c \<noteq> CHR '' ''" if "plain_char c" for c using that by (auto simp: plain_char_def is_alpha_def is_digit_def byte_def)
  then show "list_all plain_char s \<Longrightarrow> PathEscape s = s"
    by (induction s) (auto simp: PathEscape_def escape_def escape_char_def plain_not_escaped)
qed

lemma api_words:
  "PathEscape ''api'' = ''api''" "PathEscape ''v0'' = ''v0''" "PathEscape ''providers'' = ''providers''" "PathEscape ''site'' = ''site''"
  "PathEscape ''connections'' = ''connections''" "PathEscape ''sync-runs'' = ''sync-runs''" "PathEscape ''report-datasets'' = ''report-datasets''"
  "PathEscape ''report-rows'' = ''report-rows''" "PathEscape ''credential'' = ''credential''" "PathEscape ''property'' = ''property''"
  "PathEscape ''properties'' = ''properties''" "PathEscape ''test'' = ''test''" "PathEscape ''oauth'' = ''oauth''" "PathEscape ''start'' = ''start''"
  "PathEscape ''complete'' = ''complete''"
  by (intro PathEscape_plain; simp add: plain_char_def is_alpha_def is_digit_def byte_def)+

definition api :: "string list \<Rightarrow> string list" where
  "api segs = ''api'' # ''v0'' # segs"

lemma api_path: "path_of (api segs) = ''/api/v0'' @ path_of segs"
  by (simp add: path_of_def api_words api_def)

lemma api_proper: "segs \<noteq> [] \<Longrightarrow> list_all proper_segment segs \<Longrightarrow> api segs \<noteq> [] \<and> list_all proper_segment (api segs)"
  by (simp add: api_def proper_segment_def)

lemma connection_path: "connectionPath p @ path_of segs = path_of (api (''connections'' # p # segs))"
  by (simp add: api_path) (simp add: connectionPath_def path_of_def api_words)

text \<open>The same with the path as the methods write it.\<close>

lemma no_query: "query_part (Encode []) = []"
  by (simp add: query_part_def Encode_def)

lemma Encode_some: "vs \<noteq> [] \<Longrightarrow> Encode vs \<noteq> []"
proof
  assume "vs \<noteq> []" "Encode vs = []"
  then obtain p ps where "sort_key fst vs = p # ps" by (metis length_0_conv length_sort neq_Nil_conv)
  then show False using \<open>Encode vs = []\<close> by (cases ps) (auto simp: Encode_def split: prod.splits)
qed

lemma lookup_none: "lookup [] = (\<lambda>_. [])"
  by (simp add: lookup_def fun_eq_iff)

text \<open>A deployment at a plain base URL and a client of it with a token.\<close>

definition connected :: "string \<Rightarrow> string \<Rightarrow> string \<Rightarrow> client \<Rightarrow> bool" where
  "connected sch host token c \<longleftrightarrow> plain_host host \<and> (sch = ''https'' \<or> sch = ''http'') \<and> trim_space token \<noteq> []
     \<and> c = \<lparr>c_baseURL = sch @ ''://'' @ host\<rparr>"

lemma call_query:
  assumes "connected sch host token c" "segs \<noteq> []" "list_all proper_segment segs" "distinct (map fst vs)"
    "route_of meth (api segs) input = Some (q, provider)"
  shows "client_do c (served H other token) meth (''/api/v0'' @ path_of segs @ query_part (Encode vs)) input output zero =
    receive (H (''Bearer '' @ token) q \<lparr>rq_Query = lookup vs, rq_Path = provider\<rparr>) output zero"
proof -
  have c: "plain_host host" "sch = ''https'' \<or> sch = ''http''" "trim_space token \<noteq> []" "c = \<lparr>c_baseURL = sch @ ''://'' @ host\<rparr>"
    using assms(1) unfolding connected_def by blast+
  note p = api_proper [OF assms(2,3), THEN conjunct1] api_proper [OF assms(2,3), THEN conjunct2]
  show ?thesis using client_call [OF c(1-3) p assms(4,5)] by (simp add: c(4) api_path)
qed

lemma call_plain:
  assumes "connected sch host token c" "segs \<noteq> []" "list_all proper_segment segs"
    "route_of meth (api segs) input = Some (q, provider)"
  shows "client_do c (served H other token) meth (''/api/v0'' @ path_of segs) input output zero =
    receive (H (''Bearer '' @ token) q \<lparr>rq_Query = (\<lambda>_. []), rq_Path = provider\<rparr>) output zero"
  using call_query [OF assms(1-3) _ assms(4), of "[]"] by (simp add: no_query lookup_none)

lemma read_paths:
  "''/api/v0/providers'' = ''/api/v0'' @ path_of [''providers'']" "''/api/v0/site'' = ''/api/v0'' @ path_of [''site'']"
  "''/api/v0/connections'' = ''/api/v0'' @ path_of [''connections'']" "''/api/v0/sync-runs'' = ''/api/v0'' @ path_of [''sync-runs'']"
  "''/api/v0/report-datasets'' = ''/api/v0'' @ path_of [''report-datasets'']" "''/api/v0/report-rows'' = ''/api/v0'' @ path_of [''report-rows'']"
  by (simp_all add: path_of_def api_words)

lemma read_routes:
  "route_of ''GET'' (api [''providers'']) None = Some (GetProviders, [])" "route_of ''GET'' (api [''site'']) None = Some (GetSiteInfo, [])"
  "route_of ''GET'' (api [''connections'']) None = Some (GetConnections, [])" "route_of ''GET'' (api [''sync-runs'']) None = Some (GetSyncRuns, [])"
  "route_of ''GET'' (api [''report-datasets'']) None = Some (GetReportDatasets, [])"
  "route_of ''GET'' (api [''report-rows'']) None = Some (GetReportRows, [])"
  by (simp_all add: route_of_def plain_route_def api_def)

lemma word_proper:
  "proper_segment ''providers''" "proper_segment ''site''" "proper_segment ''connections''" "proper_segment ''sync-runs''"
  "proper_segment ''report-datasets''" "proper_segment ''report-rows''" "proper_segment ''credential''" "proper_segment ''property''"
  "proper_segment ''properties''" "proper_segment ''test''" "proper_segment ''oauth''" "proper_segment ''start''" "proper_segment ''complete''"
  by (simp_all add: proper_segment_def)

lemma plain_reads:
  assumes "connected sch host token c" "env = served H other token"
  defines "reply \<equiv> \<lambda>q. H (''Bearer '' @ token) q \<lparr>rq_Query = (\<lambda>_. []), rq_Path = []\<rparr>"
  shows "client_Providers c env = elements (receive (reply GetProviders) (dec_list ''providers'' dec_cl_provider zero_provider) nil_slice)"
    and "client_Site c env = receive (reply GetSiteInfo) (Some dec_cl_site) zero_site"
    and "client_Connections c env = elements (receive (reply GetConnections) (dec_list ''connections'' dec_cl_connection zero_connection) nil_slice)"
    and "client_ReportDatasets c env = elements (receive (reply GetReportDatasets) (dec_list ''datasets'' dec_string []) nil_slice)"
  unfolding client_Providers_def client_Site_def client_Connections_def client_ReportDatasets_def reply_def assms(2) read_paths
  by (subst call_plain [OF assms(1)]; simp only: read_routes list.distinct list.pred_inject simp_thms word_proper; fail)+

subsection \<open>Bodies\<close>

lemma body_set_credential:
  "dec_body dec_set_credential \<lparr>scb_CredentialType = [], scb_Material = []\<rparr> (string_map [(''credential_type'', t), (''material'', m)])
    = Some \<lparr>scb_CredentialType = t, scb_Material = m\<rparr>"
  unfolding dec_body_def string_map_def dec_set_credential_def
  by (simp, subst dec_struct_store) (simp_all add: field_def name_char_def byte_def store_def)

lemma body_oauth_start:
  "dec_body dec_oauth_start \<lparr>osb_RedirectURI = [], osb_ReturnTo = []\<rparr> (string_map [(''redirect_uri'', u), (''return_to'', t)])
    = Some \<lparr>osb_RedirectURI = u, osb_ReturnTo = t\<rparr>"
  unfolding dec_body_def string_map_def dec_oauth_start_def
  by (simp, subst dec_struct_store) (simp_all add: field_def name_char_def byte_def store_def)

lemma body_oauth_complete:
  "dec_body dec_oauth_complete \<lparr>ocb_State = [], ocb_Code = []\<rparr> (string_map [(''state'', u), (''code'', t)])
    = Some \<lparr>ocb_State = u, ocb_Code = t\<rparr>"
  unfolding dec_body_def string_map_def dec_oauth_complete_def
  by (simp, subst dec_struct_store) (simp_all add: field_def name_char_def byte_def store_def)

lemma body_property:
  "dec_body (dec_only ''property_reference'' dec_string) [] (string_map [(''property_reference'', ref)]) = Some ref"
  by (simp add: dec_body_def string_map_def read_only name_char_def byte_def)

definition run_body_of :: "create_sync_run_request \<Rightarrow> create_run_body" where
  "run_body_of input = \<lparr>crb_Provider = csr_Provider input, crb_Capability = csr_Capability input, crb_StartDate = csr_StartDate input,
     crb_EndDate = csr_EndDate input, crb_IdempotencyKey = csr_IdempotencyKey input\<rparr>"

lemma omit_empty_json: "map (\<lambda>(k, v). (k, JStr v)) (omit_empty k v) = omit_str k v"
  by (simp add: omit_empty_def omit_str_def)

lemma body_create_run:
  "dec_body dec_create_run \<lparr>crb_Provider = [], crb_Capability = [], crb_StartDate = [], crb_EndDate = [], crb_IdempotencyKey = []\<rparr>
     (string_map ([(''provider'', csr_Provider input), (''capability'', csr_Capability input)] @ omit_empty ''start_date'' (csr_StartDate input)
        @ omit_empty ''end_date'' (csr_EndDate input) @ omit_empty ''idempotency_key'' (csr_IdempotencyKey input)))
    = Some (run_body_of input)"
  unfolding dec_body_def string_map_def dec_create_run_def run_body_of_def
  by (simp add: omit_empty_json, subst dec_struct_store)
    (simp_all add: field_def name_char_def byte_def store_def store_omit_str)

subsection \<open>The methods\<close>

lemma connection_paths:
  "connectionPath p @ ''/properties'' = ''/api/v0'' @ path_of [''connections'', p, ''properties'']"
  "connectionPath p @ ''/credential'' = ''/api/v0'' @ path_of [''connections'', p, ''credential'']"
  "connectionPath p @ ''/property'' = ''/api/v0'' @ path_of [''connections'', p, ''property'']"
  "connectionPath p @ ''/test'' = ''/api/v0'' @ path_of [''connections'', p, ''test'']"
  "connectionPath p = ''/api/v0'' @ path_of [''connections'', p]"
  "connectionPath p @ ''/oauth/start'' = ''/api/v0'' @ path_of [''connections'', p, ''oauth'', ''start'']"
  "connectionPath p @ ''/oauth/complete'' = ''/api/v0'' @ path_of [''connections'', p, ''oauth'', ''complete'']"
  by (simp_all add: connectionPath_def path_of_def api_words)

lemma connection_routes:
  assumes "proper_segment p" "p \<noteq> ''/''"
  shows "route_of ''GET'' (api [''connections'', p, ''properties'']) None = Some (GetProperties, p)"
    "route_of ''PUT'' (api [''connections'', p, ''credential'']) (string_map [(''credential_type'', t), (''material'', m)])
       = Some (PutCredential (Some \<lparr>scb_CredentialType = t, scb_Material = m\<rparr>), p)"
    "route_of ''PUT'' (api [''connections'', p, ''property'']) (string_map [(''property_reference'', ref)]) = Some (PutProperty (Some ref), p)"
    "route_of ''POST'' (api [''connections'', p, ''test'']) (Some (JObj [])) = Some (PostTest, p)"
    "route_of ''DELETE'' (api [''connections'', p]) None = Some (DeleteConnection, p)"
    "route_of ''POST'' (api [''connections'', p, ''oauth'', ''start'']) (string_map [(''redirect_uri'', uri), (''return_to'', back)])
       = Some (PostOAuthStart (Some \<lparr>osb_RedirectURI = uri, osb_ReturnTo = back\<rparr>), p)"
    "route_of ''POST'' (api [''connections'', p, ''oauth'', ''complete'']) (string_map [(''state'', state), (''code'', code)])
       = Some (PostOAuthComplete (Some \<lparr>ocb_State = state, ocb_Code = code\<rparr>), p)"
  using assms
  by (simp_all add: route_of_def plain_route_def connection_route_def api_def proper_segment_def body_set_credential body_property
      body_oauth_start body_oauth_complete)

lemma connection_calls:
  assumes "connected sch host token c" "env = served H other token" "proper_segment p" "p \<noteq> ''/''"
  defines "reply \<equiv> \<lambda>q. H (''Bearer '' @ token) q \<lparr>rq_Query = (\<lambda>_. []), rq_Path = p\<rparr>"
    and "properties \<equiv> dec_list ''properties'' dec_cl_property zero_property"
  shows "client_Properties c env p = elements (receive (reply GetProperties) properties nil_slice)"
    and "client_SetCredential c env p t m =
      elements (receive (reply (PutCredential (Some \<lparr>scb_CredentialType = t, scb_Material = m\<rparr>))) properties nil_slice)"
    and "client_SetProperty c env p ref = snd (receive (reply (PutProperty (Some ref))) None ())"
    and "client_TestConnection c env p = receive (reply PostTest) (Some (dec_two ''ok'' dec_bool ''error'' dec_string)) (False, [])"
    and "client_RevokeConnection c env p = snd (receive (reply DeleteConnection) None ())"
    and "client_StartOAuthWithReturn c env p uri back =
      receive (reply (PostOAuthStart (Some \<lparr>osb_RedirectURI = uri, osb_ReturnTo = back\<rparr>)))
        (Some (dec_two ''authorize_url'' dec_string ''state'' dec_string)) ([], [])"
    and "client_CompleteOAuthWithReturn c env p state code =
      (case receive (reply (PostOAuthComplete (Some \<lparr>ocb_State = state, ocb_Code = code\<rparr>)))
         (Some (dec_two ''properties'' (dec_slice dec_cl_property zero_property) ''return_to'' dec_string)) (nil_slice, []) of
         ((ps, returnTo), err) \<Rightarrow> ((fst ps, returnTo), err))"
  unfolding client_Properties_def client_SetCredential_def client_SetProperty_def client_TestConnection_def client_RevokeConnection_def
    client_StartOAuthWithReturn_def client_CompleteOAuthWithReturn_def reply_def properties_def assms(2)
  unfolding connection_paths(1-4,6,7) unfolding connection_paths(5)
  by (subst call_plain [OF assms(1)];
      simp only: connection_routes [OF assms(3,4)] list.distinct list.pred_inject simp_thms word_proper assms(3) refl; fail)+

subsection \<open>Queries and runs\<close>

lemma runs_query_keys: "distinct (map fst (runs_query provider limit))"
  by (simp add: runs_query_def)

lemma rows_query_keys: "distinct (map fst (rows_query dataset limit cursor))"
  by (simp add: rows_query_def)

lemma lookup_runs: "lookup (runs_query provider limit) =
    (\<lambda>k. if k = ''provider'' then provider else if k = ''limit'' \<and> 0 < limit then itoa limit else [])"
  by (auto simp: lookup_def runs_query_def fun_eq_iff)

lemma lookup_rows: "lookup (rows_query dataset limit cursor) =
    (\<lambda>k. if k = ''dataset'' then dataset else if k = ''limit'' \<and> 0 < limit then itoa limit else if k = ''cursor'' then cursor else [])"
  by (auto simp: lookup_def rows_query_def fun_eq_iff)

lemma runs_part: "(if Encode vs \<noteq> [] then ''?'' @ Encode vs else []) = query_part (Encode vs)"
  by (simp add: query_part_def)

lemma rows_part: "''?'' @ Encode (rows_query dataset limit cursor) = query_part (Encode (rows_query dataset limit cursor))"
  using Encode_some [of "rows_query dataset limit cursor"] by (simp add: query_part_def rows_query_def)

lemma query_calls:
  assumes "connected sch host token c" "env = served H other token"
  shows "client_SyncRuns c env provider limit =
      elements (receive (H (''Bearer '' @ token) GetSyncRuns
        \<lparr>rq_Query = (\<lambda>k. if k = ''provider'' then provider else if k = ''limit'' \<and> 0 < limit then itoa limit else []), rq_Path = []\<rparr>)
        (dec_list ''sync_runs'' dec_cl_run zero_run) nil_slice)"
    and "client_ReportRowsPage c env dataset limit cursor =
      (case receive (H (''Bearer '' @ token) GetReportRows
         \<lparr>rq_Query = (\<lambda>k. if k = ''dataset'' then dataset else if k = ''limit'' \<and> 0 < limit then itoa limit
             else if k = ''cursor'' then cursor else []), rq_Path = []\<rparr>)
         (Some (dec_two ''rows'' (dec_slice dec_cl_report_row zero_report_row) ''next_cursor'' dec_string)) (nil_slice, []) of
         ((rows, nxt), err) \<Rightarrow> ((fst rows, nxt), err))"
proof -
  have w: "[''sync-runs''] \<noteq> []" "list_all proper_segment [''sync-runs'']" "[''report-rows''] \<noteq> []" "list_all proper_segment [''report-rows'']"
    by (simp_all add: word_proper)
  note runs = call_query [OF assms(1) w(1,2) runs_query_keys read_routes(4)]
  show "client_SyncRuns c env provider limit = elements (receive (H (''Bearer '' @ token) GetSyncRuns
        \<lparr>rq_Query = (\<lambda>k. if k = ''provider'' then provider else if k = ''limit'' \<and> 0 < limit then itoa limit else []), rq_Path = []\<rparr>)
        (dec_list ''sync_runs'' dec_cl_run zero_run) nil_slice)"
    unfolding client_SyncRuns_def Let_def runs_part read_paths(4) append_assoc assms(2) runs lookup_runs by (rule refl)
  note rows = call_query [OF assms(1) w(3,4) rows_query_keys read_routes(6)]
  have path: "''/api/v0/report-rows?'' @ Encode (rows_query dataset limit cursor) =
      ''/api/v0'' @ path_of [''report-rows''] @ query_part (Encode (rows_query dataset limit cursor))"
    unfolding rows_part [symmetric] by (simp add: path_of_def api_words)
  show "client_ReportRowsPage c env dataset limit cursor = (case receive (H (''Bearer '' @ token) GetReportRows
         \<lparr>rq_Query = (\<lambda>k. if k = ''dataset'' then dataset else if k = ''limit'' \<and> 0 < limit then itoa limit
             else if k = ''cursor'' then cursor else []), rq_Path = []\<rparr>)
         (Some (dec_two ''rows'' (dec_slice dec_cl_report_row zero_report_row) ''next_cursor'' dec_string)) (nil_slice, []) of
         ((rows, nxt), err) \<Rightarrow> ((fst rows, nxt), err))"
    unfolding client_ReportRowsPage_def assms(2) path rows lookup_rows by (rule refl)
qed

lemma create_call:
  assumes "connected sch host token c" "env = served H other token"
  shows "client_CreateSyncRun c env input =
    receive (H (''Bearer '' @ token) (PostSyncRuns (Some (run_body_of input))) \<lparr>rq_Query = (\<lambda>_. []), rq_Path = []\<rparr>)
      (Some (dec_two ''sync_run'' dec_cl_run ''already_running'' dec_bool)) (zero_run, False)"
  unfolding client_CreateSyncRun_def assms(2) read_paths(4)
  by (subst call_plain [OF assms(1), where q = "PostSyncRuns (Some (run_body_of input))" and provider = "[]"])
    (simp_all add: word_proper route_of_def plain_route_def api_def body_create_run [simplified])

lemma connected_New:
  assumes "plain_host host" "sch = ''https'' \<or> sch = ''http''" "client_New (sch @ ''://'' @ host @ replicate n (CHR ''/'')) True = Inr c"
    "trim_space token \<noteq> []"
  shows "connected sch host token c"
  using client_New_base [OF assms(1,2), of n] assms by (simp add: connected_def)


section \<open>Against the handlers of the server\<close>

text \<open>The answers of the server in a world, with authentication by the header of the request.\<close>

definition answers :: "(string \<Rightarrow> api_deps) \<Rightarrow> 's runtime \<Rightarrow> server \<Rightarrow> 's world \<Rightarrow> string \<Rightarrow> route \<Rightarrow> request \<Rightarrow> http_reply" where
  "answers ad rt s w header q r =
     (let rsp = fst (run_state (Handler (ad header) rt s q r) w) in Reply (rsp_status rsp) (Some (rsp_body rsp)))"

lemma receive_json:
  "d v zero = (out, True) \<Longrightarrow> 200 \<le> status \<Longrightarrow> status < 300 \<Longrightarrow> receive (Reply status (Some v)) (Some d) zero = (out, None)"
  by (simp add: receive_def)

lemma receive_error:
  assumes "status < 200 \<or> 300 \<le> status" "message \<noteq> []"
  shows "receive (Reply status (Some (JObj [(''error'', JStr message)]))) output zero = (zero, Some (APIError status message))"
  using assms by (auto simp: receive_def problem_text_def read_only name_char_def byte_def)

lemma limit_param:
  assumes "limit \<le> max_int64"
  shows "fst (atoi (if 0 < limit then itoa limit else [])) = max 0 limit"
proof (cases "0 < limit")
  case True
  then show ?thesis using atoi_itoa [of limit] assms by simp
qed (simp add: atoi_def)

lemma elements_list:
  assumes "list_all name_char k" "\<forall>x \<in> set xs. d (f x) zero = (g x, True)"
  shows "elements (receive (Reply 200 (Some (JObj [(k, JArr (map f xs))]))) (dec_list k d zero) nil_slice) = (map g xs, None)"
    and "elements (receive (Reply 200 (Some (JObj [(k, json_slice (map f xs))]))) (dec_list k d zero) nil_slice) = (map g xs, None)"
  using read_slice [of xs d f zero g] assms(2) by (simp_all add: receive_def read_only [OF assms(1)] elements_def)

lemma elements_error:
  assumes "status < 200 \<or> 300 \<le> status" "message \<noteq> []"
  shows "elements (receive (Reply status (Some (JObj [(''error'', JStr message)]))) output nil_slice) = ([], Some (APIError status message))"
  unfolding receive_error [OF assms] by (simp add: elements_def nil_slice_def)

text \<open>What the read routes answer to a subject that may read.\<close>

lemmas handler_simps = answers_def authorized_def writeJSON_def writeError_def State_Monad.bind_def State_Monad.return_def

lemma answers_plain:
  assumes "ad_authenticate (ad header) r = Inr sub" "HasScope sub ScopeRead"
  shows "answers ad rt s w header GetProviders r = Reply 200 (Some (JObj [(''providers'', JArr (map (provider_json s) (Descriptors (srv_registry s))))]))"
    and "answers ad rt s w header GetSiteInfo r = Reply 200 (Some (JObj [(''public_url'', JStr (site_PublicURL (srv_site s))),
      (''sitemap_url'', JStr (site_SitemapURL (srv_site s))), (''oauth_callback'', JStr (srv_oauthCallbackURL s))]))"
  using assms by (simp_all add: handler_simps listProviders_def getSite_def)

lemma answers_connections:
  assumes "ad_authenticate (ad header) r = Inr sub" "HasScope sub ScopeRead"
  shows "answers ad rt s w header GetConnections r =
    (case run_state (db_query rt (\<lambda>env. ListConnections env (site_ID (srv_site s)))) w of
       (Inl _, _) \<Rightarrow> Reply 500 (Some (JObj [(''error'', JStr ''list connections'')]))
     | (Inr cs, w') \<Rightarrow> Reply 200 (Some (JObj [(''connections'', JArr (map (connectionToJSON (fst (run_state (ask rt o_clock) w'))) cs))])))"
  using assms by (simp add: handler_simps listConnections_def split: prod.splits sum.splits)

lemma answers_datasets:
  assumes "ad_authenticate (ad header) r = Inr sub" "HasScope sub ScopeRead"
  shows "answers ad rt s w header GetReportDatasets r =
    (case fst (run_state (db_query rt (\<lambda>env. ListReportDatasets env (site_ID (srv_site s)))) w) of
       Inl _ \<Rightarrow> Reply 500 (Some (JObj [(''error'', JStr ''list report datasets'')]))
     | Inr names \<Rightarrow> Reply 200 (Some (JObj [(''datasets'', json_slice (map JStr names))])))"
  using assms by (simp add: handler_simps listReportDatasets_def split: prod.splits sum.splits)

lemma answers_rows:
  assumes "ad_authenticate (ad header) r = Inr sub" "HasScope sub ScopeRead" "rq_Query r ''dataset'' \<noteq> []"
  shows "answers ad rt s w header GetReportRows r =
    (case fst (run_state (db_query rt (\<lambda>env. ListReportRowsPage env (site_ID (srv_site s)) (rq_Query r ''dataset'')
         (fst (atoi (rq_Query r ''limit''))) (rq_Query r ''cursor''))) w) of
       Inl _ \<Rightarrow> Reply 500 (Some (JObj [(''error'', JStr ''list report rows'')]))
     | Inr (rows, nxt) \<Rightarrow> Reply 200 (Some (JObj [(''rows'', JArr (map report_row_json rows)), (''next_cursor'', JStr nxt)])))"
  using assms by (simp add: handler_simps listReportRows_def Let_def split: prod.splits sum.splits)

lemma answers_runs:
  assumes "ad_authenticate (ad header) r = Inr sub" "HasScope sub ScopeRead"
  shows "answers ad rt s w header GetSyncRuns r =
    (case fst (run_state (db_query rt (\<lambda>env. ListSyncRuns env (site_ID (srv_site s)) (rq_Query r ''provider'') (fst (atoi (rq_Query r ''limit''))))) w) of
       Inl _ \<Rightarrow> Reply 500 (Some (JObj [(''error'', JStr ''list sync runs'')]))
     | Inr rs \<Rightarrow> Reply 200 (Some (JObj [(''sync_runs'', JArr (map runToJSON rs))])))"
  using assms by (simp add: handler_simps listSyncRuns_def split: prod.splits sum.splits)

lemma query_result: "run_state (db_query rt f) w = (f (o_db (rt_sched rt) (w_tick w)) (w_db (others rt w)), (others rt w)\<lparr>w_tick := Suc (w_tick w)\<rparr>)"
  by (simp add: db_query_def others_def Let_def)

lemma ask_result: "fst (run_state (ask rt o_clock) w) = o_clock (rt_sched rt) (w_tick w)"
  by (simp add: ask_def)

lemma ListSyncRuns_rows:
  assumes "ListSyncRuns env site provider n d = Inr rs" "r \<in> set rs"
  shows "\<exists>row \<in> set (t_runs d). sr_RowsSynced r = rn_rows_synced row"
proof -
  have "sr_RowsSynced (scanRun x) = rn_rows_synced x" for x by (simp add: scanRun_def)
  moreover have "r \<in> scanRun ` set (t_runs d)"
    using assms by (auto simp: ListSyncRuns_def Let_def split: option.splits dest!: in_set_takeD)
  ultimately show ?thesis by auto
qed

lemma ListReportRowsPage_rows:
  assumes "ListReportRowsPage env site dataset n cursor d = Inr (rows, nxt)" "r \<in> set rows"
  shows "r \<in> set (t_reports d)"
  using assms by (auto simp: ListReportRowsPage_def Let_def split: option.splits if_splits dest!: in_set_takeD)

text \<open>Numbers the database and the descriptors hold: 64 bits for counters, finite doubles in rows.\<close>

definition representable :: "server \<Rightarrow> db \<Rightarrow> bool" where
  "representable s d \<longleftrightarrow> list_all sound_limits (Descriptors (srv_registry s)) \<and> list_all (\<lambda>r. int64 (rn_rows_synced r)) (t_runs d)
     \<and> list_all (\<lambda>r. snd (any_members (rp_data r) [])) (t_reports d)"

lemma reads_runs:
  assumes "ad_authenticate (ad header) r = Inr sub" "HasScope sub ScopeRead" "representable s (w_db (others rt w))"
  shows "elements (receive (answers ad rt s w header GetSyncRuns r) (dec_list ''sync_runs'' dec_cl_run zero_run) nil_slice) =
    (case ListSyncRuns (o_db (rt_sched rt) (w_tick w)) (site_ID (srv_site s)) (rq_Query r ''provider'') (fst (atoi (rq_Query r ''limit'')))
        (w_db (others rt w)) of
       Inl _ \<Rightarrow> ([], Some (APIError 500 ''list sync runs'')) | Inr rs \<Rightarrow> (map run_view rs, None))"
proof (cases "ListSyncRuns (o_db (rt_sched rt) (w_tick w)) (site_ID (srv_site s)) (rq_Query r ''provider'') (fst (atoi (rq_Query r ''limit'')))
        (w_db (others rt w))")
  case (Inl e)
  then show ?thesis by (simp add: elements_error answers_runs [of ad header, OF assms(1,2)] query_result)
next
  case (Inr rs)
  have "\<forall>x \<in> set rs. dec_cl_run (runToJSON x) zero_run = (run_view x, True)"
  proof
    fix x assume "x \<in> set rs"
    then obtain row where "row \<in> set (t_runs (w_db (others rt w)))" "sr_RowsSynced x = rn_rows_synced row"
      using ListSyncRuns_rows [OF Inr] by blast
    then show "dec_cl_run (runToJSON x) zero_run = (run_view x, True)"
      using assms(3) by (intro read_run) (auto simp: representable_def list_all_iff int64_def)
  qed
  then show ?thesis
    using Inr elements_list(1) [of "''sync_runs''" rs] by (simp add: answers_runs [of ad header, OF assms(1,2)] query_result name_char_def byte_def)
qed

lemma reads_rows:
  assumes "ad_authenticate (ad header) r = Inr sub" "HasScope sub ScopeRead" "representable s (w_db (others rt w))" "rq_Query r ''dataset'' \<noteq> []"
  shows "receive (answers ad rt s w header GetReportRows r)
      (Some (dec_two ''rows'' (dec_slice dec_cl_report_row zero_report_row) ''next_cursor'' dec_string)) (nil_slice, []) =
    (case ListReportRowsPage (o_db (rt_sched rt) (w_tick w)) (site_ID (srv_site s)) (rq_Query r ''dataset'') (fst (atoi (rq_Query r ''limit'')))
        (rq_Query r ''cursor'') (w_db (others rt w)) of
       Inl _ \<Rightarrow> ((nil_slice, []), Some (APIError 500 ''list report rows'')) | Inr (rows, nxt) \<Rightarrow> (((map row_view rows, []), nxt), None))"
proof (cases "ListReportRowsPage (o_db (rt_sched rt) (w_tick w)) (site_ID (srv_site s)) (rq_Query r ''dataset'') (fst (atoi (rq_Query r ''limit'')))
        (rq_Query r ''cursor'') (w_db (others rt w))")
  case (Inl e)
  then show ?thesis by (simp add: answers_rows [of ad header, OF assms(1,2,4)] query_result receive_error)
next
  case (Inr page)
  obtain rows nxt where page: "page = (rows, nxt)" by (cases page)
  have "\<forall>x \<in> set rows. dec_cl_report_row (report_row_json x) zero_report_row = (row_view x, True)"
  proof
    fix x assume "x \<in> set rows"
    then have "x \<in> set (t_reports (w_db (others rt w)))" by (rule ListReportRowsPage_rows [OF Inr [unfolded page]])
    then show "dec_cl_report_row (report_row_json x) zero_report_row = (row_view x, True)"
      using assms(3) by (intro read_row) (auto simp: representable_def list_all_iff)
  qed
  from read_slice(1) [of rows dec_cl_report_row report_row_json zero_report_row row_view, OF this] show ?thesis
    using Inr page by (simp add: answers_rows [of ad header, OF assms(1,2,4)] query_result receive_def read_two name_char_def byte_def)
qed

lemma reads_connections:
  assumes "ad_authenticate (ad header) r = Inr sub" "HasScope sub ScopeRead"
  shows "elements (receive (answers ad rt s w header GetConnections r) (dec_list ''connections'' dec_cl_connection zero_connection) nil_slice) =
    (case ListConnections (o_db (rt_sched rt) (w_tick w)) (site_ID (srv_site s)) (w_db (others rt w)) of
       Inl _ \<Rightarrow> ([], Some (APIError 500 ''list connections''))
     | Inr cs \<Rightarrow> (map (connection_view (o_clock (rt_sched rt) (Suc (w_tick w)))) cs, None))"
  by (simp add: answers_connections [of ad header, OF assms] query_result ask_result elements_error elements_list(1) read_connection
      name_char_def byte_def split: sum.splits)

lemma reads_datasets:
  assumes "ad_authenticate (ad header) r = Inr sub" "HasScope sub ScopeRead"
  shows "elements (receive (answers ad rt s w header GetReportDatasets r) (dec_list ''datasets'' dec_string []) nil_slice) =
    (case ListReportDatasets (o_db (rt_sched rt) (w_tick w)) (site_ID (srv_site s)) (w_db (others rt w)) of
       Inl _ \<Rightarrow> ([], Some (APIError 500 ''list report datasets'')) | Inr names \<Rightarrow> (names, None))"
  using elements_list(2) [of "''datasets''" _ dec_string JStr "[]" "\<lambda>x. x"]
  by (simp add: answers_datasets [of ad header, OF assms] query_result elements_error name_char_def byte_def split: sum.splits)

lemma reads_providers:
  assumes "ad_authenticate (ad header) r = Inr sub" "HasScope sub ScopeRead" "representable s d"
  shows "elements (receive (answers ad rt s w header GetProviders r) (dec_list ''providers'' dec_cl_provider zero_provider) nil_slice) =
    (map (provider_view s) (Descriptors (srv_registry s)), None)"
  using assms(3) elements_list(1) [of "''providers''" "Descriptors (srv_registry s)" dec_cl_provider "provider_json s" zero_provider "provider_view s"]
  by (simp add: answers_plain(1) [of ad header, OF assms(1,2)] read_provider representable_def list_all_iff name_char_def byte_def)

lemma reads_site:
  assumes "ad_authenticate (ad header) r = Inr sub" "HasScope sub ScopeRead"
  shows "receive (answers ad rt s w header GetSiteInfo r) (Some dec_cl_site) zero_site =
    (\<lparr>ct_PublicURL = site_PublicURL (srv_site s), ct_SitemapURL = site_SitemapURL (srv_site s), ct_OAuthCallback = srv_oauthCallbackURL s\<rparr>, None)"
  unfolding answers_plain(2) [of ad header, OF assms] dec_cl_site_def zero_site_def
  by (intro receive_json, subst dec_struct_store) (simp_all add: field_def name_char_def byte_def store_def)

lemma nil_slice_empty: "fst nil_slice = []"
  by (simp add: nil_slice_def)


section \<open>Refusals\<close>

text \<open>The error of a client whose request the authorization wrapper refuses.\<close>

definition denied :: "go_error + subject \<Rightarrow> string \<Rightarrow> client_error option" where
  "denied subject sc =
     (case subject of
        Inl _ \<Rightarrow> Some (APIError 401 ''authentication required'')
      | Inr sub \<Rightarrow> if HasScope sub sc then None else Some (APIError 403 (''missing scope '' @ sc)))"

lemma answers_denied:
  assumes "required_scope q = Some sc" "denied (ad_authenticate (ad header) r) sc = Some e"
  shows "receive (answers ad rt s w header q r) output zero = (zero, Some e)"
proof -
  obtain h where h: "Handler (ad header) rt s q r = authorized (ad_authenticate (ad header)) sc h r" by (rule Handler_guarded [OF assms(1)])
  have "run_state (Handler (ad header) rt s q r) w =
      (case e of APIError status message \<Rightarrow> (writeError status message, w) | _ \<Rightarrow> undefined)"
    unfolding h using assms(2) by (auto simp: authorized_def denied_def State_Monad.return_def split: sum.splits if_splits)
  moreover obtain status message where "e = APIError status message" "status = 401 \<or> status = 403" "message \<noteq> []"
    using assms(2) by (auto simp: denied_def split: sum.splits if_splits)
  ultimately show ?thesis
    using receive_error [of status message] by (auto simp: answers_def writeError_def writeJSON_def)
qed

text \<open>
  C38: a refused request ends in the error of the wrapper, 401 without a subject and 403 without the scope, and in nothing else: every method
  returns it with empty results. Which scope a method needs is the one of its route.
\<close>

theorem client_refused:
  assumes "plain_host host" "sch = ''https'' \<or> sch = ''http''" "client_New (sch @ ''://'' @ host @ replicate n (CHR ''/'')) True = Inr c"
    and "trim_space token \<noteq> []" "env = served (answers ad rt s w) other token" "proper_segment p" "p \<noteq> ''/''"
    and "\<forall>r. ad_authenticate (ad (''Bearer '' @ token)) r = subject"
  shows "(denied subject ScopeRead = Some e \<longrightarrow> client_Providers c env = ([], Some e) \<and> client_Site c env = (zero_site, Some e)
       \<and> client_Connections c env = ([], Some e) \<and> client_ReportDatasets c env = ([], Some e)
       \<and> client_SyncRuns c env provider limit = ([], Some e) \<and> client_ReportRowsPage c env dataset limit cursor = (([], []), Some e))
    \<and> (denied subject ScopeSync = Some e \<longrightarrow> client_CreateSyncRun c env input = ((zero_run, False), Some e))
    \<and> (denied subject ScopeConnectionsManage = Some e \<longrightarrow> client_Properties c env p = ([], Some e)
       \<and> client_SetCredential c env p t m = ([], Some e) \<and> client_SetProperty c env p ref = Some e
       \<and> client_TestConnection c env p = ((False, []), Some e) \<and> client_RevokeConnection c env p = Some e
       \<and> client_StartOAuthWithReturn c env p uri back = (([], []), Some e)
       \<and> client_CompleteOAuthWithReturn c env p state code = (([], []), Some e))"
proof -
  note c = connected_New [OF assms(1-4)]
  define header where "header = ''Bearer '' @ token"
  have a: "ad_authenticate (ad header) r = subject" for r using assms(8) unfolding header_def by blast
  show ?thesis
    unfolding plain_reads [OF c assms(5)] query_calls [OF c assms(5)] create_call [OF c assms(5)] connection_calls [OF c assms(5-7)]
      header_def [symmetric]
    by (intro conjI impI; simp add: answers_denied [where ad = ad and header = header] a elements_def nil_slice_empty)
qed

section \<open>Instances\<close>

abbreviation demo_client :: client where
  "demo_client \<equiv> \<lparr>c_baseURL = ''https://h:8443''\<rparr>"

lemma demo_client_made:
  "plain_host ''h:8443''" "client_New (''https'' @ ''://'' @ ''h:8443'' @ replicate 1 (CHR ''/'')) True = Inr demo_client" "trim_space ''t'' \<noteq> []"
  "proper_segment ''a/b''"
proof -
  show h: "plain_host ''h:8443''" by (simp add: plain_host_def cut_def plain_char_def is_alpha_def is_digit_def byte_def)
  show "client_New (''https'' @ ''://'' @ ''h:8443'' @ replicate 1 (CHR ''/'')) True = Inr demo_client"
    using client_New_base [OF h, of "''https''" 1] by simp
  show "trim_space ''t'' \<noteq> []" using trim_space_ascii [of "''t''"] by (simp add: ascii_print_def)
  show "proper_segment ''a/b''" by (simp add: proper_segment_def)
qed

definition demo_H :: "string \<Rightarrow> route \<Rightarrow> request \<Rightarrow> http_reply" where
  "demo_H header q r = Reply (if header = ''Bearer t'' \<and> q = PutProperty (Some ''x'') \<and> rq_Path r = ''a/b'' then 204 else 500) None"


lemma demo_runs_reports: "t_reports demo_runs = []"
  by (simp add: demo_runs_def MarkRunRunning_def update_runs_def CreateSyncRun_unfold empty_db_def runs_unique_def unique_on_def)

lemma demo_others: "others demo_rt w = w"
  by (simp add: others_def demo_rt_def)

lemma demo_representable: "representable demo_srv (w_db (others demo_rt (demo_world demo_runs)))"
  by (simp add: representable_def sound_limits_def Descriptors_def demo_srv_def New_def demo_provider_def demo_spec_def int64_def
      demo_others demo_runs_rows set_running_def run_row_of_def queued_run_def demo_run_def demo_runs_reports)

lemma demo_authenticated: "\<forall>r. ad_authenticate ((\<lambda>_ :: string. demo_deps) header) r = Inr (demo_sub\<lparr>sub_Scopes := [ScopeRead]\<rparr>)"
  by (simp add: demo_deps_def)

abbreviation demo_served :: call_env where
  "demo_served \<equiv> served (answers (\<lambda>_. demo_deps) demo_rt demo_srv (demo_world demo_runs)) (\<lambda>_. NoReply NoRows) ''t''"

lemma demo_run_listed: "ListSyncRuns (demo_db_env i 0) ''main'' ''bing'' 0 demo_runs = Inr (map scanRun (t_runs demo_runs))"
  by (simp add: ListSyncRuns_def demo_db_env_def demo_runs_rows set_running_def run_row_of_def queued_run_def demo_run_def order_desc_def)


theorem client_refused_witness:
  "client_RevokeConnection demo_client demo_served ''a/b'' = Some (APIError 403 (''missing scope '' @ ScopeConnectionsManage))"
proof -
  have "denied (Inr (demo_sub\<lparr>sub_Scopes := [ScopeRead]\<rparr>)) ScopeConnectionsManage = Some (APIError 403 (''missing scope '' @ ScopeConnectionsManage))"
    by (simp add: denied_def demo_deps_scopes demo_scopes_differ)
  then show ?thesis
    by (intro client_refused [OF demo_client_made(1) _ demo_client_made(2,3) refl demo_client_made(4) _ demo_authenticated, THEN conjunct2,
        THEN conjunct2, THEN mp, THEN conjunct2, THEN conjunct2, THEN conjunct2, THEN conjunct2, THEN conjunct1]) simp_all
qed

end
