(* ===== verification/Console.thy ===== *)
theory Console
  imports Routing
begin

text \<open>
  The static files of the console (\<^verbatim>\<open>spaHandler\<close> of \<^verbatim>\<open>internal/httpapi/server.go\<close>) on a file system with slashes as separators:
  \<^verbatim>\<open>path.Clean\<close>, \<^verbatim>\<open>filepath.Join\<close>, and what \<^verbatim>\<open>http.ServeFile\<close> and \<^verbatim>\<open>http.FileServer\<close> do with a path. No request, however
  it is encoded, is answered with a file outside of the directory.
\<close>

section \<open>Definitions\<close>

text \<open>\<^verbatim>\<open>path.Clean\<close>; the accumulator holds the segments in reverse.\<close>

definition clean_step :: "bool \<Rightarrow> string list \<Rightarrow> string \<Rightarrow> string list" where
  "clean_step rooted acc s =
     (if s = [] \<or> s = ''.'' then acc
      else if s = ''..'' then
        (case acc of [] \<Rightarrow> if rooted then [] else [''..'']
         | t # ts \<Rightarrow> if t = ''..'' then ''..'' # acc else ts)
      else s # acc)"

definition clean_segments :: "bool \<Rightarrow> string \<Rightarrow> string list" where
  "clean_segments rooted p = rev (foldl (clean_step rooted) [] (split_on (CHR ''/'') p))"

definition path_text :: "bool \<Rightarrow> string list \<Rightarrow> string" where
  "path_text rooted segs = (if rooted then ''/'' @ join ''/'' segs else if segs = [] then ''.'' else join ''/'' segs)"

definition path_Clean :: "string \<Rightarrow> string" where
  "path_Clean p = (let rooted = has_prefix p ''/'' in path_text rooted (clean_segments rooted p))"

text \<open>\<^verbatim>\<open>filepath.Join\<close> of two elements.\<close>

definition path_Join :: "string \<Rightarrow> string \<Rightarrow> string" where
  "path_Join a b = (if a = [] \<and> b = [] then [] else if a = [] then path_Clean b else if b = [] then path_Clean a else path_Clean (a @ ''/'' @ b))"

text \<open>The file system says of a path whether it is a directory; \<open>None\<close> if it cannot be examined.\<close>

type_synonym stat = "string \<Rightarrow> bool option"

datatype static_answer = BadPath | MovedTo string | Content string | Missing

text \<open>\<^verbatim>\<open>http.ServeFile\<close>, for a name that is not a directory.\<close>

definition ServeFile :: "stat \<Rightarrow> string \<Rightarrow> string \<Rightarrow> static_answer" where
  "ServeFile st urlPath name =
     (if ''..'' \<in> set (split_on (CHR ''/'') urlPath) then BadPath
      else if has_suffix urlPath ''/index.html'' then MovedTo ''./''
      else if st name = None then Missing
      else Content name)"

text \<open>\<^verbatim>\<open>http.FileServer\<close>, for a path that leads to a file: \<^verbatim>\<open>http.Dir\<close> opens the cleaned path below its root.\<close>

definition FileServer :: "stat \<Rightarrow> string \<Rightarrow> string \<Rightarrow> static_answer" where
  "FileServer st dir urlPath =
     (let upath = (if has_prefix urlPath ''/'' then urlPath else ''/'' @ urlPath); name = path_Clean upath;
          full = path_Join dir (let rest = tl (path_Clean (''/'' @ name)) in if rest = [] then ''.'' else rest) in
      if has_suffix urlPath ''/index.html'' then MovedTo ''./''
      else if st full = None then Missing
      else if has_suffix upath ''/'' then MovedTo (''../'' @ last (split_on (CHR ''/'') name))
      else Content full)"

definition spaHandler :: "stat \<Rightarrow> string \<Rightarrow> string \<Rightarrow> static_answer" where
  "spaHandler st dir urlPath =
     (let probe = path_Join dir (path_Clean (''/'' @ urlPath)) in
      if st probe = None \<or> st probe = Some True then ServeFile st urlPath (path_Join dir ''index.html'')
      else FileServer st dir urlPath)"

text \<open>
  The whole multiplexer: the patterns of the API and, with a console, \<^verbatim>\<open>GET /\<close> for every other path it does not rewrite.
\<close>

datatype answer = ApiRoute route request | Static static_answer | Unmatched

definition console_mux :: "stat \<Rightarrow> string \<Rightarrow> bool \<Rightarrow> http_request \<Rightarrow> answer" where
  "console_mux st consoleDir fits rq =
     (case dispatch fits rq of
        Some (q, r) \<Rightarrow> ApiRoute q r
      | None \<Rightarrow>
          (case request_target (RequestURI (hq_URL rq)) of
             None \<Rightarrow> Unmatched
           | Some u \<Rightarrow>
               if consoleDir \<noteq> [] \<and> (hq_Method rq = ''GET'' \<or> hq_Method rq = ''HEAD'')
                 \<and> clean_path (tl (split_on (CHR ''/'') (EscapedPath u)))
               then Static (spaHandler st consoleDir (u_Path u)) else Unmatched))"

section \<open>Confinement\<close>

text \<open>A name of an entry of a directory.\<close>

definition entry_name :: "string \<Rightarrow> bool" where
  "entry_name s \<longleftrightarrow> s \<noteq> [] \<and> s \<noteq> ''.'' \<and> s \<noteq> ''..'' \<and> CHR ''/'' \<notin> set s"

lemma rooted_step: "list_all entry_name acc \<Longrightarrow> CHR ''/'' \<notin> set s \<Longrightarrow> list_all entry_name (clean_step True acc s)"
  by (cases acc) (auto simp: clean_step_def entry_name_def)

lemma rooted_segments: "list_all entry_name (clean_segments True p)"
proof -
  have "list_all entry_name (foldl (clean_step True) acc ss)" if "list_all entry_name acc" "\<forall>s \<in> set ss. CHR ''/'' \<notin> set s" for acc ss
    using that by (induction ss arbitrary: acc) (simp_all add: rooted_step)
  from this [of "[]" "split_on (CHR ''/'') p"] show ?thesis using split_on_no_sep by (force simp: clean_segments_def)
qed

lemma entry_steps: "list_all entry_name ss \<Longrightarrow> foldl (clean_step rooted) acc ss = rev ss @ acc"
  by (induction ss arbitrary: acc) (auto simp: clean_step_def entry_name_def)

lemma split_on_append: "split_on c (a @ c # b) = split_on c a @ split_on c b"
  by (induction a) (auto split: list.splits)

lemma split_entries: "list_all entry_name ss \<Longrightarrow> ss \<noteq> [] \<Longrightarrow> split_on (CHR ''/'') (join ''/'' ss) = ss"
  by (intro split_join) (auto simp: entry_name_def list_all_iff)

lemma clean_join_entries:
  assumes "list_all entry_name ss"
  shows "foldl (clean_step rooted) acc (split_on (CHR ''/'') (join ''/'' ss)) = rev ss @ acc"
  using assms by (cases "ss = []") (simp_all add: split_entries entry_steps, simp add: clean_step_def)

text \<open>Joining a directory with a cleaned absolute path goes down by entry names only.\<close>

lemma join_below:
  assumes "dir \<noteq> []" "list_all entry_name ss"
  shows "path_Join dir (''/'' @ join ''/'' ss) = path_text (has_prefix dir ''/'') (clean_segments (has_prefix dir ''/'') dir @ ss)"
    and "ss \<noteq> [] \<Longrightarrow> path_Join dir (join ''/'' ss) = path_text (has_prefix dir ''/'') (clean_segments (has_prefix dir ''/'') dir @ ss)"
proof -
  have p: "has_prefix (dir @ x) ''/'' = has_prefix dir ''/''" for x using assms(1) by (cases dir) (simp_all add: has_prefix_def)
  have empty: "clean_step r acc [] = acc" for r acc by (simp add: clean_step_def)
  show "path_Join dir (''/'' @ join ''/'' ss) = path_text (has_prefix dir ''/'') (clean_segments (has_prefix dir ''/'') dir @ ss)"
    using assms p by (simp add: Let_def path_Join_def path_Clean_def clean_segments_def split_on_append clean_join_entries empty)
  show "path_Join dir (join ''/'' ss) = path_text (has_prefix dir ''/'') (clean_segments (has_prefix dir ''/'') dir @ ss)" if "ss \<noteq> []"
  proof -
    have "join ''/'' ss \<noteq> []" using that split_entries [OF assms(2)] assms(2) by (cases ss; cases "tl ss") (auto simp: entry_name_def)
    then show ?thesis using assms p by (simp add: Let_def path_Join_def path_Clean_def clean_segments_def split_on_append clean_join_entries)
  qed
qed

definition console_path :: "string \<Rightarrow> string list \<Rightarrow> string" where
  "console_path dir ss = path_text (has_prefix dir ''/'') (clean_segments (has_prefix dir ''/'') dir @ ss)"

lemma join_below_abs: "dir \<noteq> [] \<Longrightarrow> list_all entry_name ss \<Longrightarrow> path_Join dir (''/'' @ join ''/'' ss) = console_path dir ss"
  unfolding console_path_def by (rule join_below(1))

lemma join_below_rel:
  "dir \<noteq> [] \<Longrightarrow> list_all entry_name ss \<Longrightarrow> path_Join dir (if join ''/'' ss = [] then ''.'' else join ''/'' ss) = console_path dir ss"
proof (cases "ss = []")
  case True
  assume d: "dir \<noteq> []"
  then have "has_prefix (dir @ x) ''/'' = has_prefix dir ''/''" for x by (cases dir) (simp_all add: has_prefix_def)
  then show ?thesis using True d
    by (simp add: console_path_def Let_def path_Join_def path_Clean_def clean_segments_def split_on_append) (simp add: clean_step_def)
next
  case False
  assume a: "dir \<noteq> []" "list_all entry_name ss"
  have "join ''/'' ss \<noteq> []" using False split_entries [OF a(2)] a(2) by (cases ss; cases "tl ss") (auto simp: entry_name_def)
  then show ?thesis using join_below(2) [OF a False] by (simp add: console_path_def)
qed

text \<open>Both cleanings of the path of a request go through the same entries.\<close>

lemma clean_request:
  obtains ss where "list_all entry_name ss" "path_Clean (''/'' @ p) = ''/'' @ join ''/'' ss"
    "path_Clean (if has_prefix p ''/'' then p else ''/'' @ p) = ''/'' @ join ''/'' ss"
proof -
  let ?ss = "clean_segments True (''/'' @ p)"
  have p: "clean_segments True (if has_prefix p ''/'' then p else ''/'' @ p) = ?ss"
    by (cases p) (simp_all add: has_prefix_def clean_segments_def clean_step_def)
  have "has_prefix (if has_prefix p ''/'' then p else ''/'' @ p) ''/''" "has_prefix (''/'' @ p) ''/''" by (simp_all add: has_prefix_def)
  then show thesis using that [OF rooted_segments] p by (simp add: path_Clean_def Let_def path_text_def)
qed

lemma clean_entries: "list_all entry_name ss \<Longrightarrow> path_Clean (''/'' @ ''/'' @ join ''/'' ss) = ''/'' @ join ''/'' ss"
  by (simp add: path_Clean_def Let_def has_prefix_def clean_segments_def path_text_def clean_join_entries) (simp add: clean_step_def clean_join_entries)

lemma spaHandler_content:
  assumes "dir \<noteq> []" "spaHandler st dir p = Content f"
  shows "\<exists>ss. list_all entry_name ss \<and> f = console_path dir ss \<and> (st f = Some False \<or> ss = [''index.html''])"
proof -
  obtain ss where ss: "list_all entry_name ss" "path_Clean (''/'' @ p) = ''/'' @ join ''/'' ss"
    "path_Clean (if has_prefix p ''/'' then p else ''/'' @ p) = ''/'' @ join ''/'' ss" by (rule clean_request)
  have probe: "path_Join dir (path_Clean (''/'' @ p)) = console_path dir ss" unfolding ss(2) by (rule join_below_abs [OF assms(1) ss(1)])
  have index: "path_Join dir ''index.html'' = console_path dir [''index.html'']" "list_all entry_name [''index.html'']"
    using join_below_rel [OF assms(1), of "[''index.html'']"] by (simp_all add: entry_name_def)
  show ?thesis
  proof (cases "st (console_path dir ss) = Some False")
    case True
    then have "FileServer st dir p = Content f" using assms(2) by (simp add: spaHandler_def Let_def probe [simplified])
    then have "f = console_path dir ss"
      using clean_entries [OF ss(1)] join_below_rel [OF assms(1) ss(1)] by (simp add: FileServer_def Let_def ss(3) split: if_splits)
    then show ?thesis using ss(1) True by blast
  next
    case False
    then have "ServeFile st p (path_Join dir ''index.html'') = Content f"
      using assms(2) by (cases "st (console_path dir ss)") (auto simp: spaHandler_def Let_def probe [simplified])
    then have "f = console_path dir [''index.html'']" using index(1) by (auto simp: ServeFile_def split: if_splits)
    then show ?thesis using index(2) by blast
  qed
qed

text \<open>
  C39: a request is answered with a file only if no route of the API matches it, and the file lies in the directory of the console: its path goes
  down from the directory by names of entries, with no way up, whatever dots and slashes the URL has or encodes. It is a regular file, so
  never the listing of a directory, or the index page.
\<close>

theorem console_confined:
  assumes "dir \<noteq> []" "console_mux st dir fits rq = Static (Content f)"
  shows "dispatch fits rq = None \<and> (\<exists>ss. list_all entry_name ss \<and> f = console_path dir ss \<and> (st f = Some False \<or> ss = [''index.html'']))"
  using assms(2) spaHandler_content [OF assms(1)] by (auto simp: console_mux_def split: option.splits if_splits prod.splits)

definition demo_escape :: http_request where
  "demo_escape = \<lparr>hq_Method = ''GET'', hq_URL = no_url\<lparr>u_Path := ''/../x'', u_RawPath := ''/%2e%2e/x''\<rparr>, hq_Authorization = [],
     hq_ContentType = None, hq_Body = None\<rparr>"

definition demo_stat :: stat where
  "demo_stat f = (if f = ''/srv/x'' \<or> f = ''/x'' then Some False else None)"

lemma demo_escape_served: "console_mux demo_stat ''/srv'' True demo_escape = Static (Content ''/srv/x'')"
proof -
  have "case console_mux demo_stat ''/srv'' True demo_escape of Static (Content f) \<Rightarrow> f = ''/srv/x'' | _ \<Rightarrow> False" by code_simp
  then show ?thesis by (auto split: answer.splits static_answer.splits)
qed

theorem console_confined_witness:
  "dispatch True demo_escape = None \<and> (\<exists>ss. list_all entry_name ss \<and> ''/srv/x'' = console_path ''/srv'' ss \<and> (demo_stat ''/srv/x'' = Some False \<or> ss = [''index.html'']))"
  by (rule console_confined [OF _ demo_escape_served]) simp

end
