(* ===== verification/Spec2Isabelle.thy ===== *)
theory Spec2Isabelle
  imports Registry Auth FileStore Tables EngineProps Api Providers Server ProviderTest ClientProps Console
begin

text \<open>
  A verification of \<^verbatim>\<open>seo-platform\<close>: a service that synchronizes search and analytics reports of one web site from several
  providers (Bing Webmaster Tools, Google Search Console, Google Analytics 4) into a SQLite database, keeps the credentials of these
  providers encrypted, and offers an HTTP API to an administration console. All paths below are under \<^verbatim>\<open>src/\<close>.

  \<^bold>\<open>Parts of the program and the theories that model them.\<close>

  \<^item> \<open>Prelude\<close>, \<open>GoStrings\<close>, \<open>GoTime\<close>, \<open>GoURL\<close>, \<open>Float64\<close>, \<open>ParseFloat\<close>, \<open>JsonDecode\<close>: what the sources use of Go and of its standard library.
    Strings are byte lists, instants are nanoseconds since 1970, \<^verbatim>\<open>float64\<close> is its bit pattern with IEEE rounding, \<^verbatim>\<open>net/url\<close> and
    the decoder of \<^verbatim>\<open>encoding/json\<close> are modelled down to their odd corners. \<open>Prelude\<close> holds the weakest preconditions of
    state-monad programs (collection \<open>wp_simps\<close>) and tables as lists of rows.
  \<^item> \<open>Core\<close>: the package \<^verbatim>\<open>core\<close>. Errors are values of \<open>go_error\<close>; a provider is a record of functions and its \<^verbatim>\<open>Sync\<close> an interaction
    tree over the operations of the sink.
  \<^item> \<open>Registry\<close> (\<^verbatim>\<open>internal/registry\<close>), \<open>Auth\<close> (\<^verbatim>\<open>internal/auth\<close>; the hash function is a parameter).
  \<^item> \<open>Secrets\<close>, \<open>FileStore\<close> (\<^verbatim>\<open>internal/secrets\<close>): the interface as the locale \<open>secret_store\<close>, interpreted for the store in memory and for the
    encrypted files. The store in memory is modelled once on values and once on a heap of byte slices, with a refinement between the two.
    AES-GCM is a parameter with its laws as hypotheses.
  \<^item> \<open>Store\<close>, \<open>StoreInv\<close>, \<open>Runs\<close>, \<open>Paging\<close>, \<open>Tables\<close> (\<^verbatim>\<open>internal/store\<close>): every query and update on the tables of the migrations, with faults at
    every statement; the invariant of the reachable databases; what each operation does.
  \<^item> \<open>Migrate\<close> (\<^verbatim>\<open>Open\<close> and \<^verbatim>\<open>migrate\<close> of \<^verbatim>\<open>internal/store\<close>): the migration runner over an arbitrary schema and interpreter of SQL scripts.
  \<^item> \<open>Runtime\<close>, \<open>Engine\<close>, \<open>EngineProps\<close> (\<^verbatim>\<open>internal/sync\<close>): the engine as programs over the database, the secrets and the goroutines it
    started. A schedule supplies time, identifiers, faults and what other goroutines do to the database between any two steps.
  \<^item> \<open>HttpApi\<close>, \<open>Connections\<close>, \<open>Authorize\<close>, \<open>Api\<close> (\<^verbatim>\<open>internal/httpapi\<close>): the handlers, the authorization wrapper, the routes;
    \<open>ConnectionProps\<close> and \<open>ConnectionFlows\<close> prove the flows that install, swap and revoke credentials, and the import of
    \<^verbatim>\<open>platform/platform.go\<close>.
  \<^item> \<open>Outbound\<close>, \<open>ProviderContract\<close>: calls to external services (a service may answer the same call differently every time), the retry
    loop of the Google providers, and the locale \<open>provider_contract\<close> with what the engine and the API rely on. \<open>Bing\<close>, \<open>SearchConsole\<close>, \<open>GA4\<close>
    model \<^verbatim>\<open>providers/*\<close>; \<open>BingProps\<close>, \<open>SearchConsoleProps\<close>, \<open>Inspection\<close>, \<open>GA4Props\<close> prove their properties and interpret the
    contract; \<open>Providers\<close> draws the conclusions for all three. \<open>ProviderTest\<close> models the checks of \<^verbatim>\<open>providertest\<close>.
  \<^item> \<open>GoDuration\<close>, \<open>Bootstrap\<close>, \<open>Server\<close> (\<^verbatim>\<open>cmd/seo-platform/main.go\<close>): the configuration from the environment, the master key and the
    administrator key made on first start, the assembly of the server. \<open>Platform\<close> (\<^verbatim>\<open>platform/platform.go\<close>): validation of a
    configuration and construction of the embedded runtime.
  \<^item> \<open>Client\<close> (\<^verbatim>\<open>sdk/go/seo/client.go\<close>): the client library. \<open>PlainURL\<close> and \<open>Routing\<close>: how a request of the client travels, through
    \<^verbatim>\<open>url.Parse\<close>, the request line, the patterns of \<^verbatim>\<open>Handler\<close> and the decoding of query and body, to a route of \<open>Api\<close>.
    \<open>ClientRead\<close>: what the client reads in the documents of the handlers. \<open>ClientProps\<close> joins both with the handlers.
    \<open>Console\<close>: the static files of the console behind the same patterns (\<^verbatim>\<open>spaHandler\<close>).

  \<^bold>\<open>What the theorems show.\<close> The store keeps its invariant under every call and fault: at most one active run per site, provider and
  capability. Runs always end; the scheduler has a run in flight for every ready capability. Credentials are installed, swapped and revoked
  atomically, are bound to their scope, and are never revived. An OAuth state is used once, by the subject it was made for. Routes are guarded by
  scopes; readers change nothing. Report rows are written all or nothing and paging returns each once. The providers store exactly what the service
  reports for the range, confine their writes to their own datasets and let no text of a response escape. Migrations
  run once and in order; keys made on first start authenticate; restarts keep all data. A client calls exactly the handler it means, with what it was
  given, and reads back what the server has. The console serves files of its directory only.

  \<^bold>\<open>Bounds and fuel.\<close> Loops of the source that could run forever have a bound in the model: \<open>Run\<close> takes the number of ticks, \<open>report_loop\<close>
  the number of pages before the deadline of the context passes (with the result the source has then), \<open>inspection_runs\<close> the number of runs. Where a theorem
  needs enough fuel it says how much. All other loops are total functions with a termination proof. Identifiers, random bytes and times come from the
  environment; theorems that need fresh identifiers say so. Counts and dates are unbounded integers; where a \<^verbatim>\<open>int64\<close> or \<^verbatim>\<open>time.Duration\<close>
  could overflow or saturate (ranges, parsed numbers, JSON numbers) this is written out.

  \<^bold>\<open>Not modelled.\<close> Listening on a socket, signals and logging (I/O without state of the program); the SQL
  engine, AES-GCM, SHA-256, \<^verbatim>\<open>uuid\<close>, the OAuth and Google client libraries, \<^verbatim>\<open>net.SplitHostPort\<close> and \<^verbatim>\<open>net.ParseIP\<close>, the XML and
  JSON lexers (parameters; between client and server a JSON text is the value it denotes, with strings in valid UTF-8); the
  secret store facade and \<^verbatim>\<open>migrations/embed.go\<close> (declarations only); the
  project adapter of \<^verbatim>\<open>core/adapter.go\<close> (nothing implements it); the console (another language). Case mapping of non-ASCII letters is
  left alone. A request is one atomic step of its own goroutine between the interleaving points of the schedule.
\<close>

end
